(* ===== verification/Prelude.thy ===== *)
theory Prelude
  imports Main "HOL-Library.Sublist"
begin

text \<open>
  Shared vocabulary of the development: the rewrite collections the component
  theories fill, the names of the basic types, and the generic list facts several
  components use. A Go \<^verbatim>\<open>string\<close> is a sequence of bytes and is modelled as a
  \<^typ>\<open>char list\<close> (a \<^typ>\<open>char\<close> is a byte); a Go map is a partial function; an
  error return is \<open>None\<close> or the left injection of a sum.
\<close>

named_theorems string_defs "definitions of the Go string operations"
named_theorems writer_simps "how the response writer reacts to each call"
named_theorems handler_defs "the control-plane handlers, for unfolding"

type_synonym bytes = string

subsection \<open>Lists\<close>

lemma dropWhile_eq_self: "xs = [] \<or> \<not> P (hd xs) \<Longrightarrow> dropWhile P xs = xs"
  by (cases xs) auto

lemma takeWhile_id: "(\<And>x. x \<in> set xs \<Longrightarrow> P x) \<Longrightarrow> takeWhile P xs = xs"
  by (induction xs) auto

lemma set_dropWhile_subset: "set (dropWhile P xs) \<subseteq> set xs"
  by (induction xs) auto

lemma prefix_take_iff: "prefix p s \<longleftrightarrow> take (length p) s = p"
  by (metis append_eq_conv_conj append_take_drop_id prefix_def)

subsection \<open>Maps\<close>

lemma map_of_filter_keys:
  "map_of (filter (\<lambda>(k, v). P k) xs) k = (if P k then map_of xs k else None)"
  by (induction xs) auto

subsection \<open>Folding a partial step over a list\<close>

text \<open>The shape of every loop that stops at the first error.\<close>

fun fold_option :: "('x \<Rightarrow> 'a \<Rightarrow> 'a option) \<Rightarrow> 'x list \<Rightarrow> 'a \<Rightarrow> 'a option" where
  "fold_option f [] a = Some a"
| "fold_option f (x # xs) a = (case f x a of None \<Rightarrow> None | Some a' \<Rightarrow> fold_option f xs a')"

lemma fold_option_append:
  "fold_option f (xs @ ys) a =
     (case fold_option f xs a of None \<Rightarrow> None | Some a' \<Rightarrow> fold_option f ys a')"
  by (induction xs arbitrary: a) (auto split: option.splits)

lemma fold_option_invariant:
  assumes "fold_option f xs a = Some b" and "P a"
    and "\<And>x a a'. x \<in> set xs \<Longrightarrow> P a \<Longrightarrow> f x a = Some a' \<Longrightarrow> P a'"
  shows "P b"
  using assms
proof (induction xs arbitrary: a)
  case (Cons x xs)
  then obtain a' where "f x a = Some a'" "fold_option f xs a' = Some b"
    by (auto split: option.splits)
  with Cons.prems(2,3) show ?case
    by (intro Cons.IH [of a']) (auto intro: Cons.prems(3))
qed simp

subsection \<open>Computations that may fail with an error value\<close>

definition res_bind :: "'e + 'a \<Rightarrow> ('a \<Rightarrow> 'e + 'b) \<Rightarrow> 'e + 'b" where
  "res_bind m f = (case m of Inl e \<Rightarrow> Inl e | Inr a \<Rightarrow> f a)"

lemma res_bind_simps [simp]: "res_bind (Inl e) f = Inl e" "res_bind (Inr a) f = f a"
  by (simp_all add: res_bind_def)

lemma res_bind_Inr_iff: "res_bind m f = Inr b \<longleftrightarrow> (\<exists>a. m = Inr a \<and> f a = Inr b)"
  by (cases m) auto

text \<open>A loop that appends the result of each element and stops at the first error.\<close>

fun collect :: "('x \<Rightarrow> 'e + 'a list) \<Rightarrow> 'x list \<Rightarrow> 'e + 'a list" where
  "collect f [] = Inr []"
| "collect f (x # xs) = res_bind (f x) (\<lambda>ys. res_bind (collect f xs) (\<lambda>zs. Inr (ys @ zs)))"

lemma collect_pure: "(\<And>x. x \<in> set xs \<Longrightarrow> f x = Inr (g x)) \<Longrightarrow> collect f xs = Inr (concat (map g xs))"
  by (induction xs) auto

lemma collect_Inr_all:
  "collect f xs = Inr ys \<Longrightarrow> y \<in> set ys \<Longrightarrow> \<exists>x\<in>set xs. \<exists>zs. f x = Inr zs \<and> y \<in> set zs"
  by (induction xs arbitrary: ys) (auto simp: res_bind_Inr_iff)

lemma collect_Inl:
  "collect f xs = Inl e \<Longrightarrow> \<exists>x\<in>set xs. f x = Inl e"
  by (induction xs) (auto simp: res_bind_def split: sum.splits)

lemma collect_Inr_elem:
  "collect f xs = Inr ys \<Longrightarrow> x \<in> set xs \<Longrightarrow> \<exists>zs. f x = Inr zs \<and> set zs \<subseteq> set ys"
  by (induction xs arbitrary: ys) (fastforce simp: res_bind_Inr_iff)+

end
