(* ===== verification/Go_Strings.thy ===== *)
theory Go_Strings
  imports Prelude "HOL-Library.Word"
begin

text \<open>
  The operations of Go's packages \<^verbatim>\<open>strings\<close> and \<^verbatim>\<open>strconv\<close> the proxy uses, on
  byte strings. An index that Go reports as -1 is \<open>None\<close>. The case-insensitive
  comparison is exact for the ASCII keys the proxy compares with, including the two
  non-ASCII runes (U+017F and U+212A) that fold to an ASCII letter.
\<close>

subsection \<open>Searching and cutting\<close>

fun index_byte :: "string \<Rightarrow> char \<Rightarrow> nat option" where
  "index_byte [] c = None"
| "index_byte (x # xs) c = (if x = c then Some 0 else map_option Suc (index_byte xs c))"

fun str_index :: "string \<Rightarrow> string \<Rightarrow> nat option" where
  "str_index sub [] = (if sub = [] then Some 0 else None)"
| "str_index sub (x # xs) =
     (if prefix sub (x # xs) then Some 0 else map_option Suc (str_index sub xs))"

definition contains_str :: "string \<Rightarrow> string \<Rightarrow> bool" where
  [string_defs]: "contains_str s sub \<longleftrightarrow> str_index sub s \<noteq> None"

definition last_index_byte :: "string \<Rightarrow> char \<Rightarrow> nat option" where
  [string_defs]: "last_index_byte s c =
     map_option (\<lambda>i. length s - 1 - i) (index_byte (rev s) c)"

definition trim_prefix :: "string \<Rightarrow> string \<Rightarrow> string" where
  [string_defs]: "trim_prefix s p = (if prefix p s then drop (length p) s else s)"

definition trim_suffix :: "string \<Rightarrow> string \<Rightarrow> string" where
  [string_defs]: "trim_suffix s p = (if suffix p s then take (length s - length p) s else s)"

definition trim_byte :: "string \<Rightarrow> char \<Rightarrow> string" where
  [string_defs]: "trim_byte s c = rev (dropWhile ((=) c) (rev (dropWhile ((=) c) s)))"

fun split_byte :: "char \<Rightarrow> string \<Rightarrow> string list" where
  "split_byte c [] = [[]]"
| "split_byte c (x # xs) =
     (if x = c then [] # split_byte c xs
      else (case split_byte c xs of [] \<Rightarrow> [[x]] | y # ys \<Rightarrow> (x # y) # ys))"

text \<open>\<^verbatim>\<open>strings.SplitN(s, sep, 2)\<close> for a one-byte separator.\<close>

definition split2_byte :: "char \<Rightarrow> string \<Rightarrow> string list" where
  [string_defs]: "split2_byte c s =
     (case index_byte s c of None \<Rightarrow> [s] | Some i \<Rightarrow> [take i s, drop (Suc i) s])"

fun join_str :: "string \<Rightarrow> string list \<Rightarrow> string" where
  "join_str sep [] = []"
| "join_str sep [x] = x"
| "join_str sep (x # y # ys) = x @ sep @ join_str sep (y # ys)"

function replace_all :: "string \<Rightarrow> string \<Rightarrow> string \<Rightarrow> string" where
  "replace_all old new [] = []"
| "replace_all old new (x # xs) =
     (if old \<noteq> [] \<and> prefix old (x # xs)
      then new @ replace_all old new (drop (length old) (x # xs))
      else x # replace_all old new xs)"
  by pat_completeness auto
termination
  by (relation "measure (\<lambda>(old, new, s). length s)") auto

subsection \<open>Case\<close>

definition ascii_lower :: "char \<Rightarrow> char" where
  [string_defs]: "ascii_lower c =
     (let n = (of_char c :: nat) in if 65 \<le> n \<and> n \<le> 90 then char_of (n + 32) else c)"

definition ascii_upper :: "char \<Rightarrow> char" where
  [string_defs]: "ascii_upper c =
     (let n = (of_char c :: nat) in if 97 \<le> n \<and> n \<le> 122 then char_of (n - 32) else c)"

definition is_ascii :: "char \<Rightarrow> bool" where
  [string_defs]: "is_ascii c \<longleftrightarrow> (of_char c :: nat) < 128"

text \<open>
  \<^verbatim>\<open>strings.EqualFold(s, key)\<close> for an ASCII \<open>key\<close>: byte-wise up to case, and U+017F
  (bytes C5 BF) matches the letter s, U+212A (bytes E2 84 AA) the letter k.
\<close>

fun equal_fold :: "string \<Rightarrow> string \<Rightarrow> bool" where
  "equal_fold s [] \<longleftrightarrow> s = []"
| "equal_fold s (k # ks) \<longleftrightarrow>
     (case s of
        [] \<Rightarrow> False
      | x # xs \<Rightarrow>
          if is_ascii x then ascii_lower x = ascii_lower k \<and> equal_fold xs ks
          else if ascii_lower k = CHR ''s'' \<and> prefix [CHR 0xC5, CHR 0xBF] s
          then equal_fold (drop 2 s) ks
          else if ascii_lower k = CHR ''k'' \<and> prefix [CHR 0xE2, CHR 0x84, CHR 0xAA] s
          then equal_fold (drop 3 s) ks
          else False)"

declare equal_fold.simps [simp del]

subsection \<open>White space\<close>

text \<open>
  \<^verbatim>\<open>strings.TrimSpace\<close>. A rune is removed at either end when \<^verbatim>\<open>unicode.IsSpace\<close> holds
  of it. A string begins (ends) with such a rune exactly when it begins (ends) with its
  UTF-8 encoding, so the test is on the list of those encodings.
\<close>

definition space_encodings :: "string list" where
  "space_encodings =
     [[CHR 9], [CHR 10], [CHR 11], [CHR 12], [CHR 13], [CHR 32],
      [CHR 0xC2, CHR 0x85], [CHR 0xC2, CHR 0xA0], [CHR 0xE1, CHR 0x9A, CHR 0x80],
      [CHR 0xE2, CHR 0x80, CHR 0x80], [CHR 0xE2, CHR 0x80, CHR 0x81],
      [CHR 0xE2, CHR 0x80, CHR 0x82], [CHR 0xE2, CHR 0x80, CHR 0x83],
      [CHR 0xE2, CHR 0x80, CHR 0x84], [CHR 0xE2, CHR 0x80, CHR 0x85],
      [CHR 0xE2, CHR 0x80, CHR 0x86], [CHR 0xE2, CHR 0x80, CHR 0x87],
      [CHR 0xE2, CHR 0x80, CHR 0x88], [CHR 0xE2, CHR 0x80, CHR 0x89],
      [CHR 0xE2, CHR 0x80, CHR 0x8A], [CHR 0xE2, CHR 0x80, CHR 0xA8],
      [CHR 0xE2, CHR 0x80, CHR 0xA9], [CHR 0xE2, CHR 0x80, CHR 0xAF],
      [CHR 0xE2, CHR 0x81, CHR 0x9F], [CHR 0xE3, CHR 0x80, CHR 0x80]]"

text \<open>Drops the encodings in \<open>es\<close> from the front of the string, as often as possible.\<close>

function strip_front :: "string list \<Rightarrow> string \<Rightarrow> string" where
  "strip_front es s =
     (case find (\<lambda>e. e \<noteq> [] \<and> prefix e s) es of
        None \<Rightarrow> s
      | Some e \<Rightarrow> strip_front es (drop (length e) s))"
  by pat_completeness auto
termination
proof (relation "measure (\<lambda>(es, s). length s)")
  fix es :: "string list" and s e
  assume "find (\<lambda>e. e \<noteq> [] \<and> prefix e s) es = Some e"
  then have "e \<noteq> [] \<and> prefix e s"
    by (auto simp: find_Some_iff)
  then show "((es, drop (length e) s), es, s) \<in> measure (\<lambda>(es, s). length s)"
    by (cases s) (auto dest: prefix_length_le)
qed simp

declare strip_front.simps [simp del]

definition trim_left_space :: "string \<Rightarrow> string" where
  "trim_left_space s = strip_front space_encodings s"

definition trim_right_space :: "string \<Rightarrow> string" where
  "trim_right_space s = rev (strip_front (map rev space_encodings) (rev s))"

definition trim_space :: "string \<Rightarrow> string" where
  "trim_space s = trim_right_space (trim_left_space s)"

subsection \<open>Numbers\<close>

type_synonym int64 = "64 word"

definition digit_val :: "char \<Rightarrow> nat option" where
  [string_defs]: "digit_val c =
     (let n = (of_char c :: nat) in if 48 \<le> n \<and> n \<le> 57 then Some (n - 48) else None)"

fun digits_val :: "nat \<Rightarrow> string \<Rightarrow> nat option" where
  "digits_val acc [] = Some acc"
| "digits_val acc (c # cs) =
     (case digit_val c of None \<Rightarrow> None | Some d \<Rightarrow> digits_val (10 * acc + d) cs)"

text \<open>
  \<^verbatim>\<open>strconv.ParseInt(s, 10, 64)\<close> and, with a 64-bit \<^verbatim>\<open>int\<close>, \<^verbatim>\<open>strconv.Atoi\<close>: an
  optional sign, at least one digit, only digits, and a value in range. Any error is
  \<open>None\<close>.
\<close>

definition parse_int :: "string \<Rightarrow> int option" where
  "parse_int s =
     (let (neg, ds) = (case s of [] \<Rightarrow> (False, [])
                               | c # cs \<Rightarrow> if c = CHR ''-'' then (True, cs)
                                          else if c = CHR ''+'' then (False, cs) else (False, s))
      in if ds = [] then None
         else (case digits_val 0 ds of
                 None \<Rightarrow> None
               | Some n \<Rightarrow>
                   let v = (if neg then - int n else int n)
                   in if - (2 ^ 63) \<le> v \<and> v < 2 ^ 63 then Some v else None))"

definition digit_char :: "nat \<Rightarrow> char" where
  "digit_char d = char_of (48 + d)"

fun show_nat :: "nat \<Rightarrow> string" where
  "show_nat n = (if n < 10 then [digit_char n] else show_nat (n div 10) @ [digit_char (n mod 10)])"

declare show_nat.simps [simp del]

definition show_int :: "int \<Rightarrow> string" where
  "show_int i = (if i < 0 then CHR ''-'' # show_nat (nat (- i)) else show_nat (nat i))"

end
