(* ===== verification/Go_Time.thy ===== *)
theory Go_Time
  imports Go_Strings "HOL-Library.Log_Nat"
begin

text \<open>
  Dates, times and durations of package \<^verbatim>\<open>time\<close>. A time is kept by its civil fields in
  UTC, the location in which \<^verbatim>\<open>time.Parse\<close> places a text without a zone; where the code
  asks for the fields in the local zone, the zone is a parameter. A duration is a 64-bit
  count of nanoseconds; \<^verbatim>\<open>Duration.Seconds\<close> is a float64, whose rounding is written out.
\<close>

subsection \<open>Dates, ordered\<close>

datatype date = Date (dyear: nat) (dmonth: nat) (dday: nat)

instantiation date :: linorder
begin

definition less_eq_date :: "date \<Rightarrow> date \<Rightarrow> bool" where
  "less_eq_date a b \<longleftrightarrow>
     dyear a < dyear b \<or> dyear a = dyear b \<and>
       (dmonth a < dmonth b \<or> dmonth a = dmonth b \<and> dday a \<le> dday b)"

definition less_date :: "date \<Rightarrow> date \<Rightarrow> bool" where
  "less_date a b \<longleftrightarrow> a \<le> b \<and> a \<noteq> b"

instance
proof
  fix a b c :: date
  show "a < b \<longleftrightarrow> a \<le> b \<and> \<not> b \<le> a"
    by (cases a; cases b) (auto simp: less_eq_date_def less_date_def)
  show "a \<le> a" by (simp add: less_eq_date_def)
  show "a \<le> b \<Longrightarrow> b \<le> c \<Longrightarrow> a \<le> c"
    unfolding less_eq_date_def by linarith
  show "a \<le> b \<Longrightarrow> b \<le> a \<Longrightarrow> a = b"
    by (cases a; cases b) (auto simp: less_eq_date_def)
  show "a \<le> b \<or> b \<le> a"
    unfolding less_eq_date_def by linarith
qed

end

definition leap_year :: "nat \<Rightarrow> bool" where
  "leap_year y \<longleftrightarrow> y mod 4 = 0 \<and> (y mod 100 \<noteq> 0 \<or> y mod 400 = 0)"

definition days_in :: "nat \<Rightarrow> nat \<Rightarrow> nat" where
  "days_in m y =
     (if m = 2 then (if leap_year y then 29 else 28)
      else if m \<in> {4, 6, 9, 11} then 30 else 31)"

definition valid_date :: "date \<Rightarrow> bool" where
  "valid_date d \<longleftrightarrow> dyear d \<le> 9999 \<and> 1 \<le> dmonth d \<and> dmonth d \<le> 12
     \<and> 1 \<le> dday d \<and> dday d \<le> days_in (dmonth d) (dyear d)"

definition make_date :: "nat option \<Rightarrow> nat option \<Rightarrow> nat option \<Rightarrow> date option" where
  "make_date y m d =
     (case (y, m, d) of
        (Some y', Some m', Some d') \<Rightarrow>
          if 1 \<le> m' \<and> m' \<le> 12 \<and> 1 \<le> d' \<and> d' \<le> days_in m' y' then Some (Date y' m' d') else None
      | _ \<Rightarrow> None)"

text \<open>\<^verbatim>\<open>time.Parse("2006-01-02", s)\<close> and \<^verbatim>\<open>time.Parse("20060102", s)\<close>\<close>

definition parse_date :: "string \<Rightarrow> date option" where
  "parse_date s =
     (if length s = 10 \<and> s ! 4 = CHR ''-'' \<and> s ! 7 = CHR ''-''
      then make_date (digits_val 0 (take 4 s)) (digits_val 0 (take 2 (drop 5 s)))
             (digits_val 0 (drop 8 s))
      else None)"

definition parse_date_compact :: "string \<Rightarrow> date option" where
  "parse_date_compact s =
     (if length s = 8
      then make_date (digits_val 0 (take 4 s)) (digits_val 0 (take 2 (drop 4 s)))
             (digits_val 0 (drop 6 s))
      else None)"

subsection \<open>Printing\<close>

fun pad_nat :: "nat \<Rightarrow> nat \<Rightarrow> string" where
  "pad_nat 0 n = []"
| "pad_nat (Suc w) n = pad_nat w (n div 10) @ [digit_char (n mod 10)]"

text \<open>Two- and four-digit fields; a civil year of UTC is at most 9999 here.\<close>

definition format_date :: "date \<Rightarrow> string" where
  "format_date d = pad_nat 4 (dyear d) @ ''-'' @ pad_nat 2 (dmonth d) @ ''-'' @ pad_nat 2 (dday d)"

record gotime =
  gt_date :: date
  gt_nanos :: nat

definition zero_time :: gotime where
  "zero_time = \<lparr>gt_date = Date 1 1 1, gt_nanos = 0\<rparr>"

definition midnight :: "date \<Rightarrow> gotime" where
  "midnight d = \<lparr>gt_date = d, gt_nanos = 0\<rparr>"

text \<open>\<^verbatim>\<open>Format("2006-01-02T15:04:05.000Z")\<close>\<close>

definition format_s3_time :: "gotime \<Rightarrow> string" where
  "format_s3_time t =
     (let ms = gt_nanos t div 1000000; s = ms div 1000 in
      format_date (gt_date t) @ ''T'' @ pad_nat 2 (s div 3600) @ '':''
        @ pad_nat 2 (s div 60 mod 60) @ '':'' @ pad_nat 2 (s mod 60) @ ''.''
        @ pad_nat 3 (ms mod 1000) @ ''Z'')"

lemma length_pad_nat [simp]: "length (pad_nat w n) = w"
  by (induction w arbitrary: n) auto

lemma digits_val_append:
  "digits_val acc (xs @ ys) =
     (case digits_val acc xs of None \<Rightarrow> None | Some n \<Rightarrow> digits_val n ys)"
  by (induction xs arbitrary: acc) (auto split: option.splits)

lemma digit_val_char: "d < 10 \<Longrightarrow> digit_val (digit_char d) = Some d"
  by (simp add: digit_val_def digit_char_def Let_def take_bit_nat_eq_self)

lemma digits_val_pad_nat: "n < 10 ^ w \<Longrightarrow> digits_val acc (pad_nat w n) = Some (acc * 10 ^ w + n)"
proof (induction w arbitrary: n)
  case (Suc w)
  then have "n div 10 < 10 ^ w" by (simp add: less_mult_imp_div_less mult.commute)
  with Suc.IH show ?case
    by (simp add: digits_val_append digit_val_char algebra_simps)
qed simp

lemma days_in_le: "days_in m y \<le> 31"
  by (simp add: days_in_def)

text \<open>A printed date is read back.\<close>

lemma parse_format_date:
  assumes "valid_date d"
  shows "parse_date (format_date d) = Some d"
proof -
  have "dday d < 10 ^ 2"
    using assms days_in_le [of "dmonth d" "dyear d"] by (simp add: valid_date_def)
  moreover have "dyear d < 10 ^ 4" "dmonth d < 10 ^ 2"
    using assms by (simp_all add: valid_date_def)
  ultimately have "digits_val 0 (pad_nat 4 (dyear d)) = Some (dyear d)"
    "digits_val 0 (pad_nat 2 (dmonth d)) = Some (dmonth d)"
    "digits_val 0 (pad_nat 2 (dday d)) = Some (dday d)"
    by (simp_all add: digits_val_pad_nat)
  with assms show ?thesis
    by (cases d) (simp add: parse_date_def format_date_def make_date_def valid_date_def nth_append)
qed

lemma digits_val_bound: "digits_val acc s = Some n \<Longrightarrow> n < (acc + 1) * 10 ^ length s"
proof (induction s arbitrary: acc)
  case (Cons c s)
  then obtain d where d: "digit_val c = Some d" "digits_val (10 * acc + d) s = Some n"
    by (auto split: option.splits)
  then have "d < 10" by (auto simp: digit_val_def Let_def split: if_splits)
  from Cons.IH [OF d(2)] have "n < (10 * acc + d + 1) * 10 ^ length s" .
  also have "\<dots> \<le> (10 * acc + 10) * 10 ^ length s"
    using \<open>d < 10\<close> by (intro mult_right_mono) auto
  finally show ?case by (simp add: algebra_simps)
qed simp

text \<open>What is read is a valid date.\<close>

lemma parse_date_valid: "parse_date s = Some d \<Longrightarrow> valid_date d"
  using digits_val_bound [of 0 "take 4 s"]
  by (auto simp: parse_date_def make_date_def valid_date_def split: option.splits if_splits)

subsection \<open>Days and zones\<close>

definition prev_day :: "date \<Rightarrow> date" where
  "prev_day d =
     (if 1 < dday d then Date (dyear d) (dmonth d) (dday d - 1)
      else if 1 < dmonth d then Date (dyear d) (dmonth d - 1) (days_in (dmonth d - 1) (dyear d))
      else Date (dyear d - 1) 12 31)"

definition next_day :: "date \<Rightarrow> date" where
  "next_day d =
     (if dday d < days_in (dmonth d) (dyear d) then Date (dyear d) (dmonth d) (dday d + 1)
      else if dmonth d < 12 then Date (dyear d) (dmonth d + 1) 1
      else Date (dyear d + 1) 1 1)"

lemma next_day_later: "valid_date d \<Longrightarrow> d < next_day d"
  by (cases d) (auto simp: next_day_def less_date_def less_eq_date_def valid_date_def)

lemma next_day_back: "valid_date d \<Longrightarrow> prev_day (next_day d) = d"
  by (cases d) (auto simp: next_day_def prev_day_def valid_date_def days_in_def)

lemma next_day_least: "valid_date a \<Longrightarrow> valid_date b \<Longrightarrow> a < b \<Longrightarrow> next_day a \<le> b"
  by (cases a; cases b)
    (auto simp: next_day_def less_date_def less_eq_date_def valid_date_def)

text \<open>\<^verbatim>\<open>After\<close>, and \<^verbatim>\<open>AddDate(0, 0, -n)\<close> on the civil fields: the clock time stays.\<close>

definition time_after :: "gotime \<Rightarrow> gotime \<Rightarrow> bool" where
  "time_after a b \<longleftrightarrow> gt_date b < gt_date a \<or> gt_date b = gt_date a \<and> gt_nanos b < gt_nanos a"

definition days_back :: "nat \<Rightarrow> gotime \<Rightarrow> gotime" where
  "days_back n t = t\<lparr>gt_date := (prev_day ^^ n) (gt_date t)\<rparr>"

text \<open>
  A time zone: the civil fields of a moment in the zone, and the moment \<^verbatim>\<open>time.Date\<close> makes of
  civil fields. The zone of the process is a parameter of what depends on it; zones with a
  constant offset (in nanoseconds, east of Greenwich) are written out.
\<close>

record zone =
  zn_civil :: "gotime \<Rightarrow> gotime"
  zn_moment :: "gotime \<Rightarrow> gotime"

abbreviation day_nanos :: int where
  "day_nanos \<equiv> 24 * 3600 * 1000000000"

definition shift_clock :: "int \<Rightarrow> gotime \<Rightarrow> gotime" where
  "shift_clock ns t =
     (let n = int (gt_nanos t) + ns in
      if n < 0 then \<lparr>gt_date = prev_day (gt_date t), gt_nanos = nat (n + day_nanos)\<rparr>
      else if n < day_nanos then \<lparr>gt_date = gt_date t, gt_nanos = nat n\<rparr>
      else \<lparr>gt_date = next_day (gt_date t), gt_nanos = nat (n - day_nanos)\<rparr>)"

definition fixed_zone :: "int \<Rightarrow> zone" where
  "fixed_zone ns = \<lparr>zn_civil = shift_clock ns, zn_moment = shift_clock (- ns)\<rparr>"

subsection \<open>Dates as text, both ways\<close>

lemma digit_char_val: "digit_val c = Some d \<Longrightarrow> digit_char d = c"
  by (auto simp: digit_val_def digit_char_def Let_def split: if_splits)

lemma pad_nat_digits: "digits_val 0 s = Some n \<Longrightarrow> pad_nat (length s) n = s"
proof (induction s arbitrary: n rule: rev_induct)
  case (snoc c s)
  then obtain k d where "digits_val 0 s = Some k" "digit_val c = Some d" "n = 10 * k + d"
    by (auto simp: digits_val_append split: option.splits)
  moreover from this(2) have "d < 10" by (auto simp: digit_val_def Let_def split: if_splits)
  ultimately show ?case using snoc.IH digit_char_val by simp
qed simp

text \<open>A date is read from its printed form only.\<close>

lemma format_parse_date:
  assumes "parse_date s = Some d"
  shows "format_date d = s"
proof -
  from assms have len: "length s = 10" and sep: "s ! 4 = CHR ''-''" "s ! 7 = CHR ''-''"
    and f: "digits_val 0 (take 4 s) = Some (dyear d)" "digits_val 0 (take 2 (drop 5 s)) = Some (dmonth d)"
      "digits_val 0 (drop 8 s) = Some (dday d)"
    by (auto simp: parse_date_def make_date_def split: if_splits option.splits)
  have "s = take 4 s @ s ! 4 # take 2 (drop 5 s) @ s ! 7 # drop 8 s"
    using len id_take_nth_drop [of 4 s] id_take_nth_drop [of 2 "drop 5 s"] by (simp add: nth_append)
  with sep pad_nat_digits [OF f(1)] pad_nat_digits [OF f(2)] pad_nat_digits [OF f(3)] len show ?thesis
    by (simp add: format_date_def)
qed

subsection \<open>Durations\<close>

definition nanos_per_sec :: int64 where
  "nanos_per_sec = 1000000000"

definition round_half_even :: "rat \<Rightarrow> int" where
  "round_half_even x =
     (let f = \<lfloor>x\<rfloor>; r = x - of_int f in
      if r < 1/2 then f else if 1/2 < r then f + 1 else if even f then f else f + 1)"

text \<open>The least k up to the bound with \<open>1 \<le> x * 2 ^ k\<close>.\<close>

fun scale_up :: "nat \<Rightarrow> rat \<Rightarrow> nat" where
  "scale_up 0 x = 0"
| "scale_up (Suc n) x = (if 1 \<le> x then 0 else Suc (scale_up n (2 * x)))"

text \<open>
  A positive rational rounded to 53 significant bits. The values rounded here are
  at least 1e-9, so 64 doublings bring them to 1, and below 2 ^ 53.
\<close>

definition float64_pos :: "rat \<Rightarrow> rat" where
  "float64_pos x =
     (if x \<le> 0 then 0
      else let k = (if 1 \<le> x then 53 - floorlog 2 (nat \<lfloor>x\<rfloor>) else 52 + scale_up 64 x)
           in of_int (round_half_even (x * 2 ^ k)) / 2 ^ k)"

text \<open>\<^verbatim>\<open>int(d.Seconds())\<close> for a positive duration.\<close>

definition seconds_of :: "int64 \<Rightarrow> int64" where
  "seconds_of d =
     (let s = sint d div 1000000000; n = sint d mod 1000000000 in
      word_of_int \<lfloor>float64_pos (of_int s + float64_pos (of_int n / 1000000000))\<rfloor>)"

lemma round_half_even_int [simp]: "round_half_even (of_int i) = i"
  by (simp add: round_half_even_def)

lemma float64_pos_int: "1 \<le> i \<Longrightarrow> float64_pos (of_int i) = of_int i"
proof -
  assume "1 \<le> i"
  then have "(1::rat) \<le> of_int i" by simp
  moreover have "round_half_even (of_int i * 2 ^ k) = i * 2 ^ k" for k
    using round_half_even_int [of "i * 2 ^ k"] by simp
  ultimately show ?thesis
    by (simp add: float64_pos_def Let_def)
qed

text \<open>A whole number of seconds, below the overflow of the product, is recovered exactly.\<close>

lemma sint_seconds:
  assumes "0 \<le> sint x" "sint x \<le> 9223372036"
  shows "sint (x * nanos_per_sec) = sint x * 1000000000"
proof -
  have "sint (x * nanos_per_sec) = signed_take_bit 63 (sint x * sint nanos_per_sec)"
    by (simp add: sint_word_ariths)
  also have "sint nanos_per_sec = 1000000000"
    by (simp add: nanos_per_sec_def)
  also have "signed_take_bit 63 (sint x * 1000000000) = sint x * 1000000000"
    using assms by (intro signed_take_bit_int_eq_self) auto
  finally show ?thesis .
qed

lemma word_of_int_sint: "word_of_int (sint (x :: int64)) = x"
  using scast_eq [of x, where ?'a = 64] scast_id [of x] by metis

lemma seconds_of_whole:
  assumes "0 < sint x" "sint x \<le> 9223372036"
  shows "seconds_of (x * nanos_per_sec) = x"
  using assms float64_pos_int [of "sint x"] word_of_int_sint [of x]
  by (simp add: seconds_of_def sint_seconds float64_pos_def [of 0] del: of_int_sint)

end
