(* ===== verification/S3_Types.thy ===== *)
theory S3_Types
  imports Go_Time
begin

text \<open>
  The S3 configuration documents (\<^verbatim>\<open>pkg/translate/s3_*.go\<close>), one record per struct.
  A pointer field is an option, a slice a list; the name of the document element
  (\<^verbatim>\<open>XMLName\<close>) is fixed by the type and appears in its XML form only.
\<close>

subsection \<open>Lifecycle (\<^verbatim>\<open>s3_lifecycle.go\<close>)\<close>

record Tag =
  Tag_Key :: string
  Tag_Value :: string

record AndOperator =
  And_Prefix :: "string option"
  And_Tags :: "Tag list"
  And_ObjectSizeGreaterThan :: "int64 option"
  And_ObjectSizeLessThan :: "int64 option"

record Filter =
  F_Prefix :: "string option"
  F_Tag :: "Tag option"
  F_And :: "AndOperator option"
  F_ObjectSizeGreaterThan :: "int64 option"
  F_ObjectSizeLessThan :: "int64 option"

record Transition =
  Tr_Days :: "int64 option"
  Tr_Date :: "string option"
  Tr_StorageClass :: string

record Expiration =
  Exp_Days :: "int64 option"
  Exp_Date :: "string option"
  Exp_ExpiredObjectDeleteMarker :: "bool option"

record NoncurrentVersionTransition =
  Nvt_NoncurrentDays :: "int64 option"
  Nvt_StorageClass :: string

record NoncurrentVersionExpiration =
  Nve_NoncurrentDays :: "int64 option"

record AbortIncompleteMultipartUpload =
  Abort_DaysAfterInitiation :: "int64 option"

record Rule =
  R_ID :: string
  R_Priority :: int64
  R_Filter :: "Filter option"
  R_Status :: string
  R_Transitions :: "Transition list"
  R_Expiration :: "Expiration option"
  R_NoncurrentVersionTransitions :: "NoncurrentVersionTransition list"
  R_NoncurrentVersionExpirations :: "NoncurrentVersionExpiration option"
  R_AbortIncompleteMultipartUpload :: "AbortIncompleteMultipartUpload option"

record LifecycleConfiguration =
  Lc_Rules :: "Rule list"

subsection \<open>CORS (\<^verbatim>\<open>s3_cors.go\<close>)\<close>

record CORSRule =
  Cr_ID :: "string option"
  Cr_AllowedHeaders :: "string list"
  Cr_AllowedMethods :: "string list"
  Cr_AllowedOrigins :: "string list"
  Cr_ExposeHeaders :: "string list"
  Cr_MaxAgeSeconds :: "int64 option"

record CORSConfiguration =
  Cc_CORSRules :: "CORSRule list"

subsection \<open>Logging, tagging and website (\<^verbatim>\<open>s3_logging.go\<close>, \<^verbatim>\<open>s3_tagging.go\<close>, \<^verbatim>\<open>s3_website.go\<close>)\<close>

record LoggingEnabled =
  Le_TargetBucket :: string
  Le_TargetPrefix :: string

record BucketLoggingStatus =
  Bls_LoggingEnabled :: "LoggingEnabled option"

record Tagging =
  Tg_TagSet :: "Tag list"

record IndexDocument =
  Idx_Suffix :: string

record ErrorDocument =
  Err_Key :: string

record WebsiteConfiguration =
  Ws_IndexDocument :: "IndexDocument option"
  Ws_ErrorDocument :: "ErrorDocument option"

subsection \<open>Zero values\<close>

text \<open>The values Go gives a struct without initialiser.\<close>

definition zero_Tag :: Tag where
  "zero_Tag = \<lparr>Tag_Key = [], Tag_Value = []\<rparr>"

definition zero_And :: AndOperator where
  "zero_And = \<lparr>And_Prefix = None, And_Tags = [], And_ObjectSizeGreaterThan = None,
     And_ObjectSizeLessThan = None\<rparr>"

definition zero_Filter :: Filter where
  "zero_Filter = \<lparr>F_Prefix = None, F_Tag = None, F_And = None,
     F_ObjectSizeGreaterThan = None, F_ObjectSizeLessThan = None\<rparr>"

definition zero_Transition :: Transition where
  "zero_Transition = \<lparr>Tr_Days = None, Tr_Date = None, Tr_StorageClass = []\<rparr>"

definition zero_Expiration :: Expiration where
  "zero_Expiration = \<lparr>Exp_Days = None, Exp_Date = None, Exp_ExpiredObjectDeleteMarker = None\<rparr>"

definition zero_Nvt :: NoncurrentVersionTransition where
  "zero_Nvt = \<lparr>Nvt_NoncurrentDays = None, Nvt_StorageClass = []\<rparr>"

definition zero_Nve :: NoncurrentVersionExpiration where
  "zero_Nve = \<lparr>Nve_NoncurrentDays = None\<rparr>"

definition zero_Abort :: AbortIncompleteMultipartUpload where
  "zero_Abort = \<lparr>Abort_DaysAfterInitiation = None\<rparr>"

definition zero_Rule :: Rule where
  "zero_Rule = \<lparr>R_ID = [], R_Priority = 0, R_Filter = None, R_Status = [], R_Transitions = [],
     R_Expiration = None, R_NoncurrentVersionTransitions = [],
     R_NoncurrentVersionExpirations = None, R_AbortIncompleteMultipartUpload = None\<rparr>"

definition zero_CORSRule :: CORSRule where
  "zero_CORSRule = \<lparr>Cr_ID = None, Cr_AllowedHeaders = [], Cr_AllowedMethods = [],
     Cr_AllowedOrigins = [], Cr_ExposeHeaders = [], Cr_MaxAgeSeconds = None\<rparr>"

lemmas zero_defs = zero_Tag_def zero_And_def zero_Filter_def zero_Transition_def
  zero_Expiration_def zero_Nvt_def zero_Nve_def zero_Abort_def zero_Rule_def zero_CORSRule_def

end
