(* ===== verification/Gcs_Types.thy ===== *)
theory Gcs_Types
  imports Go_Time
begin

text \<open>
  The structs of the GCS SDK (package \<^verbatim>\<open>cloud.google.com/go/storage\<close>) the proxy fills in
  and reads, restricted to the fields it touches. The SDK's own behaviour is not
  modelled: its calls are the parameter \<open>gcs_api\<close> of the handlers, and its errors are
  observed only through \<^verbatim>\<open>errors.As\<close> and \<^verbatim>\<open>errors.Is\<close>, as the code does.
\<close>

subsection \<open>Lifecycle\<close>

datatype action_type =
    DeleteAction
  | SetStorageClassAction
  | AbortIncompleteMPUAction
  | OtherAction string

datatype liveness = LiveAndArchived | Live | Archived

record LifecycleAction =
  La_Type :: action_type
  La_StorageClass :: string

record LifecycleCondition =
  Cond_AgeInDays :: int64
  Cond_CreatedBefore :: gotime
  Cond_Liveness :: liveness
  Cond_MatchesPrefix :: "string list"
  Cond_NumNewerVersions :: int64

record LifecycleRule =
  Lr_Action :: LifecycleAction
  Lr_Condition :: LifecycleCondition

type_synonym Lifecycle = "LifecycleRule list"

definition zero_Condition :: LifecycleCondition where
  "zero_Condition = \<lparr>Cond_AgeInDays = 0, Cond_CreatedBefore = zero_time,
     Cond_Liveness = LiveAndArchived, Cond_MatchesPrefix = [], Cond_NumNewerVersions = 0\<rparr>"

subsection \<open>CORS, logging, website, object contexts\<close>

record CORS =
  Co_MaxAge :: int64
  Co_Methods :: "string list"
  Co_Origins :: "string list"
  Co_ResponseHeaders :: "string list"

record BucketLogging =
  Bl_LogBucket :: string
  Bl_LogObjectPrefix :: string

record BucketWebsite =
  Bw_MainPageSuffix :: string
  Bw_NotFoundPage :: string

record ObjectCustomContextPayload =
  Pl_Value :: string
  Pl_Delete :: bool

record ObjectContexts =
  Ctx_Custom :: "string \<Rightarrow> ObjectCustomContextPayload option"

subsection \<open>Attributes, updates, errors and the client\<close>

record bucket_attrs =
  Ba_Lifecycle :: Lifecycle
  Ba_CORS :: "CORS list"
  Ba_Logging :: "BucketLogging option"
  Ba_Website :: "BucketWebsite option"

text \<open>
  \<^verbatim>\<open>BucketAttrsToUpdate\<close>: a nil field (\<open>None\<close>) leaves the attribute as it is. The SDK
  documents this of each of the four fields.
\<close>

record bucket_update =
  Bu_Lifecycle :: "Lifecycle option"
  Bu_CORS :: "CORS list option"
  Bu_Logging :: "BucketLogging option"
  Bu_Website :: "BucketWebsite option"

definition no_update :: bucket_update where
  "no_update = \<lparr>Bu_Lifecycle = None, Bu_CORS = None, Bu_Logging = None, Bu_Website = None\<rparr>"

record object_attrs =
  Oa_Contexts :: "ObjectContexts option"
  Oa_Metageneration :: int64

record object_update =
  Ou_Contexts :: "ObjectContexts option"

text \<open>An SDK error, by the answers of \<^verbatim>\<open>errors.As\<close> and \<^verbatim>\<open>errors.Is\<close> the code asks for.\<close>

record gcs_error =
  ge_api_code :: "int option"
  ge_canceled :: bool
  ge_deadline :: bool
  ge_object_not_exist :: bool

text \<open>
  The GCS client. Each call takes the timeout its context carries (a duration, \<open>None\<close> for
  none) and the state of the outside world, and gives a result and the new state.
\<close>

type_synonym deadline = "int64 option"

record 's gcs_api =
  api_bucket_attrs :: "deadline \<Rightarrow> string \<Rightarrow> 's \<Rightarrow> (gcs_error + bucket_attrs) \<times> 's"
  api_bucket_update :: "deadline \<Rightarrow> string \<Rightarrow> bucket_update \<Rightarrow> 's \<Rightarrow> (gcs_error + unit) \<times> 's"
  api_object_attrs :: "deadline \<Rightarrow> string \<Rightarrow> string \<Rightarrow> 's \<Rightarrow> (gcs_error + object_attrs) \<times> 's"
  api_object_update ::
    "deadline \<Rightarrow> string \<Rightarrow> string \<Rightarrow> int64 \<Rightarrow> object_update \<Rightarrow> 's \<Rightarrow> (gcs_error + unit) \<times> 's"

end
