(* ===== verification/Storage_Class.thy ===== *)
theory Storage_Class
  imports Go_Strings
begin

text \<open>
  The three storage-class tables: the data plane's (\<^verbatim>\<open>main.go\<close>), and the two directions
  of the lifecycle translation (\<^verbatim>\<open>gcs_lifecycle.go\<close>).
\<close>

text \<open>\<^verbatim>\<open>translateS3StorageClass\<close>; the false second result is \<open>None\<close>.\<close>

definition translateS3StorageClass :: "string \<Rightarrow> string option" where
  "translateS3StorageClass sc =
     (if sc = ''STANDARD'' \<or> sc = ''REDUCED_REDUNDANCY'' then Some ''STANDARD''
      else if sc = ''STANDARD_IA'' \<or> sc = ''ONEZONE_IA'' then Some ''NEARLINE''
      else if sc = ''GLACIER_IR'' then Some ''COLDLINE''
      else if sc = ''GLACIER'' \<or> sc = ''DEEP_ARCHIVE'' then Some ''ARCHIVE''
      else if sc = ''INTELLIGENT_TIERING'' then Some ''AUTOCLASS''
      else None)"

definition mapStorageClass :: "string \<Rightarrow> string" where
  "mapStorageClass s3Class =
     (if s3Class = ''STANDARD_IA'' then ''NEARLINE''
      else if s3Class = ''ONEZONE_IA'' then ''NEARLINE''
      else if s3Class = ''INTELLIGENT_TIERING'' then ''STANDARD''
      else if s3Class = ''GLACIER'' \<or> s3Class = ''GLACIER_IR'' then ''COLDLINE''
      else if s3Class = ''DEEP_ARCHIVE'' then ''ARCHIVE''
      else ''STANDARD'')"

definition reverseMapStorageClass :: "string \<Rightarrow> string" where
  "reverseMapStorageClass gcsClass =
     (if gcsClass = ''NEARLINE'' then ''STANDARD_IA''
      else if gcsClass = ''COLDLINE'' then ''GLACIER''
      else if gcsClass = ''ARCHIVE'' then ''DEEP_ARCHIVE''
      else if gcsClass = ''STANDARD'' then ''STANDARD''
      else gcsClass)"

definition s3_storage_classes :: "string list" where
  "s3_storage_classes =
     [''STANDARD'', ''REDUCED_REDUNDANCY'', ''STANDARD_IA'', ''ONEZONE_IA'', ''GLACIER_IR'',
      ''GLACIER'', ''DEEP_ARCHIVE'', ''INTELLIGENT_TIERING'']"

definition gcs_lifecycle_classes :: "string list" where
  "gcs_lifecycle_classes = [''STANDARD'', ''NEARLINE'', ''COLDLINE'', ''ARCHIVE'']"

lemma translate_known_iff: "translateS3StorageClass sc \<noteq> None \<longleftrightarrow> sc \<in> set s3_storage_classes"
  by (simp add: translateS3StorageClass_def s3_storage_classes_def)

lemma mapStorageClass_range: "mapStorageClass sc \<in> set gcs_lifecycle_classes"
  by (simp add: mapStorageClass_def gcs_lifecycle_classes_def)

lemma map_reverse_StorageClass:
  "g \<in> set gcs_lifecycle_classes \<Longrightarrow> mapStorageClass (reverseMapStorageClass g) = g"
  by (auto simp: gcs_lifecycle_classes_def mapStorageClass_def reverseMapStorageClass_def)

text \<open>Where the two tables for the same S3 class disagree.\<close>

lemma tables_disagree_iff:
  assumes "sc \<in> set s3_storage_classes"
  shows "translateS3StorageClass sc \<noteq> Some (mapStorageClass sc) \<longleftrightarrow>
    sc = ''GLACIER'' \<or> sc = ''INTELLIGENT_TIERING''"
  using assms
  by (auto simp: s3_storage_classes_def translateS3StorageClass_def mapStorageClass_def)

end
