(* ===== verification/Config_Translation.thy ===== *)
theory Config_Translation
  imports Prelude
begin

text \<open>
  The interface of the bucket-level translations, between the control-plane handlers
  (clients) and package \<^verbatim>\<open>pkg/translate\<close> (provider): what a PUT sends to GCS
  (\<open>None\<close>: the document is rejected or nothing is sent), what a GET shows of a stored
  value (\<open>None\<close>: it reports that there is no configuration), the documents and stored
  values for which the two agree. It is interpreted for lifecycle, CORS, logging and
  website in the theories of those translations.
\<close>

locale config_translation =
  fixes to_gcs :: "'s3 \<Rightarrow> 'gcs option"
    and shown :: "'gcs \<Rightarrow> 's3 option"
    and plain :: "'s3 \<Rightarrow> bool"
    and rep :: "'gcs \<Rightarrow> bool"
  assumes rep_to_gcs: "plain s \<Longrightarrow> to_gcs s = Some g \<Longrightarrow> rep g"
    and read_back: "rep g \<Longrightarrow> shown g = Some s \<Longrightarrow> to_gcs s = Some g"
begin

text \<open>A document that was stored and read back stores the same value again.\<close>

lemma put_get_put:
  "plain s \<Longrightarrow> to_gcs s = Some g \<Longrightarrow> shown g = Some s' \<Longrightarrow> to_gcs s' = Some g"
  using rep_to_gcs read_back by blast

text \<open>So reading is stable: what is shown after writing back is what was shown before.\<close>

lemma get_put_get:
  "rep g \<Longrightarrow> shown g = Some s \<Longrightarrow> to_gcs s = Some g' \<Longrightarrow> shown g' = Some s"
  using read_back by fastforce

text \<open>Two stored values that are shown alike are equal.\<close>

lemma shown_inj:
  "rep g \<Longrightarrow> rep h \<Longrightarrow> shown g = Some s \<Longrightarrow> shown h = Some s \<Longrightarrow> g = h"
  using read_back [of g s] read_back [of h s] by simp

end

text \<open>A translation that shows every value it can store.\<close>

locale total_translation = config_translation +
  assumes shown_total: "rep g \<Longrightarrow> \<exists>s. shown g = Some s"
begin

lemma put_then_get:
  assumes "plain s" "to_gcs s = Some g"
  shows "\<exists>s'. shown g = Some s' \<and> to_gcs s' = Some g"
  using assms rep_to_gcs shown_total read_back by blast

end

end
