(* ===== verification/Lifecycle.thy ===== *)
theory Lifecycle
  imports S3_Types Gcs_Types Storage_Class Config_Translation
begin

text \<open>
  \<^verbatim>\<open>pkg/translate/gcs_lifecycle.go\<close>: S3 lifecycle rules to GCS rules, once as SDK structs
  (\<^verbatim>\<open>TranslateS3ToGCSLifecycle\<close>, what the proxy sends) and once as the JSON document
  (\<^verbatim>\<open>TranslateS3ToGCS\<close>, up to its final \<^verbatim>\<open>json.MarshalIndent\<close>), and back.
\<close>

datatype lifecycle_error =
    ObjectSizeFilter
  | TagFilter
  | ObjectSizeFilterInAnd
  | TagFilterInAnd
  | InvalidExpirationDate string
  | InvalidTransitionDate string

subsection \<open>Dates and filters\<close>

definition formatDateS3toGCS :: "string \<Rightarrow> string" where
  "formatDateS3toGCS s3Date = (if 10 \<le> length s3Date then take 10 s3Date else s3Date)"

definition parseS3Date :: "string \<Rightarrow> gotime option" where
  "parseS3Date s3Date = map_option midnight (parse_date (formatDateS3toGCS s3Date))"

text \<open>The check at the head of the loop of \<^verbatim>\<open>TranslateS3ToGCSLifecycle\<close>.\<close>

definition check_filter :: "Filter option \<Rightarrow> lifecycle_error option" where
  "check_filter fo =
     (case fo of
        None \<Rightarrow> None
      | Some f \<Rightarrow>
          if F_ObjectSizeGreaterThan f \<noteq> None \<or> F_ObjectSizeLessThan f \<noteq> None
          then Some ObjectSizeFilter
          else if F_Tag f \<noteq> None then Some TagFilter
          else (case F_And f of
             None \<Rightarrow> None
           | Some a \<Rightarrow>
               if And_ObjectSizeGreaterThan a \<noteq> None \<or> And_ObjectSizeLessThan a \<noteq> None
               then Some ObjectSizeFilterInAnd
               else if And_Tags a \<noteq> [] then Some TagFilterInAnd
               else None))"

definition nonempty_prefix :: "string option \<Rightarrow> string list" where
  "nonempty_prefix po = (case po of Some p \<Rightarrow> if p \<noteq> [] then [p] else [] | None \<Rightarrow> [])"

definition applySDKFilter :: "Filter option \<Rightarrow> LifecycleCondition \<Rightarrow> LifecycleCondition" where
  "applySDKFilter fo c =
     (case fo of
        None \<Rightarrow> c
      | Some f \<Rightarrow>
          let c1 = (if nonempty_prefix (F_Prefix f) \<noteq> []
                    then c\<lparr>Cond_MatchesPrefix := nonempty_prefix (F_Prefix f)\<rparr> else c)
          in (case F_And f of
                None \<Rightarrow> c1
              | Some a \<Rightarrow> c1\<lparr>Cond_MatchesPrefix :=
                            Cond_MatchesPrefix c1 @ nonempty_prefix (And_Prefix a)\<rparr>))"

subsection \<open>S3 to the SDK structs\<close>

definition set_age :: "int64 option \<Rightarrow> LifecycleCondition \<Rightarrow> LifecycleCondition" where
  "set_age days c = (case days of None \<Rightarrow> c | Some d \<Rightarrow> c\<lparr>Cond_AgeInDays := d\<rparr>)"

definition set_created_before ::
  "(string \<Rightarrow> lifecycle_error) \<Rightarrow> string option \<Rightarrow> LifecycleCondition \<Rightarrow>
     lifecycle_error + LifecycleCondition" where
  "set_created_before err date c =
     (case date of
        None \<Rightarrow> Inr c
      | Some s \<Rightarrow> (case parseS3Date s of
                     None \<Rightarrow> Inl (err s)
                   | Some t \<Rightarrow> Inr (c\<lparr>Cond_CreatedBefore := t\<rparr>)))"

definition delete_action :: LifecycleAction where
  "delete_action = \<lparr>La_Type = DeleteAction, La_StorageClass = []\<rparr>"

definition expiration_rule ::
  "Filter option \<Rightarrow> Expiration \<Rightarrow> lifecycle_error + LifecycleRule list" where
  "expiration_rule f e =
     res_bind
       (set_created_before InvalidExpirationDate (Exp_Date e)
          (set_age (Exp_Days e) (applySDKFilter f zero_Condition)))
       (\<lambda>c. Inr [\<lparr>Lr_Action = delete_action, Lr_Condition = c\<rparr>])"

definition transition_rule ::
  "Filter option \<Rightarrow> Transition \<Rightarrow> lifecycle_error + LifecycleRule list" where
  "transition_rule f t =
     res_bind
       (set_created_before InvalidTransitionDate (Tr_Date t)
          (set_age (Tr_Days t) (applySDKFilter f zero_Condition)))
       (\<lambda>c. Inr [\<lparr>Lr_Action = \<lparr>La_Type = SetStorageClassAction,
                               La_StorageClass = mapStorageClass (Tr_StorageClass t)\<rparr>,
                  Lr_Condition = c\<rparr>])"

definition noncurrent_rule :: "Filter option \<Rightarrow> NoncurrentVersionExpiration \<Rightarrow> LifecycleRule" where
  "noncurrent_rule f n =
     (let c0 = zero_Condition\<lparr>Cond_Liveness := Archived\<rparr>;
          c1 = (case Nve_NoncurrentDays n of
                  None \<Rightarrow> c0 | Some d \<Rightarrow> c0\<lparr>Cond_NumNewerVersions := d\<rparr>)
      in \<lparr>Lr_Action = delete_action, Lr_Condition = applySDKFilter f c1\<rparr>)"

definition abort_rule :: "int64 \<Rightarrow> LifecycleRule" where
  "abort_rule d =
     \<lparr>Lr_Action = \<lparr>La_Type = AbortIncompleteMPUAction, La_StorageClass = []\<rparr>,
      Lr_Condition = zero_Condition\<lparr>Cond_AgeInDays := d\<rparr>\<rparr>"

text \<open>The four parts of the loop body: each appends the rules of one field, if it is set.\<close>

definition expiration_rules ::
  "Filter option \<Rightarrow> Expiration option \<Rightarrow> lifecycle_error + LifecycleRule list" where
  "expiration_rules f eo = (case eo of None \<Rightarrow> Inr [] | Some e \<Rightarrow> expiration_rule f e)"

definition transition_rules ::
  "Filter option \<Rightarrow> Transition list \<Rightarrow> lifecycle_error + LifecycleRule list" where
  "transition_rules f ts = collect (transition_rule f) ts"

definition noncurrent_rules ::
  "Filter option \<Rightarrow> NoncurrentVersionExpiration option \<Rightarrow> LifecycleRule list" where
  "noncurrent_rules f no = (case no of None \<Rightarrow> [] | Some n \<Rightarrow> [noncurrent_rule f n])"

definition abort_rules :: "AbortIncompleteMultipartUpload option \<Rightarrow> LifecycleRule list" where
  "abort_rules ao =
     (case ao of
        None \<Rightarrow> []
      | Some a \<Rightarrow> (case Abort_DaysAfterInitiation a of None \<Rightarrow> [] | Some d \<Rightarrow> [abort_rule d]))"

text \<open>The body of the loop for one rule of the document.\<close>

definition translate_rule :: "Rule \<Rightarrow> lifecycle_error + LifecycleRule list" where
  "translate_rule r =
     (if R_Status r \<noteq> ''Enabled'' then Inr []
      else case check_filter (R_Filter r) of
        Some e \<Rightarrow> Inl e
      | None \<Rightarrow>
          res_bind (expiration_rules (R_Filter r) (R_Expiration r)) (\<lambda>exps.
          res_bind (transition_rules (R_Filter r) (R_Transitions r)) (\<lambda>trans.
          Inr (exps @ trans
               @ noncurrent_rules (R_Filter r) (R_NoncurrentVersionExpirations r)
               @ abort_rules (R_AbortIncompleteMultipartUpload r)))))"

definition TranslateS3ToGCSLifecycle :: "LifecycleConfiguration \<Rightarrow> lifecycle_error + Lifecycle" where
  "TranslateS3ToGCSLifecycle cfg = collect translate_rule (Lc_Rules cfg)"

subsection \<open>The SDK structs to S3\<close>

definition positive :: "int64 \<Rightarrow> int64 option" where
  "positive n = (if 0 < sint n then Some n else None)"

definition s3_date :: "gotime \<Rightarrow> string option" where
  "s3_date t = (if t = zero_time then None else Some (format_s3_time t))"

text \<open>The first prefix of a condition becomes the filter of the rule.\<close>

definition prefix_filter :: "string list \<Rightarrow> Filter option" where
  "prefix_filter ps = (case ps of [] \<Rightarrow> None | p # _ \<Rightarrow> Some (zero_Filter\<lparr>F_Prefix := Some p\<rparr>))"

definition reverse_rule :: "nat \<Rightarrow> LifecycleRule \<Rightarrow> Rule" where
  "reverse_rule i g =
     (let c = Lr_Condition g;
          r1 = zero_Rule\<lparr>R_ID := ''rule-'' @ show_nat i, R_Status := ''Enabled'',
                         R_Filter := prefix_filter (Cond_MatchesPrefix c)\<rparr>
      in case La_Type (Lr_Action g) of
           DeleteAction \<Rightarrow>
             (if Cond_Liveness c = Archived
              then r1\<lparr>R_NoncurrentVersionExpirations :=
                        Some \<lparr>Nve_NoncurrentDays = positive (Cond_NumNewerVersions c)\<rparr>\<rparr>
              else r1\<lparr>R_Expiration :=
                        Some (zero_Expiration\<lparr>Exp_Days := positive (Cond_AgeInDays c),
                                               Exp_Date := s3_date (Cond_CreatedBefore c)\<rparr>)\<rparr>)
         | SetStorageClassAction \<Rightarrow>
             r1\<lparr>R_Transitions :=
                  [\<lparr>Tr_Days = positive (Cond_AgeInDays c), Tr_Date = s3_date (Cond_CreatedBefore c),
                    Tr_StorageClass = reverseMapStorageClass (La_StorageClass (Lr_Action g))\<rparr>]\<rparr>
         | AbortIncompleteMPUAction \<Rightarrow>
             (case positive (Cond_AgeInDays c) of
                None \<Rightarrow> r1
              | Some d \<Rightarrow> r1\<lparr>R_AbortIncompleteMultipartUpload :=
                                Some \<lparr>Abort_DaysAfterInitiation = Some d\<rparr>\<rparr>)
         | OtherAction _ \<Rightarrow> r1)"

definition TranslateGCSToS3Lifecycle :: "Lifecycle \<Rightarrow> LifecycleConfiguration" where
  "TranslateGCSToS3Lifecycle rules =
     \<lparr>Lc_Rules = map (\<lambda>(i, g). reverse_rule i g) (enumerate 0 rules)\<rparr>"

subsection \<open>Reading back what is stored\<close>

lemma length_format_date [simp]: "length (format_date d) = 10"
  by (simp add: format_date_def)

lemma take_format_s3_time: "take 10 (format_s3_time t) = format_date (gt_date t)"
  by (simp add: format_s3_time_def Let_def)

lemma length_format_s3_time: "10 \<le> length (format_s3_time t)"
  by (simp add: format_s3_time_def Let_def)

text \<open>The times a lifecycle condition of the proxy can hold.\<close>

definition date_only :: "gotime \<Rightarrow> bool" where
  "date_only t \<longleftrightarrow> gt_nanos t = 0 \<and> valid_date (gt_date t)"

lemma parseS3Date_format: "date_only t \<Longrightarrow> parseS3Date (format_s3_time t) = Some t"
  by (cases t)
    (simp add: parseS3Date_def formatDateS3toGCS_def length_format_s3_time take_format_s3_time
      date_only_def parse_format_date midnight_def)

lemma parseS3Date_date_only: "parseS3Date s = Some t \<Longrightarrow> date_only t"
  by (auto simp: parseS3Date_def date_only_def midnight_def dest: parse_date_valid)

lemma zero_time_date_only: "date_only zero_time"
  by (simp add: date_only_def zero_time_def valid_date_def days_in_def)

text \<open>The GCS rules the S3 document can express.\<close>

definition one_prefix :: "string list \<Rightarrow> bool" where
  "one_prefix ps \<longleftrightarrow> (case ps of [] \<Rightarrow> True | [p] \<Rightarrow> p \<noteq> [] | _ \<Rightarrow> False)"

definition age_condition :: "LifecycleCondition \<Rightarrow> bool" where
  "age_condition c \<longleftrightarrow> Cond_Liveness c = LiveAndArchived \<and> Cond_NumNewerVersions c = 0
     \<and> 0 \<le> sint (Cond_AgeInDays c) \<and> date_only (Cond_CreatedBefore c)"

definition archived_condition :: "LifecycleCondition \<Rightarrow> bool" where
  "archived_condition c \<longleftrightarrow> Cond_Liveness c = Archived \<and> Cond_AgeInDays c = 0
     \<and> Cond_CreatedBefore c = zero_time \<and> 0 \<le> sint (Cond_NumNewerVersions c)"

definition representable_rule :: "LifecycleRule \<Rightarrow> bool" where
  "representable_rule g \<longleftrightarrow>
     (let c = Lr_Condition g; sc = La_StorageClass (Lr_Action g) in
      case La_Type (Lr_Action g) of
        DeleteAction \<Rightarrow> sc = [] \<and> one_prefix (Cond_MatchesPrefix c)
          \<and> (age_condition c \<or> archived_condition c)
      | SetStorageClassAction \<Rightarrow> sc \<in> set gcs_lifecycle_classes
          \<and> one_prefix (Cond_MatchesPrefix c) \<and> age_condition c
      | AbortIncompleteMPUAction \<Rightarrow> 0 < sint (Cond_AgeInDays c) \<and> g = abort_rule (Cond_AgeInDays c)
      | OtherAction _ \<Rightarrow> False)"

lemma sint_zero: "0 \<le> sint n \<Longrightarrow> \<not> 0 < sint n \<Longrightarrow> n = (0 :: int64)"
  using word_of_int_sint [of n] by simp

lemma positive_cases:
  assumes "0 \<le> sint n"
  obtains "n = 0" "positive n = None" | "positive n = Some n"
  using sint_zero [OF assms] by (cases "0 < sint n") (auto simp: positive_def)

text \<open>Setting a field of a condition to the value it has.\<close>

lemma set_age_positive:
  assumes "0 \<le> sint (Cond_AgeInDays c)"
  shows "set_age (positive (Cond_AgeInDays c)) (c\<lparr>Cond_AgeInDays := 0\<rparr>) = c"
  by (cases c; rule positive_cases [OF assms]) (simp_all add: set_age_def)

lemma set_created_before_s3_date:
  assumes "date_only (Cond_CreatedBefore c)"
  shows "set_created_before err (s3_date (Cond_CreatedBefore c))
           (c\<lparr>Cond_CreatedBefore := zero_time\<rparr>) = Inr c"
  using assms by (cases c) (auto simp: set_created_before_def s3_date_def parseS3Date_format)

lemma applySDKFilter_prefix:
  "one_prefix ps \<Longrightarrow> applySDKFilter (prefix_filter ps) (c\<lparr>Cond_MatchesPrefix := []\<rparr>) =
     c\<lparr>Cond_MatchesPrefix := ps\<rparr>"
  by (auto simp: one_prefix_def prefix_filter_def applySDKFilter_def nonempty_prefix_def
      zero_Filter_def Let_def split: list.splits)

lemma check_prefix_filter [simp]: "check_filter (prefix_filter ps) = None"
  by (simp add: check_filter_def prefix_filter_def zero_Filter_def split: list.splits)

lemma condition_of_age:
  assumes "age_condition c" "one_prefix (Cond_MatchesPrefix c)"
  shows "set_created_before err (s3_date (Cond_CreatedBefore c))
     (set_age (positive (Cond_AgeInDays c))
       (applySDKFilter (prefix_filter (Cond_MatchesPrefix c)) zero_Condition)) = Inr c"
proof -
  have "applySDKFilter (prefix_filter (Cond_MatchesPrefix c)) zero_Condition =
      zero_Condition\<lparr>Cond_MatchesPrefix := Cond_MatchesPrefix c\<rparr>"
    using applySDKFilter_prefix [OF assms(2), of zero_Condition] by (simp add: zero_Condition_def)
  also have "\<dots> = c\<lparr>Cond_CreatedBefore := zero_time, Cond_AgeInDays := 0\<rparr>"
    using assms(1) by (cases c) (simp add: zero_Condition_def age_condition_def)
  finally have "set_age (positive (Cond_AgeInDays c))
       (applySDKFilter (prefix_filter (Cond_MatchesPrefix c)) zero_Condition) =
      c\<lparr>Cond_CreatedBefore := zero_time\<rparr>"
    using set_age_positive [of "c\<lparr>Cond_CreatedBefore := zero_time\<rparr>"] assms(1)
    by (simp add: age_condition_def)
  then show ?thesis
    using set_created_before_s3_date [of c err] assms(1) by (simp add: age_condition_def)
qed

lemma condition_of_archived:
  assumes "archived_condition c" "one_prefix (Cond_MatchesPrefix c)"
  shows "noncurrent_rule (prefix_filter (Cond_MatchesPrefix c))
     \<lparr>Nve_NoncurrentDays = positive (Cond_NumNewerVersions c)\<rparr> =
     \<lparr>Lr_Action = delete_action, Lr_Condition = c\<rparr>"
proof -
  let ?c0 = "zero_Condition\<lparr>Cond_Liveness := Archived\<rparr>"
  have nonneg: "0 \<le> sint (Cond_NumNewerVersions c)"
    using assms(1) by (simp add: archived_condition_def)
  have "(case positive (Cond_NumNewerVersions c) of
      None \<Rightarrow> ?c0 | Some d \<Rightarrow> ?c0\<lparr>Cond_NumNewerVersions := d\<rparr>) = c\<lparr>Cond_MatchesPrefix := []\<rparr>"
    using assms(1) nonneg by (cases c; elim positive_cases)
      (simp_all add: archived_condition_def zero_Condition_def)
  then show ?thesis
    using applySDKFilter_prefix [OF assms(2), of c] by (simp add: noncurrent_rule_def)
qed

lemmas reverse_rule_unfold = expiration_rules_def transition_rules_def noncurrent_rules_def
  abort_rules_def translate_rule_def reverse_rule_def zero_Rule_def Let_def

lemma translate_reverse_rule:
  assumes "representable_rule g"
  shows "translate_rule (reverse_rule i g) = Inr [g]"
proof (cases "La_Type (Lr_Action g)")
  case DeleteAction
  with assms have act: "Lr_Action g = delete_action"
    and one: "one_prefix (Cond_MatchesPrefix (Lr_Condition g))"
    and cond: "age_condition (Lr_Condition g) \<or> archived_condition (Lr_Condition g)"
    by (cases g; cases "Lr_Action g"; simp add: representable_rule_def delete_action_def Let_def)+
  show ?thesis
  proof (cases "Cond_Liveness (Lr_Condition g) = Archived")
    case True
    with cond have "archived_condition (Lr_Condition g)"
      by (auto simp: age_condition_def)
    from condition_of_archived [OF this one] act DeleteAction True show ?thesis
      by (cases g) (simp add: reverse_rule_unfold)
  next
    case False
    with cond have "age_condition (Lr_Condition g)"
      by (auto simp: archived_condition_def)
    from condition_of_age [OF this one] act DeleteAction False show ?thesis
      by (cases g) (simp add: reverse_rule_unfold expiration_rule_def zero_Expiration_def)
  qed
next
  case SetStorageClassAction
  with assms have one: "one_prefix (Cond_MatchesPrefix (Lr_Condition g))"
    and sc: "La_StorageClass (Lr_Action g) \<in> set gcs_lifecycle_classes"
    and "age_condition (Lr_Condition g)"
    by (simp_all add: representable_rule_def Let_def)
  from condition_of_age [OF this(3) one] SetStorageClassAction map_reverse_StorageClass [OF sc]
  show ?thesis
    by (cases g; cases "Lr_Action g") (simp add: reverse_rule_unfold transition_rule_def)
next
  case AbortIncompleteMPUAction
  with assms obtain d where "g = abort_rule d" "0 < sint d"
    by (auto simp: representable_rule_def Let_def)
  then show ?thesis
    by (simp add: reverse_rule_unfold abort_rule_def check_filter_def prefix_filter_def
        zero_Condition_def positive_def)
qed (use assms in \<open>simp add: representable_rule_def\<close>)

lemma collect_reverse:
  "list_all representable_rule gs \<Longrightarrow>
   collect translate_rule (map (\<lambda>(i, g). reverse_rule i g) (enumerate n gs)) = Inr gs"
  by (induction gs arbitrary: n) (simp_all add: translate_reverse_rule)

lemma reverse_then_translate:
  "list_all representable_rule gs \<Longrightarrow>
   TranslateS3ToGCSLifecycle (TranslateGCSToS3Lifecycle gs) = Inr gs"
  by (simp add: TranslateS3ToGCSLifecycle_def TranslateGCSToS3Lifecycle_def collect_reverse)

subsection \<open>What the translation accepts and produces\<close>

definition enabled :: "Rule \<Rightarrow> bool" where
  "enabled r \<longleftrightarrow> R_Status r = ''Enabled''"

text \<open>
  What GCS cannot express, said without the translation: a filter with a bound on the
  size or with a tag, alone or inside And, and a date whose first ten bytes are not a day of
  the calendar written YYYY-MM-DD.
\<close>

definition size_or_tag_filter :: "Filter \<Rightarrow> bool" where
  "size_or_tag_filter f \<longleftrightarrow>
     F_ObjectSizeGreaterThan f \<noteq> None \<or> F_ObjectSizeLessThan f \<noteq> None \<or> F_Tag f \<noteq> None
     \<or> (case F_And f of
          None \<Rightarrow> False
        | Some a \<Rightarrow> And_ObjectSizeGreaterThan a \<noteq> None \<or> And_ObjectSizeLessThan a \<noteq> None \<or> And_Tags a \<noteq> [])"

definition readable_date :: "string \<Rightarrow> bool" where
  "readable_date s \<longleftrightarrow> (\<exists>d. valid_date d \<and> take 10 s = format_date d)"

definition bad_date :: "string option \<Rightarrow> bool" where
  "bad_date d \<longleftrightarrow> (case d of None \<Rightarrow> False | Some s \<Rightarrow> \<not> readable_date s)"

text \<open>A rule the translation refuses: an unsupported filter or an unreadable date.\<close>

definition unsupported_rule :: "Rule \<Rightarrow> bool" where
  "unsupported_rule r \<longleftrightarrow> enabled r \<and>
     ((case R_Filter r of None \<Rightarrow> False | Some f \<Rightarrow> size_or_tag_filter f)
      \<or> (case R_Expiration r of None \<Rightarrow> False | Some e \<Rightarrow> bad_date (Exp_Date e))
      \<or> list_ex (\<lambda>t. bad_date (Tr_Date t)) (R_Transitions r))"

lemma parseS3Date_readable: "parseS3Date s = None \<longleftrightarrow> \<not> readable_date s"
proof -
  have "length (format_date d) = 10" for d by (simp add: format_date_def)
  then have "10 \<le> length s" if "take 10 s = format_date d" for d
    using that length_take [of 10 s] by (metis min.absorb_iff2)
  moreover have "\<exists>d. valid_date d \<and> take 10 s = format_date d" if "parse_date (take 10 s) = Some d" for d
    using that parse_date_valid format_parse_date by metis
  moreover have "parse_date s = None" if "\<not> 10 \<le> length s"
    using that by (simp add: parse_date_def)
  ultimately show ?thesis
    unfolding readable_date_def parseS3Date_def formatDateS3toGCS_def
    by (cases "10 \<le> length s"; cases "parse_date (take 10 s)") (auto simp: parse_format_date)
qed

lemma check_filter_refuses:
  "check_filter fo \<noteq> None \<longleftrightarrow> (case fo of None \<Rightarrow> False | Some f \<Rightarrow> size_or_tag_filter f)"
  by (simp add: check_filter_def size_or_tag_filter_def split: option.split)

lemma set_created_before_Inl_iff:
  "(\<exists>e. set_created_before err d c = Inl e) \<longleftrightarrow> bad_date d"
  by (auto simp: set_created_before_def bad_date_def parseS3Date_readable [symmetric] split: option.splits)

lemma res_bind_Inl_iff: "(\<exists>e. res_bind m f = Inl e) \<longleftrightarrow>
    (\<exists>e. m = Inl e) \<or> (\<exists>a. m = Inr a \<and> (\<exists>e. f a = Inl e))"
  by (cases m) auto

lemma not_Inr_iff: "(\<forall>a. m \<noteq> Inr a) \<longleftrightarrow> (\<exists>e. m = Inl e)"
  by (cases m) auto

lemma expiration_rule_Inl_iff:
  "(\<exists>e. expiration_rule f x = Inl e) \<longleftrightarrow> bad_date (Exp_Date x)"
  by (simp add: expiration_rule_def res_bind_Inl_iff set_created_before_Inl_iff)

lemma transition_rule_Inl_iff:
  "(\<exists>e. transition_rule f x = Inl e) \<longleftrightarrow> bad_date (Tr_Date x)"
  by (simp add: transition_rule_def res_bind_Inl_iff set_created_before_Inl_iff)

lemma collect_Inl_iff: "(\<exists>e. collect f xs = Inl e) \<longleftrightarrow> (\<exists>x\<in>set xs. \<exists>e. f x = Inl e)"
proof (induction xs)
  case (Cons x xs)
  then show ?case by (cases "f x"; cases "collect f xs") auto
qed simp

lemma expiration_rules_Inl_iff: "(\<exists>e. expiration_rules f x = Inl e) \<longleftrightarrow>
    (case x of None \<Rightarrow> False | Some e \<Rightarrow> bad_date (Exp_Date e))"
  by (simp add: expiration_rules_def expiration_rule_Inl_iff split: option.splits)

lemma transition_rules_Inl_iff:
  "(\<exists>e. transition_rules f ts = Inl e) \<longleftrightarrow> list_ex (\<lambda>t. bad_date (Tr_Date t)) ts"
  by (simp add: transition_rules_def collect_Inl_iff transition_rule_Inl_iff list_ex_iff)

lemma translate_rule_Inl_iff: "(\<exists>e. translate_rule r = Inl e) \<longleftrightarrow> unsupported_rule r"
proof (cases "enabled r \<and> check_filter (R_Filter r) = None")
  case True
  then have "(\<exists>e. translate_rule r = Inl e) \<longleftrightarrow>
      (\<exists>e. expiration_rules (R_Filter r) (R_Expiration r) = Inl e)
      \<or> (\<exists>e. transition_rules (R_Filter r) (R_Transitions r) = Inl e)"
    by (auto simp: translate_rule_def enabled_def res_bind_def split: sum.splits)
  with True show ?thesis
    unfolding expiration_rules_Inl_iff transition_rules_Inl_iff
    by (simp add: unsupported_rule_def check_filter_refuses [symmetric])
qed (auto simp: translate_rule_def unsupported_rule_def enabled_def check_filter_refuses [symmetric])

lemma translation_fails_iff:
  "(\<exists>e. TranslateS3ToGCSLifecycle cfg = Inl e) \<longleftrightarrow> list_ex unsupported_rule (Lc_Rules cfg)"
  by (simp add: TranslateS3ToGCSLifecycle_def collect_Inl_iff translate_rule_Inl_iff list_ex_iff)

text \<open>The rules one enabled S3 rule becomes, in order.\<close>

lemma translate_rule_Inr:
  assumes "translate_rule r = Inr gs" "enabled r"
  obtains exps trans where
    "check_filter (R_Filter r) = None"
    "expiration_rules (R_Filter r) (R_Expiration r) = Inr exps"
    "transition_rules (R_Filter r) (R_Transitions r) = Inr trans"
    "gs = exps @ trans @ noncurrent_rules (R_Filter r) (R_NoncurrentVersionExpirations r)
            @ abort_rules (R_AbortIncompleteMultipartUpload r)"
  using assms
  by (auto simp: translate_rule_def enabled_def res_bind_Inr_iff split: option.splits)

text \<open>A property of every rule holds when it holds of what each of the four parts appends.\<close>

lemma translate_rule_all:
  assumes "translate_rule r = Inr gs"
    and "\<And>e gs. enabled r \<Longrightarrow> R_Expiration r = Some e \<Longrightarrow>
           expiration_rule (R_Filter r) e = Inr gs \<Longrightarrow> list_all P gs"
    and "\<And>t gs. enabled r \<Longrightarrow> t \<in> set (R_Transitions r) \<Longrightarrow>
           transition_rule (R_Filter r) t = Inr gs \<Longrightarrow> list_all P gs"
    and "\<And>n. enabled r \<Longrightarrow> R_NoncurrentVersionExpirations r = Some n \<Longrightarrow>
           P (noncurrent_rule (R_Filter r) n)"
    and "\<And>a d. enabled r \<Longrightarrow> R_AbortIncompleteMultipartUpload r = Some a \<Longrightarrow>
           Abort_DaysAfterInitiation a = Some d \<Longrightarrow> P (abort_rule d)"
  shows "list_all P gs"
proof (cases "enabled r")
  case True
  from assms(1) True obtain exps trans where
    e: "expiration_rules (R_Filter r) (R_Expiration r) = Inr exps"
    and t: "transition_rules (R_Filter r) (R_Transitions r) = Inr trans"
    and gs: "gs = exps @ trans @ noncurrent_rules (R_Filter r) (R_NoncurrentVersionExpirations r)
            @ abort_rules (R_AbortIncompleteMultipartUpload r)"
    by (rule translate_rule_Inr)
  have "list_all P exps"
    using e assms(2) True by (auto simp: expiration_rules_def split: option.splits)
  moreover have "list_all P trans"
    using t assms(3) True by (fastforce simp: transition_rules_def list_all_iff dest: collect_Inr_all)
  ultimately show ?thesis
    using gs assms(4,5) True
    by (auto simp: noncurrent_rules_def abort_rules_def split: option.splits)
next
  case False
  with assms(1) show ?thesis by (auto simp: translate_rule_def enabled_def)
qed

text \<open>The prefixes of a filter, and the condition they leave otherwise untouched.\<close>

definition filter_prefixes :: "Filter option \<Rightarrow> string list" where
  "filter_prefixes fo =
     (case fo of None \<Rightarrow> []
      | Some f \<Rightarrow> nonempty_prefix (F_Prefix f)
          @ (case F_And f of None \<Rightarrow> [] | Some a \<Rightarrow> nonempty_prefix (And_Prefix a)))"

lemma applySDKFilter_eq:
  "Cond_MatchesPrefix c = [] \<Longrightarrow> applySDKFilter f c = c\<lparr>Cond_MatchesPrefix := filter_prefixes f\<rparr>"
  by (cases c)
    (auto simp: applySDKFilter_def filter_prefixes_def Let_def nonempty_prefix_def
      split: option.splits)

lemma set_age_simps [simp]:
  "Cond_MatchesPrefix (set_age d c) = Cond_MatchesPrefix c"
  "Cond_Liveness (set_age d c) = Cond_Liveness c"
  "Cond_NumNewerVersions (set_age d c) = Cond_NumNewerVersions c"
  "Cond_CreatedBefore (set_age d c) = Cond_CreatedBefore c"
  "Cond_AgeInDays (set_age d c) = (case d of None \<Rightarrow> Cond_AgeInDays c | Some n \<Rightarrow> n)"
  by (simp_all add: set_age_def split: option.splits)

lemma set_created_before_simps:
  assumes "set_created_before err d c = Inr c'"
  shows "Cond_MatchesPrefix c' = Cond_MatchesPrefix c" "Cond_Liveness c' = Cond_Liveness c"
    "Cond_NumNewerVersions c' = Cond_NumNewerVersions c" "Cond_AgeInDays c' = Cond_AgeInDays c"
    "date_only (Cond_CreatedBefore c) \<Longrightarrow> date_only (Cond_CreatedBefore c')"
  using assms parseS3Date_date_only
  by (auto simp: set_created_before_def split: option.splits)

definition scoped_to :: "Filter option \<Rightarrow> LifecycleRule \<Rightarrow> bool" where
  "scoped_to f g \<longleftrightarrow> Cond_MatchesPrefix (Lr_Condition g) = filter_prefixes f"

lemma expiration_rule_scoped: "expiration_rule f e = Inr gs \<Longrightarrow> list_all (scoped_to f) gs"
  by (auto simp: expiration_rule_def res_bind_Inr_iff scoped_to_def applySDKFilter_eq
      zero_Condition_def dest!: set_created_before_simps(1))

lemma transition_rule_scoped: "transition_rule f t = Inr gs \<Longrightarrow> list_all (scoped_to f) gs"
  by (auto simp: transition_rule_def res_bind_Inr_iff scoped_to_def applySDKFilter_eq
      zero_Condition_def dest!: set_created_before_simps(1))

lemma noncurrent_rule_scoped: "scoped_to f (noncurrent_rule f n)"
  by (simp add: noncurrent_rule_def scoped_to_def applySDKFilter_eq zero_Condition_def
      Let_def split: option.splits)

text \<open>Every rule but the one that aborts uploads keeps the scope of the S3 rule.\<close>

lemma translate_rule_scoped:
  assumes "translate_rule r = Inr gs"
  shows "list_all (\<lambda>g. La_Type (Lr_Action g) = AbortIncompleteMPUAction \<or> scoped_to (R_Filter r) g) gs"
  by (rule translate_rule_all [OF assms])
    (auto simp: list_all_iff noncurrent_rule_scoped abort_rule_def
      dest!: expiration_rule_scoped transition_rule_scoped)

subsection \<open>What is stored can be read back\<close>

definition nonneg :: "int64 option \<Rightarrow> bool" where
  "nonneg d \<longleftrightarrow> (case d of None \<Rightarrow> True | Some n \<Rightarrow> 0 \<le> sint n)"

text \<open>
  The documents whose translation is representable: no negative day count, a positive
  one for aborted uploads, and at most one non-empty prefix per rule.
\<close>

definition plain_rule :: "Rule \<Rightarrow> bool" where
  "plain_rule r \<longleftrightarrow>
     length (filter_prefixes (R_Filter r)) \<le> 1
     \<and> (case R_Expiration r of None \<Rightarrow> True | Some e \<Rightarrow> nonneg (Exp_Days e))
     \<and> list_all (\<lambda>t. nonneg (Tr_Days t)) (R_Transitions r)
     \<and> (case R_NoncurrentVersionExpirations r of
          None \<Rightarrow> True | Some n \<Rightarrow> nonneg (Nve_NoncurrentDays n))
     \<and> (case R_AbortIncompleteMultipartUpload r of
          None \<Rightarrow> True
        | Some a \<Rightarrow> (case Abort_DaysAfterInitiation a of None \<Rightarrow> True | Some d \<Rightarrow> 0 < sint d))"

lemma filter_prefixes_nonempty: "p \<in> set (filter_prefixes f) \<Longrightarrow> p \<noteq> []"
  by (auto simp: filter_prefixes_def nonempty_prefix_def split: option.splits if_splits)

lemma one_prefix_filter: "length (filter_prefixes f) \<le> 1 \<Longrightarrow> one_prefix (filter_prefixes f)"
  using filter_prefixes_nonempty [of _ f]
  by (auto simp: one_prefix_def split: list.splits)

lemma age_condition_result:
  assumes "set_created_before err d (set_age n (applySDKFilter f zero_Condition)) = Inr c" "nonneg n"
  shows "age_condition c"
  using set_created_before_simps [OF assms(1)] assms(2) zero_time_date_only
  by (auto simp: age_condition_def applySDKFilter_eq zero_Condition_def nonneg_def
      split: option.splits)

lemma expiration_rule_representable:
  assumes "expiration_rule f e = Inr gs" "nonneg (Exp_Days e)" "length (filter_prefixes f) \<le> 1"
  shows "list_all representable_rule gs"
  using assms(1) age_condition_result [OF _ assms(2)] expiration_rule_scoped [OF assms(1)]
    one_prefix_filter [OF assms(3)]
  by (auto simp: expiration_rule_def res_bind_Inr_iff representable_rule_def delete_action_def
      scoped_to_def)

lemma transition_rule_representable:
  assumes "transition_rule f t = Inr gs" "nonneg (Tr_Days t)" "length (filter_prefixes f) \<le> 1"
  shows "list_all representable_rule gs"
  using assms(1) age_condition_result [OF _ assms(2)] transition_rule_scoped [OF assms(1)]
    one_prefix_filter [OF assms(3)] mapStorageClass_range
  by (auto simp: transition_rule_def res_bind_Inr_iff representable_rule_def scoped_to_def)

lemma noncurrent_rule_representable:
  assumes "nonneg (Nve_NoncurrentDays n)" "length (filter_prefixes f) \<le> 1"
  shows "representable_rule (noncurrent_rule f n)"
  using assms(1) one_prefix_filter [OF assms(2)]
  by (auto simp: noncurrent_rule_def representable_rule_def delete_action_def archived_condition_def
      applySDKFilter_eq zero_Condition_def nonneg_def Let_def split: option.splits)

lemma abort_rule_representable: "0 < sint d \<Longrightarrow> representable_rule (abort_rule d)"
  by (simp add: representable_rule_def abort_rule_def zero_Condition_def)

lemma translate_rule_representable:
  assumes "translate_rule r = Inr gs" "plain_rule r"
  shows "list_all representable_rule gs"
  using assms(2)
  by (intro translate_rule_all [OF assms(1)])
    (auto simp: plain_rule_def list_all_iff expiration_rule_representable [unfolded list_all_iff]
      transition_rule_representable [unfolded list_all_iff] noncurrent_rule_representable
      abort_rule_representable)

lemma translation_representable:
  assumes "TranslateS3ToGCSLifecycle cfg = Inr gs" "list_all plain_rule (Lc_Rules cfg)"
  shows "list_all representable_rule gs"
proof (simp only: list_all_iff, rule ballI)
  fix g assume "g \<in> set gs"
  with assms(1) obtain r zs where "r \<in> set (Lc_Rules cfg)" "translate_rule r = Inr zs" "g \<in> set zs"
    unfolding TranslateS3ToGCSLifecycle_def by (blast dest: collect_Inr_all)
  with assms(2) translate_rule_representable [of r zs] show "representable_rule g"
    by (simp add: list_all_iff)
qed

text \<open>
  Lifecycle as a \<open>config_translation\<close>: what a PUT stores, and what a GET shows of it
  (nothing, when there is no rule).
\<close>

definition lifecycle_to_gcs :: "LifecycleConfiguration \<Rightarrow> Lifecycle option" where
  "lifecycle_to_gcs cfg = (case TranslateS3ToGCSLifecycle cfg of Inl _ \<Rightarrow> None | Inr gs \<Rightarrow> Some gs)"

definition lifecycle_shown :: "Lifecycle \<Rightarrow> LifecycleConfiguration option" where
  "lifecycle_shown gs = (if gs = [] then None else Some (TranslateGCSToS3Lifecycle gs))"

interpretation lifecycle: config_translation
  lifecycle_to_gcs lifecycle_shown
  "\<lambda>cfg. list_all plain_rule (Lc_Rules cfg)" "list_all representable_rule"
proof unfold_locales
  fix s g
  assume "list_all plain_rule (Lc_Rules s)" "lifecycle_to_gcs s = Some g"
  then show "list_all representable_rule g"
    by (auto simp: lifecycle_to_gcs_def translation_representable split: sum.splits)
next
  fix g s
  assume "list_all representable_rule g" "lifecycle_shown g = Some s"
  then show "lifecycle_to_gcs s = Some g"
    by (auto simp: lifecycle_to_gcs_def lifecycle_shown_def reverse_then_translate
        split: if_splits)
qed

end
