(* ===== verification/Lifecycle_Json.thy ===== *)
theory Lifecycle_Json
  imports Lifecycle
begin

text \<open>
  The JSON variant of the lifecycle translation (\<^verbatim>\<open>TranslateS3ToGCS\<close> and
  \<^verbatim>\<open>applyRuleFilter\<close> of \<^verbatim>\<open>gcs_lifecycle.go\<close>), up to the final \<^verbatim>\<open>json.MarshalIndent\<close>, and
  its agreement with the SDK variant.
\<close>

record GCSLifecycleAction =
  Ja_Type :: string
  Ja_StorageClass :: string

record GCSLifecycleCondition =
  Jc_Age :: "int64 option"
  Jc_CreatedBefore :: "string option"
  Jc_IsLive :: "bool option"
  Jc_MatchesStorageClass :: "string list"
  Jc_MatchesPrefix :: "string list"
  Jc_MatchesSuffix :: "string list"
  Jc_NumNewerVersions :: "int64 option"

record GCSLifecycleRule =
  Jr_Action :: GCSLifecycleAction
  Jr_Condition :: GCSLifecycleCondition

record GCSLifecycle =
  Jl_Rules :: "GCSLifecycleRule list"

definition zero_json_condition :: GCSLifecycleCondition where
  "zero_json_condition = \<lparr>Jc_Age = None, Jc_CreatedBefore = None, Jc_IsLive = None,
     Jc_MatchesStorageClass = [], Jc_MatchesPrefix = [], Jc_MatchesSuffix = [],
     Jc_NumNewerVersions = None\<rparr>"

definition applyRuleFilter ::
  "Filter option \<Rightarrow> GCSLifecycleCondition \<Rightarrow> lifecycle_error + GCSLifecycleCondition" where
  "applyRuleFilter fo c =
     (case fo of
        None \<Rightarrow> Inr c
      | Some f \<Rightarrow>
          if F_ObjectSizeGreaterThan f \<noteq> None \<or> F_ObjectSizeLessThan f \<noteq> None
          then Inl ObjectSizeFilter
          else if F_Tag f \<noteq> None then Inl TagFilter
          else
            let c1 = (if nonempty_prefix (F_Prefix f) \<noteq> []
                      then c\<lparr>Jc_MatchesPrefix := nonempty_prefix (F_Prefix f)\<rparr> else c)
            in (case F_And f of
                  None \<Rightarrow> Inr c1
                | Some a \<Rightarrow>
                    if And_ObjectSizeGreaterThan a \<noteq> None \<or> And_ObjectSizeLessThan a \<noteq> None
                    then Inl ObjectSizeFilterInAnd
                    else if And_Tags a \<noteq> [] then Inl TagFilterInAnd
                    else Inr (c1\<lparr>Jc_MatchesPrefix :=
                                   Jc_MatchesPrefix c1 @ nonempty_prefix (And_Prefix a)\<rparr>)))"

text \<open>Days and date, as both the expiration and the transition branch set them.\<close>

definition set_json_age ::
  "int64 option \<Rightarrow> string option \<Rightarrow> GCSLifecycleCondition \<Rightarrow> GCSLifecycleCondition" where
  "set_json_age days date c =
     (let c1 = (case days of None \<Rightarrow> c | Some d \<Rightarrow> c\<lparr>Jc_Age := Some d\<rparr>)
      in (case date of
            None \<Rightarrow> c1
          | Some s \<Rightarrow> c1\<lparr>Jc_CreatedBefore := Some (formatDateS3toGCS s)\<rparr>))"

definition json_rule ::
  "GCSLifecycleAction \<Rightarrow> Filter option \<Rightarrow> GCSLifecycleCondition \<Rightarrow>
     (GCSLifecycleCondition \<Rightarrow> GCSLifecycleCondition) \<Rightarrow> lifecycle_error + GCSLifecycleRule list" where
  "json_rule act f c0 setter =
     res_bind (applyRuleFilter f c0) (\<lambda>c. Inr [\<lparr>Jr_Action = act, Jr_Condition = setter c\<rparr>])"

definition json_translate_rule :: "Rule \<Rightarrow> lifecycle_error + GCSLifecycleRule list" where
  "json_translate_rule r =
     (if R_Status r \<noteq> ''Enabled'' then Inr []
      else
        res_bind
          (case R_Expiration r of
             None \<Rightarrow> Inr []
           | Some e \<Rightarrow> json_rule \<lparr>Ja_Type = ''Delete'', Ja_StorageClass = []\<rparr> (R_Filter r)
                         zero_json_condition (set_json_age (Exp_Days e) (Exp_Date e))) (\<lambda>exps.
        res_bind
          (collect (\<lambda>t. json_rule
             \<lparr>Ja_Type = ''SetStorageClass'', Ja_StorageClass = mapStorageClass (Tr_StorageClass t)\<rparr>
             (R_Filter r) zero_json_condition (set_json_age (Tr_Days t) (Tr_Date t)))
             (R_Transitions r)) (\<lambda>trans.
        res_bind
          (case R_NoncurrentVersionExpirations r of
             None \<Rightarrow> Inr []
           | Some n \<Rightarrow> json_rule \<lparr>Ja_Type = ''Delete'', Ja_StorageClass = []\<rparr> (R_Filter r)
                         (zero_json_condition\<lparr>Jc_NumNewerVersions := Nve_NoncurrentDays n,
                                              Jc_IsLive := Some False\<rparr>) (\<lambda>c. c)) (\<lambda>noncur.
        Inr (exps @ trans @ noncur)))))"

definition TranslateS3ToGCS :: "LifecycleConfiguration \<Rightarrow> lifecycle_error + GCSLifecycle" where
  "TranslateS3ToGCS cfg =
     res_bind (collect json_translate_rule (Lc_Rules cfg)) (\<lambda>rules. Inr \<lparr>Jl_Rules = rules\<rparr>)"

subsection \<open>Agreement with the SDK variant\<close>

text \<open>
  The SDK struct with the content of a JSON rule. The struct cannot tell a number that is
  absent from one that is 0 (both are 0); the JSON rule can.
\<close>

definition json_action :: "GCSLifecycleAction \<Rightarrow> LifecycleAction" where
  "json_action a =
     \<lparr>La_Type = (if Ja_Type a = ''Delete'' then DeleteAction
                 else if Ja_Type a = ''SetStorageClass'' then SetStorageClassAction
                 else OtherAction (Ja_Type a)),
      La_StorageClass = Ja_StorageClass a\<rparr>"

definition json_condition :: "GCSLifecycleCondition \<Rightarrow> LifecycleCondition option" where
  "json_condition c =
     (case (case Jc_CreatedBefore c of
              None \<Rightarrow> Some zero_time | Some s \<Rightarrow> map_option midnight (parse_date s)) of
        None \<Rightarrow> None
      | Some t \<Rightarrow> Some
          \<lparr>Cond_AgeInDays = (case Jc_Age c of None \<Rightarrow> 0 | Some d \<Rightarrow> d),
           Cond_CreatedBefore = t,
           Cond_Liveness = (case Jc_IsLive c of
                              None \<Rightarrow> LiveAndArchived | Some b \<Rightarrow> if b then Live else Archived),
           Cond_MatchesPrefix = Jc_MatchesPrefix c,
           Cond_NumNewerVersions = (case Jc_NumNewerVersions c of None \<Rightarrow> 0 | Some d \<Rightarrow> d)\<rparr>)"

definition json_denotes :: "GCSLifecycleRule \<Rightarrow> LifecycleRule \<Rightarrow> bool" where
  "json_denotes j g \<longleftrightarrow> json_action (Jr_Action j) = Lr_Action g
     \<and> json_condition (Jr_Condition j) = Some (Lr_Condition g)"

text \<open>
  The numbers a document gives for its translated rules but those that abort uploads: the
  age and the number of newer versions, where they are given.
\<close>

definition rule_numbers :: "Rule \<Rightarrow> (int64 option \<times> int64 option) list" where
  "rule_numbers r =
     (if R_Status r \<noteq> ''Enabled'' then []
      else (case R_Expiration r of None \<Rightarrow> [] | Some e \<Rightarrow> [(Exp_Days e, None)])
        @ map (\<lambda>t. (Tr_Days t, None)) (R_Transitions r)
        @ (case R_NoncurrentVersionExpirations r of None \<Rightarrow> [] | Some n \<Rightarrow> [(None, Nve_NoncurrentDays n)]))"

definition json_numbers :: "GCSLifecycleRule \<Rightarrow> int64 option \<times> int64 option" where
  "json_numbers j = (Jc_Age (Jr_Condition j), Jc_NumNewerVersions (Jr_Condition j))"

text \<open>The SDK sends a number only when it is positive (an age of 0 would be \<^verbatim>\<open>AllObjects\<close>).\<close>

definition sent_number :: "int64 \<Rightarrow> int64 option" where
  "sent_number n = (if 0 < sint n then Some n else None)"

definition positive_number :: "int64 option \<Rightarrow> bool" where
  "positive_number x \<longleftrightarrow> (case x of None \<Rightarrow> True | Some n \<Rightarrow> 0 < sint n)"

definition sdk_numbers :: "LifecycleRule \<Rightarrow> int64 option \<times> int64 option" where
  "sdk_numbers g = (sent_number (Cond_AgeInDays (Lr_Condition g)), sent_number (Cond_NumNewerVersions (Lr_Condition g)))"

lemma applyRuleFilter_numbers:
  "applyRuleFilter f c = Inr c' \<Longrightarrow> Jc_Age c' = Jc_Age c \<and> Jc_NumNewerVersions c' = Jc_NumNewerVersions c"
  by (auto simp: applyRuleFilter_def Let_def split: option.splits if_splits)

lemma json_rule_numbers:
  assumes "json_rule act f c0 setter = Inr js"
    and "\<And>c. Jc_Age c = Jc_Age c0 \<Longrightarrow> Jc_NumNewerVersions c = Jc_NumNewerVersions c0 \<Longrightarrow>
      (Jc_Age (setter c), Jc_NumNewerVersions (setter c)) = ns"
  shows "map json_numbers js = [ns]"
  using assms applyRuleFilter_numbers by (fastforce simp: json_rule_def res_bind_Inr_iff json_numbers_def)

lemma json_transition_numbers:
  "collect (\<lambda>t. json_rule \<lparr>Ja_Type = ''SetStorageClass'', Ja_StorageClass = mapStorageClass (Tr_StorageClass t)\<rparr>
      f zero_json_condition (set_json_age (Tr_Days t) (Tr_Date t))) ts = Inr js \<Longrightarrow>
   map json_numbers js = map (\<lambda>t. (Tr_Days t, None)) ts"
proof (induction ts arbitrary: js)
  case (Cons t ts)
  then obtain j js' where t: "json_rule \<lparr>Ja_Type = ''SetStorageClass'', Ja_StorageClass = mapStorageClass (Tr_StorageClass t)\<rparr>
      f zero_json_condition (set_json_age (Tr_Days t) (Tr_Date t)) = Inr j"
    and ts: "collect (\<lambda>t. json_rule \<lparr>Ja_Type = ''SetStorageClass'', Ja_StorageClass = mapStorageClass (Tr_StorageClass t)\<rparr>
      f zero_json_condition (set_json_age (Tr_Days t) (Tr_Date t))) ts = Inr js'" "js = j @ js'"
    by (auto simp: res_bind_Inr_iff)
  have "map json_numbers j = [(Tr_Days t, None)]"
    by (rule json_rule_numbers [OF t]) (auto simp: set_json_age_def zero_json_condition_def Let_def split: option.splits)
  with Cons.IH [OF ts(1)] ts(2) show ?case by simp
qed simp

lemma json_translate_numbers:
  assumes "json_translate_rule r = Inr js"
  shows "map json_numbers js = rule_numbers r"
proof (cases "R_Status r = ''Enabled''")
  case True
  from assms True obtain je jt jn where
    e: "(case R_Expiration r of None \<Rightarrow> Inr []
       | Some e \<Rightarrow> json_rule \<lparr>Ja_Type = ''Delete'', Ja_StorageClass = []\<rparr> (R_Filter r)
           zero_json_condition (set_json_age (Exp_Days e) (Exp_Date e))) = Inr je"
    and t: "collect (\<lambda>t. json_rule \<lparr>Ja_Type = ''SetStorageClass'', Ja_StorageClass = mapStorageClass (Tr_StorageClass t)\<rparr>
       (R_Filter r) zero_json_condition (set_json_age (Tr_Days t) (Tr_Date t))) (R_Transitions r) = Inr jt"
    and n: "(case R_NoncurrentVersionExpirations r of None \<Rightarrow> Inr []
       | Some n \<Rightarrow> json_rule \<lparr>Ja_Type = ''Delete'', Ja_StorageClass = []\<rparr> (R_Filter r)
           (zero_json_condition\<lparr>Jc_NumNewerVersions := Nve_NoncurrentDays n, Jc_IsLive := Some False\<rparr>) (\<lambda>c. c)) = Inr jn"
    and js: "js = je @ jt @ jn"
    by (auto simp: json_translate_rule_def res_bind_Inr_iff)
  have "map json_numbers je = (case R_Expiration r of None \<Rightarrow> [] | Some e \<Rightarrow> [(Exp_Days e, None)])"
    using e by (auto intro: json_rule_numbers simp: set_json_age_def zero_json_condition_def Let_def split: option.splits)
  moreover have "map json_numbers jn =
      (case R_NoncurrentVersionExpirations r of None \<Rightarrow> [] | Some n \<Rightarrow> [(None, Nve_NoncurrentDays n)])"
    using n by (auto intro: json_rule_numbers simp: zero_json_condition_def split: option.splits)
  ultimately show ?thesis
    using json_transition_numbers [OF t] by (simp add: rule_numbers_def True js)
qed (use assms in \<open>simp add: json_translate_rule_def rule_numbers_def\<close>)

lemma json_collect_numbers:
  "collect json_translate_rule rs = Inr js \<Longrightarrow> map json_numbers js = concat (map rule_numbers rs)"
proof (induction rs arbitrary: js)
  case (Cons r rs)
  then obtain j js' where "json_translate_rule r = Inr j" "collect json_translate_rule rs = Inr js'" "js = j @ js'"
    by (auto simp: res_bind_Inr_iff)
  with json_translate_numbers [of r j] Cons.IH [of js'] show ?case by simp
qed simp

text \<open>Positive numbers are the same on both ways.\<close>

lemma denoted_numbers:
  assumes "json_denotes j g"
  shows "Cond_AgeInDays (Lr_Condition g) = (case Jc_Age (Jr_Condition j) of None \<Rightarrow> 0 | Some d \<Rightarrow> d)"
    and "Cond_NumNewerVersions (Lr_Condition g) = (case Jc_NumNewerVersions (Jr_Condition j) of None \<Rightarrow> 0 | Some d \<Rightarrow> d)"
  using assms by (cases "Lr_Condition g"; auto simp: json_denotes_def json_condition_def split: option.splits)+

lemma same_numbers:
  assumes "json_denotes j g" "positive_number (fst (json_numbers j))" "positive_number (snd (json_numbers j))"
  shows "sdk_numbers g = json_numbers j"
  using assms(2,3)
  by (auto simp: denoted_numbers [OF assms(1)] json_numbers_def sdk_numbers_def sent_number_def positive_number_def
      split: option.splits)

definition not_abort :: "LifecycleRule \<Rightarrow> bool" where
  "not_abort g \<longleftrightarrow> La_Type (Lr_Action g) \<noteq> AbortIncompleteMPUAction"

lemma applyRuleFilter_eq:
  assumes "check_filter f = None" "Jc_MatchesPrefix c = []"
  shows "applyRuleFilter f c = Inr (c\<lparr>Jc_MatchesPrefix := filter_prefixes f\<rparr>)"
  using assms
  by (cases c)
    (auto simp: check_filter_def applyRuleFilter_def filter_prefixes_def Let_def nonempty_prefix_def
      split: option.splits if_splits)

lemma json_aged_denotes:
  assumes f: "check_filter f = None"
    and c: "set_created_before err date (set_age days (applySDKFilter f zero_Condition)) = Inr c"
    and a: "json_action a = act"
  shows "\<exists>j. json_rule a f zero_json_condition (set_json_age days date) = Inr [j]
             \<and> json_denotes j \<lparr>Lr_Action = act, Lr_Condition = c\<rparr>"
  using c a
  by (auto simp: json_rule_def applyRuleFilter_eq [OF f] zero_json_condition_def set_json_age_def
      json_denotes_def json_condition_def set_created_before_def set_age_def applySDKFilter_eq
      zero_Condition_def parseS3Date_def Let_def split: option.splits)

lemma json_noncurrent_denotes:
  assumes f: "check_filter f = None"
  shows "\<exists>j. json_rule \<lparr>Ja_Type = ''Delete'', Ja_StorageClass = []\<rparr> f
               (zero_json_condition\<lparr>Jc_NumNewerVersions := Nve_NoncurrentDays n,
                                    Jc_IsLive := Some False\<rparr>) (\<lambda>c. c) = Inr [j]
             \<and> json_denotes j (noncurrent_rule f n)"
  by (auto simp: json_rule_def applyRuleFilter_eq [OF f] zero_json_condition_def
      json_denotes_def json_condition_def noncurrent_rule_def applySDKFilter_eq json_action_def
      delete_action_def zero_Condition_def Let_def split: option.splits)

lemma json_transitions_denote:
  assumes f: "check_filter f = None"
  shows "collect (transition_rule f) ts = Inr gs \<Longrightarrow>
    \<exists>js. collect (\<lambda>t. json_rule
        \<lparr>Ja_Type = ''SetStorageClass'', Ja_StorageClass = mapStorageClass (Tr_StorageClass t)\<rparr>
        f zero_json_condition (set_json_age (Tr_Days t) (Tr_Date t))) ts = Inr js
      \<and> list_all2 json_denotes js gs"
proof (induction ts arbitrary: gs)
  case (Cons t ts)
  then obtain g gs' where t: "transition_rule f t = Inr g" and ts: "collect (transition_rule f) ts = Inr gs'"
    and gs: "gs = g @ gs'"
    by (auto simp: res_bind_Inr_iff)
  from t obtain c where
    c: "set_created_before InvalidTransitionDate (Tr_Date t)
          (set_age (Tr_Days t) (applySDKFilter f zero_Condition)) = Inr c"
    and g: "g = [\<lparr>Lr_Action = \<lparr>La_Type = SetStorageClassAction,
                  La_StorageClass = mapStorageClass (Tr_StorageClass t)\<rparr>, Lr_Condition = c\<rparr>]"
    by (auto simp: transition_rule_def res_bind_Inr_iff)
  from json_aged_denotes [OF f c] obtain j where
    "json_rule \<lparr>Ja_Type = ''SetStorageClass'', Ja_StorageClass = mapStorageClass (Tr_StorageClass t)\<rparr>
       f zero_json_condition (set_json_age (Tr_Days t) (Tr_Date t)) = Inr [j]"
    "json_denotes j (hd g)"
    using g by (fastforce simp: json_action_def)
  with Cons.IH [OF ts] gs g show ?case by auto
qed simp

lemma json_translate_rule_denotes:
  assumes "translate_rule r = Inr gs"
  shows "\<exists>js. json_translate_rule r = Inr js \<and> list_all2 json_denotes js (filter not_abort gs)"
proof (cases "enabled r")
  case True
  from assms True obtain exps trans where
    f: "check_filter (R_Filter r) = None"
    and e: "expiration_rules (R_Filter r) (R_Expiration r) = Inr exps"
    and t: "transition_rules (R_Filter r) (R_Transitions r) = Inr trans"
    and gs: "gs = exps @ trans @ noncurrent_rules (R_Filter r) (R_NoncurrentVersionExpirations r)
            @ abort_rules (R_AbortIncompleteMultipartUpload r)"
    by (rule translate_rule_Inr)
  obtain je where je: "(case R_Expiration r of
             None \<Rightarrow> Inr []
           | Some e \<Rightarrow> json_rule \<lparr>Ja_Type = ''Delete'', Ja_StorageClass = []\<rparr> (R_Filter r)
                         zero_json_condition (set_json_age (Exp_Days e) (Exp_Date e))) = Inr je"
      "list_all2 json_denotes je exps"
  proof (cases "R_Expiration r")
    case (Some x)
    with e obtain c where "set_created_before InvalidExpirationDate (Exp_Date x)
          (set_age (Exp_Days x) (applySDKFilter (R_Filter r) zero_Condition)) = Inr c"
      "exps = [\<lparr>Lr_Action = delete_action, Lr_Condition = c\<rparr>]"
      by (auto simp: expiration_rules_def expiration_rule_def res_bind_Inr_iff)
    with json_aged_denotes [OF f this(1), of "\<lparr>Ja_Type = ''Delete'', Ja_StorageClass = []\<rparr>" delete_action]
    show ?thesis using Some that by (fastforce simp: json_action_def delete_action_def)
  qed (use e that in \<open>simp add: expiration_rules_def\<close>)
  obtain jt where jt: "collect (\<lambda>t. json_rule
        \<lparr>Ja_Type = ''SetStorageClass'', Ja_StorageClass = mapStorageClass (Tr_StorageClass t)\<rparr>
        (R_Filter r) zero_json_condition (set_json_age (Tr_Days t) (Tr_Date t))) (R_Transitions r) = Inr jt"
      "list_all2 json_denotes jt trans"
    using json_transitions_denote [OF f t [unfolded transition_rules_def]] by blast
  obtain jn where jn: "(case R_NoncurrentVersionExpirations r of
             None \<Rightarrow> Inr []
           | Some n \<Rightarrow> json_rule \<lparr>Ja_Type = ''Delete'', Ja_StorageClass = []\<rparr> (R_Filter r)
                         (zero_json_condition\<lparr>Jc_NumNewerVersions := Nve_NoncurrentDays n,
                                              Jc_IsLive := Some False\<rparr>) (\<lambda>c. c)) = Inr jn"
      "list_all2 json_denotes jn (noncurrent_rules (R_Filter r) (R_NoncurrentVersionExpirations r))"
    using json_noncurrent_denotes [OF f]
    by (cases "R_NoncurrentVersionExpirations r") (fastforce simp: noncurrent_rules_def)+
  have kept: "filter not_abort gs = exps @ trans
      @ noncurrent_rules (R_Filter r) (R_NoncurrentVersionExpirations r)"
  proof -
    have "list_all not_abort exps"
      using e by (auto simp: expiration_rules_def expiration_rule_def res_bind_Inr_iff not_abort_def
          delete_action_def split: option.splits)
    moreover have "list_all not_abort trans"
      using t unfolding transition_rules_def
      by (auto simp: list_all_iff transition_rule_def res_bind_Inr_iff not_abort_def
          dest!: collect_Inr_all)
    ultimately show ?thesis
      by (auto simp: gs filter_empty_conv noncurrent_rules_def abort_rules_def noncurrent_rule_def
          abort_rule_def not_abort_def delete_action_def Let_def list_all_iff split: option.splits)
  qed
  have "json_translate_rule r = Inr (je @ jt @ jn)"
    using True by (simp add: json_translate_rule_def enabled_def je(1) jt(1) jn(1))
  moreover have "list_all2 json_denotes (je @ jt @ jn) (filter not_abort gs)"
    unfolding kept using je(2) jt(2) jn(2) by (intro list_all2_appendI)
  ultimately show ?thesis by blast
next
  case False
  with assms show ?thesis by (simp add: translate_rule_def json_translate_rule_def enabled_def)
qed

lemma json_collect_denotes:
  "collect translate_rule rs = Inr gs \<Longrightarrow>
   \<exists>js. collect json_translate_rule rs = Inr js \<and> list_all2 json_denotes js (filter not_abort gs)"
proof (induction rs arbitrary: gs)
  case (Cons r rs)
  then obtain xs ys where "translate_rule r = Inr xs" "collect translate_rule rs = Inr ys" "gs = xs @ ys"
    by (auto simp: res_bind_Inr_iff)
  with json_translate_rule_denotes [of r xs] Cons.IH [of ys] show ?case
    by (auto simp: list_all2_appendI)
qed simp

end
