(* ===== verification/Go_Utf8.thy ===== *)
theory Go_Utf8
  imports Go_Strings
begin

text \<open>
  UTF-8 as package \<^verbatim>\<open>unicode/utf8\<close> decodes and encodes it, and the three operations
  built on it that the proxy uses: XML escaping, Go quoting (the \<^verbatim>\<open>%q\<close> verb) and
  \<^verbatim>\<open>strings.ToLower\<close>. The Unicode tables behind the last two (which runes above 127 are
  printable, and their lower case) are data of the Go library and a parameter here.
\<close>

definition byte_of :: "char \<Rightarrow> nat" where
  [simp]: "byte_of c = of_char c"

definition in_range :: "char \<Rightarrow> nat \<Rightarrow> nat \<Rightarrow> bool" where
  "in_range c lo hi \<longleftrightarrow> lo \<le> byte_of c \<and> byte_of c \<le> hi"

abbreviation rune_error :: nat where
  "rune_error \<equiv> 0xFFFD"

definition rune_error_bytes :: string where
  "rune_error_bytes = [CHR 0xEF, CHR 0xBF, CHR 0xBD]"

subsection \<open>Decoding\<close>

text \<open>The admissible range of the second byte, by the first one.\<close>

definition second_lo :: "nat \<Rightarrow> nat" where
  "second_lo b = (if b = 0xE0 then 0xA0 else if b = 0xF0 then 0x90 else 0x80)"

definition second_hi :: "nat \<Rightarrow> nat" where
  "second_hi b = (if b = 0xED then 0x9F else if b = 0xF4 then 0x8F else 0xBF)"

text \<open>\<^verbatim>\<open>utf8.DecodeRune\<close>: the rune and its width; an invalid byte is U+FFFD, width 1.\<close>

definition decode_rune :: "string \<Rightarrow> nat \<times> nat" where
  "decode_rune s =
     (case s of
        [] \<Rightarrow> (rune_error, 0)
      | c0 # s1 \<Rightarrow>
          let b0 = byte_of c0 in
          if b0 < 0x80 then (b0, 1)
          else if b0 < 0xC2 \<or> 0xF4 < b0 then (rune_error, 1)
          else (case s1 of
             [] \<Rightarrow> (rune_error, 1)
           | c1 # s2 \<Rightarrow>
               if \<not> in_range c1 (second_lo b0) (second_hi b0) then (rune_error, 1)
               else if b0 < 0xE0 then ((b0 - 0xC0) * 64 + (byte_of c1 - 0x80), 2)
               else (case s2 of
                  [] \<Rightarrow> (rune_error, 1)
                | c2 # s3 \<Rightarrow>
                    if \<not> in_range c2 0x80 0xBF then (rune_error, 1)
                    else if b0 < 0xF0
                    then ((b0 - 0xE0) * 4096 + (byte_of c1 - 0x80) * 64 + (byte_of c2 - 0x80), 3)
                    else (case s3 of
                       [] \<Rightarrow> (rune_error, 1)
                     | c3 # _ \<Rightarrow>
                         if \<not> in_range c3 0x80 0xBF then (rune_error, 1)
                         else ((b0 - 0xF0) * 262144 + (byte_of c1 - 0x80) * 4096
                               + (byte_of c2 - 0x80) * 64 + (byte_of c3 - 0x80), 4)))))"

lemma decode_rune_width:
  assumes "s \<noteq> []"
  shows "1 \<le> snd (decode_rune s)" and "snd (decode_rune s) \<le> length s"
  using assms by (auto simp: decode_rune_def Let_def split: list.splits)

text \<open>A rune of one byte is that byte, unless it is the error rune.\<close>

lemma decode_rune_ascii:
  assumes "s \<noteq> []" "decode_rune s = (r, 1)" "r \<noteq> rune_error"
  shows "r < 0x80" and "take 1 s = [char_of r]"
  using assms by (auto simp: decode_rune_def Let_def split: list.splits if_splits)

text \<open>All bytes of a longer encoding are above the ASCII range.\<close>

lemma decode_rune_multi:
  assumes "decode_rune s = (r, w)" "1 < w" "c \<in> set (take w s)"
  shows "0x80 \<le> byte_of c"
  using assms
  by (auto simp: decode_rune_def Let_def in_range_def second_lo_def
      split: list.splits if_splits)

subsection \<open>Encoding\<close>

definition valid_rune :: "nat \<Rightarrow> bool" where
  "valid_rune r \<longleftrightarrow> r < 0xD800 \<or> 0xDFFF < r \<and> r \<le> 0x10FFFF"

definition encode_rune :: "nat \<Rightarrow> string" where
  "encode_rune r =
     (if \<not> valid_rune r then rune_error_bytes
      else if r < 0x80 then [char_of r]
      else if r < 0x800 then [char_of (0xC0 + r div 64), char_of (0x80 + r mod 64)]
      else if r < 0x10000
      then [char_of (0xE0 + r div 4096), char_of (0x80 + r div 64 mod 64), char_of (0x80 + r mod 64)]
      else [char_of (0xF0 + r div 262144), char_of (0x80 + r div 4096 mod 64),
            char_of (0x80 + r div 64 mod 64), char_of (0x80 + r mod 64)])"

subsection \<open>Mapping over the runes of a string\<close>

text \<open>Go's \<^verbatim>\<open>for range\<close> over a string: \<open>f\<close> is given each rune and the bytes it was read from.\<close>

function flat_runes :: "(nat \<Rightarrow> string \<Rightarrow> string) \<Rightarrow> string \<Rightarrow> string" where
  "flat_runes f s =
     (if s = [] then []
      else let (r, w) = decode_rune s in f r (take w s) @ flat_runes f (drop w s))"
  by pat_completeness auto
termination
proof (relation "measure (\<lambda>(f, s). length s)")
  fix f :: "nat \<Rightarrow> string \<Rightarrow> string" and s x r w
  assume "s \<noteq> []" "x = decode_rune s" "(r, w) = x"
  moreover from this decode_rune_width [of s] have "1 \<le> w" "w \<le> length s"
    by (metis snd_conv)+
  ultimately show "((f, drop w s), f, s) \<in> measure (\<lambda>(f, s). length s)"
    by auto
qed simp

declare flat_runes.simps [simp del]

lemma flat_runes_Nil [simp]: "flat_runes f [] = []"
  by (simp add: flat_runes.simps)

lemma flat_runes_step:
  "s \<noteq> [] \<Longrightarrow> decode_rune s = (r, w) \<Longrightarrow>
     flat_runes f s = f r (take w s) @ flat_runes f (drop w s)"
  by (subst flat_runes.simps) simp

lemma flat_runes_induct [case_names Nil Step]:
  assumes "P []"
    and step: "\<And>s r w. s \<noteq> [] \<Longrightarrow> decode_rune s = (r, w) \<Longrightarrow> 1 \<le> w \<Longrightarrow> w \<le> length s \<Longrightarrow>
                 P (drop w s) \<Longrightarrow> P s"
  shows "P s"
proof (induction s rule: length_induct)
  case (1 s)
  show ?case
  proof (cases "s = []")
    case False
    obtain r w where rw: "decode_rune s = (r, w)" by fastforce
    with decode_rune_width [OF False] have w: "1 \<le> w" "w \<le> length s" by auto
    with False have "length (drop w s) < length s" by (cases s) auto
    with 1 have "P (drop w s)" by blast
    from step [OF False rw w this] show ?thesis .
  qed (use assms(1) in simp)
qed

lemma flat_runes_all:
  assumes "\<And>r w raw. decode_rune raw = (r, w) \<Longrightarrow> 1 \<le> w \<Longrightarrow> w \<le> length raw \<Longrightarrow>
             list_all P (f r (take w raw))"
  shows "list_all P (flat_runes f s)"
proof (induction s rule: flat_runes_induct)
  case (Step s r w)
  have "list_all P (f r (take w s))"
    by (rule assms) (use Step in auto)
  with Step(5) show ?case
    unfolding flat_runes_step [OF Step(1,2)] by simp
qed simp

text \<open>An ASCII string is mapped byte by byte.\<close>

lemma flat_runes_ascii:
  "list_all is_ascii s \<Longrightarrow> flat_runes f s = concat (map (\<lambda>c. f (byte_of c) [c]) s)"
proof (induction s)
  case (Cons c cs)
  then have "decode_rune (c # cs) = (byte_of c, 1)"
    by (simp add: decode_rune_def is_ascii_def)
  from flat_runes_step [OF _ this, of f] Cons show ?case by simp
qed simp

subsection \<open>XML escaping\<close>

definition xml_char :: "nat \<Rightarrow> bool" where
  "xml_char r \<longleftrightarrow> r = 9 \<or> r = 10 \<or> r = 13 \<or> 0x20 \<le> r \<and> r \<le> 0xD7FF
     \<or> 0xE000 \<le> r \<and> r \<le> 0xFFFD \<or> 0x10000 \<le> r \<and> r \<le> 0x10FFFF"

definition xml_escape_rune :: "nat \<Rightarrow> string \<Rightarrow> string" where
  "xml_escape_rune r raw =
     (if r = 34 then ''&#34;''
      else if r = 39 then ''&#39;''
      else if r = 38 then ''&amp;''
      else if r = 60 then ''&lt;''
      else if r = 62 then ''&gt;''
      else if r = 9 then ''&#x9;''
      else if r = 10 then ''&#xA;''
      else if r = 13 then ''&#xD;''
      else if \<not> xml_char r \<or> r = rune_error \<and> length raw = 1 then rune_error_bytes
      else raw)"

text \<open>\<^verbatim>\<open>xml.EscapeText\<close>\<close>

definition xml_escape :: "string \<Rightarrow> string" where
  "xml_escape s = flat_runes xml_escape_rune s"

text \<open>Escaped text holds none of the characters that delimit markup or attribute values.\<close>

definition markup_free :: "char \<Rightarrow> bool" where
  "markup_free c \<longleftrightarrow> c \<notin> set ''<>\"'' \<and> byte_of c \<noteq> 39"

lemma xml_escape_markup_free: "list_all markup_free (xml_escape s)"
  unfolding xml_escape_def
proof (rule flat_runes_all)
  fix r w :: nat and raw :: string
  assume dec: "decode_rune raw = (r, w)" and w: "1 \<le> w" "w \<le> length raw"
  show "list_all markup_free (xml_escape_rune r (take w raw))"
  proof (cases "w = 1")
    case True
    with w have "raw \<noteq> []" by auto
    with True dec have "r = rune_error \<or> r < 0x80 \<and> take w raw = [char_of r]"
      using decode_rune_ascii [of raw r] by auto
    with True w show ?thesis
      by (auto simp: xml_escape_rune_def markup_free_def rune_error_bytes_def
          char_of_eq_iff take_bit_nat_eq_self)
  next
    case False
    with w have "1 < w" by simp
    with dec have "list_all markup_free (take w raw)"
      using decode_rune_multi [of raw r w] by (fastforce simp: list_all_iff markup_free_def)
    then show ?thesis
      by (auto simp: xml_escape_rune_def markup_free_def rune_error_bytes_def)
  qed
qed

subsection \<open>Quoting and lower case\<close>

text \<open>The Unicode tables, for the runes above 127.\<close>

record unicode =
  uni_print :: "nat \<Rightarrow> bool"
  uni_lower :: "nat \<Rightarrow> nat"

definition hex_digit :: "nat \<Rightarrow> char" where
  "hex_digit d = (if d < 10 then char_of (48 + d) else char_of (87 + d))"

fun hex_fixed :: "nat \<Rightarrow> nat \<Rightarrow> string" where
  "hex_fixed 0 n = []"
| "hex_fixed (Suc k) n = hex_fixed k (n div 16) @ [hex_digit (n mod 16)]"

definition is_print :: "unicode \<Rightarrow> nat \<Rightarrow> bool" where
  "is_print u r = (if r < 128 then 32 \<le> r \<and> r < 127 else uni_print u r)"

definition quote_rune :: "unicode \<Rightarrow> nat \<Rightarrow> string \<Rightarrow> string" where
  "quote_rune u r raw =
     (if r = rune_error \<and> length raw = 1 then CHR 0x5C # ''x'' @ hex_fixed 2 (byte_of (hd raw))
      else if r = 34 \<or> r = 92 then [CHR 0x5C, char_of r]
      else if is_print u r then raw
      else if r = 7 then [CHR 0x5C, CHR ''a'']
      else if r = 8 then [CHR 0x5C, CHR ''b'']
      else if r = 12 then [CHR 0x5C, CHR ''f'']
      else if r = 10 then [CHR 0x5C, CHR ''n'']
      else if r = 13 then [CHR 0x5C, CHR ''r'']
      else if r = 9 then [CHR 0x5C, CHR ''t'']
      else if r = 11 then [CHR 0x5C, CHR ''v'']
      else if r < 32 \<or> r = 127 then CHR 0x5C # ''x'' @ hex_fixed 2 r
      else if r < 0x10000 then CHR 0x5C # ''u'' @ hex_fixed 4 r
      else CHR 0x5C # ''U'' @ hex_fixed 8 r)"

text \<open>\<^verbatim>\<open>strconv.Quote\<close>, the \<^verbatim>\<open>%q\<close> verb.\<close>

definition go_quote :: "unicode \<Rightarrow> string \<Rightarrow> string" where
  "go_quote u s = [CHR 34] @ flat_runes (quote_rune u) s @ [CHR 34]"

text \<open>\<^verbatim>\<open>strings.ToLower\<close>: bytewise on ASCII strings, rune by rune otherwise.\<close>

definition rune_lower :: "unicode \<Rightarrow> nat \<Rightarrow> nat" where
  "rune_lower u r =
     (if r < 128 then (if 65 \<le> r \<and> r \<le> 90 then r + 32 else r) else uni_lower u r)"

definition to_lower :: "unicode \<Rightarrow> string \<Rightarrow> string" where
  "to_lower u s =
     (if list_all is_ascii s then map ascii_lower s
      else flat_runes (\<lambda>r raw. if rune_lower u r = r \<and> \<not> (r = rune_error \<and> length raw = 1)
                               then raw else encode_rune (rune_lower u r)) s)"

end
