(* ===== verification/Go_Url.thy ===== *)
theory Go_Url
  imports Go_Utf8 "HOL-Library.Char_ord" "HOL-Library.List_Lexorder"
begin

text \<open>
  URLs and query strings as package \<^verbatim>\<open>net/url\<close> reads and writes them. \<^verbatim>\<open>url.Values\<close> is
  kept as the list of its (key, value) pairs in the order of the query string, from
  which Go's map of value lists is read off: the values of a key in order. The library's
  limit on the number of parameters (10000, in later patch releases) is not modelled.
\<close>

subsection \<open>Percent encoding of a query component\<close>

definition hex_val :: "char \<Rightarrow> nat option" where
  "hex_val c =
     (let n = byte_of c in
      if 48 \<le> n \<and> n \<le> 57 then Some (n - 48)
      else if 97 \<le> n \<and> n \<le> 102 then Some (n - 87)
      else if 65 \<le> n \<and> n \<le> 70 then Some (n - 55)
      else None)"

fun query_unescape :: "string \<Rightarrow> string option" where
  "query_unescape [] = Some []"
| "query_unescape (c # cs) =
     (if c = CHR ''%'' then
        (case cs of
           a # b # rest \<Rightarrow>
             (case (hex_val a, hex_val b) of
                (Some x, Some y) \<Rightarrow> map_option ((#) (char_of (16 * x + y))) (query_unescape rest)
              | _ \<Rightarrow> None)
         | _ \<Rightarrow> None)
      else map_option ((#) (if c = CHR ''+'' then CHR '' '' else c)) (query_unescape cs))"

definition unreserved :: "char \<Rightarrow> bool" where
  "unreserved c \<longleftrightarrow>
     (let n = byte_of c in 48 \<le> n \<and> n \<le> 57 \<or> 65 \<le> n \<and> n \<le> 90 \<or> 97 \<le> n \<and> n \<le> 122)
     \<or> c \<in> set ''-_.~''"

definition hex_upper :: "nat \<Rightarrow> char" where
  "hex_upper d = (if d < 10 then char_of (48 + d) else char_of (55 + d))"

definition escape_char :: "char \<Rightarrow> string" where
  "escape_char c =
     (if unreserved c then [c]
      else if c = CHR '' '' then ''+''
      else [CHR ''%'', hex_upper (byte_of c div 16), hex_upper (byte_of c mod 16)])"

definition query_escape :: "string \<Rightarrow> string" where
  "query_escape s = concat (map escape_char s)"

subsection \<open>Query strings\<close>

type_synonym url_values = "(string \<times> string) list"

definition cut_byte :: "char \<Rightarrow> string \<Rightarrow> string \<times> string" where
  "cut_byte c s = (case index_byte s c of None \<Rightarrow> (s, []) | Some i \<Rightarrow> (take i s, drop (Suc i) s))"

text \<open>One segment between two ampersands; a malformed or empty one is skipped.\<close>

definition parse_segment :: "string \<Rightarrow> (string \<times> string) option" where
  "parse_segment seg =
     (if CHR '';'' \<in> set seg \<or> seg = [] then None
      else let (k, v) = cut_byte (CHR ''='') seg in
        (case query_unescape k of
           None \<Rightarrow> None
         | Some k' \<Rightarrow> (case query_unescape v of None \<Rightarrow> None | Some v' \<Rightarrow> Some (k', v'))))"

definition parse_query :: "string \<Rightarrow> url_values" where
  "parse_query q = List.map_filter parse_segment (split_byte (CHR ''&'') q)"

definition values_get :: "url_values \<Rightarrow> string \<Rightarrow> string" where
  "values_get vs k = (case map_of vs k of None \<Rightarrow> [] | Some v \<Rightarrow> v)"

definition values_has :: "url_values \<Rightarrow> string \<Rightarrow> bool" where
  "values_has vs k \<longleftrightarrow> k \<in> set (map fst vs)"

definition values_del :: "url_values \<Rightarrow> string \<Rightarrow> url_values" where
  "values_del vs k = filter (\<lambda>p. fst p \<noteq> k) vs"

definition encode_pair :: "string \<times> string \<Rightarrow> string" where
  "encode_pair p = query_escape (fst p) @ ''='' @ query_escape (snd p)"

definition values_encode :: "url_values \<Rightarrow> string" where
  "values_encode vs = join_str ''&'' (map encode_pair (sort_key fst vs))"

subsection \<open>Escaping and unescaping are inverse\<close>

lemma byte_of_less: "byte_of c < 256"
  by simp

lemma char_of_byte_of [simp]: "char_of (byte_of c) = c"
  by simp

lemma hex_val_upper: "d < 16 \<Longrightarrow> hex_val (hex_upper d) = Some d"
  by (auto simp: hex_val_def hex_upper_def Let_def take_bit_nat_eq_self)

lemma query_unescape_escape_char:
  "query_unescape (escape_char c @ s) = map_option ((#) c) (query_unescape s)"
proof (cases "unreserved c \<or> c = CHR '' ''")
  case True
  then show ?thesis by (auto simp: escape_char_def unreserved_def)
next
  case False
  have "byte_of c < 256" by (rule byte_of_less)
  then have "byte_of c div 16 < 16" by (simp add: less_mult_imp_div_less)
  then show ?thesis
    using False hex_val_upper [of "byte_of c div 16"] hex_val_upper [of "byte_of c mod 16"]
    by (simp add: escape_char_def del: byte_of_def)
qed

lemma query_unescape_escape: "query_unescape (query_escape s) = Some s"
  by (induction s) (simp_all add: query_escape_def query_unescape_escape_char)

definition separator_free :: "char \<Rightarrow> bool" where
  "separator_free c \<longleftrightarrow> c \<notin> set ''&=;''"

lemma hex_upper_separator_free: "d < 16 \<Longrightarrow> separator_free (hex_upper d)"
  by (auto simp: hex_upper_def separator_free_def take_bit_nat_eq_self
      dest!: arg_cong [where f = "of_char :: char \<Rightarrow> nat"])

lemma query_escape_separator_free: "list_all separator_free (query_escape s)"
proof (induction s)
  case (Cons c s)
  have "byte_of c < 256" by (rule byte_of_less)
  then have "byte_of c div 16 < 16" by (simp add: less_mult_imp_div_less)
  then have "list_all separator_free (escape_char c)"
    by (auto simp: escape_char_def hex_upper_separator_free)
      (auto simp: separator_free_def unreserved_def)
  with Cons show ?case by (simp add: query_escape_def)
qed (simp add: query_escape_def)

subsection \<open>Segments\<close>

lemma split_byte_nonempty [simp]: "split_byte c s \<noteq> []"
  by (cases s) (auto split: list.splits)

lemma split_byte_step:
  "split_byte c s = (case index_byte s c of None \<Rightarrow> [s] | Some i \<Rightarrow> take i s # split_byte c (drop (Suc i) s))"
  by (induction s) (auto split: option.splits list.splits)

lemma split_byte_append:
  "c \<notin> set x \<Longrightarrow> split_byte c (x @ c # s) = x # split_byte c s"
  by (induction x) auto

lemma split_byte_single: "c \<notin> set x \<Longrightarrow> split_byte c x = [x]"
  by (induction x) auto

lemma split_byte_free: "x \<in> set (split_byte c s) \<Longrightarrow> c \<notin> set x"
  by (induction s arbitrary: x) (auto split: list.splits if_splits)

lemma split_byte_join:
  "xs \<noteq> [] \<Longrightarrow> (\<And>x. x \<in> set xs \<Longrightarrow> c \<notin> set x) \<Longrightarrow> split_byte c (join_str [c] xs) = xs"
  by (induction "[c]" xs rule: join_str.induct) (auto simp: split_byte_append split_byte_single)

lemma join_split_byte: "join_str [c] (split_byte c s) = s"
proof (induction s)
  case (Cons x xs)
  then show ?case
    by (cases "split_byte c xs"; cases "tl (split_byte c xs)") auto
qed simp

lemma index_byte_append:
  "c \<notin> set x \<Longrightarrow> index_byte (x @ c # s) c = Some (length x)"
  by (induction x) auto

lemma index_byte_None_iff: "index_byte s c = None \<longleftrightarrow> c \<notin> set s"
  by (induction s) auto

lemma index_byte_Some:
  "index_byte s c = Some i \<Longrightarrow> i < length s \<and> s ! i = c \<and> c \<notin> set (take i s)"
  by (induction s arbitrary: i) (auto split: if_splits)

lemma index_byte_cut:
  "index_byte s c = Some i \<Longrightarrow> s = take i s @ c # drop (Suc i) s"
  using index_byte_Some [of s c i] by (auto simp: id_take_nth_drop)

lemma cut_byte_append: "c \<notin> set x \<Longrightarrow> cut_byte c (x @ c # s) = (x, s)"
  by (simp add: cut_byte_def index_byte_append)

lemma parse_segment_encoded: "parse_segment (encode_pair p) = Some p"
proof -
  have "CHR ''='' \<notin> set (query_escape k)" "CHR '';'' \<notin> set (query_escape k)" for k
    using query_escape_separator_free [of k]
    by (auto simp: list_all_iff separator_free_def)
  then show ?thesis
    by (simp add: encode_pair_def parse_segment_def cut_byte_append query_unescape_escape)
qed

lemma encode_pair_no_amp: "CHR ''&'' \<notin> set (encode_pair p)"
  using query_escape_separator_free [of "fst p"] query_escape_separator_free [of "snd p"]
  by (auto simp: encode_pair_def list_all_iff separator_free_def)

lemma map_filter_encoded: "List.map_filter parse_segment (map encode_pair ps) = ps"
  by (induction ps) (simp_all add: parse_segment_encoded)

text \<open>Reading an encoded query gives its pairs back, sorted by key (stably).\<close>

lemma parse_query_encode: "parse_query (values_encode vs) = sort_key fst vs"
proof (cases "vs = []")
  case True
  then show ?thesis
    by (simp add: parse_query_def values_encode_def parse_segment_def)
next
  case False
  then have "map encode_pair (sort_key fst vs) \<noteq> []"
    by (metis length_0_conv length_map length_sort)
  then have "split_byte (CHR ''&'') (values_encode vs) = map encode_pair (sort_key fst vs)"
    unfolding values_encode_def by (rule split_byte_join) (auto simp: encode_pair_no_amp)
  then show ?thesis by (simp add: parse_query_def map_filter_encoded)
qed

lemma values_get_del: "k \<noteq> k' \<Longrightarrow> values_get (values_del vs k') k = values_get vs k"
  by (induction vs) (auto simp: values_get_def values_del_def)

lemma values_has_del: "values_has (values_del vs k') k \<longleftrightarrow> k \<noteq> k' \<and> values_has vs k"
  by (auto simp: values_has_def values_del_def)

text \<open>Sorting by key changes neither a lookup nor the values of a key.\<close>

lemma filter_sort_key: "filter (\<lambda>p. fst p = k) (sort_key fst vs) = filter (\<lambda>p. fst p = k) vs"
  using sort_key_stable [of fst k vs] by simp

lemma map_of_filter_fst: "map_of vs k = map_of (filter (\<lambda>p. fst p = k) vs) k"
  by (induction vs) auto

lemma values_get_sort: "values_get (sort_key fst vs) k = values_get vs k"
  by (metis filter_sort_key map_of_filter_fst values_get_def)

lemma values_has_sort: "values_has (sort_key fst vs) k = values_has vs k"
  by (simp add: values_has_def)

subsection \<open>URLs\<close>

record url =
  url_scheme :: string
  url_host :: string
  url_path :: string
  url_rawpath :: string
  url_rawquery :: string

definition url_query :: "url \<Rightarrow> url_values" where
  "url_query u = parse_query (url_rawquery u)"

end
