(* ===== verification/Go_Http.thy ===== *)
theory Go_Http
  imports Go_Url
begin

text \<open>
  The parts of package \<^verbatim>\<open>net/http\<close> the proxy relies on: canonical header keys, the
  request it is given, and the response writer, whose status and header are fixed by
  the first \<^verbatim>\<open>WriteHeader\<close> (or the first \<^verbatim>\<open>Write\<close>, with status 200). The locale at the
  end is the contract of the three wrappers of the response writer in the code.
\<close>

subsection \<open>Headers\<close>

definition token_char :: "char \<Rightarrow> bool" where
  "token_char c \<longleftrightarrow>
     (let n = byte_of c in 48 \<le> n \<and> n \<le> 57 \<or> 65 \<le> n \<and> n \<le> 90 \<or> 97 \<le> n \<and> n \<le> 122
        \<or> n \<in> {33, 35, 36, 37, 38, 39, 42, 43, 45, 46, 94, 95, 96, 124, 126})"

fun canon_from :: "bool \<Rightarrow> string \<Rightarrow> string" where
  "canon_from up [] = []"
| "canon_from up (c # cs) =
     (if up then ascii_upper c else ascii_lower c) # canon_from (c = CHR ''-'') cs"

text \<open>\<^verbatim>\<open>textproto.CanonicalMIMEHeaderKey\<close>\<close>

definition canonical :: "string \<Rightarrow> string" where
  "canonical k = (if list_all token_char k then canon_from True k else k)"

type_synonym header = "string \<Rightarrow> string list option"

definition hdr_get :: "header \<Rightarrow> string \<Rightarrow> string" where
  "hdr_get h k = (case h (canonical k) of Some (v # _) \<Rightarrow> v | _ \<Rightarrow> [])"

definition hdr_set :: "string \<Rightarrow> string \<Rightarrow> header \<Rightarrow> header" where
  "hdr_set k v h = h(canonical k \<mapsto> [v])"

definition hdr_del :: "string \<Rightarrow> header \<Rightarrow> header" where
  "hdr_del k h = h(canonical k := None)"

definition add_headers :: "header \<Rightarrow> header \<Rightarrow> header" where
  "add_headers new h =
     (\<lambda>k. case new k of None \<Rightarrow> h k
        | Some vs \<Rightarrow> if vs = [] then h k else Some ((case h k of None \<Rightarrow> [] | Some us \<Rightarrow> us) @ vs))"

lemma hdr_get_set: "hdr_get (hdr_set k v h) k' = (if canonical k = canonical k' then v else hdr_get h k')"
  by (simp add: hdr_get_def hdr_set_def)

lemma hdr_get_del: "hdr_get (hdr_del k h) k' = (if canonical k = canonical k' then [] else hdr_get h k')"
  by (simp add: hdr_get_def hdr_del_def)

lemma hdr_get_empty [simp]: "hdr_get Map.empty k = []"
  by (simp add: hdr_get_def)

text \<open>A key is looked up without regard to case.\<close>

lemma ascii_case_idem [simp]:
  "ascii_lower (ascii_lower c) = ascii_lower c" "ascii_upper (ascii_lower c) = ascii_upper c"
  "ascii_lower (ascii_upper c) = ascii_lower c" "ascii_upper (ascii_upper c) = ascii_upper c"
  by (auto simp: ascii_lower_def ascii_upper_def Let_def take_bit_nat_eq_self)

subsection \<open>Requests\<close>

text \<open>What reading the body yields: its bytes, and whether the read then fails.\<close>

record req_body =
  body_bytes :: bytes
  body_fails :: bool

record credentials =
  AccessKeyID :: string
  SecretAccessKey :: string

text \<open>
  \<open>req_creds\<close> is the value stored under \<^verbatim>\<open>resolvedCredsKey\<close> in the request's context,
  \<open>req_id\<close> the one of chi's \<^verbatim>\<open>RequestID\<close> middleware; \<open>req_uri\<close> is \<^verbatim>\<open>URL.RequestURI()\<close>.
\<close>

record request =
  req_method :: string
  req_host :: string
  req_url :: url
  req_uri :: string
  req_header :: header
  req_body :: "req_body option"
  req_content_length :: int64
  req_remote_addr :: string
  req_id :: string
  req_creds :: "credentials option"

subsection \<open>The response writer\<close>

record response =
  rw_header :: header
  rw_sent :: "(int \<times> header) option"
  rw_body :: bytes

definition empty_response :: response where
  "empty_response = \<lparr>rw_header = Map.empty, rw_sent = None, rw_body = []\<rparr>"

definition set_header :: "string \<Rightarrow> string \<Rightarrow> response \<Rightarrow> response" where
  "set_header k v w = w\<lparr>rw_header := hdr_set k v (rw_header w)\<rparr>"

text \<open>An informational status is sent on, but does not fix the response.\<close>

definition informational :: "int \<Rightarrow> bool" where
  [simp]: "informational code \<longleftrightarrow> 100 \<le> code \<and> code \<le> 199 \<and> code \<noteq> 101"

definition write_header :: "int \<Rightarrow> response \<Rightarrow> response" where
  "write_header code w =
     (if informational code then w
      else (case rw_sent w of None \<Rightarrow> w\<lparr>rw_sent := Some (code, rw_header w)\<rparr> | Some _ \<Rightarrow> w))"

definition write_body :: "bytes \<Rightarrow> response \<Rightarrow> response" where
  "write_body b w = (let w' = write_header 200 w in w'\<lparr>rw_body := rw_body w' @ b\<rparr>)"

text \<open>The status the client sees: a handler that writes nothing is answered with 200.\<close>

definition final_status :: "response \<Rightarrow> int" where
  "final_status w = (case rw_sent w of None \<Rightarrow> 200 | Some (c, _) \<Rightarrow> c)"

definition final_header :: "response \<Rightarrow> header" where
  "final_header w = (case rw_sent w of None \<Rightarrow> rw_header w | Some (_, h) \<Rightarrow> h)"

lemma sent_simps [simp, writer_simps]:
  "rw_sent (set_header k v w) = rw_sent w"
  "rw_sent (write_header c w) =
     (if informational c then rw_sent w else case rw_sent w of None \<Rightarrow> Some (c, rw_header w) | s \<Rightarrow> s)"
  "rw_sent (write_body b w) = (case rw_sent w of None \<Rightarrow> Some (200, rw_header w) | s \<Rightarrow> s)"
  by (auto simp: set_header_def write_header_def write_body_def Let_def split: option.splits)

lemma body_simps [simp, writer_simps]:
  "rw_body (set_header k v w) = rw_body w"
  "rw_body (write_header c w) = rw_body w"
  "rw_body (write_body b w) = rw_body w @ b"
  by (auto simp: set_header_def write_header_def write_body_def Let_def split: option.splits)

lemma header_simps [simp, writer_simps]:
  "rw_header (set_header k v w) = hdr_set k v (rw_header w)"
  "rw_header (write_header c w) = rw_header w"
  "rw_header (write_body b w) = rw_header w"
  by (auto simp: set_header_def write_header_def write_body_def Let_def split: option.splits)

lemma empty_response_simps [simp]:
  "rw_sent empty_response = None" "rw_body empty_response = []"
  "rw_header empty_response = Map.empty"
  by (simp_all add: empty_response_def)

lemma final_status_sent: "rw_sent w = Some (c, h) \<Longrightarrow> final_status w = c"
  by (simp add: final_status_def)

subsection \<open>The contract of a status-recording wrapper\<close>

text \<open>
  What the handlers do with a writer, as data: set a header, add the headers of another
  message (\<^verbatim>\<open>copyHeader\<close> of the reverse proxy), clear the header map, send a status,
  write bytes.
\<close>

datatype writer_op =
    OpHeader string string | OpAddHeaders header | OpClearHeaders | OpStatus int | OpWrite bytes

fun run_op :: "writer_op \<Rightarrow> response \<Rightarrow> response" where
  "run_op (OpHeader k v) w = set_header k v w"
| "run_op (OpAddHeaders h) w = w\<lparr>rw_header := add_headers h (rw_header w)\<rparr>"
| "run_op OpClearHeaders w = w\<lparr>rw_header := Map.empty\<rparr>"
| "run_op (OpStatus c) w = write_header c w"
| "run_op (OpWrite b) w = write_body b w"

definition run_ops :: "writer_op list \<Rightarrow> response \<Rightarrow> response" where
  "run_ops ops w = fold run_op ops w"

lemma run_ops_simps [simp]:
  "run_ops [] w = w" "run_ops (x # xs) w = run_ops xs (run_op x w)"
  "run_ops (xs @ ys) w = run_ops ys (run_ops xs w)"
  by (simp_all add: run_ops_def)

text \<open>
  A wrapper records a status and passes every call on. The laws are about handlers that
  send no informational status, and the basic ones about writers to which nothing was
  sent yet; \<open>strict_status_writer\<close> adds that later calls do not change the record either.
\<close>

definition final_op :: "writer_op \<Rightarrow> bool" where
  "final_op x \<longleftrightarrow> (case x of OpStatus c \<Rightarrow> \<not> informational c | _ \<Rightarrow> True)"

lemma final_op_simps [simp]:
  "final_op (OpHeader k v)" "final_op (OpWrite b)" "final_op (OpAddHeaders h)" "final_op OpClearHeaders" "final_op (OpStatus c) \<longleftrightarrow> \<not> informational c"
  by (simp_all add: final_op_def)

text \<open>A handler that sends at most one status, and that before any byte of the body.\<close>

definition header_op :: "writer_op \<Rightarrow> bool" where
  "header_op x \<longleftrightarrow> (case x of OpHeader _ _ \<Rightarrow> True | OpAddHeaders _ \<Rightarrow> True | OpClearHeaders \<Rightarrow> True | _ \<Rightarrow> False)"

definition status_op :: "writer_op \<Rightarrow> bool" where
  "status_op x \<longleftrightarrow> (case x of OpStatus _ \<Rightarrow> True | _ \<Rightarrow> False)"

fun plain_run :: "writer_op list \<Rightarrow> bool" where
  "plain_run [] = True"
| "plain_run (OpStatus c # xs) = (\<not> informational c \<and> list_all (\<lambda>x. \<not> status_op x) xs)"
| "plain_run (OpWrite b # xs) = list_all (\<lambda>x. \<not> status_op x) xs"
| "plain_run (x # xs) = plain_run xs"

lemma op_simps [simp]:
  "header_op (OpHeader k v)" "header_op (OpAddHeaders h)" "header_op OpClearHeaders"
  "\<not> header_op (OpStatus c)" "\<not> header_op (OpWrite b)"
  "\<not> status_op (OpHeader k v)" "\<not> status_op (OpAddHeaders h)" "\<not> status_op OpClearHeaders"
  "status_op (OpStatus c)" "\<not> status_op (OpWrite b)"
  by (simp_all add: header_op_def status_op_def)

lemma plain_run_headers: "list_all header_op pre \<Longrightarrow> plain_run (pre @ xs) = plain_run xs"
proof (induction pre)
  case (Cons x pre)
  then show ?case by (cases x) simp_all
qed simp

lemma no_status_final: "list_all (\<lambda>x. \<not> status_op x) xs \<Longrightarrow> list_all final_op xs"
  by (fastforce simp: list_all_iff final_op_def status_op_def split: writer_op.splits)

lemma plain_run_final: "plain_run ops \<Longrightarrow> list_all final_op ops"
  by (induction ops rule: plain_run.induct) (simp_all add: no_status_final)

locale status_writer =
  fixes wrap :: "response \<Rightarrow> 'w"
    and inner :: "'w \<Rightarrow> response"
    and status_of :: "'w \<Rightarrow> int"
    and do_op :: "writer_op \<Rightarrow> 'w \<Rightarrow> 'w"
    and wf :: "'w \<Rightarrow> bool"
  assumes wf_wrap: "rw_sent w = None \<Longrightarrow> wf (wrap w)"
    and wf_op: "wf v \<Longrightarrow> final_op x \<Longrightarrow> wf (do_op x v)"
    and inner_wrap: "inner (wrap w) = w"
    and status_wrap: "status_of (wrap w) = 200"
    and inner_op: "wf v \<Longrightarrow> final_op x \<Longrightarrow> inner (do_op x v) = run_op x (inner v)"
    and status_first: "wf v \<Longrightarrow> rw_sent (inner v) = None \<Longrightarrow> \<not> informational c \<Longrightarrow>
      status_of (do_op (OpStatus c) v) = c"
    and status_other: "wf v \<Longrightarrow> \<forall>c. x \<noteq> OpStatus c \<Longrightarrow> status_of (do_op x v) = status_of v"
begin

definition do_ops :: "writer_op list \<Rightarrow> 'w \<Rightarrow> 'w" where
  "do_ops ops v = fold do_op ops v"

lemma do_ops_simps [simp]:
  "do_ops [] v = v" "do_ops (x # xs) v = do_ops xs (do_op x v)"
  "do_ops (xs @ ys) v = do_ops ys (do_ops xs v)"
  by (simp_all add: do_ops_def)

lemma wf_do_ops: "wf v \<Longrightarrow> list_all final_op ops \<Longrightarrow> wf (do_ops ops v)"
  by (induction ops arbitrary: v) (simp_all add: wf_op)

lemma inner_do_ops: "wf v \<Longrightarrow> list_all final_op ops \<Longrightarrow> inner (do_ops ops v) = run_ops ops (inner v)"
  by (induction ops arbitrary: v) (simp_all add: run_ops_def inner_op wf_op)

lemma status_no_header:
  "wf v \<Longrightarrow> \<forall>c. OpStatus c \<notin> set ops \<Longrightarrow> status_of (do_ops ops v) = status_of v"
proof (induction ops arbitrary: v)
  case (Cons x xs)
  then have x: "\<forall>c. x \<noteq> OpStatus c" by auto
  then have "final_op x" by (cases x) auto
  with Cons x show ?case by (simp add: wf_op status_other)
qed simp

text \<open>A handler that sends one status, before any byte of the body, has it recorded.\<close>

lemma status_single:
  assumes "rw_sent (run_ops pre w) = None" "rw_sent w = None" "list_all final_op pre" "\<not> informational c"
    and "\<forall>c. OpStatus c \<notin> set post"
  shows "status_of (do_ops (pre @ OpStatus c # post) (wrap w)) = c"
proof -
  let ?v = "do_ops pre (wrap w)"
  have wf: "wf ?v" by (simp add: wf_do_ops wf_wrap assms(2,3))
  have "rw_sent (inner ?v) = None"
    using assms(1-3) by (simp add: inner_do_ops inner_wrap wf_wrap)
  then have "status_of (do_op (OpStatus c) ?v) = c"
    using status_first [OF wf] assms(4) by blast
  moreover have "wf (do_op (OpStatus c) ?v)"
    using wf_op [OF wf] assms(4) by simp
  ultimately show ?thesis
    using status_no_header assms(5) by simp
qed

end

text \<open>A strict wrapper keeps its record once something was sent.\<close>

locale strict_status_writer = status_writer +
  assumes status_later: "wf v \<Longrightarrow> rw_sent (inner v) \<noteq> None \<Longrightarrow> status_of (do_op x v) = status_of v"
    and status_unsent: "wf v \<Longrightarrow> rw_sent (inner v) = None \<Longrightarrow> status_of v = 200"
begin

lemma in_step_op:
  "wf v \<Longrightarrow> final_op x \<Longrightarrow> status_of v = final_status (inner v) \<Longrightarrow>
   status_of (do_op x v) = final_status (inner (do_op x v))"
  using status_unsent [of v] status_first [of v] status_other [of v x] status_later [of v x]
  by (cases x; cases "rw_sent (inner v)") (auto simp: inner_op final_status_def)

lemma in_step_ops:
  "wf v \<Longrightarrow> list_all final_op ops \<Longrightarrow> status_of v = final_status (inner v) \<Longrightarrow>
   status_of (do_ops ops v) = final_status (inner (do_ops ops v))"
  by (induction ops arbitrary: v) (simp_all add: in_step_op wf_op)

text \<open>Whatever the handler does, the record is the status the client is sent.\<close>

lemma status_sent:
  assumes "rw_sent w = None" "list_all final_op ops"
  shows "status_of (do_ops ops (wrap w)) = final_status (run_ops ops w)"
proof -
  have "status_of (wrap w) = final_status (inner (wrap w))"
    using assms by (simp add: inner_wrap status_wrap final_status_def)
  from in_step_ops [OF wf_wrap [OF assms(1)] assms(2) this]
  show ?thesis by (simp add: inner_do_ops wf_wrap assms inner_wrap)
qed

end

end
