(* ===== verification/Metrics.thy ===== *)
theory Metrics
  imports Go_Http
begin

text \<open>
  \<^verbatim>\<open>pkg/metrics/metrics.go\<close>: the labels, the counting response writer and the
  middleware \<^verbatim>\<open>WithMetrics\<close>. What is recorded is a list of events, one per call on a
  Prometheus collector; durations are not modelled.
\<close>

subsection \<open>Labels\<close>

definition ClassifyGCSError :: "int \<Rightarrow> string" where
  "ClassifyGCSError code =
     (if code = 429 then ''429''
      else if 500 \<le> code \<and> code < 600 then ''5xx''
      else if 400 \<le> code \<and> code < 500 then ''4xx''
      else [])"

definition controlPlaneQueryKeys :: "string list" where
  "controlPlaneQueryKeys = [''lifecycle'', ''cors'', ''logging'', ''website'', ''tagging'']"

definition seg_name :: "string \<Rightarrow> string" where
  "seg_name seg = (case index_byte seg (CHR ''='') of None \<Rightarrow> seg | Some i \<Rightarrow> take i seg)"

function hasQueryKey :: "string \<Rightarrow> string \<Rightarrow> bool" where
  "hasQueryKey rawQuery key \<longleftrightarrow>
     (if rawQuery = [] then False
      else let (seg, rest) = (case index_byte rawQuery (CHR ''&'') of
                                None \<Rightarrow> (rawQuery, [])
                              | Some i \<Rightarrow> (take i rawQuery, drop (Suc i) rawQuery))
      in if seg_name seg = key then True else hasQueryKey rest key)"
  by pat_completeness auto
termination
  by (relation "measure (\<lambda>(q, _). length q)") (auto split: option.splits)

declare hasQueryKey.simps [simp del]

definition path_label :: "string \<Rightarrow> string \<Rightarrow> string" where
  "path_label method trimmed =
     (let hasBucket = (trimmed \<noteq> []); hasKey = (hasBucket \<and> contains_str trimmed ''/'') in
      if method = ''PUT'' then (if hasBucket \<and> hasKey then ''put_object'' else ''other'')
      else if method = ''GET'' then
        (if hasKey then ''get_object'' else if hasBucket then ''list_objects'' else ''list'')
      else if method = ''DELETE'' then ''delete_object''
      else if method = ''HEAD'' then ''head_object''
      else ''other'')"

definition query_label :: "string \<Rightarrow> string \<Rightarrow> string option" where
  "query_label method query =
     (if query = [] then None
      else (case find (hasQueryKey query) controlPlaneQueryKeys of
         Some key \<Rightarrow> Some key
       | None \<Rightarrow>
           if hasQueryKey query ''delete'' \<and> method = ''POST'' then Some ''delete_objects''
           else if hasQueryKey query ''restore'' \<and> method = ''POST'' then Some ''restore_object''
           else None))"

definition classifyEndpoint :: "string \<Rightarrow> string \<Rightarrow> string" where
  "classifyEndpoint method rawPath =
     (let (path, query) = (case index_byte rawPath (CHR ''?'') of
                             None \<Rightarrow> (rawPath, [])
                           | Some i \<Rightarrow> (take i rawPath, drop (Suc i) rawPath));
          trimmed = trim_byte path (CHR ''/'')
      in if trimmed \<in> set [''health'', ''readyz'', ''metrics''] then ''other''
         else (case query_label method query of
                 Some l \<Rightarrow> l | None \<Rightarrow> path_label method trimmed))"

text \<open>The labels form a fixed set, whatever a client sends.\<close>

definition endpoint_labels :: "string list" where
  "endpoint_labels = controlPlaneQueryKeys @
     [''delete_objects'', ''restore_object'', ''put_object'', ''get_object'', ''list_objects'', ''list'',
      ''delete_object'', ''head_object'', ''other'']"

lemma find_mem: "find P xs = Some x \<Longrightarrow> x \<in> set xs"
  by (auto simp: find_Some_iff)

lemma query_label_range: "query_label method query = Some l \<Longrightarrow> l \<in> set endpoint_labels"
  by (auto simp: query_label_def endpoint_labels_def dest: find_mem split: if_splits option.splits)

lemma path_label_range: "path_label method trimmed \<in> set endpoint_labels"
  by (simp add: path_label_def endpoint_labels_def Let_def)

lemma classifyEndpoint_range: "classifyEndpoint method rawPath \<in> set endpoint_labels"
proof -
  have "''other'' \<in> set endpoint_labels" by (simp add: endpoint_labels_def)
  then show ?thesis
    unfolding classifyEndpoint_def
    by (auto simp: path_label_range Let_def dest: query_label_range split: prod.split option.split)
qed

text \<open>The scan is the search for a segment with this name.\<close>

lemma hasQueryKey_segments:
  assumes "key \<noteq> []"
  shows "hasQueryKey q key \<longleftrightarrow> (\<exists>seg\<in>set (split_byte (CHR ''&'') q). seg_name seg = key)"
proof (induction q rule: length_induct)
  case (1 q)
  have nil: "seg_name [] \<noteq> key" using assms by (simp add: seg_name_def)
  show ?case
  proof (cases "q = []")
    case True
    then show ?thesis using nil by (simp add: hasQueryKey.simps)
  next
    case False
    show ?thesis
    proof (cases "index_byte q (CHR ''&'')")
      case None
      then have "hasQueryKey q key \<longleftrightarrow> seg_name q = key"
        using False by (subst hasQueryKey.simps) (simp add: hasQueryKey.simps [of "[]"])
      with None show ?thesis by (simp add: split_byte_step [of _ q])
    next
      case (Some i)
      have "length (drop (Suc i) q) < length q" using False by (cases q) auto
      with 1 have "hasQueryKey (drop (Suc i) q) key \<longleftrightarrow>
          (\<exists>seg\<in>set (split_byte (CHR ''&'') (drop (Suc i) q)). seg_name seg = key)" by blast
      moreover have "hasQueryKey q key \<longleftrightarrow> seg_name (take i q) = key \<or> hasQueryKey (drop (Suc i) q) key"
        using False Some by (subst hasQueryKey.simps) simp
      ultimately show ?thesis using Some by (simp add: split_byte_step [of _ q])
    qed
  qed
qed

subsection \<open>The counting response writer\<close>

record countingResponseWriter =
  cw_inner :: response
  cw_status :: int
  cw_bytes :: int
  cw_wroteHeader :: bool

definition cw_wrap :: "response \<Rightarrow> countingResponseWriter" where
  "cw_wrap w = \<lparr>cw_inner = w, cw_status = 200, cw_bytes = 0, cw_wroteHeader = False\<rparr>"

definition cw_WriteHeader :: "int \<Rightarrow> countingResponseWriter \<Rightarrow> countingResponseWriter" where
  "cw_WriteHeader code w =
     (if cw_wroteHeader w then w
      else w\<lparr>cw_status := code, cw_wroteHeader := True, cw_inner := write_header code (cw_inner w)\<rparr>)"

definition cw_Write :: "bytes \<Rightarrow> countingResponseWriter \<Rightarrow> countingResponseWriter" where
  "cw_Write b w =
     (let w1 = (if cw_wroteHeader w then w else w\<lparr>cw_status := 200, cw_wroteHeader := True\<rparr>) in
      w1\<lparr>cw_inner := write_body b (cw_inner w1), cw_bytes := cw_bytes w1 + int (length b)\<rparr>)"

fun cw_op :: "writer_op \<Rightarrow> countingResponseWriter \<Rightarrow> countingResponseWriter" where
  "cw_op (OpHeader k v) w = w\<lparr>cw_inner := set_header k v (cw_inner w)\<rparr>"
| "cw_op (OpAddHeaders h) w = w\<lparr>cw_inner := run_op (OpAddHeaders h) (cw_inner w)\<rparr>"
| "cw_op OpClearHeaders w = w\<lparr>cw_inner := run_op OpClearHeaders (cw_inner w)\<rparr>"
| "cw_op (OpStatus c) w = cw_WriteHeader c w"
| "cw_op (OpWrite b) w = cw_Write b w"

definition cw_wf :: "countingResponseWriter \<Rightarrow> bool" where
  "cw_wf w \<longleftrightarrow> cw_wroteHeader w = (rw_sent (cw_inner w) \<noteq> None)
     \<and> (cw_wroteHeader w \<or> cw_status w = 200)"

lemmas cw_defs = cw_wrap_def cw_WriteHeader_def cw_Write_def cw_wf_def Let_def

interpretation counting: strict_status_writer cw_wrap cw_inner cw_status cw_op cw_wf
proof unfold_locales
  show "cw_wf v \<Longrightarrow> final_op x \<Longrightarrow> cw_wf (cw_op x v)" for v x
    by (cases x) (auto simp: cw_defs split: option.splits)
  show "cw_wf v \<Longrightarrow> final_op x \<Longrightarrow> cw_inner (cw_op x v) = run_op x (cw_inner v)" for v x
    by (cases x) (auto simp: cw_defs write_header_def)
  show "cw_wf v \<Longrightarrow> \<forall>c. x \<noteq> OpStatus c \<Longrightarrow> cw_status (cw_op x v) = cw_status v" for v x
    by (cases x) (auto simp: cw_defs)
  show "cw_wf v \<Longrightarrow> rw_sent (cw_inner v) \<noteq> None \<Longrightarrow> cw_status (cw_op x v) = cw_status v" for v x
    by (cases x) (auto simp: cw_defs)
qed (auto simp: cw_defs)

text \<open>The bytes it counts are the bytes of the body.\<close>

lemma cw_bytes_op:
  "cw_bytes v = int (length (rw_body (cw_inner v))) \<Longrightarrow>
   cw_bytes (cw_op x v) = int (length (rw_body (cw_inner (cw_op x v))))"
  by (cases x) (auto simp: cw_defs)

lemma cw_bytes_ops:
  "cw_bytes v = int (length (rw_body (cw_inner v))) \<Longrightarrow>
   cw_bytes (counting.do_ops ops v) = int (length (rw_body (cw_inner (counting.do_ops ops v))))"
  by (induction ops arbitrary: v) (simp_all add: cw_bytes_op)

text \<open>
  An informational status is taken for the final one: the status sent after it is dropped,
  and the client gets 200 instead.
\<close>

lemma counting_drops_final:
  assumes "informational c" "b \<noteq> []"
  shows "final_status (cw_inner (counting.do_ops [OpStatus c, OpStatus d, OpWrite b] (cw_wrap empty_response))) = 200"
  using assms
  by (simp add: cw_defs write_body_def write_header_def final_status_def)

subsection \<open>The middleware\<close>

datatype metric_event =
    InFlightInc string
  | InFlightDec string
  | BytesReceived string string int
  | BytesSent string string int
  | RequestSize string string int
  | ResponseSize string string int
  | HTTPRequests string string string
  | HTTPRequestDuration string string
  | EndpointErrors string string

text \<open>
  What the handler behind the middleware did: the calls on the writer, in order, how many
  bytes of the request body it read, and the panic that ended it, if any;
  \<^verbatim>\<open>http.ErrAbortHandler\<close> is the one that aborts the connection.
\<close>

datatype panic = ErrAbortHandler | OtherPanic

record handler_run =
  hr_ops :: "writer_op list"
  hr_read :: nat
  hr_panic :: "panic option"

text \<open>The status the deferred function settles on.\<close>

definition observed_status :: "countingResponseWriter \<Rightarrow> bool \<Rightarrow> int" where
  "observed_status rec panicked =
     (if panicked \<and> \<not> cw_wroteHeader rec then 500 else cw_status rec)"

definition after_request :: "string \<Rightarrow> string \<Rightarrow> int \<Rightarrow> countingResponseWriter \<Rightarrow> bool \<Rightarrow> metric_event list" where
  "after_request method endpoint reqBytes rec panicked =
     (let respBytes = cw_bytes rec; status = observed_status rec panicked in
      [InFlightDec endpoint, BytesReceived method endpoint reqBytes, BytesSent method endpoint respBytes,
       RequestSize method endpoint reqBytes, ResponseSize method endpoint respBytes,
       HTTPRequests method endpoint (show_int status), HTTPRequestDuration method endpoint]
      @ (if ClassifyGCSError status \<noteq> [] then [EndpointErrors endpoint (ClassifyGCSError status)] else []))"

text \<open>The result: the response, the events in order, and the panic, which goes on.\<close>

definition WithMetrics ::
  "(request \<Rightarrow> handler_run) \<Rightarrow> request \<Rightarrow> response \<Rightarrow> response \<times> metric_event list \<times> panic option" where
  "WithMetrics next r w =
     (let endpoint = classifyEndpoint (req_method r) (req_uri r);
          run = next r;
          rec = counting.do_ops (hr_ops run) (cw_wrap w);
          reqBytes = (if req_body r = None then 0 else int (hr_read run))
      in (cw_inner rec,
          InFlightInc endpoint # after_request (req_method r) endpoint reqBytes rec (hr_panic run \<noteq> None),
          hr_panic run))"

text \<open>The gauge of requests in flight, as a sum over the events.\<close>

definition in_flight :: "string \<Rightarrow> metric_event list \<Rightarrow> int" where
  "in_flight e evs =
     int (length (filter ((=) (InFlightInc e)) evs)) - int (length (filter ((=) (InFlightDec e)) evs))"

definition request_counts :: "metric_event list \<Rightarrow> (string \<times> string \<times> string) list" where
  "request_counts evs =
     List.map_filter (\<lambda>x. case x of HTTPRequests m e s \<Rightarrow> Some (m, e, s) | _ \<Rightarrow> None) evs"

lemma WithMetrics_in_flight: "in_flight e (fst (snd (WithMetrics next r w))) = 0"
  by (simp add: WithMetrics_def in_flight_def after_request_def Let_def)

lemma final_status_unsent: "rw_sent w = None \<Longrightarrow> final_status w = 200"
  by (simp add: final_status_def)

lemma observed_status_sent:
  assumes "rw_sent w = None" "list_all final_op ops"
  shows "observed_status (counting.do_ops ops (cw_wrap w)) panicked =
    final_status (if panicked then write_header 500 (cw_inner (counting.do_ops ops (cw_wrap w)))
                  else cw_inner (counting.do_ops ops (cw_wrap w)))"
proof -
  let ?rec = "counting.do_ops ops (cw_wrap w)"
  have wf: "cw_wf ?rec"
    by (rule counting.wf_do_ops [OF counting.wf_wrap [OF assms(1)] assms(2)])
  have st: "cw_status ?rec = final_status (cw_inner ?rec)"
    using counting.status_sent [OF assms] counting.inner_do_ops [OF counting.wf_wrap [OF assms(1)] assms(2)]
    by (simp add: counting.inner_wrap)
  show ?thesis
  proof (cases "rw_sent (cw_inner ?rec)")
    case None
    with wf st show ?thesis
      by (simp add: observed_status_def cw_wf_def final_status_def)
  next
    case (Some p)
    with wf st show ?thesis
      by (cases p) (simp add: observed_status_def cw_wf_def final_status_def)
  qed
qed

lemma WithMetrics_counts:
  "request_counts (fst (snd (WithMetrics next r w))) =
    [(req_method r, classifyEndpoint (req_method r) (req_uri r),
      show_int (observed_status (counting.do_ops (hr_ops (next r)) (cw_wrap w)) (hr_panic (next r) \<noteq> None)))]"
  by (simp add: WithMetrics_def request_counts_def after_request_def Let_def)

end
