(* ===== verification/S3_Xml.thy ===== *)
theory S3_Xml
  imports S3_Types Go_Utf8
begin

text \<open>
  The S3 documents in XML, as \<^verbatim>\<open>encoding/xml\<close> reads and writes structs by their
  \<^verbatim>\<open>xml:"..."\<close> tags (\<^verbatim>\<open>pkg/translate/s3_*.go\<close>). Reading is modelled on the element
  tree; how bytes become a tree (the library's tokenizer) is a parameter of the handlers.
  A decoder takes the name and content of one child element and updates the struct; names
  the struct does not know are skipped, as the library does.
\<close>

datatype xml = Elem string "xml list" | Text string

fun render :: "xml \<Rightarrow> string" where
  "render (Text s) = xml_escape s"
| "render (Elem n ks) = ''<'' @ n @ ''>'' @ concat (map render ks) @ ''</'' @ n @ ''>''"

subsection \<open>Reading\<close>

text \<open>The character data directly inside an element.\<close>

definition elem_text :: "xml list \<Rightarrow> string" where
  "elem_text ks = concat (map (\<lambda>k. case k of Text s \<Rightarrow> s | Elem _ _ \<Rightarrow> []) ks)"

definition decode_int :: "xml list \<Rightarrow> int64 option" where
  "decode_int ks =
     (if elem_text ks = [] then Some 0
      else map_option word_of_int (parse_int (trim_space (elem_text ks))))"

definition parse_bool :: "string \<Rightarrow> bool option" where
  "parse_bool s =
     (if s \<in> set [''1'', ''t'', ''T'', ''TRUE'', ''true'', ''True''] then Some True
      else if s \<in> set [''0'', ''f'', ''F'', ''FALSE'', ''false'', ''False''] then Some False
      else None)"

definition decode_bool :: "xml list \<Rightarrow> bool option" where
  "decode_bool ks =
     (if elem_text ks = [] then Some False else parse_bool (trim_space (elem_text ks)))"

type_synonym 'a field_decoder = "string \<Rightarrow> xml list \<Rightarrow> 'a \<Rightarrow> 'a option"

definition decode_child :: "'a field_decoder \<Rightarrow> xml \<Rightarrow> 'a \<Rightarrow> 'a option" where
  "decode_child d k a = (case k of Text _ \<Rightarrow> Some a | Elem n ks \<Rightarrow> d n ks a)"

definition decode_struct :: "'a field_decoder \<Rightarrow> xml list \<Rightarrow> 'a \<Rightarrow> 'a option" where
  "decode_struct d ks a = fold_option (decode_child d) ks a"

text \<open>A pointer field is allocated on first use and decoded into.\<close>

definition decode_pointer :: "'a field_decoder \<Rightarrow> 'a \<Rightarrow> xml list \<Rightarrow> 'a option \<Rightarrow> 'a option" where
  "decode_pointer d zero ks old = decode_struct d ks (case old of None \<Rightarrow> zero | Some a \<Rightarrow> a)"

text \<open>The root element must have the name of the document.\<close>

definition decode_root :: "string \<Rightarrow> 'a field_decoder \<Rightarrow> 'a \<Rightarrow> xml \<Rightarrow> 'a option" where
  "decode_root name d zero x =
     (case x of Text _ \<Rightarrow> None | Elem n ks \<Rightarrow> if n = name then decode_struct d ks zero else None)"

definition tag_field :: "Tag field_decoder" where
  "tag_field n ks t =
     (if n = ''Key'' then Some (t\<lparr>Tag_Key := elem_text ks\<rparr>)
      else if n = ''Value'' then Some (t\<lparr>Tag_Value := elem_text ks\<rparr>)
      else Some t)"

definition and_field :: "AndOperator field_decoder" where
  "and_field n ks a =
     (if n = ''Prefix'' then Some (a\<lparr>And_Prefix := Some (elem_text ks)\<rparr>)
      else if n = ''Tag''
      then map_option (\<lambda>t. a\<lparr>And_Tags := And_Tags a @ [t]\<rparr>) (decode_struct tag_field ks zero_Tag)
      else if n = ''ObjectSizeGreaterThan''
      then map_option (\<lambda>i. a\<lparr>And_ObjectSizeGreaterThan := Some i\<rparr>) (decode_int ks)
      else if n = ''ObjectSizeLessThan''
      then map_option (\<lambda>i. a\<lparr>And_ObjectSizeLessThan := Some i\<rparr>) (decode_int ks)
      else Some a)"

definition filter_field :: "Filter field_decoder" where
  "filter_field n ks f =
     (if n = ''Prefix'' then Some (f\<lparr>F_Prefix := Some (elem_text ks)\<rparr>)
      else if n = ''Tag''
      then map_option (\<lambda>t. f\<lparr>F_Tag := Some t\<rparr>) (decode_pointer tag_field zero_Tag ks (F_Tag f))
      else if n = ''And''
      then map_option (\<lambda>a. f\<lparr>F_And := Some a\<rparr>) (decode_pointer and_field zero_And ks (F_And f))
      else if n = ''ObjectSizeGreaterThan''
      then map_option (\<lambda>i. f\<lparr>F_ObjectSizeGreaterThan := Some i\<rparr>) (decode_int ks)
      else if n = ''ObjectSizeLessThan''
      then map_option (\<lambda>i. f\<lparr>F_ObjectSizeLessThan := Some i\<rparr>) (decode_int ks)
      else Some f)"

definition transition_field :: "Transition field_decoder" where
  "transition_field n ks t =
     (if n = ''Days'' then map_option (\<lambda>i. t\<lparr>Tr_Days := Some i\<rparr>) (decode_int ks)
      else if n = ''Date'' then Some (t\<lparr>Tr_Date := Some (elem_text ks)\<rparr>)
      else if n = ''StorageClass'' then Some (t\<lparr>Tr_StorageClass := elem_text ks\<rparr>)
      else Some t)"

definition expiration_field :: "Expiration field_decoder" where
  "expiration_field n ks e =
     (if n = ''Days'' then map_option (\<lambda>i. e\<lparr>Exp_Days := Some i\<rparr>) (decode_int ks)
      else if n = ''Date'' then Some (e\<lparr>Exp_Date := Some (elem_text ks)\<rparr>)
      else if n = ''ExpiredObjectDeleteMarker''
      then map_option (\<lambda>b. e\<lparr>Exp_ExpiredObjectDeleteMarker := Some b\<rparr>) (decode_bool ks)
      else Some e)"

definition nvt_field :: "NoncurrentVersionTransition field_decoder" where
  "nvt_field n ks t =
     (if n = ''NoncurrentDays'' then map_option (\<lambda>i. t\<lparr>Nvt_NoncurrentDays := Some i\<rparr>) (decode_int ks)
      else if n = ''StorageClass'' then Some (t\<lparr>Nvt_StorageClass := elem_text ks\<rparr>)
      else Some t)"

definition nve_field :: "NoncurrentVersionExpiration field_decoder" where
  "nve_field n ks t =
     (if n = ''NoncurrentDays'' then map_option (\<lambda>i. t\<lparr>Nve_NoncurrentDays := Some i\<rparr>) (decode_int ks)
      else Some t)"

definition abort_field :: "AbortIncompleteMultipartUpload field_decoder" where
  "abort_field n ks a =
     (if n = ''DaysAfterInitiation''
      then map_option (\<lambda>i. a\<lparr>Abort_DaysAfterInitiation := Some i\<rparr>) (decode_int ks)
      else Some a)"

definition rule_field :: "Rule field_decoder" where
  "rule_field n ks r =
     (if n = ''ID'' then Some (r\<lparr>R_ID := elem_text ks\<rparr>)
      else if n = ''Priority'' then map_option (\<lambda>i. r\<lparr>R_Priority := i\<rparr>) (decode_int ks)
      else if n = ''Filter''
      then map_option (\<lambda>f. r\<lparr>R_Filter := Some f\<rparr>) (decode_pointer filter_field zero_Filter ks (R_Filter r))
      else if n = ''Status'' then Some (r\<lparr>R_Status := elem_text ks\<rparr>)
      else if n = ''Transition''
      then map_option (\<lambda>t. r\<lparr>R_Transitions := R_Transitions r @ [t]\<rparr>)
             (decode_struct transition_field ks zero_Transition)
      else if n = ''Expiration''
      then map_option (\<lambda>e. r\<lparr>R_Expiration := Some e\<rparr>)
             (decode_pointer expiration_field zero_Expiration ks (R_Expiration r))
      else if n = ''NoncurrentVersionTransition''
      then map_option (\<lambda>t. r\<lparr>R_NoncurrentVersionTransitions := R_NoncurrentVersionTransitions r @ [t]\<rparr>)
             (decode_struct nvt_field ks zero_Nvt)
      else if n = ''NoncurrentVersionExpiration''
      then map_option (\<lambda>e. r\<lparr>R_NoncurrentVersionExpirations := Some e\<rparr>)
             (decode_pointer nve_field zero_Nve ks (R_NoncurrentVersionExpirations r))
      else if n = ''AbortIncompleteMultipartUpload''
      then map_option (\<lambda>a. r\<lparr>R_AbortIncompleteMultipartUpload := Some a\<rparr>)
             (decode_pointer abort_field zero_Abort ks (R_AbortIncompleteMultipartUpload r))
      else Some r)"

definition lifecycle_field :: "LifecycleConfiguration field_decoder" where
  "lifecycle_field n ks c =
     (if n = ''Rule''
      then map_option (\<lambda>r. c\<lparr>Lc_Rules := Lc_Rules c @ [r]\<rparr>) (decode_struct rule_field ks zero_Rule)
      else Some c)"

definition decode_lifecycle :: "xml \<Rightarrow> LifecycleConfiguration option" where
  "decode_lifecycle = decode_root ''LifecycleConfiguration'' lifecycle_field \<lparr>Lc_Rules = []\<rparr>"

definition cors_rule_field :: "CORSRule field_decoder" where
  "cors_rule_field n ks r =
     (if n = ''ID'' then Some (r\<lparr>Cr_ID := Some (elem_text ks)\<rparr>)
      else if n = ''AllowedHeader''
      then Some (r\<lparr>Cr_AllowedHeaders := Cr_AllowedHeaders r @ [elem_text ks]\<rparr>)
      else if n = ''AllowedMethod''
      then Some (r\<lparr>Cr_AllowedMethods := Cr_AllowedMethods r @ [elem_text ks]\<rparr>)
      else if n = ''AllowedOrigin''
      then Some (r\<lparr>Cr_AllowedOrigins := Cr_AllowedOrigins r @ [elem_text ks]\<rparr>)
      else if n = ''ExposeHeader''
      then Some (r\<lparr>Cr_ExposeHeaders := Cr_ExposeHeaders r @ [elem_text ks]\<rparr>)
      else if n = ''MaxAgeSeconds''
      then map_option (\<lambda>i. r\<lparr>Cr_MaxAgeSeconds := Some i\<rparr>) (decode_int ks)
      else Some r)"

definition cors_field :: "CORSConfiguration field_decoder" where
  "cors_field n ks c =
     (if n = ''CORSRule''
      then map_option (\<lambda>r. c\<lparr>Cc_CORSRules := Cc_CORSRules c @ [r]\<rparr>)
             (decode_struct cors_rule_field ks zero_CORSRule)
      else Some c)"

definition decode_cors :: "xml \<Rightarrow> CORSConfiguration option" where
  "decode_cors = decode_root ''CORSConfiguration'' cors_field \<lparr>Cc_CORSRules = []\<rparr>"

definition zero_LoggingEnabled :: LoggingEnabled where
  "zero_LoggingEnabled = \<lparr>Le_TargetBucket = [], Le_TargetPrefix = []\<rparr>"

definition logging_enabled_field :: "LoggingEnabled field_decoder" where
  "logging_enabled_field n ks l =
     (if n = ''TargetBucket'' then Some (l\<lparr>Le_TargetBucket := elem_text ks\<rparr>)
      else if n = ''TargetPrefix'' then Some (l\<lparr>Le_TargetPrefix := elem_text ks\<rparr>)
      else Some l)"

definition logging_field :: "BucketLoggingStatus field_decoder" where
  "logging_field n ks c =
     (if n = ''LoggingEnabled''
      then map_option (\<lambda>l. c\<lparr>Bls_LoggingEnabled := Some l\<rparr>)
             (decode_pointer logging_enabled_field zero_LoggingEnabled ks (Bls_LoggingEnabled c))
      else Some c)"

definition decode_logging :: "xml \<Rightarrow> BucketLoggingStatus option" where
  "decode_logging = decode_root ''BucketLoggingStatus'' logging_field \<lparr>Bls_LoggingEnabled = None\<rparr>"

definition index_field :: "IndexDocument field_decoder" where
  "index_field n ks i = (if n = ''Suffix'' then Some (i\<lparr>Idx_Suffix := elem_text ks\<rparr>) else Some i)"

definition error_field :: "ErrorDocument field_decoder" where
  "error_field n ks e = (if n = ''Key'' then Some (e\<lparr>Err_Key := elem_text ks\<rparr>) else Some e)"

definition website_field :: "WebsiteConfiguration field_decoder" where
  "website_field n ks w =
     (if n = ''IndexDocument''
      then map_option (\<lambda>i. w\<lparr>Ws_IndexDocument := Some i\<rparr>)
             (decode_pointer index_field \<lparr>Idx_Suffix = []\<rparr> ks (Ws_IndexDocument w))
      else if n = ''ErrorDocument''
      then map_option (\<lambda>e. w\<lparr>Ws_ErrorDocument := Some e\<rparr>)
             (decode_pointer error_field \<lparr>Err_Key = []\<rparr> ks (Ws_ErrorDocument w))
      else Some w)"

definition decode_website :: "xml \<Rightarrow> WebsiteConfiguration option" where
  "decode_website = decode_root ''WebsiteConfiguration'' website_field
     \<lparr>Ws_IndexDocument = None, Ws_ErrorDocument = None\<rparr>"

text \<open>The path \<^verbatim>\<open>TagSet>Tag\<close>: the tags of every \<^verbatim>\<open>TagSet\<close> child are appended.\<close>

definition tagset_field :: "Tagging field_decoder" where
  "tagset_field n ks c =
     (if n = ''Tag''
      then map_option (\<lambda>t. c\<lparr>Tg_TagSet := Tg_TagSet c @ [t]\<rparr>) (decode_struct tag_field ks zero_Tag)
      else Some c)"

definition tagging_field :: "Tagging field_decoder" where
  "tagging_field n ks c = (if n = ''TagSet'' then decode_struct tagset_field ks c else Some c)"

definition decode_tagging :: "xml \<Rightarrow> Tagging option" where
  "decode_tagging = decode_root ''Tagging'' tagging_field \<lparr>Tg_TagSet = []\<rparr>"

subsection \<open>Writing\<close>

definition text_elem :: "string \<Rightarrow> string \<Rightarrow> xml" where
  "text_elem n s = Elem n (if s = [] then [] else [Text s])"

definition int_elem :: "string \<Rightarrow> int64 \<Rightarrow> xml" where
  "int_elem n i = text_elem n (show_int (sint i))"

definition bool_elem :: "string \<Rightarrow> bool \<Rightarrow> xml" where
  "bool_elem n b = text_elem n (if b then ''true'' else ''false'')"

definition opt_elem :: "('a \<Rightarrow> xml) \<Rightarrow> 'a option \<Rightarrow> xml list" where
  "opt_elem f v = (case v of None \<Rightarrow> [] | Some a \<Rightarrow> [f a])"

definition tag_kids :: "Tag \<Rightarrow> xml list" where
  "tag_kids t =
     [text_elem ''Key'' (Tag_Key t), text_elem ''Value'' (Tag_Value t)]"

definition encode_tag :: "Tag \<Rightarrow> xml" where
  "encode_tag t = Elem ''Tag'' (tag_kids t)"

definition and_kids :: "AndOperator \<Rightarrow> xml list" where
  "and_kids a =
     opt_elem (text_elem ''Prefix'') (And_Prefix a) @ map encode_tag (And_Tags a)
      @ opt_elem (int_elem ''ObjectSizeGreaterThan'') (And_ObjectSizeGreaterThan a)
      @ opt_elem (int_elem ''ObjectSizeLessThan'') (And_ObjectSizeLessThan a)"

definition encode_and :: "AndOperator \<Rightarrow> xml" where
  "encode_and a = Elem ''And'' (and_kids a)"

definition filter_kids :: "Filter \<Rightarrow> xml list" where
  "filter_kids f =
     opt_elem (text_elem ''Prefix'') (F_Prefix f) @ opt_elem encode_tag (F_Tag f)
      @ opt_elem encode_and (F_And f)
      @ opt_elem (int_elem ''ObjectSizeGreaterThan'') (F_ObjectSizeGreaterThan f)
      @ opt_elem (int_elem ''ObjectSizeLessThan'') (F_ObjectSizeLessThan f)"

definition encode_filter :: "Filter \<Rightarrow> xml" where
  "encode_filter f = Elem ''Filter'' (filter_kids f)"

definition transition_kids :: "Transition \<Rightarrow> xml list" where
  "transition_kids t =
     opt_elem (int_elem ''Days'') (Tr_Days t) @ opt_elem (text_elem ''Date'') (Tr_Date t)
      @ [text_elem ''StorageClass'' (Tr_StorageClass t)]"

definition encode_transition :: "Transition \<Rightarrow> xml" where
  "encode_transition t = Elem ''Transition'' (transition_kids t)"

definition expiration_kids :: "Expiration \<Rightarrow> xml list" where
  "expiration_kids e =
     opt_elem (int_elem ''Days'') (Exp_Days e) @ opt_elem (text_elem ''Date'') (Exp_Date e)
      @ opt_elem (bool_elem ''ExpiredObjectDeleteMarker'') (Exp_ExpiredObjectDeleteMarker e)"

definition encode_expiration :: "Expiration \<Rightarrow> xml" where
  "encode_expiration e = Elem ''Expiration'' (expiration_kids e)"

definition nvt_kids :: "NoncurrentVersionTransition \<Rightarrow> xml list" where
  "nvt_kids t =
     opt_elem (int_elem ''NoncurrentDays'') (Nvt_NoncurrentDays t)
      @ [text_elem ''StorageClass'' (Nvt_StorageClass t)]"

definition encode_nvt :: "NoncurrentVersionTransition \<Rightarrow> xml" where
  "encode_nvt t = Elem ''NoncurrentVersionTransition'' (nvt_kids t)"

definition nve_kids :: "NoncurrentVersionExpiration \<Rightarrow> xml list" where
  "nve_kids t =
     opt_elem (int_elem ''NoncurrentDays'') (Nve_NoncurrentDays t)"

definition encode_nve :: "NoncurrentVersionExpiration \<Rightarrow> xml" where
  "encode_nve t = Elem ''NoncurrentVersionExpiration'' (nve_kids t)"

definition abort_kids :: "AbortIncompleteMultipartUpload \<Rightarrow> xml list" where
  "abort_kids a =
     opt_elem (int_elem ''DaysAfterInitiation'') (Abort_DaysAfterInitiation a)"

definition encode_abort :: "AbortIncompleteMultipartUpload \<Rightarrow> xml" where
  "encode_abort a = Elem ''AbortIncompleteMultipartUpload'' (abort_kids a)"

definition rule_kids :: "Rule \<Rightarrow> xml list" where
  "rule_kids r =
     (if R_ID r = [] then [] else [text_elem ''ID'' (R_ID r)])
      @ (if R_Priority r = 0 then [] else [int_elem ''Priority'' (R_Priority r)])
      @ opt_elem encode_filter (R_Filter r)
      @ [text_elem ''Status'' (R_Status r)]
      @ map encode_transition (R_Transitions r)
      @ opt_elem encode_expiration (R_Expiration r)
      @ map encode_nvt (R_NoncurrentVersionTransitions r)
      @ opt_elem encode_nve (R_NoncurrentVersionExpirations r)
      @ opt_elem encode_abort (R_AbortIncompleteMultipartUpload r)"

definition encode_rule :: "Rule \<Rightarrow> xml" where
  "encode_rule r = Elem ''Rule'' (rule_kids r)"

definition lifecycle_kids :: "LifecycleConfiguration \<Rightarrow> xml list" where
  "lifecycle_kids c =
     map encode_rule (Lc_Rules c)"

definition encode_lifecycle :: "LifecycleConfiguration \<Rightarrow> xml" where
  "encode_lifecycle c = Elem ''LifecycleConfiguration'' (lifecycle_kids c)"

definition cors_rule_kids :: "CORSRule \<Rightarrow> xml list" where
  "cors_rule_kids r =
     opt_elem (text_elem ''ID'') (Cr_ID r)
      @ map (text_elem ''AllowedHeader'') (Cr_AllowedHeaders r)
      @ map (text_elem ''AllowedMethod'') (Cr_AllowedMethods r)
      @ map (text_elem ''AllowedOrigin'') (Cr_AllowedOrigins r)
      @ map (text_elem ''ExposeHeader'') (Cr_ExposeHeaders r)
      @ opt_elem (int_elem ''MaxAgeSeconds'') (Cr_MaxAgeSeconds r)"

definition encode_cors_rule :: "CORSRule \<Rightarrow> xml" where
  "encode_cors_rule r = Elem ''CORSRule'' (cors_rule_kids r)"

definition cors_kids :: "CORSConfiguration \<Rightarrow> xml list" where
  "cors_kids c =
     map encode_cors_rule (Cc_CORSRules c)"

definition encode_cors :: "CORSConfiguration \<Rightarrow> xml" where
  "encode_cors c = Elem ''CORSConfiguration'' (cors_kids c)"

definition logging_kids :: "BucketLoggingStatus \<Rightarrow> xml list" where
  "logging_kids c =
     opt_elem (\<lambda>l. Elem ''LoggingEnabled'' [text_elem ''TargetBucket'' (Le_TargetBucket l),
                                             text_elem ''TargetPrefix'' (Le_TargetPrefix l)])
        (Bls_LoggingEnabled c)"

definition encode_logging :: "BucketLoggingStatus \<Rightarrow> xml" where
  "encode_logging c = Elem ''BucketLoggingStatus'' (logging_kids c)"

definition website_kids :: "WebsiteConfiguration \<Rightarrow> xml list" where
  "website_kids w =
     opt_elem (\<lambda>i. Elem ''IndexDocument'' [text_elem ''Suffix'' (Idx_Suffix i)]) (Ws_IndexDocument w)
      @ opt_elem (\<lambda>e. Elem ''ErrorDocument'' [text_elem ''Key'' (Err_Key e)]) (Ws_ErrorDocument w)"

definition encode_website :: "WebsiteConfiguration \<Rightarrow> xml" where
  "encode_website w = Elem ''WebsiteConfiguration'' (website_kids w)"

text \<open>The wrapper element of a path is written even for an empty slice.\<close>

definition tagging_kids :: "Tagging \<Rightarrow> xml list" where
  "tagging_kids c =
     [Elem ''TagSet'' (map encode_tag (Tg_TagSet c))]"

definition encode_tagging :: "Tagging \<Rightarrow> xml" where
  "encode_tagging c = Elem ''Tagging'' (tagging_kids c)"

subsection \<open>Numbers survive printing\<close>

lemma digits_val_snoc: "digits_val acc (s @ [digit_char d]) =
    (if d < 10 then map_option (\<lambda>n. 10 * n + d) (digits_val acc s) else digits_val acc (s @ [digit_char d]))"
  by (simp add: digits_val_append digit_val_char split: option.splits)

lemma digits_val_show_nat: "digits_val 0 (show_nat n) = Some n"
proof (induction n rule: show_nat.induct)
  case (1 n)
  show ?case
  proof (cases "n < 10")
    case True
    then show ?thesis by (simp add: show_nat.simps [of n] digit_val_char)
  next
    case False
    with 1 show ?thesis
      by (simp add: show_nat.simps [of n] digits_val_append digit_val_char)
  qed
qed

definition number_char :: "char \<Rightarrow> bool" where
  "number_char c \<longleftrightarrow> (let n = (of_char c :: nat) in n = 45 \<or> 48 \<le> n \<and> n \<le> 57)"

lemma digit_char_number:
  assumes "d < 10"
  shows "number_char (digit_char d) \<and> digit_char d \<noteq> CHR ''-'' \<and> digit_char d \<noteq> CHR ''+''"
proof -
  have "of_char (digit_char d) = 48 + d"
    using assms by (simp add: digit_char_def take_bit_nat_eq_self)
  then show ?thesis
    using assms by (auto simp: number_char_def Let_def)
qed

lemma show_nat_chars:
  "show_nat n \<noteq> [] \<and> list_all number_char (show_nat n) \<and> hd (show_nat n) \<noteq> CHR ''-'' \<and> hd (show_nat n) \<noteq> CHR ''+''"
proof (induction n rule: show_nat.induct)
  case (1 n)
  then show ?case
    using digit_char_number [of n] digit_char_number [of "n mod 10"]
    by (cases "n < 10") (auto simp: show_nat.simps [of n])
qed

lemma show_int_chars: "show_int i \<noteq> [] \<and> list_all number_char (show_int i)"
  using show_nat_chars by (auto simp: show_int_def number_char_def)

lemma parse_int_show_int:
  assumes "- (2 ^ 63) \<le> i" "i < 2 ^ 63"
  shows "parse_int (show_int i) = Some i"
proof (cases "i < 0")
  case True
  with assms show_nat_chars [of "nat (- i)"] show ?thesis
    by (simp add: parse_int_def show_int_def digits_val_show_nat)
next
  case False
  obtain c cs where c: "show_nat (nat i) = c # cs"
    using show_nat_chars by (metis list.exhaust)
  with show_nat_chars [of "nat i"] have "c \<noteq> CHR ''-''" "c \<noteq> CHR ''+''" by auto
  with False assms c digits_val_show_nat [of "nat i"] show ?thesis
    by (simp add: parse_int_def show_int_def)
qed

lemma find_none: "(\<And>x. x \<in> set xs \<Longrightarrow> \<not> P x) \<Longrightarrow> find P xs = None"
  by (simp add: find_None_iff)

lemma strip_front_keep:
  assumes "s \<noteq> []" "\<And>e. e \<in> set es \<Longrightarrow> e \<noteq> [] \<Longrightarrow> hd e \<noteq> hd s"
  shows "strip_front es s = s"
proof -
  have "find (\<lambda>e. e \<noteq> [] \<and> prefix e s) es = None"
  proof (rule find_none)
    fix e assume "e \<in> set es"
    with assms(1) assms(2) [of e] show "\<not> (e \<noteq> [] \<and> prefix e s)"
      by (cases e; cases s) auto
  qed
  then show ?thesis by (simp add: strip_front.simps)
qed

lemma space_ends: "e \<in> set space_encodings \<Longrightarrow> \<not> number_char (hd e) \<and> \<not> number_char (last e)"
  by (auto simp: space_encodings_def number_char_def)

lemma space_nonempty: "[] \<notin> set space_encodings"
  by (simp add: space_encodings_def)

lemma trim_space_number:
  assumes "s \<noteq> []" "list_all number_char s"
  shows "trim_space s = s"
proof -
  have "number_char (hd s)" "number_char (hd (rev s))"
    using assms by (auto simp: list_all_iff hd_rev)
  then have "strip_front space_encodings s = s" "strip_front (map rev space_encodings) (rev s) = rev s"
    using assms(1) space_ends by (auto intro!: strip_front_keep simp: hd_rev) fastforce+
  then show ?thesis
    by (simp add: trim_space_def trim_left_space_def trim_right_space_def)
qed

definition text_kids :: "string \<Rightarrow> xml list" where
  "text_kids s = (if s = [] then [] else [Text s])"

lemma elem_text_kids [simp]: "elem_text (text_kids s) = s"
  by (simp add: elem_text_def text_kids_def)

lemma sint_bounds: "- (2 ^ 63) \<le> sint (i :: int64)" "sint (i :: int64) < 2 ^ 63"
  using sint_greater_eq [of i] sint_less [of i] by simp_all

lemma decode_int_kids [simp]: "decode_int (text_kids (show_int (sint i))) = Some i"
  using show_int_chars [of "sint i"] word_of_int_sint [of i] parse_int_show_int [OF sint_bounds [of i]]
  by (simp add: decode_int_def trim_space_number del: of_int_sint)

lemma decode_bool_kids [simp]: "decode_bool (text_kids (if b then ''true'' else ''false'')) = Some b"
  by (cases b) (simp_all add: decode_bool_def parse_bool_def trim_space_def trim_left_space_def trim_right_space_def
      space_encodings_def strip_front.simps)

subsection \<open>Reading what was written\<close>

lemma text_elem_eq: "text_elem n s = Elem n (text_kids s)"
  by (simp add: text_elem_def text_kids_def)

lemma decode_struct_Nil [simp]: "decode_struct d [] a = Some a"
  by (simp add: decode_struct_def)

lemma decode_struct_Cons [simp]:
  "decode_struct d (k # ks) a =
     (case decode_child d k a of None \<Rightarrow> None | Some a' \<Rightarrow> decode_struct d ks a')"
  unfolding decode_struct_def by simp

lemma decode_struct_append:
  "decode_struct d (ks @ ls) a =
     (case decode_struct d ks a of None \<Rightarrow> None | Some a' \<Rightarrow> decode_struct d ls a')"
  unfolding decode_struct_def by (rule fold_option_append)

lemma decode_child_text [simp]: "decode_child d (text_elem n s) a = d n (text_kids s) a"
  by (simp add: decode_child_def text_elem_eq)

lemma decode_child_Elem [simp]: "decode_child d (Elem n ks) a = d n ks a"
  by (simp add: decode_child_def)

lemma decode_child_int [simp]:
  "decode_child d (int_elem n i) a = d n (text_kids (show_int (sint i))) a"
  by (simp add: int_elem_def)

lemma decode_child_bool [simp]:
  "decode_child d (bool_elem n b) a = d n (text_kids (if b then ''true'' else ''false'')) a"
  by (simp add: bool_elem_def)

text \<open>A list whose every element the decoder appends to a field.\<close>

lemma decode_struct_list:
  assumes "\<And>x a. x \<in> set xs \<Longrightarrow> decode_child d (enc x) a = Some (app x a)"
  shows "decode_struct d (map enc xs) a = Some (fold app xs a)"
  using assms by (induction xs arbitrary: a) simp_all

lemmas decode_simps = decode_struct_append decode_pointer_def opt_elem_def

lemma decode_tag [simp]: "decode_struct tag_field (tag_kids t) zero_Tag = Some t"
  by (cases t) (simp add: tag_field_def zero_Tag_def tag_kids_def)

lemma decode_and_tags:
  "decode_struct and_field (map encode_tag ts) a = Some (a\<lparr>And_Tags := And_Tags a @ ts\<rparr>)"
  by (induction ts arbitrary: a) (simp_all add: encode_tag_def and_field_def)

lemma decode_and [simp]: "decode_struct and_field (and_kids a) zero_And = Some a"
  by (cases a) (simp add: and_kids_def decode_simps decode_and_tags and_field_def zero_And_def
      split: option.splits)

lemma decode_filter [simp]: "decode_struct filter_field (filter_kids f) zero_Filter = Some f"
  by (cases f) (simp add: filter_kids_def decode_simps filter_field_def zero_Filter_def encode_tag_def
      encode_and_def split: option.splits)

lemma decode_transition [simp]:
  "decode_struct transition_field (transition_kids t) zero_Transition = Some t"
  by (cases t) (simp add: transition_kids_def decode_simps transition_field_def zero_Transition_def
      split: option.splits)

lemma decode_expiration [simp]:
  "decode_struct expiration_field (expiration_kids e) zero_Expiration = Some e"
  by (cases e) (simp add: expiration_kids_def decode_simps expiration_field_def zero_Expiration_def
      split: option.splits)

lemma decode_nvt [simp]: "decode_struct nvt_field (nvt_kids t) zero_Nvt = Some t"
  by (cases t) (simp add: nvt_kids_def decode_simps nvt_field_def zero_Nvt_def split: option.splits)

lemma decode_nve [simp]: "decode_struct nve_field (nve_kids t) zero_Nve = Some t"
  by (cases t) (simp add: nve_kids_def decode_simps nve_field_def zero_Nve_def split: option.splits)

lemma decode_abort [simp]: "decode_struct abort_field (abort_kids t) zero_Abort = Some t"
  by (cases t) (simp add: abort_kids_def decode_simps abort_field_def zero_Abort_def split: option.splits)

lemma decode_rule_transitions:
  "decode_struct rule_field (map encode_transition ts) r =
     Some (r\<lparr>R_Transitions := R_Transitions r @ ts\<rparr>)"
  by (induction ts arbitrary: r) (simp_all add: encode_transition_def rule_field_def)

lemma decode_rule_nvts:
  "decode_struct rule_field (map encode_nvt ts) r =
     Some (r\<lparr>R_NoncurrentVersionTransitions := R_NoncurrentVersionTransitions r @ ts\<rparr>)"
  by (induction ts arbitrary: r) (simp_all add: encode_nvt_def rule_field_def)

lemmas encode_children = encode_filter_def encode_expiration_def encode_nve_def encode_abort_def

lemma decode_rule [simp]: "decode_struct rule_field (rule_kids r) zero_Rule = Some r"
  by (cases r) (simp add: rule_kids_def decode_simps decode_rule_transitions decode_rule_nvts
      rule_field_def zero_Rule_def encode_children split: option.splits)

lemma decode_lifecycle_rules:
  "decode_struct lifecycle_field (map encode_rule rs) c = Some (c\<lparr>Lc_Rules := Lc_Rules c @ rs\<rparr>)"
  by (induction rs arbitrary: c) (simp_all add: encode_rule_def lifecycle_field_def)

lemma decode_encode_lifecycle: "decode_lifecycle (encode_lifecycle c) = Some c"
  by (cases c) (simp add: decode_lifecycle_def encode_lifecycle_def decode_root_def lifecycle_kids_def
      decode_lifecycle_rules)

lemma decode_cors_strings:
  "decode_struct cors_rule_field (map (text_elem ''AllowedHeader'') hs) r =
     Some (r\<lparr>Cr_AllowedHeaders := Cr_AllowedHeaders r @ hs\<rparr>)"
  "decode_struct cors_rule_field (map (text_elem ''AllowedMethod'') hs) r =
     Some (r\<lparr>Cr_AllowedMethods := Cr_AllowedMethods r @ hs\<rparr>)"
  "decode_struct cors_rule_field (map (text_elem ''AllowedOrigin'') hs) r =
     Some (r\<lparr>Cr_AllowedOrigins := Cr_AllowedOrigins r @ hs\<rparr>)"
  "decode_struct cors_rule_field (map (text_elem ''ExposeHeader'') hs) r =
     Some (r\<lparr>Cr_ExposeHeaders := Cr_ExposeHeaders r @ hs\<rparr>)"
  by (induction hs arbitrary: r) (simp_all add: cors_rule_field_def)

lemma decode_cors_rule [simp]:
  "decode_struct cors_rule_field (cors_rule_kids r) zero_CORSRule = Some r"
  by (cases r) (simp add: cors_rule_kids_def decode_simps decode_cors_strings cors_rule_field_def
      zero_CORSRule_def split: option.splits)

lemma decode_cors_rules:
  "decode_struct cors_field (map encode_cors_rule rs) c = Some (c\<lparr>Cc_CORSRules := Cc_CORSRules c @ rs\<rparr>)"
  by (induction rs arbitrary: c) (simp_all add: encode_cors_rule_def cors_field_def)

lemma decode_encode_cors: "decode_cors (encode_cors c) = Some c"
  by (cases c) (simp add: decode_cors_def encode_cors_def decode_root_def cors_kids_def decode_cors_rules)

lemma decode_encode_logging: "decode_logging (encode_logging c) = Some c"
  by (cases c) (auto simp: decode_logging_def encode_logging_def decode_root_def logging_kids_def
      decode_simps logging_field_def logging_enabled_field_def zero_LoggingEnabled_def
      split: option.splits)

lemma decode_encode_website: "decode_website (encode_website c) = Some c"
  by (cases c) (auto simp: decode_website_def encode_website_def decode_root_def website_kids_def
      decode_simps website_field_def index_field_def error_field_def split: option.splits)

lemma decode_tagset:
  "decode_struct tagset_field (map encode_tag ts) c = Some (c\<lparr>Tg_TagSet := Tg_TagSet c @ ts\<rparr>)"
  by (induction ts arbitrary: c) (simp_all add: encode_tag_def tagset_field_def)

lemma decode_encode_tagging: "decode_tagging (encode_tagging c) = Some c"
  by (cases c) (simp add: decode_tagging_def encode_tagging_def decode_root_def tagging_kids_def
      tagging_field_def decode_tagset)

text \<open>
  The reader and the writer of one kind of document. The handlers of the bucket
  subresources are proved against this contract.
\<close>

locale xml_codec =
  fixes decode :: "xml \<Rightarrow> 'a option"
    and encode :: "'a \<Rightarrow> xml"
  assumes decode_encode: "decode (encode a) = Some a"
begin

lemma encode_inj: "encode a = encode b \<Longrightarrow> a = b"
  by (metis decode_encode option.inject)

end

interpretation lifecycle_xml: xml_codec decode_lifecycle encode_lifecycle
  by unfold_locales (rule decode_encode_lifecycle)

interpretation cors_xml: xml_codec decode_cors encode_cors
  by unfold_locales (rule decode_encode_cors)

interpretation logging_xml: xml_codec decode_logging encode_logging
  by unfold_locales (rule decode_encode_logging)

interpretation website_xml: xml_codec decode_website encode_website
  by unfold_locales (rule decode_encode_website)

interpretation tagging_xml: xml_codec decode_tagging encode_tagging
  by unfold_locales (rule decode_encode_tagging)

end
