(* ===== verification/Credstore_Json.thy ===== *)
theory Credstore_Json
  imports Go_Utf8 "HOL-Library.Finite_Map"
begin

text \<open>
  Reading a credential file: \<^verbatim>\<open>encoding/json\<close> into a \<^verbatim>\<open>map[string]string\<close>, and the checks
  of \<^verbatim>\<open>parse\<close>, \<^verbatim>\<open>ParseJSON\<close> and \<^verbatim>\<open>LoadFile\<close> in \<^verbatim>\<open>pkg/credstore/credstore.go\<close>. Only a flat
  object whose values are strings or null decodes without an error, so the decoder here
  is one for such objects and fails on every other input, as the library does (with a
  syntax error or a type error). Reading the file itself is a parameter.
\<close>

subsection \<open>Strings\<close>

definition json_space :: "char \<Rightarrow> bool" where
  "json_space c \<longleftrightarrow> byte_of c \<in> {9, 10, 13, 32}"

definition skip_space :: "string \<Rightarrow> string" where
  "skip_space s = dropWhile json_space s"

definition hex_nibble :: "char \<Rightarrow> nat option" where
  "hex_nibble c =
     (let n = byte_of c in
      if 48 \<le> n \<and> n \<le> 57 then Some (n - 48)
      else if 97 \<le> n \<and> n \<le> 102 then Some (n - 87)
      else if 65 \<le> n \<and> n \<le> 70 then Some (n - 55)
      else None)"

definition hex4 :: "string \<Rightarrow> nat option" where
  "hex4 s =
     (case map hex_nibble (take 4 s) of
        [Some a, Some b, Some c, Some d] \<Rightarrow> Some (((a * 16 + b) * 16 + c) * 16 + d)
      | _ \<Rightarrow> None)"

definition surrogate_pair :: "nat \<Rightarrow> nat \<Rightarrow> nat option" where
  "surrogate_pair r1 r2 =
     (if 0xD800 \<le> r1 \<and> r1 < 0xDC00 \<and> 0xDC00 \<le> r2 \<and> r2 < 0xE000
      then Some ((r1 - 0xD800) * 0x400 + (r2 - 0xDC00) + 0x10000) else None)"

text \<open>
  The text after a backslash: the bytes it stands for, and how many bytes it takes. A
  lone surrogate is U+FFFD.
\<close>

definition json_escape :: "string \<Rightarrow> (string \<times> nat) option" where
  "json_escape s =
     (case s of
        [] \<Rightarrow> None
      | e # es \<Rightarrow>
          if e = CHR ''u'' then
            (case hex4 es of
               None \<Rightarrow> None
             | Some r \<Rightarrow>
                 if 0xD800 \<le> r \<and> r < 0xE000 then
                   (if take 2 (drop 4 es) = [CHR 0x5C, CHR ''u''] then
                      (case hex4 (drop 6 es) of
                         None \<Rightarrow> Some (rune_error_bytes, 5)
                       | Some r2 \<Rightarrow>
                           (case surrogate_pair r r2 of
                              None \<Rightarrow> Some (rune_error_bytes, 5)
                            | Some p \<Rightarrow> Some (encode_rune p, 11)))
                    else Some (rune_error_bytes, 5))
                 else Some (encode_rune r, 5))
          else if e = CHR ''b'' then Some ([CHR 8], 1)
          else if e = CHR ''f'' then Some ([CHR 12], 1)
          else if e = CHR ''n'' then Some ([CHR 10], 1)
          else if e = CHR ''r'' then Some ([CHR 13], 1)
          else if e = CHR ''t'' then Some ([CHR 9], 1)
          else if byte_of e \<in> {34, 47, 92} then Some ([e], 1)
          else None)"

definition emit :: "string \<Rightarrow> (string \<times> string) option \<Rightarrow> (string \<times> string) option" where
  "emit out r = map_option (\<lambda>(s, rest). (out @ s, rest)) r"

text \<open>A string after its opening quote: its value and the rest of the input.\<close>

function json_chars :: "string \<Rightarrow> (string \<times> string) option" where
  "json_chars [] = None"
| "json_chars (c # cs) =
     (if byte_of c = 34 then Some ([], cs)
      else if byte_of c = 92 then
        (case json_escape cs of
           None \<Rightarrow> None
         | Some (out, n) \<Rightarrow> emit out (json_chars (drop n cs)))
      else if byte_of c < 32 then None
      else let (r, w) = decode_rune (c # cs) in emit (encode_rune r) (json_chars (drop w (c # cs))))"
  by pat_completeness auto
termination
proof (relation "measure length")
  fix c :: char and cs x r w
  assume "x = decode_rune (c # cs)" "(r, w) = x"
  with decode_rune_width(1) [of "c # cs"] have "1 \<le> w"
    by (metis list.discI snd_conv)
  then show "(drop w (c # cs), c # cs) \<in> measure length"
    by simp
qed simp_all

declare json_chars.simps(2) [simp del]

lemma json_chars_consumes: "json_chars s = Some (v, rest) \<Longrightarrow> length rest < length s"
proof (induction s arbitrary: v rest rule: json_chars.induct)
  case (2 c cs)
  obtain r w where rw: "decode_rune (c # cs) = (r, w)" by fastforce
  consider "byte_of c = 34" | "byte_of c \<noteq> 34" "byte_of c = 92"
    | "byte_of c \<noteq> 34" "byte_of c \<noteq> 92" "\<not> byte_of c < 32"
    using "2.prems" by (fastforce simp: json_chars.simps(2))
  then show ?case
  proof cases
    case 1
    with "2.prems" show ?thesis by (simp add: json_chars.simps(2))
  next
    case 2
    with "2.prems" obtain out n v' where
      "json_escape cs = Some (out, n)" "json_chars (drop n cs) = Some (v', rest)"
      by (auto simp: json_chars.simps(2) emit_def split: option.splits)
    with "2.IH"(1) [OF 2] have "length rest < length (drop n cs)" by auto
    then show ?thesis by simp
  next
    case 3
    with "2.prems" rw obtain v' where
      "json_chars (drop w (c # cs)) = Some (v', rest)"
      by (auto simp: json_chars.simps(2) emit_def)
    with "2.IH"(2) [OF 3 refl] rw have "length rest < length (drop w (c # cs))" by auto
    then show ?thesis by simp
  qed
qed simp

subsection \<open>Flat objects\<close>

text \<open>A value: a string, or null, which leaves the zero value.\<close>

definition json_value :: "string \<Rightarrow> (string \<times> string) option" where
  "json_value s =
     (case s of
        [] \<Rightarrow> None
      | c # cs \<Rightarrow>
          if byte_of c = 34 then json_chars cs
          else if prefix ''null'' s then Some ([], drop 4 s) else None)"

text \<open>One member, from its key's opening quote to the end of its value.\<close>

definition json_member :: "string \<Rightarrow> ((string \<times> string) \<times> string) option" where
  "json_member s =
     (case s of
        [] \<Rightarrow> None
      | c # cs \<Rightarrow>
          if byte_of c \<noteq> 34 then None
          else (case json_chars cs of
             None \<Rightarrow> None
           | Some (k, rest) \<Rightarrow>
               (case skip_space rest of
                  [] \<Rightarrow> None
                | d # ds \<Rightarrow>
                    if d \<noteq> CHR '':'' then None
                    else map_option (\<lambda>(v, rest'). ((k, v), rest')) (json_value (skip_space ds)))))"

lemma skip_space_length: "length (skip_space s) \<le> length s"
  by (simp add: skip_space_def length_dropWhile_le)

lemma json_value_length: "json_value s = Some (v, rest) \<Longrightarrow> length rest < length s"
  by (auto simp: json_value_def dest!: json_chars_consumes split: list.splits if_splits)

lemma json_member_length:
  assumes "json_member s = Some (kv, rest)"
  shows "length rest < length s"
proof -
  from assms obtain c cs k r1 d ds v where s: "s = c # cs" "json_chars cs = Some (k, r1)"
    "skip_space r1 = d # ds" "json_value (skip_space ds) = Some (v, rest)"
    by (auto simp: json_member_def split: list.splits option.splits if_splits)
  then have "length rest < length ds"
    using json_value_length [OF s(4)] skip_space_length [of ds] by linarith
  moreover have "length ds < length r1"
    using skip_space_length [of r1] s(3) by simp
  ultimately show ?thesis
    using json_chars_consumes [OF s(2)] s(1) by simp
qed

function json_members :: "string \<Rightarrow> ((string \<times> string) list \<times> string) option" where
  "json_members s =
     (case json_member s of
        None \<Rightarrow> None
      | Some (kv, rest) \<Rightarrow>
          (case skip_space rest of
             [] \<Rightarrow> None
           | c # cs \<Rightarrow>
               if c = CHR ''}'' then Some ([kv], cs)
               else if c = CHR '','' then map_option (\<lambda>(kvs, r). (kv # kvs, r)) (json_members (skip_space cs))
               else None))"
  by pat_completeness auto
termination
proof (relation "measure length")
  fix s x kv rest c cs
  assume "json_member s = Some x" "(kv, rest) = x" "skip_space rest = c # cs"
  with json_member_length [of s kv rest] skip_space_length [of rest] skip_space_length [of cs]
  show "(skip_space cs, s) \<in> measure length"
    by auto
qed simp

declare json_members.simps [simp del]

text \<open>The pairs of a document, in order; a null document decodes to no pair at all.\<close>

definition json_flat :: "string \<Rightarrow> (string \<times> string) list option" where
  "json_flat s =
     (case skip_space s of
        [] \<Rightarrow> None
      | c # cs \<Rightarrow>
          if c = CHR ''{'' then
            (case skip_space cs of
               [] \<Rightarrow> None
             | d # ds \<Rightarrow>
                 if d = CHR ''}'' then (if skip_space ds = [] then Some [] else None)
                 else (case json_members (d # ds) of
                         None \<Rightarrow> None
                       | Some (kvs, rest) \<Rightarrow> if skip_space rest = [] then Some kvs else None))
          else if prefix ''null'' (c # cs) \<and> skip_space (drop 3 cs) = [] then Some []
          else None)"

subsection \<open>The credential map\<close>

type_synonym credmap = "(string, string) fmap"

text \<open>
  \<open>BadEntry\<close> stands for both entry errors: which of two bad entries is reported depends
  on Go's map order.
\<close>

datatype cred_error = ReadFailed | EmptyPayload | MalformedJson | EmptyObject | BadEntry

definition blank :: "string \<Rightarrow> bool" where
  "blank s \<longleftrightarrow> trim_space s = []"

definition of_pairs :: "(string \<times> string) list \<Rightarrow> credmap" where
  "of_pairs kvs = fold (\<lambda>(k, v). fmupd k v) kvs fmempty"

definition credstore_parse :: "bytes \<Rightarrow> cred_error + credmap" where
  "credstore_parse data =
     (let trimmed = trim_space data in
      if trimmed = [] then Inl EmptyPayload
      else (case json_flat trimmed of
         None \<Rightarrow> Inl MalformedJson
       | Some kvs \<Rightarrow>
           let m = of_pairs kvs in
           if fmdom m = {||} then Inl EmptyObject
           else if fmpred (\<lambda>k v. \<not> blank k \<and> \<not> blank v) m then Inr m
           else Inl BadEntry))"

definition ParseJSON :: "string \<Rightarrow> cred_error + credmap" where
  "ParseJSON raw = credstore_parse raw"

text \<open>\<open>read\<close> is \<^verbatim>\<open>os.ReadFile\<close>: the content of the file, if it can be read.\<close>

definition LoadFile :: "(string \<Rightarrow> bytes option) \<Rightarrow> string \<Rightarrow> cred_error + credmap" where
  "LoadFile read path =
     (case read path of None \<Rightarrow> Inl ReadFailed | Some data \<Rightarrow> credstore_parse data)"

text \<open>What an accepted map is: not empty, with no blank key and no blank secret.\<close>

definition sound_credentials :: "credmap \<Rightarrow> bool" where
  "sound_credentials m \<longleftrightarrow> fmdom m \<noteq> {||} \<and> fmpred (\<lambda>k v. \<not> blank k \<and> \<not> blank v) m"

lemma parse_sound: "credstore_parse data = Inr m \<Longrightarrow> sound_credentials m"
  by (auto simp: credstore_parse_def sound_credentials_def Let_def split: if_splits option.splits)

lemma LoadFile_sound: "LoadFile read path = Inr m \<Longrightarrow> sound_credentials m"
  by (auto simp: LoadFile_def parse_sound split: option.splits)

lemma fmlookup_of_pairs: "fmlookup (of_pairs kvs) k = map_of (rev kvs) k"
proof -
  have "fmlookup (fold (\<lambda>(k, v). fmupd k v) kvs m) k = (fmlookup m ++ map_of (rev kvs)) k" for m
    by (induction kvs arbitrary: m) (auto simp: map_add_def split: option.splits)
  then show ?thesis by (simp add: of_pairs_def map_add_def split: option.splits)
qed

lemma strip_front_Nil [simp]: "strip_front es [] = []"
proof -
  have "find (\<lambda>e. e \<noteq> [] \<and> prefix e []) es = None"
    by (auto simp: find_None_iff)
  then show ?thesis by (subst strip_front.simps) (auto split: option.splits)
qed

lemma blank_Nil [simp]: "blank []"
  by (simp add: blank_def trim_space_def trim_left_space_def trim_right_space_def)

lemma sound_lookup: "sound_credentials m \<Longrightarrow> fmlookup m k = Some v \<Longrightarrow> k \<noteq> [] \<and> v \<noteq> []"
  unfolding sound_credentials_def fmpred_iff by (metis blank_Nil)

end
