(* ===== verification/Credstore.thy ===== *)
theory Credstore
  imports Credstore_Json Go_Url
begin

text \<open>
  \<^verbatim>\<open>pkg/credstore/credstore.go\<close>: the store of access keys, and the two functions that
  read an access key off a request. The store's map is replaced as a whole and never
  mutated, so an atomic value is its current content; the gauge of loaded credentials is
  kept with it.
\<close>

subsection \<open>The store\<close>

record store =
  st_map :: credmap
  st_loaded :: nat

definition New :: store where
  "New = \<lparr>st_map = fmempty, st_loaded = 0\<rparr>"

definition Replace :: "credmap \<Rightarrow> store \<Rightarrow> store" where
  "Replace m s = s\<lparr>st_map := m, st_loaded := fcard (fmdom m)\<rparr>"

definition Lookup :: "store \<Rightarrow> string \<Rightarrow> string option" where
  "Lookup s ak = fmlookup (st_map s) ak"

definition Size :: "store \<Rightarrow> nat" where
  "Size s = fcard (fmdom (st_map s))"

definition Snapshot :: "store \<Rightarrow> string fset" where
  "Snapshot s = fmdom (st_map s)"

text \<open>
  The contract the request path and the watcher rely on: what a lookup and the size say
  after a store was created or replaced.
\<close>

lemma fmdom_empty_iff: "fmdom m = {||} \<longleftrightarrow> (\<forall>k. fmlookup m k = None)"
  by (auto simp: fset_eq_iff fmlookup_dom_iff)

locale credential_store =
  fixes empty :: 's
    and replace :: "credmap \<Rightarrow> 's \<Rightarrow> 's"
    and lookup :: "'s \<Rightarrow> string \<Rightarrow> string option"
    and count :: "'s \<Rightarrow> nat"
  assumes lookup_empty: "lookup empty ak = None"
    and lookup_replace: "lookup (replace m s) ak = fmlookup m ak"
    and count_zero: "count s = 0 \<longleftrightarrow> (\<forall>ak. lookup s ak = None)"
begin

text \<open>The store holds real credentials: at least one, no empty key, no empty secret.\<close>

definition sound :: "'s \<Rightarrow> bool" where
  "sound s \<longleftrightarrow> 0 < count s \<and> (\<forall>ak sk. lookup s ak = Some sk \<longrightarrow> ak \<noteq> [] \<and> sk \<noteq> [])"

lemma replace_sound: "sound_credentials m \<Longrightarrow> sound (replace m s)"
  unfolding sound_def
proof (intro conjI allI impI)
  assume m: "sound_credentials m"
  then obtain ak where "fmlookup m ak \<noteq> None"
    by (auto simp: sound_credentials_def fmdom_empty_iff)
  then have "count (replace m s) \<noteq> 0"
    unfolding count_zero lookup_replace by auto
  then show "0 < count (replace m s)" by simp
  show "ak \<noteq> []" "sk \<noteq> []" if "lookup (replace m s) ak = Some sk" for ak sk
    using that m by (simp_all add: lookup_replace sound_lookup)
qed

lemma last_replace:
  "lookup (fold replace ms s) ak = (if ms = [] then lookup s ak else fmlookup (last ms) ak)"
  by (induction ms arbitrary: s) (simp_all add: lookup_replace)

lemma sound_never_empty: "sound s \<Longrightarrow> count s \<noteq> 0"
  by (simp add: sound_def)

lemma sound_no_empty_key: "sound s \<Longrightarrow> lookup s [] = None"
  by (cases "lookup s []") (auto simp: sound_def)

end

interpretation creds: credential_store New Replace Lookup Size
proof unfold_locales
  show "Size s = 0 \<longleftrightarrow> (\<forall>ak. Lookup s ak = None)" for s
    by (simp add: Size_def Lookup_def fmdom_empty_iff)
qed (simp_all add: New_def Replace_def Lookup_def)

lemma gauge_replace: "st_loaded (Replace m s) = Size (Replace m s)"
  by (simp add: Replace_def Size_def)

subsection \<open>The access key of a request\<close>

text \<open>\<open>None\<close> is \<^verbatim>\<open>ErrNoCredential\<close>.\<close>

definition before_slash :: "string \<Rightarrow> string option" where
  "before_slash s =
     (case index_byte s (CHR ''/'') of
        None \<Rightarrow> None | Some i \<Rightarrow> if i = 0 then None else Some (take i s))"

definition ExtractAccessKey :: "string \<Rightarrow> string option" where
  "ExtractAccessKey header =
     (if header = [] then None
      else (case str_index ''Credential='' header of
         None \<Rightarrow> None
       | Some i \<Rightarrow> before_slash (drop (i + length ''Credential='') header)))"

text \<open>The value of one segment of the query, with its escaped slashes replaced.\<close>

definition presigned_key :: "string \<Rightarrow> string option" where
  "presigned_key raw =
     before_slash (replace_all ''%2f'' ''/'' (replace_all ''%2F'' ''/'' raw))"

function query_loop :: "string \<Rightarrow> string option" where
  "query_loop query =
     (if query = [] then None
      else let (seg, rest) = (case index_byte query (CHR ''&'') of
                                None \<Rightarrow> (query, [])
                              | Some i \<Rightarrow> (take i query, drop (Suc i) query))
      in (case index_byte seg (CHR ''='') of
            None \<Rightarrow> query_loop rest
          | Some eq \<Rightarrow>
              if \<not> equal_fold (take eq seg) ''X-Amz-Credential'' then query_loop rest
              else presigned_key (drop (Suc eq) seg)))"
  by pat_completeness auto
termination
  by (relation "measure length") (auto split: option.splits)

declare query_loop.simps [simp del]

definition ExtractAccessKeyFromQuery :: "string \<Rightarrow> string option" where
  "ExtractAccessKeyFromQuery query = (if query = [] then None else query_loop query)"

subsection \<open>What is extracted\<close>

lemma before_slash_Some: "before_slash s = Some ak \<Longrightarrow> ak \<noteq> [] \<and> CHR ''/'' \<notin> set ak"
  using index_byte_Some [of s "CHR ''/''"]
  by (auto simp: before_slash_def split: option.splits if_splits)

lemma before_slash_append:
  "ak \<noteq> [] \<Longrightarrow> CHR ''/'' \<notin> set ak \<Longrightarrow> before_slash (ak @ CHR ''/'' # s) = Some ak"
  by (simp add: before_slash_def index_byte_append)

text \<open>The loop is the first segment of the query whose key is \<^verbatim>\<open>X-Amz-Credential\<close>.\<close>

definition credential_segment :: "string \<Rightarrow> bool" where
  "credential_segment seg \<longleftrightarrow>
     (case index_byte seg (CHR ''='') of
        None \<Rightarrow> False | Some eq \<Rightarrow> equal_fold (take eq seg) ''X-Amz-Credential'')"

definition segment_value :: "string \<Rightarrow> string" where
  "segment_value seg =
     (case index_byte seg (CHR ''='') of None \<Rightarrow> [] | Some eq \<Rightarrow> drop (Suc eq) seg)"

lemma credential_segment_Nil [simp]: "\<not> credential_segment []"
  by (simp add: credential_segment_def)

lemma query_loop_find:
  "query_loop q =
     (case find credential_segment (split_byte (CHR ''&'') q) of
        None \<Rightarrow> None | Some seg \<Rightarrow> presigned_key (segment_value seg))"
proof (induction q rule: length_induct)
  case (1 q)
  show ?case
  proof (cases "q = []")
    case False
    show ?thesis
    proof (cases "index_byte q (CHR ''&'')")
      case None
      then have q: "split_byte (CHR ''&'') q = [q]"
        by (simp add: split_byte_step [of _ q])
      have "query_loop [] = None" by (subst query_loop.simps) simp
      with False None show ?thesis unfolding q
        by (subst query_loop.simps)
          (auto simp: credential_segment_def segment_value_def split: option.splits)
    next
      case (Some i)
      let ?seg = "take i q" and ?rest = "drop (Suc i) q"
      have q: "split_byte (CHR ''&'') q = ?seg # split_byte (CHR ''&'') ?rest"
        using Some by (simp add: split_byte_step [of _ q])
      have step: "query_loop q =
          (if credential_segment ?seg then presigned_key (segment_value ?seg) else query_loop ?rest)"
        using False Some
        by (subst query_loop.simps)
          (auto simp: credential_segment_def segment_value_def split: option.splits)
      have "length ?rest < length q"
        using False by (cases q) auto
      with 1 show ?thesis unfolding q step by simp
    qed
  qed (simp add: query_loop.simps)
qed

lemma ExtractAccessKeyFromQuery_find:
  "ExtractAccessKeyFromQuery q =
     (case find credential_segment (split_byte (CHR ''&'') q) of
        None \<Rightarrow> None | Some seg \<Rightarrow> presigned_key (segment_value seg))"
  by (simp add: ExtractAccessKeyFromQuery_def query_loop_find)

text \<open>The two ways a client names its key.\<close>

lemma replace_all_skip:
  "old \<noteq> [] \<Longrightarrow> hd old \<notin> set x \<Longrightarrow> replace_all old new (x @ s) = x @ replace_all old new s"
  by (induction x) (auto simp: neq_Nil_conv)

lemma replace_all_hit:
  "old \<noteq> [] \<Longrightarrow> replace_all old new (old @ s) = new @ replace_all old new s"
  by (cases old) auto

lemma presigned_key_escaped:
  assumes "ak \<noteq> []" "CHR ''/'' \<notin> set ak" "CHR ''%'' \<notin> set ak"
  shows "presigned_key (ak @ ''%2F'' @ s) = Some ak" "presigned_key (ak @ ''%2f'' @ s) = Some ak"
    "presigned_key (ak @ ''/'' @ s) = Some ak"
proof -
  let ?r = "\<lambda>x. replace_all ''%2F'' ''/'' x" and ?l = "\<lambda>x. replace_all ''%2f'' ''/'' x"
  have "?r (ak @ ''%2F'' @ s) = ak @ ''/'' @ ?r s" "?r (ak @ ''%2f'' @ s) = ak @ ''%2f'' @ ?r s"
    "?r (ak @ ''/'' @ s) = ak @ ''/'' @ ?r s"
    using assms(3) by (simp_all add: replace_all_skip)
  moreover have "?l (ak @ ''/'' @ x) = ak @ ''/'' @ ?l x" "?l (ak @ ''%2f'' @ x) = ak @ ''/'' @ ?l x" for x
    using assms(3) by (simp_all add: replace_all_skip)
  ultimately show "presigned_key (ak @ ''%2F'' @ s) = Some ak" "presigned_key (ak @ ''%2f'' @ s) = Some ak"
    "presigned_key (ak @ ''/'' @ s) = Some ak"
    using before_slash_append [OF assms(1,2)] by (simp_all add: presigned_key_def)
qed

lemma ExtractAccessKey_sigv4:
  assumes "ak \<noteq> []" "CHR ''/'' \<notin> set ak"
  shows "ExtractAccessKey (''AWS4-HMAC-SHA256 Credential='' @ ak @ ''/'' @ rest) = Some ak"
  using before_slash_append [OF assms, of rest] by (simp add: ExtractAccessKey_def)

end
