(* ===== verification/Config.thy ===== *)
theory Config
  imports Credstore Go_Time
begin

text \<open>
  \<^verbatim>\<open>config/settings.go\<close>: the settings and how they are read from the environment. The
  environment (after \<^verbatim>\<open>godotenv.Load\<close> has added the variables of a \<^verbatim>\<open>.env\<close> file) and
  the reading of files are parameters; an exit by \<^verbatim>\<open>log.Fatal\<close> is an error value.
\<close>

record FeatureFlags =
  Lifecycle_on :: bool
  CORS_on :: bool
  Logging_on :: bool
  Website_on :: bool
  Tagging_on :: bool
  RestoreObject_on :: bool
  CopyObject_on :: bool
  MultipartUpload_on :: bool
  DeleteObjects_on :: bool
  HealthEndpoint_on :: bool
  ReadyzEndpoint_on :: bool
  MetricsEndpoint_on :: bool

record Settings =
  Port :: string
  GCPProjectID :: string
  TargetBucket :: string
  StorageBaseURL :: string
  GCSPrefix :: string
  DryRun :: bool
  DebugLogging :: bool
  MaxIdleConns :: int
  MaxIdleConnsPerHost :: int
  MaxConcurrentRequests :: int
  GCSCallTimeout :: int64
  IdleConnTimeout :: int64
  ResponseHeaderTimeout :: int64
  ReadBufferSize :: int
  WriteBufferSize :: int
  ProxyBufferSize :: int
  FlushIntervalMS :: int
  ProxyAccessKey :: string
  ProxySecretKey :: string
  JSONKey :: string
  ProxyBaseDomain :: string
  DisableHeaderStrip :: bool
  HMACCredentials :: credmap
  CredentialsFile :: string
  HMACStrict :: bool
  PPROFAddr :: string
  RestoreSkipExistenceCheck :: bool
  ReqLogEnabled :: bool
  ReqLogPath :: string
  ReqLogMaxSizeMB :: int
  ReqLogMaxBackup :: int
  ReqLogChanBuf :: int
  ReqLogKeepDays :: int
  Features :: FeatureFlags

subsection \<open>Variables\<close>

type_synonym environ = "string \<Rightarrow> string option"

definition getEnv :: "environ \<Rightarrow> string \<Rightarrow> string \<Rightarrow> string" where
  "getEnv env key fallback = (case env key of Some v \<Rightarrow> v | None \<Rightarrow> fallback)"

definition getEnvBool :: "environ \<Rightarrow> string \<Rightarrow> bool \<Rightarrow> bool" where
  "getEnvBool env key fallback =
     (case env key of
        None \<Rightarrow> fallback
      | Some raw \<Rightarrow>
          if raw \<in> set [''true'', ''TRUE'', ''True'', ''1''] then True
          else if raw \<in> set [''false'', ''FALSE'', ''False'', ''0''] then False
          else fallback)"

text \<open>
  One integer setting: the variable \<open>key\<close> with its textual dflt, the value used when
  it is empty or not a number, and what is made of a number.
\<close>

definition env_int :: "environ \<Rightarrow> string \<Rightarrow> string \<Rightarrow> int \<Rightarrow> (int \<Rightarrow> int) \<Rightarrow> int" where
  "env_int env key text dflt f =
     (let v = getEnv env key text in
      if v = [] then dflt
      else (case parse_int v of None \<Rightarrow> dflt | Some n \<Rightarrow> f n))"

definition or_zero :: "int \<Rightarrow> int" where
  "or_zero n = (if 0 < n then n else 0)"

definition or_default :: "int \<Rightarrow> int \<Rightarrow> int" where
  "or_default d n = (if 0 < n then n else d)"

definition maxIdleConns :: "environ \<Rightarrow> int" where
  "maxIdleConns env = env_int env ''MAX_IDLE_CONNS'' ''1000'' 1000 id"

definition maxIdleConnsPerHost :: "environ \<Rightarrow> int" where
  "maxIdleConnsPerHost env = env_int env ''MAX_IDLE_CONNS_PER_HOST'' ''1000'' 1000 id"

definition maxConcurrentRequests :: "environ \<Rightarrow> int" where
  "maxConcurrentRequests env = env_int env ''MAX_CONCURRENT_REQUESTS'' ''1000'' 1000 or_zero"

definition gcsCallTimeoutSec :: "environ \<Rightarrow> int" where
  "gcsCallTimeoutSec env = env_int env ''GCS_CALL_TIMEOUT_SEC'' ''30'' 30 or_zero"

definition idleConnTimeoutSec :: "environ \<Rightarrow> int" where
  "idleConnTimeoutSec env = env_int env ''IDLE_CONN_TIMEOUT_SEC'' ''120'' 120 (or_default 120)"

definition responseHeaderTimeoutSec :: "environ \<Rightarrow> int" where
  "responseHeaderTimeoutSec env =
     env_int env ''RESPONSE_HEADER_TIMEOUT_SEC'' ''30'' 30 (or_default 30)"

definition readBufferSize :: "environ \<Rightarrow> int" where
  "readBufferSize env = env_int env ''READ_BUFFER_SIZE'' ''65536'' 65536 (or_default 65536)"

definition writeBufferSize :: "environ \<Rightarrow> int" where
  "writeBufferSize env = env_int env ''WRITE_BUFFER_SIZE'' ''65536'' 65536 (or_default 65536)"

definition proxyBufferSize :: "environ \<Rightarrow> int" where
  "proxyBufferSize env = env_int env ''PROXY_BUFFER_SIZE'' ''32768'' 32768 (or_default 32768)"

text \<open>Only a variable that is set and not empty is read here.\<close>

definition flushIntervalMS :: "environ \<Rightarrow> int" where
  "flushIntervalMS env =
     (case env ''FLUSH_INTERVAL_MS'' of
        None \<Rightarrow> -1
      | Some v \<Rightarrow> if v = [] then -1 else (case parse_int v of None \<Rightarrow> -1 | Some n \<Rightarrow> n))"

definition reqLogMaxSizeMB :: "environ \<Rightarrow> int" where
  "reqLogMaxSizeMB env = env_int env ''REQUEST_LOG_MAX_SIZE_MB'' ''512'' 512 (or_default 512)"

definition reqLogMaxBackup :: "environ \<Rightarrow> int" where
  "reqLogMaxBackup env = env_int env ''REQUEST_LOG_MAX_BACKUP'' ''5'' 5 (or_default 5)"

definition reqLogChanBuf :: "environ \<Rightarrow> int" where
  "reqLogChanBuf env = env_int env ''REQUEST_LOG_CHAN_BUF'' ''10240'' 10240 (or_default 10240)"

definition reqLogKeepDays :: "environ \<Rightarrow> int" where
  "reqLogKeepDays env = env_int env ''REQUEST_LOG_KEEP_DAYS'' ''7'' 7 (or_default 7)"

definition load_features :: "environ \<Rightarrow> FeatureFlags" where
  "load_features env =
     \<lparr>Lifecycle_on = getEnvBool env ''ENABLE_LIFECYCLE'' True,
      CORS_on = getEnvBool env ''ENABLE_CORS'' True,
      Logging_on = getEnvBool env ''ENABLE_LOGGING'' True,
      Website_on = getEnvBool env ''ENABLE_WEBSITE'' True,
      Tagging_on = getEnvBool env ''ENABLE_TAGGING'' True,
      RestoreObject_on = getEnvBool env ''ENABLE_RESTORE_OBJECT'' True,
      CopyObject_on = getEnvBool env ''ENABLE_COPY_OBJECT'' True,
      MultipartUpload_on = getEnvBool env ''ENABLE_MULTIPART_UPLOAD'' True,
      DeleteObjects_on = getEnvBool env ''ENABLE_DELETE_OBJECTS'' True,
      HealthEndpoint_on = getEnvBool env ''ENABLE_HEALTH_ENDPOINT'' True,
      ReadyzEndpoint_on = getEnvBool env ''ENABLE_READYZ_ENDPOINT'' True,
      MetricsEndpoint_on = getEnvBool env ''ENABLE_METRICS_ENDPOINT'' True\<rparr>"

subsection \<open>Credentials\<close>

datatype fatal_error =
    CredentialsFileInvalid cred_error
  | CredentialsInlineInvalid cred_error
  | NoCredentials

datatype cred_source = FromFile | FromInline | FromLegacy | FromNone

text \<open>\<open>read\<close> is \<^verbatim>\<open>os.ReadFile\<close>. The result is the map, the path to watch, and the source.\<close>

definition loadHMACCredentials ::
  "(string \<Rightarrow> bytes option) \<Rightarrow> environ \<Rightarrow> string \<Rightarrow> string \<Rightarrow>
     fatal_error + credmap \<times> string \<times> cred_source" where
  "loadHMACCredentials read env legacyAK legacySK =
     (let path = getEnv env ''HMAC_CREDENTIALS_FILE'' [];
          raw = getEnv env ''HMAC_CREDENTIALS'' []
      in if path \<noteq> [] then
           (case LoadFile read path of
              Inl e \<Rightarrow> Inl (CredentialsFileInvalid e)
            | Inr m \<Rightarrow> Inr (m, path, FromFile))
         else if raw \<noteq> [] then
           (case ParseJSON raw of
              Inl e \<Rightarrow> Inl (CredentialsInlineInvalid e)
            | Inr m \<Rightarrow> Inr (m, [], FromInline))
         else if legacyAK \<noteq> [] \<and> legacySK \<noteq> [] then
           Inr (fmupd legacyAK legacySK fmempty, [], FromLegacy)
         else Inr (fmempty, [], FromNone))"

definition seconds :: "int \<Rightarrow> int64" where
  "seconds n = word_of_int n * nanos_per_sec"

definition proxyAK :: "environ \<Rightarrow> string" where
  "proxyAK env = getEnv env ''PROXY_AWS_ACCESS_KEY_ID'' (getEnv env ''AWS_ACCESS_KEY_ID'' [])"

definition proxySK :: "environ \<Rightarrow> string" where
  "proxySK env =
     getEnv env ''PROXY_AWS_SECRET_ACCESS_KEY'' (getEnv env ''AWS_SECRET_ACCESS_KEY'' [])"

definition load_dry_run :: "environ \<Rightarrow> bool" where
  "load_dry_run env = (getEnv env ''DRY_RUN'' ''true'' = ''true'')"

subsection \<open>The settings\<close>

definition build_settings :: "environ \<Rightarrow> credmap \<times> string \<times> cred_source \<Rightarrow> Settings" where
  "build_settings env = (\<lambda>(credsMap, credsFile, source).
     \<lparr>Port = getEnv env ''PORT'' ''8080'',
      GCPProjectID = getEnv env ''GCP_PROJECT_ID'' [],
      TargetBucket = getEnv env ''TARGET_BUCKET'' [],
      StorageBaseURL = getEnv env ''STORAGE_BASE_URL'' ''https://storage.googleapis.com'',
      GCSPrefix = getEnv env ''GCS_PREFIX'' [],
      DryRun = load_dry_run env,
      DebugLogging = (getEnv env ''DEBUG_LOGGING'' ''false'' = ''true''),
      MaxIdleConns = maxIdleConns env,
      MaxIdleConnsPerHost = maxIdleConnsPerHost env,
      MaxConcurrentRequests = maxConcurrentRequests env,
      GCSCallTimeout = seconds (gcsCallTimeoutSec env),
      IdleConnTimeout = seconds (idleConnTimeoutSec env),
      ResponseHeaderTimeout = seconds (responseHeaderTimeoutSec env),
      ReadBufferSize = readBufferSize env,
      WriteBufferSize = writeBufferSize env,
      ProxyBufferSize = proxyBufferSize env,
      FlushIntervalMS = flushIntervalMS env,
      ProxyAccessKey = proxyAK env,
      ProxySecretKey = proxySK env,
      JSONKey = getEnv env ''JSON_KEY'' [],
      ProxyBaseDomain = getEnv env ''PROXY_BASE_DOMAIN'' [],
      DisableHeaderStrip = getEnvBool env ''DISABLE_HEADER_STRIP'' True,
      HMACCredentials = credsMap,
      CredentialsFile = credsFile,
      HMACStrict = getEnvBool env ''HMAC_STRICT'' (source \<noteq> FromLegacy),
      PPROFAddr = getEnv env ''PPROF_ADDR'' [],
      RestoreSkipExistenceCheck =
        (getEnv env ''RESTORE_SKIP_EXISTENCE_CHECK'' ''false'' = ''true''),
      ReqLogEnabled = (getEnv env ''REQUEST_LOG_ENABLED'' ''true'' = ''true''),
      ReqLogPath = getEnv env ''REQUEST_LOG_PATH'' ''./logs/req_%Y%M%D.csv'',
      ReqLogMaxSizeMB = reqLogMaxSizeMB env,
      ReqLogMaxBackup = reqLogMaxBackup env,
      ReqLogChanBuf = reqLogChanBuf env,
      ReqLogKeepDays = reqLogKeepDays env,
      Features = load_features env\<rparr>)"

definition LoadConfig :: "(string \<Rightarrow> bytes option) \<Rightarrow> environ \<Rightarrow> fatal_error + Settings" where
  "LoadConfig read env =
     res_bind (loadHMACCredentials read env (proxyAK env) (proxySK env)) (\<lambda>creds.
       let (credsMap, credsFile, source) = creds in
       if \<not> load_dry_run env \<and> fmdom credsMap = {||} \<and> credsFile = [] then Inl NoCredentials
       else Inr (build_settings env creds))"

text \<open>The store \<^verbatim>\<open>main\<close> starts with.\<close>

definition seed_store :: "Settings \<Rightarrow> store" where
  "seed_store cfg =
     (if 0 < fcard (fmdom (HMACCredentials cfg)) then Replace (HMACCredentials cfg) New else New)"

subsection \<open>What loading guarantees\<close>

text \<open>No value outside its domain is ever loaded, whatever the environment holds.\<close>

lemma env_int_bound:
  assumes "P dflt" "\<And>n. P (f n)"
  shows "P (env_int env key text dflt f)"
  using assms by (simp add: env_int_def Let_def split: option.splits)

lemma or_default_pos: "0 < d \<Longrightarrow> 0 < or_default d n"
  by (simp add: or_default_def)

lemma or_zero_nonneg: "0 \<le> or_zero n"
  by (simp add: or_zero_def)

definition sane_settings :: "Settings \<Rightarrow> bool" where
  "sane_settings cfg \<longleftrightarrow>
     0 \<le> MaxConcurrentRequests cfg \<and> 0 < ReadBufferSize cfg \<and> 0 < WriteBufferSize cfg
     \<and> 0 < ProxyBufferSize cfg \<and> 0 < ReqLogMaxSizeMB cfg \<and> 0 < ReqLogMaxBackup cfg
     \<and> 0 < ReqLogChanBuf cfg \<and> 0 < ReqLogKeepDays cfg"

lemma build_sane: "sane_settings (build_settings env creds)"
  by (cases creds)
    (simp add: sane_settings_def build_settings_def maxConcurrentRequests_def readBufferSize_def
      writeBufferSize_def proxyBufferSize_def reqLogMaxSizeMB_def reqLogMaxBackup_def
      reqLogChanBuf_def reqLogKeepDays_def env_int_bound or_default_pos or_zero_nonneg)

lemma LoadConfig_Inr:
  assumes "LoadConfig read env = Inr cfg"
  obtains m path source where
    "loadHMACCredentials read env (proxyAK env) (proxySK env) = Inr (m, path, source)"
    "cfg = build_settings env (m, path, source)"
    "load_dry_run env \<or> fmdom m \<noteq> {||} \<or> path \<noteq> []"
proof -
  from assms obtain creds where
    l: "loadHMACCredentials read env (proxyAK env) (proxySK env) = Inr creds"
    and c: "(let (credsMap, credsFile, source) = creds in
       if \<not> load_dry_run env \<and> fmdom credsMap = {||} \<and> credsFile = [] then Inl NoCredentials
       else Inr (build_settings env creds)) = Inr cfg"
    by (auto simp: LoadConfig_def res_bind_Inr_iff)
  obtain m path source where "creds = (m, path, source)" by (cases creds)
  with l c that show thesis by (fastforce split: if_splits)
qed

lemma build_settings_simps [simp]:
  "DryRun (build_settings env (m, path, source)) = load_dry_run env"
  "HMACCredentials (build_settings env (m, path, source)) = m"
  "CredentialsFile (build_settings env (m, path, source)) = path"
  "ProxyAccessKey (build_settings env (m, path, source)) = proxyAK env"
  "ProxySecretKey (build_settings env (m, path, source)) = proxySK env"
  "GCSCallTimeout (build_settings env (m, path, source)) = seconds (gcsCallTimeoutSec env)"
  "Features (build_settings env (m, path, source)) = load_features env"
  by (simp_all add: build_settings_def)

text \<open>The credentials of a loaded configuration, by where they came from.\<close>

lemma loaded_credentials:
  assumes "loadHMACCredentials read env ak sk = Inr (m, path, source)"
  shows "sound_credentials m \<and> source \<in> {FromFile, FromInline}
    \<or> m = fmupd ak sk fmempty \<and> ak \<noteq> [] \<and> sk \<noteq> [] \<and> source = FromLegacy
    \<or> m = fmempty \<and> source = FromNone \<and> path = [] \<and> (ak = [] \<or> sk = [])"
  using assms
  by (auto simp: loadHMACCredentials_def Let_def ParseJSON_def LoadFile_sound parse_sound
      split: if_splits sum.splits)

lemma seed_sound:
  assumes "loadHMACCredentials read env ak sk = Inr (m, path, source)" "source \<noteq> FromNone"
    and "HMACCredentials cfg = m"
  shows "creds.sound (seed_store cfg)"
  using loaded_credentials [OF assms(1)]
proof (elim disjE conjE)
  assume "sound_credentials m"
  with assms(3) show ?thesis
    by (auto simp: seed_store_def sound_credentials_def creds.replace_sound)
next
  assume "m = fmupd ak sk fmempty" "ak \<noteq> []" "sk \<noteq> []"
  with assms(3) show ?thesis
    by (simp add: seed_store_def creds.sound_def Replace_def Size_def Lookup_def)
qed (use assms(2) in auto)

text \<open>
  Outside of a dry run the proxy either refuses to start or holds real credentials; and
  when it holds none, it has no complete legacy pair to fall back to either.
\<close>

lemma loaded_store_sound:
  assumes "LoadConfig read env = Inr cfg" "\<not> DryRun cfg"
  shows "creds.sound (seed_store cfg)"
proof (rule LoadConfig_Inr [OF assms(1)])
  fix m path source
  assume l: "loadHMACCredentials read env (proxyAK env) (proxySK env) = Inr (m, path, source)"
    and cfg: "cfg = build_settings env (m, path, source)"
    and c: "load_dry_run env \<or> fmdom m \<noteq> {||} \<or> path \<noteq> []"
  have "source \<noteq> FromNone"
    using loaded_credentials [OF l] c cfg assms(2) by auto
  from seed_sound [OF l this] cfg show ?thesis by simp
qed

text \<open>Only the legacy pair is taken as it stands; what is parsed holds no blank text.\<close>

lemma seeded_pairs:
  assumes "LoadConfig read env = Inr cfg" "\<not> DryRun cfg"
  shows "sound_credentials (st_map (seed_store cfg))
    \<or> getEnv env ''HMAC_CREDENTIALS_FILE'' [] = [] \<and> getEnv env ''HMAC_CREDENTIALS'' [] = []
      \<and> st_map (seed_store cfg) = fmupd (proxyAK env) (proxySK env) fmempty"
proof (rule LoadConfig_Inr [OF assms(1)])
  fix m path source
  assume l: "loadHMACCredentials read env (proxyAK env) (proxySK env) = Inr (m, path, source)"
    and cfg: "cfg = build_settings env (m, path, source)"
    and c: "load_dry_run env \<or> fmdom m \<noteq> {||} \<or> path \<noteq> []"
  have "getEnv env ''HMAC_CREDENTIALS_FILE'' [] = [] \<and> getEnv env ''HMAC_CREDENTIALS'' [] = []"
    if "source = FromLegacy"
    using l that by (auto simp: loadHMACCredentials_def Let_def split: if_splits sum.splits)
  with loaded_credentials [OF l] c cfg assms(2) show ?thesis
    by (auto simp: seed_store_def Replace_def sound_credentials_def)
qed

lemma no_fallback_pair:
  assumes "LoadConfig read env = Inr cfg" "\<not> creds.sound (seed_store cfg)"
  shows "ProxyAccessKey cfg = [] \<or> ProxySecretKey cfg = []"
proof (rule LoadConfig_Inr [OF assms(1)])
  fix m path source
  assume l: "loadHMACCredentials read env (proxyAK env) (proxySK env) = Inr (m, path, source)"
    and cfg: "cfg = build_settings env (m, path, source)"
  have "source = FromNone"
    using seed_sound [OF l, of cfg] cfg assms(2) by auto
  with loaded_credentials [OF l] cfg show ?thesis by auto
qed

text \<open>A timeout of up to 292 years is the number of seconds asked for; zero disables it.\<close>

lemma timeout_exact:
  assumes "0 \<le> n" "n \<le> 9223372036"
  shows "sint (seconds n) = n * 1000000000"
proof -
  have "sint (word_of_int n :: int64) = n"
    using assms by (simp add: signed_of_int signed_take_bit_int_eq_self)
  with assms sint_seconds [of "word_of_int n"] show ?thesis
    by (simp add: seconds_def)
qed

end
