(* ===== verification/Handler_Base.thy ===== *)
theory Handler_Base
  imports Metrics S3_Xml Gcs_Types Config
begin

text \<open>
  What every control-plane handler of \<^verbatim>\<open>main.go\<close> is made of: the S3 error response, the
  body reader with its size cap, the bucket and object of the path, the feature gate and
  the timed GCS call. A handler is a function on the \<open>world\<close>: the response under
  construction, the state of GCS (opaque) and the metrics recorded so far. The log lines
  of the handlers are in Handler_Log.
\<close>

datatype metric =
    FeatureDisabledRejections string
  | HMACCredentialLookups string
  | GCSAPIDurationSeconds string
  | GCSErrorsTotal string string

record 's world =
  w_ops :: "writer_op list"
  w_gcs :: 's
  w_metrics :: "metric list"

text \<open>
  The globals the handlers read: the settings, the GCS client (and whether it is non-nil),
  the XML tokenizer, the Unicode tables, the order in which Go enumerates a map, the
  current time as \<^verbatim>\<open>http.TimeFormat\<close> prints it, and the text of a \<^verbatim>\<open>time.ParseError\<close>.
\<close>

record 's proxy =
  px_config :: Settings
  px_api :: "'s gcs_api"
  px_client :: bool
  px_xml :: "bytes \<Rightarrow> xml option"
  px_unicode :: unicode
  px_order :: "(string \<Rightarrow> ObjectCustomContextPayload option) \<Rightarrow> string list"
  px_date :: string
  px_parse_error :: "string \<Rightarrow> string"

subsection \<open>Responses\<close>

text \<open>The response these calls produce.\<close>

definition w_rw :: "'s world \<Rightarrow> response" where
  "w_rw w = run_ops (w_ops w) empty_response"

definition respond :: "writer_op list \<Rightarrow> 's world \<Rightarrow> 's world" where
  "respond ops w = w\<lparr>w_ops := w_ops w @ ops\<rparr>"

definition count_metric :: "metric \<Rightarrow> 's world \<Rightarrow> 's world" where
  "count_metric m w = w\<lparr>w_metrics := w_metrics w @ [m]\<rparr>"

definition send_status :: "int \<Rightarrow> 's world \<Rightarrow> 's world" where
  "send_status code w = respond [OpStatus code] w"

text \<open>\<^verbatim>\<open>xml.Header\<close>\<close>

definition xml_header :: string where
  "xml_header = ''<?xml version='' @ [CHR 34] @ ''1.0'' @ [CHR 34] @ '' encoding='' @ [CHR 34]
     @ ''UTF-8'' @ [CHR 34] @ ''?>'' @ [CHR 10]"

definition s3ErrorBody :: "string \<Rightarrow> string \<Rightarrow> xml" where
  "s3ErrorBody code message = Elem ''Error'' [text_elem ''Code'' code, text_elem ''Message'' message]"

definition writeS3Error :: "int \<Rightarrow> string \<Rightarrow> string \<Rightarrow> 's world \<Rightarrow> 's world" where
  "writeS3Error statusCode code message w =
     respond [OpHeader ''Content-Type'' ''application/xml'', OpStatus statusCode, OpWrite xml_header,
           OpWrite (render (s3ErrorBody code message)), OpWrite [CHR 10]] w"

text \<open>The success response with a document.\<close>

definition send_xml :: "xml \<Rightarrow> 's world \<Rightarrow> 's world" where
  "send_xml x w =
     respond [OpHeader ''Content-Type'' ''application/xml'', OpStatus 200, OpWrite (render x)] w"

text \<open>A step that may have answered already, in which case the handler returns.\<close>

definition or_return :: "'a option \<times> 'w \<Rightarrow> ('a \<Rightarrow> 'w \<Rightarrow> 'w) \<Rightarrow> 'w" where
  "or_return p k = (case p of (None, w) \<Rightarrow> w | (Some a, w) \<Rightarrow> k a w)"

lemma or_return_simps [simp]: "or_return (None, w) k = w" "or_return (Some a, w) k = k a w"
  by (simp_all add: or_return_def)

subsection \<open>Request body and path\<close>

definition maxControlPlaneBodySize :: nat where
  "maxControlPlaneBodySize = 64 * 1024"

datatype body_result = BodyTooBig | BodyFailed | BodyOk bytes

text \<open>Reading everything through \<^verbatim>\<open>http.MaxBytesReader\<close>; no body reads as empty.\<close>

definition read_capped :: "req_body option \<Rightarrow> body_result" where
  "read_capped b =
     (case b of
        None \<Rightarrow> BodyOk []
      | Some x \<Rightarrow>
          if maxControlPlaneBodySize < length (body_bytes x) then BodyTooBig
          else if body_fails x then BodyFailed
          else BodyOk (body_bytes x))"

definition too_big_message :: string where
  "too_big_message =
     ''Your request was too big. Max configuration size is '' @ show_nat maxControlPlaneBodySize @ '' bytes.''"

definition decodeControlPlaneXML ::
  "'s proxy \<Rightarrow> (xml \<Rightarrow> 'a option) \<Rightarrow> request \<Rightarrow> 's world \<Rightarrow> 'a option \<times> 's world" where
  "decodeControlPlaneXML px decode r w =
     (case read_capped (req_body r) of
        BodyTooBig \<Rightarrow> (None, writeS3Error 400 ''MaxMessageLengthExceeded'' too_big_message w)
      | BodyFailed \<Rightarrow> (None, writeS3Error 500 ''InternalError'' ''Failed to read request body.'' w)
      | BodyOk body \<Rightarrow>
          (case Option.bind (px_xml px body) decode of
             None \<Rightarrow> (None, writeS3Error 400 ''MalformedXML''
               ''The XML you provided was not well-formed or did not validate against our published schema.'' w)
           | Some doc \<Rightarrow> (Some doc, w)))"

definition path_parts :: "request \<Rightarrow> string list" where
  "path_parts r = split_byte (CHR ''/'') (trim_byte (url_path (req_url r)) (CHR ''/''))"

definition parseBucketFromPath :: "request \<Rightarrow> 's world \<Rightarrow> string option \<times> 's world" where
  "parseBucketFromPath r w =
     (case path_parts r of
        [] \<Rightarrow> (None, writeS3Error 400 ''InvalidArgument'' ''Bucket name required.'' w)
      | b # _ \<Rightarrow>
          if b = [] then (None, writeS3Error 400 ''InvalidArgument'' ''Bucket name required.'' w)
          else (Some b, w))"

text \<open>The bucket and object of a tagging or restore request.\<close>

definition parse_object_path ::
  "string \<Rightarrow> request \<Rightarrow> 's world \<Rightarrow> (string \<times> string) option \<times> 's world" where
  "parse_object_path message r w =
     (case path_parts r of
        b # k # ks \<Rightarrow>
          if b = [] \<or> k = [] then (None, writeS3Error 400 ''InvalidArgument'' message w)
          else (Some (b, join_str ''/'' (k # ks)), w)
      | _ \<Rightarrow> (None, writeS3Error 400 ''InvalidArgument'' message w))"

subsection \<open>Feature gate\<close>

definition ensureFeatureEnabled ::
  "'s proxy \<Rightarrow> bool \<Rightarrow> string \<Rightarrow> 's world \<Rightarrow> bool \<times> 's world" where
  "ensureFeatureEnabled px on feature w =
     (if on then (True, w)
      else (False,
        writeS3Error 501 ''NotImplemented''
          (''The '' @ go_quote (px_unicode px) feature @ '' operation is disabled on this proxy.'')
          (count_metric (FeatureDisabledRejections feature) w)))"

definition featureDisabled404 :: "'s proxy \<Rightarrow> string \<Rightarrow> 's world \<Rightarrow> 's world" where
  "featureDisabled404 px feature w =
     respond [OpHeader ''Content-Type'' ''text/plain; charset=utf-8'', OpStatus 404,
         OpWrite (''endpoint '' @ go_quote (px_unicode px) feature @ '' is disabled on this proxy'' @ [CHR 10])]
       (count_metric (FeatureDisabledRejections feature) w)"

subsection \<open>GCS calls\<close>

text \<open>The error of a call that failed; the nil case does not arise at its only caller.\<close>

definition classifyGCSSDKError :: "gcs_error \<Rightarrow> string" where
  "classifyGCSSDKError e =
     (let class = (case ge_api_code e of None \<Rightarrow> [] | Some c \<Rightarrow> ClassifyGCSError c) in
      if class \<noteq> [] then class
      else if ge_canceled e then ''cancelled''
      else if ge_deadline e then ''timeout''
      else ''network'')"

definition call_deadline :: "'s proxy \<Rightarrow> deadline" where
  "call_deadline px =
     (if 0 < sint (GCSCallTimeout (px_config px)) then Some (GCSCallTimeout (px_config px)) else None)"

definition timeGCSCall ::
  "'s proxy \<Rightarrow> string \<Rightarrow> (deadline \<Rightarrow> 's \<Rightarrow> (gcs_error + 'a) \<times> 's) \<Rightarrow> 's world \<Rightarrow>
     (gcs_error + 'a) \<times> 's world" where
  "timeGCSCall px operation fn w =
     (let (res, s') = fn (call_deadline px) (w_gcs w);
          w1 = count_metric (GCSAPIDurationSeconds operation) (w\<lparr>w_gcs := s'\<rparr>)
      in case res of
           Inl e \<Rightarrow> (res, count_metric (GCSErrorsTotal operation (classifyGCSSDKError e)) w1)
         | Inr _ \<Rightarrow> (res, w1))"

text \<open>The continuation of a GCS call: what is done on an error, and on a result.\<close>

definition on_result ::
  "('e + 'a) \<times> 'w \<Rightarrow> ('e \<Rightarrow> 'w \<Rightarrow> 'w) \<Rightarrow> ('a \<Rightarrow> 'w \<Rightarrow> 'w) \<Rightarrow> 'w" where
  "on_result p err ok = (case p of (Inl e, w) \<Rightarrow> err e w | (Inr a, w) \<Rightarrow> ok a w)"

lemma on_result_simps [simp]:
  "on_result (Inl e, w) err ok = err e w" "on_result (Inr a, w) err ok = ok a w"
  by (simp_all add: on_result_def)

definition update_bucket ::
  "'s proxy \<Rightarrow> string \<Rightarrow> string \<Rightarrow> bucket_update \<Rightarrow> 's world \<Rightarrow> (gcs_error + unit) \<times> 's world" where
  "update_bucket px operation b u w =
     timeGCSCall px operation (\<lambda>d. api_bucket_update (px_api px) d b u) w"

definition bucket_attributes ::
  "'s proxy \<Rightarrow> string \<Rightarrow> string \<Rightarrow> 's world \<Rightarrow> (gcs_error + bucket_attrs) \<times> 's world" where
  "bucket_attributes px operation b w =
     timeGCSCall px operation (\<lambda>d. api_bucket_attrs (px_api px) d b) w"

definition object_attributes ::
  "'s proxy \<Rightarrow> string \<Rightarrow> string \<Rightarrow> string \<Rightarrow> 's world \<Rightarrow> (gcs_error + object_attrs) \<times> 's world" where
  "object_attributes px operation b k w =
     timeGCSCall px operation (\<lambda>d. api_object_attrs (px_api px) d b k) w"

definition update_object ::
  "'s proxy \<Rightarrow> string \<Rightarrow> string \<Rightarrow> string \<Rightarrow> int64 \<Rightarrow> object_update \<Rightarrow> 's world \<Rightarrow>
     (gcs_error + unit) \<times> 's world" where
  "update_object px operation b k metageneration u w =
     timeGCSCall px operation (\<lambda>d. api_object_update (px_api px) d b k metageneration u) w"

subsection \<open>How each step changes the world\<close>

lemma world_simps [simp]:
  "w_gcs (respond ops w) = w_gcs w" "w_metrics (respond ops w) = w_metrics w"
  "w_rw (respond ops w) = run_ops ops (w_rw w)" "w_rw (w\<lparr>w_gcs := s\<rparr>) = w_rw w"
  "w_rw (w\<lparr>w_metrics := ms\<rparr>) = w_rw w" "w_rw \<lparr>w_ops = [], w_gcs = s, w_metrics = ms\<rparr> = empty_response"
  "w_gcs (count_metric m w) = w_gcs w" "w_rw (count_metric m w) = w_rw w"
  "w_metrics (count_metric m w) = w_metrics w @ [m]"
  "w_gcs (send_status c w) = w_gcs w" "w_metrics (send_status c w) = w_metrics w"
  "w_gcs (send_xml x w) = w_gcs w" "w_metrics (send_xml x w) = w_metrics w"
  "w_gcs (writeS3Error c k msg w) = w_gcs w" "w_metrics (writeS3Error c k msg w) = w_metrics w"
  by (simp_all add: respond_def w_rw_def count_metric_def send_status_def send_xml_def writeS3Error_def)

text \<open>Nothing was sent yet.\<close>

definition fresh :: "'s world \<Rightarrow> bool" where
  "fresh w \<longleftrightarrow> rw_sent (w_rw w) = None"

definition world_status :: "'s world \<Rightarrow> int option" where
  "world_status w = map_option fst (rw_sent (w_rw w))"

lemma fresh_simps [simp]:
  "fresh (count_metric m w) = fresh w" "fresh (w\<lparr>w_gcs := s\<rparr>) = fresh w"
  "fresh (respond [OpHeader k v] w) = fresh w"
  by (simp_all add: fresh_def count_metric_def)

lemma status_send [simp]:
  "fresh w \<Longrightarrow> \<not> informational c \<Longrightarrow> world_status (send_status c w) = Some c"
  "fresh w \<Longrightarrow> \<not> informational c \<Longrightarrow> world_status (writeS3Error c k m w) = Some c"
  "fresh w \<Longrightarrow> world_status (send_xml x w) = Some 200"
  by (simp_all add: fresh_def world_status_def send_status_def writeS3Error_def send_xml_def Let_def)

lemma body_error: "fresh w \<Longrightarrow> rw_body (w_rw w) = [] \<Longrightarrow>
   rw_body (w_rw (writeS3Error c k m w)) = xml_header @ render (s3ErrorBody k m) @ [CHR 10]"
  by (simp add: fresh_def writeS3Error_def Let_def)

lemma timeGCSCall_simps [simp]:
  "fst (timeGCSCall px operation fn w) = fst (fn (call_deadline px) (w_gcs w))"
  "w_gcs (snd (timeGCSCall px operation fn w)) = snd (fn (call_deadline px) (w_gcs w))"
  "w_rw (snd (timeGCSCall px operation fn w)) = w_rw w"
  "w_ops (snd (timeGCSCall px operation fn w)) = w_ops w"
  "fresh (snd (timeGCSCall px operation fn w)) = fresh w"
  by (auto simp: timeGCSCall_def fresh_def Let_def count_metric_def split: prod.splits sum.splits)

lemma classify_nonempty: "classifyGCSSDKError e \<noteq> []"
  by (simp add: classifyGCSSDKError_def Let_def)

lemma timeGCSCall_metrics:
  "w_metrics (snd (timeGCSCall px operation fn w)) = w_metrics w @ GCSAPIDurationSeconds operation #
     (case fst (fn (call_deadline px) (w_gcs w)) of
        Inl e \<Rightarrow> [GCSErrorsTotal operation (classifyGCSSDKError e)] | Inr _ \<Rightarrow> [])"
  by (auto simp: timeGCSCall_def Let_def split: prod.splits sum.splits)

lemma read_capped_Ok: "read_capped b = BodyOk x \<Longrightarrow> length x \<le> maxControlPlaneBodySize"
  by (auto simp: read_capped_def split: option.splits if_splits)

lemma decode_Some_iff:
  "decodeControlPlaneXML px decode r w = (Some doc, w') \<longleftrightarrow>
     w' = w \<and> (\<exists>body. read_capped (req_body r) = BodyOk body \<and> Option.bind (px_xml px body) decode = Some doc)"
  by (auto simp: decodeControlPlaneXML_def split: body_result.splits option.splits)

lemma decode_None:
  "decodeControlPlaneXML px decode r w = (None, w') \<Longrightarrow>
     \<exists>c k m. c \<in> {400, 500} \<and> w' = writeS3Error c k m w"
  by (auto simp: decodeControlPlaneXML_def split: body_result.splits option.splits)

lemma bucket_Some_iff:
  "parseBucketFromPath r w = (Some b, w') \<longleftrightarrow> w' = w \<and> b \<noteq> [] \<and> (\<exists>ks. path_parts r = b # ks)"
  by (auto simp: parseBucketFromPath_def split: list.splits)

lemma bucket_None:
  "parseBucketFromPath r w = (None, w') \<Longrightarrow> \<exists>k m. w' = writeS3Error 400 k m w"
  by (auto simp: parseBucketFromPath_def split: list.splits if_splits)

lemma object_Some_iff:
  "parse_object_path msg r w = (Some (b, k), w') \<longleftrightarrow>
     w' = w \<and> b \<noteq> [] \<and> (\<exists>x xs. path_parts r = b # x # xs \<and> x \<noteq> [] \<and> k = join_str ''/'' (x # xs))"
  by (auto simp: parse_object_path_def split: list.splits)

lemma object_None:
  "parse_object_path msg r w = (None, w') \<Longrightarrow> \<exists>k m. w' = writeS3Error 400 k m w"
  by (auto simp: parse_object_path_def split: list.splits if_splits)

end
