(* ===== verification/Cors.thy ===== *)
theory Cors
  imports S3_Types Gcs_Types Go_Utf8 Config_Translation
begin

text \<open>
  \<^verbatim>\<open>pkg/translate/gcs_cors.go\<close>: CORS rules both ways, and the list of request headers
  that GCS cannot express, without duplicates up to case.
\<close>

definition cors_rule_to_gcs :: "CORSRule \<Rightarrow> CORS" where
  "cors_rule_to_gcs r =
     \<lparr>Co_MaxAge = (case Cr_MaxAgeSeconds r of None \<Rightarrow> 0 | Some s \<Rightarrow> s * nanos_per_sec),
      Co_Methods = Cr_AllowedMethods r, Co_Origins = Cr_AllowedOrigins r,
      Co_ResponseHeaders = Cr_ExposeHeaders r\<rparr>"

text \<open>The loop that keeps the first spelling of each header.\<close>

fun dedupe_headers :: "unicode \<Rightarrow> string list \<Rightarrow> string list \<Rightarrow> string list" where
  "dedupe_headers u seen [] = []"
| "dedupe_headers u seen (h # hs) =
     (let lower = to_lower u h in
      if lower \<notin> set seen then h # dedupe_headers u (lower # seen) hs
      else dedupe_headers u seen hs)"

text \<open>A slice that was never appended to is nil (\<open>None\<close>).\<close>

definition TranslateS3ToGCSCors ::
  "unicode \<Rightarrow> CORSConfiguration \<Rightarrow> CORS list option \<times> string list" where
  "TranslateS3ToGCSCors u cfg =
     (if Cc_CORSRules cfg = [] then None else Some (map cors_rule_to_gcs (Cc_CORSRules cfg)),
      dedupe_headers u [] (concat (map Cr_AllowedHeaders (Cc_CORSRules cfg))))"

definition cors_rule_to_s3 :: "CORS \<Rightarrow> CORSRule" where
  "cors_rule_to_s3 g =
     zero_CORSRule\<lparr>Cr_AllowedMethods := Co_Methods g, Cr_AllowedOrigins := Co_Origins g,
       Cr_ExposeHeaders := Co_ResponseHeaders g,
       Cr_MaxAgeSeconds := (if 0 < sint (Co_MaxAge g) then Some (seconds_of (Co_MaxAge g)) else None)\<rparr>"

definition TranslateGCSToS3Cors :: "CORS list \<Rightarrow> CORSConfiguration option" where
  "TranslateGCSToS3Cors gs =
     (if gs = [] then None else Some \<lparr>Cc_CORSRules = map cors_rule_to_s3 gs\<rparr>)"

subsection \<open>The reported headers\<close>

lemma dedupe_lower:
  "map (to_lower u) (dedupe_headers u seen hs) =
     rev (remdups (rev (filter (\<lambda>l. l \<notin> set seen) (map (to_lower u) hs))))"
proof (induction u seen hs rule: dedupe_headers.induct)
  case (2 u seen h hs)
  let ?l = "to_lower u h" and ?ls = "map (to_lower u) hs"
  have snoc: "rev (remdups (xs @ [x])) = x # rev (remdups (filter (\<lambda>y. y \<noteq> x) xs))"
    for x and xs :: "string list"
    by (induction xs) auto
  show ?case
  proof (cases "?l \<in> set seen")
    case False
    have "filter (\<lambda>l. l \<notin> set (?l # seen)) ?ls = filter (\<lambda>y. y \<noteq> ?l) (filter (\<lambda>l. l \<notin> set seen) ?ls)"
      by (auto intro: filter_cong)
    with False "2.IH"(1) [OF refl] show ?thesis
      by (simp add: Let_def snoc rev_filter conj_commute)
  qed (use "2.IH"(2) in \<open>simp add: Let_def\<close>)
qed simp

lemma dedupe_distinct: "distinct (map (to_lower u) (dedupe_headers u [] hs))"
  by (simp add: dedupe_lower)

lemma dedupe_set: "set (map (to_lower u) (dedupe_headers u [] hs)) = set (map (to_lower u) hs)"
  by (simp only: dedupe_lower) simp

lemma dedupe_subseq: "subseq (dedupe_headers u seen hs) hs"
  by (induction u seen hs rule: dedupe_headers.induct) (auto simp: Let_def)

subsection \<open>Round trip\<close>

definition whole_seconds :: "int64 \<Rightarrow> bool" where
  "whole_seconds d \<longleftrightarrow> (let s = sint d div 1000000000 in
     0 \<le> s \<and> s \<le> 9223372036 \<and> d = word_of_int s * nanos_per_sec)"

definition plain_cors :: "CORSConfiguration \<Rightarrow> bool" where
  "plain_cors cfg \<longleftrightarrow> list_all (\<lambda>r. case Cr_MaxAgeSeconds r of
       None \<Rightarrow> True | Some s \<Rightarrow> 0 \<le> sint s \<and> sint s \<le> 9223372036) (Cc_CORSRules cfg)"

definition rep_cors :: "CORS list \<Rightarrow> bool" where
  "rep_cors gs \<longleftrightarrow> gs \<noteq> [] \<and> list_all (\<lambda>g. whole_seconds (Co_MaxAge g)) gs"

lemma whole_seconds_times:
  assumes "0 \<le> sint s" "sint s \<le> 9223372036"
  shows "whole_seconds (s * nanos_per_sec)"
  using assms word_of_int_sint [of s]
  by (simp add: whole_seconds_def sint_seconds Let_def del: of_int_sint)

lemma whole_seconds_cases:
  assumes "whole_seconds d"
  obtains "d = 0" "\<not> 0 < sint d" | s where "0 < sint d" "d = s * nanos_per_sec" "seconds_of d = s"
proof -
  define i where "i = sint d div 1000000000"
  have i: "0 \<le> i" "i \<le> 9223372036" and d: "d = word_of_int i * nanos_per_sec"
    using assms by (simp_all add: whole_seconds_def i_def Let_def)
  have s: "sint (word_of_int i :: int64) = i"
    using i by (simp add: signed_of_int signed_take_bit_int_eq_self)
  show thesis
  proof (cases "i = 0")
    case True
    with d that(1) show thesis by simp
  next
    case False
    with i d s that(2) [of "word_of_int i"] show thesis
      using seconds_of_whole [of "word_of_int i"] sint_seconds [of "word_of_int i"] by simp
  qed
qed

lemma cors_rule_roundtrip:
  assumes "whole_seconds (Co_MaxAge g)"
  shows "cors_rule_to_gcs (cors_rule_to_s3 g) = g"
  using assms
proof (rule whole_seconds_cases)
  assume "Co_MaxAge g = 0"
  then show ?thesis
    by (simp add: cors_rule_to_gcs_def cors_rule_to_s3_def zero_CORSRule_def)
next
  fix s
  assume "0 < sint (Co_MaxAge g)" "Co_MaxAge g = s * nanos_per_sec" "seconds_of (Co_MaxAge g) = s"
  then show ?thesis
    by (simp add: cors_rule_to_gcs_def cors_rule_to_s3_def zero_CORSRule_def)
qed

lemma cors_rule_plain:
  "(case Cr_MaxAgeSeconds r of None \<Rightarrow> True | Some s \<Rightarrow> 0 \<le> sint s \<and> sint s \<le> 9223372036) \<Longrightarrow>
   whole_seconds (Co_MaxAge (cors_rule_to_gcs r))"
  by (auto simp: cors_rule_to_gcs_def whole_seconds_times split: option.splits)
    (simp add: whole_seconds_def)

interpretation cors: total_translation
  "\<lambda>cfg. fst (TranslateS3ToGCSCors u cfg)" TranslateGCSToS3Cors plain_cors rep_cors
proof unfold_locales
  fix s g
  assume "plain_cors s" "fst (TranslateS3ToGCSCors u s) = Some g"
  then show "rep_cors g"
    by (auto simp: TranslateS3ToGCSCors_def plain_cors_def rep_cors_def list_all_iff cors_rule_plain
        split: if_splits)
next
  fix g s
  assume "rep_cors g" "TranslateGCSToS3Cors g = Some s"
  then show "fst (TranslateS3ToGCSCors u s) = Some g"
    by (auto simp: TranslateGCSToS3Cors_def TranslateS3ToGCSCors_def rep_cors_def list_all_iff
        cors_rule_roundtrip intro!: map_idI split: if_splits)
qed (auto simp: rep_cors_def TranslateGCSToS3Cors_def)

end
