(* ===== verification/Bucket_Config.thy ===== *)
theory Bucket_Config
  imports S3_Types Gcs_Types Config_Translation
begin

text \<open>
  \<^verbatim>\<open>pkg/translate/gcs_logging.go\<close> and \<^verbatim>\<open>gcs_website.go\<close>: access-log and website
  configurations both ways. A nil pointer is \<open>None\<close>.
\<close>

subsection \<open>Logging\<close>

definition TranslateS3ToGCSLogging :: "BucketLoggingStatus \<Rightarrow> BucketLogging option" where
  "TranslateS3ToGCSLogging cfg =
     (case Bls_LoggingEnabled cfg of
        None \<Rightarrow> None
      | Some l \<Rightarrow> Some \<lparr>Bl_LogBucket = Le_TargetBucket l, Bl_LogObjectPrefix = Le_TargetPrefix l\<rparr>)"

definition TranslateGCSToS3Logging :: "BucketLogging option \<Rightarrow> BucketLoggingStatus" where
  "TranslateGCSToS3Logging gl =
     (case gl of
        None \<Rightarrow> \<lparr>Bls_LoggingEnabled = None\<rparr>
      | Some g \<Rightarrow>
          if Bl_LogBucket g = [] then \<lparr>Bls_LoggingEnabled = None\<rparr>
          else \<lparr>Bls_LoggingEnabled =
                 Some \<lparr>Le_TargetBucket = Bl_LogBucket g, Le_TargetPrefix = Bl_LogObjectPrefix g\<rparr>\<rparr>)"

definition plain_logging :: "BucketLoggingStatus \<Rightarrow> bool" where
  "plain_logging cfg \<longleftrightarrow>
     (case Bls_LoggingEnabled cfg of None \<Rightarrow> True | Some l \<Rightarrow> Le_TargetBucket l \<noteq> [])"

interpretation logging: total_translation
  TranslateS3ToGCSLogging "\<lambda>g. Some (TranslateGCSToS3Logging (Some g))"
  plain_logging "\<lambda>g. Bl_LogBucket g \<noteq> []"
  by unfold_locales
    (auto simp: TranslateS3ToGCSLogging_def TranslateGCSToS3Logging_def plain_logging_def
      split: option.splits if_splits)

subsection \<open>Website\<close>

definition zero_website :: BucketWebsite where
  "zero_website = \<lparr>Bw_MainPageSuffix = [], Bw_NotFoundPage = []\<rparr>"

definition TranslateS3ToGCSWebsite :: "WebsiteConfiguration \<Rightarrow> BucketWebsite" where
  "TranslateS3ToGCSWebsite cfg =
     (let w1 = (case Ws_IndexDocument cfg of
                  None \<Rightarrow> zero_website
                | Some i \<Rightarrow> zero_website\<lparr>Bw_MainPageSuffix := Idx_Suffix i\<rparr>)
      in (case Ws_ErrorDocument cfg of
            None \<Rightarrow> w1 | Some e \<Rightarrow> w1\<lparr>Bw_NotFoundPage := Err_Key e\<rparr>))"

definition TranslateGCSToS3Website :: "BucketWebsite option \<Rightarrow> WebsiteConfiguration option" where
  "TranslateGCSToS3Website gw =
     (case gw of
        None \<Rightarrow> None
      | Some g \<Rightarrow>
          if Bw_MainPageSuffix g = [] \<and> Bw_NotFoundPage g = [] then None
          else Some
            \<lparr>Ws_IndexDocument =
               (if Bw_MainPageSuffix g \<noteq> [] then Some \<lparr>Idx_Suffix = Bw_MainPageSuffix g\<rparr> else None),
             Ws_ErrorDocument =
               (if Bw_NotFoundPage g \<noteq> [] then Some \<lparr>Err_Key = Bw_NotFoundPage g\<rparr> else None)\<rparr>)"

lemma website_roundtrip:
  "TranslateGCSToS3Website (Some g) = Some s \<Longrightarrow> TranslateS3ToGCSWebsite s = g"
  by (cases g)
    (auto simp: TranslateGCSToS3Website_def TranslateS3ToGCSWebsite_def zero_website_def
      split: if_splits)

interpretation website: config_translation
  "\<lambda>cfg. Some (TranslateS3ToGCSWebsite cfg)" "\<lambda>g. TranslateGCSToS3Website (Some g)"
  "\<lambda>_. True" "\<lambda>_. True"
  by unfold_locales (auto simp: website_roundtrip)

end
