(* ===== verification/Tagging_Contexts.thy ===== *)
theory Tagging_Contexts
  imports S3_Types Gcs_Types
begin

text \<open>
  \<^verbatim>\<open>pkg/translate/gcs_tagging.go\<close>: an S3 tag set as a patch of the GCS object contexts,
  and the contexts as a tag set. Go iterates over a map in an unspecified order; the
  order is an argument, any enumeration of the keys.
\<close>

definition delete_marker :: ObjectCustomContextPayload where
  "delete_marker = \<lparr>Pl_Value = [], Pl_Delete = True\<rparr>"

definition upsert :: "Tag \<Rightarrow> (string \<Rightarrow> ObjectCustomContextPayload option) \<Rightarrow>
    (string \<Rightarrow> ObjectCustomContextPayload option)" where
  "upsert t custom = custom(Tag_Key t \<mapsto> \<lparr>Pl_Value = Tag_Value t, Pl_Delete = False\<rparr>)"

definition TranslateS3ToGCSContexts :: "Tagging \<Rightarrow> ObjectContexts option \<Rightarrow> ObjectContexts" where
  "TranslateS3ToGCSContexts cfg existing =
     (let marked = (case existing of
                      None \<Rightarrow> Map.empty
                    | Some e \<Rightarrow> (\<lambda>k. map_option (\<lambda>_. delete_marker) (Ctx_Custom e k)))
      in \<lparr>Ctx_Custom = fold upsert (Tg_TagSet cfg) marked\<rparr>)"

definition TranslateGCSContextsToS3Tagging :: "string list \<Rightarrow> ObjectContexts option \<Rightarrow> Tagging" where
  "TranslateGCSContextsToS3Tagging order ctx =
     (case ctx of
        None \<Rightarrow> \<lparr>Tg_TagSet = []\<rparr>
      | Some c \<Rightarrow>
          \<lparr>Tg_TagSet = List.map_filter
             (\<lambda>k. if k = [] then None
                  else map_option (\<lambda>p. \<lparr>Tag_Key = k, Tag_Value = Pl_Value p\<rparr>) (Ctx_Custom c k))
             order\<rparr>)"

subsection \<open>What the patch does\<close>

text \<open>The tags of a set as a map; the last of two tags with the same key counts.\<close>

definition tag_map :: "Tagging \<Rightarrow> string \<Rightarrow> string option" where
  "tag_map cfg = map_of (rev (map (\<lambda>t. (Tag_Key t, Tag_Value t)) (Tg_TagSet cfg)))"

text \<open>
  The specification of a patch, as the SDK documents it: an empty patch removes every
  key; otherwise a key marked for deletion is removed, any other key of the patch is
  written, and the rest is left alone.
\<close>

definition apply_patch :: "ObjectContexts option \<Rightarrow> ObjectContexts \<Rightarrow> string \<Rightarrow> string option" where
  "apply_patch existing patch k =
     (if Ctx_Custom patch = Map.empty then None
      else (case Ctx_Custom patch k of
              Some p \<Rightarrow> if Pl_Delete p then None else Some (Pl_Value p)
            | None \<Rightarrow> (case existing of None \<Rightarrow> None | Some e \<Rightarrow> map_option Pl_Value (Ctx_Custom e k))))"

lemma fold_upsert:
  "fold upsert ts m k =
     (case map_of (rev (map (\<lambda>t. (Tag_Key t, Tag_Value t)) ts)) k of
        None \<Rightarrow> m k | Some v \<Rightarrow> Some \<lparr>Pl_Value = v, Pl_Delete = False\<rparr>)"
  by (induction ts arbitrary: m) (auto simp: upsert_def map_add_def split: option.splits)

lemma translated_context:
  "Ctx_Custom (TranslateS3ToGCSContexts cfg existing) k =
     (case tag_map cfg k of
        Some v \<Rightarrow> Some \<lparr>Pl_Value = v, Pl_Delete = False\<rparr>
      | None \<Rightarrow> (case existing of None \<Rightarrow> None | Some e \<Rightarrow> map_option (\<lambda>_. delete_marker) (Ctx_Custom e k)))"
  by (auto simp: TranslateS3ToGCSContexts_def tag_map_def fold_upsert Let_def split: option.splits)

lemma patch_replaces: "apply_patch existing (TranslateS3ToGCSContexts cfg existing) = tag_map cfg"
proof (rule ext)
  fix k
  show "apply_patch existing (TranslateS3ToGCSContexts cfg existing) k = tag_map cfg k"
  proof (cases "Ctx_Custom (TranslateS3ToGCSContexts cfg existing) = Map.empty")
    case True
    with translated_context [of cfg existing k] show ?thesis
      by (simp add: apply_patch_def split: option.splits)
  next
    case False
    then show ?thesis
      by (auto simp: apply_patch_def translated_context delete_marker_def split: option.splits)
  qed
qed

subsection \<open>What is shown\<close>

lemma map_filter_keys:
  "map Tag_Key (List.map_filter (\<lambda>k. if k = [] then None
       else map_option (\<lambda>p. \<lparr>Tag_Key = k, Tag_Value = Pl_Value p\<rparr>) (m k)) order) =
     filter (\<lambda>k. k \<noteq> [] \<and> m k \<noteq> None) order"
  by (induction order) (auto split: option.splits)

text \<open>For an enumeration of the keys, the tags shown are the contexts with a non-empty key.\<close>

lemma tag_map_shown:
  assumes "distinct order" "set order = dom (Ctx_Custom c)"
  shows "tag_map (TranslateGCSContextsToS3Tagging order (Some c)) k =
    (if k = [] then None else map_option Pl_Value (Ctx_Custom c k))"
proof -
  let ?f = "\<lambda>k. if k = [] then None
      else map_option (\<lambda>p. \<lparr>Tag_Key = k, Tag_Value = Pl_Value p\<rparr>) (Ctx_Custom c k)"
  have gen: "distinct ks \<Longrightarrow> map_of (rev (map (\<lambda>t. (Tag_Key t, Tag_Value t)) (List.map_filter ?f ks))) k =
      (if k = [] \<or> k \<notin> set ks then None else map_option Pl_Value (Ctx_Custom c k))" for ks
    by (induction ks) (auto simp: map_add_def split: option.splits)
  have "k \<notin> set order \<Longrightarrow> Ctx_Custom c k = None"
    using assms(2) by blast
  with gen [OF assms(1)] show ?thesis
    by (auto simp: tag_map_def TranslateGCSContextsToS3Tagging_def)
qed

end
