(* ===== verification/Handlers.thy ===== *)
theory Handlers
  imports Handler_Base Lifecycle Cors Bucket_Config Tagging_Contexts
begin

text \<open>
  The control-plane handlers of \<^verbatim>\<open>main.go\<close>, one definition per handler: PUT, GET and
  DELETE of the lifecycle, CORS, logging and website subresources of a bucket and of the
  tagging subresource of an object, and the synthetic RestoreObject. A handler that goes
  on without a GCS client (which would be a nil dereference) only arises in a dry run,
  where no call is made; \<^verbatim>\<open>handleRestoreObject\<close> tests for it.
\<close>

subsection \<open>Lifecycle\<close>

text \<open>\<^verbatim>\<open>err.Error()\<close> of the translation's errors.\<close>

definition lifecycle_message :: "'s proxy \<Rightarrow> lifecycle_error \<Rightarrow> string" where
  "lifecycle_message px e =
     (case e of
        ObjectSizeFilter \<Rightarrow> ''ObjectSize filters are not supported by GCS Lifecycle translation''
      | TagFilter \<Rightarrow> ''Tag filters are not supported by GCS Lifecycle translation''
      | ObjectSizeFilterInAnd \<Rightarrow> ''ObjectSize filters in And are not supported by GCS Lifecycle translation''
      | TagFilterInAnd \<Rightarrow> ''Tag filters in And are not supported by GCS Lifecycle translation''
      | InvalidExpirationDate s \<Rightarrow>
          ''invalid Expiration Date '' @ go_quote (px_unicode px) s @ '': '' @ px_parse_error px s
      | InvalidTransitionDate s \<Rightarrow>
          ''invalid Transition Date '' @ go_quote (px_unicode px) s @ '': '' @ px_parse_error px s)"

definition handlePutLifecycle :: "'s proxy \<Rightarrow> request \<Rightarrow> 's world \<Rightarrow> 's world" where
  "handlePutLifecycle px r w0 =
     or_return (decodeControlPlaneXML px decode_lifecycle r w0) (\<lambda>s3Cfg w1.
     or_return (parseBucketFromPath r w1) (\<lambda>targetBucket w2.
     case TranslateS3ToGCSLifecycle s3Cfg of
       Inl err \<Rightarrow> writeS3Error 400 ''InvalidRequest'' (lifecycle_message px err) w2
     | Inr storageLifecycle \<Rightarrow>
         if DryRun (px_config px) then send_status 200 w2
         else on_result
           (update_bucket px ''PutBucketLifecycle'' targetBucket
              (no_update\<lparr>Bu_Lifecycle := Some storageLifecycle\<rparr>) w2)
           (\<lambda>_. writeS3Error 502 ''InternalError'' ''Failed to update lifecycle configuration on GCS.'')
           (\<lambda>_. send_status 200)))"

definition handleGetLifecycle :: "'s proxy \<Rightarrow> request \<Rightarrow> 's world \<Rightarrow> 's world" where
  "handleGetLifecycle px r w0 =
     or_return (parseBucketFromPath r w0) (\<lambda>targetBucket w1.
     if DryRun (px_config px)
     then writeS3Error 404 ''NoSuchLifecycleConfiguration'' ''The lifecycle configuration does not exist.'' w1
     else on_result (bucket_attributes px ''GetBucketLifecycle'' targetBucket w1)
       (\<lambda>_. writeS3Error 502 ''InternalError'' ''Failed to retrieve lifecycle configuration from GCS.'')
       (\<lambda>attrs w2.
          let s3Cfg = TranslateGCSToS3Lifecycle (Ba_Lifecycle attrs) in
          if Lc_Rules s3Cfg = []
          then writeS3Error 404 ''NoSuchLifecycleConfiguration''
                 ''The lifecycle configuration does not exist.'' w2
          else send_xml (encode_lifecycle s3Cfg) w2))"

definition handleDeleteLifecycle :: "'s proxy \<Rightarrow> request \<Rightarrow> 's world \<Rightarrow> 's world" where
  "handleDeleteLifecycle px r w0 =
     or_return (parseBucketFromPath r w0) (\<lambda>targetBucket w1.
     if DryRun (px_config px) then send_status 204 w1
     else on_result
       (update_bucket px ''DeleteBucketLifecycle'' targetBucket (no_update\<lparr>Bu_Lifecycle := Some []\<rparr>) w1)
       (\<lambda>_. writeS3Error 502 ''InternalError'' ''Failed to delete lifecycle configuration on GCS.'')
       (\<lambda>_. send_status 204))"

subsection \<open>CORS\<close>

definition cors_warning :: "string list \<Rightarrow> string" where
  "cors_warning dropped =
     ''AllowedHeaders not supported by GCS and were ignored: '' @ join_str '', '' dropped"

definition handlePutCORS :: "'s proxy \<Rightarrow> request \<Rightarrow> 's world \<Rightarrow> 's world" where
  "handlePutCORS px r w0 =
     or_return (decodeControlPlaneXML px decode_cors r w0) (\<lambda>s3Cfg w1.
     or_return (parseBucketFromPath r w1) (\<lambda>targetBucket w2.
     let (gcsCORS, droppedHeaders) = TranslateS3ToGCSCors (px_unicode px) s3Cfg;
         w3 = (if droppedHeaders \<noteq> []
               then respond [OpHeader ''X-S3Proxy-Warning'' (cors_warning droppedHeaders)] w2 else w2)
     in if DryRun (px_config px) then send_status 200 w3
        else on_result
          (update_bucket px ''PutBucketCors'' targetBucket (no_update\<lparr>Bu_CORS := gcsCORS\<rparr>) w3)
          (\<lambda>_. writeS3Error 502 ''InternalError'' ''Failed to update CORS configuration on GCS.'')
          (\<lambda>_. send_status 200)))"

definition empty_cors :: CORSConfiguration where
  "empty_cors = \<lparr>Cc_CORSRules = []\<rparr>"

definition handleGetCORS :: "'s proxy \<Rightarrow> request \<Rightarrow> 's world \<Rightarrow> 's world" where
  "handleGetCORS px r w0 =
     or_return (parseBucketFromPath r w0) (\<lambda>targetBucket w1.
     if DryRun (px_config px) then send_xml (encode_cors empty_cors) w1
     else on_result (bucket_attributes px ''GetBucketCors'' targetBucket w1)
       (\<lambda>_. writeS3Error 502 ''InternalError'' ''Failed to retrieve CORS configuration from GCS.'')
       (\<lambda>attrs.
          send_xml (encode_cors (case TranslateGCSToS3Cors (Ba_CORS attrs) of
                                   None \<Rightarrow> empty_cors | Some c \<Rightarrow> c))))"

definition handleDeleteCORS :: "'s proxy \<Rightarrow> request \<Rightarrow> 's world \<Rightarrow> 's world" where
  "handleDeleteCORS px r w0 =
     or_return (parseBucketFromPath r w0) (\<lambda>targetBucket w1.
     if DryRun (px_config px) then send_status 204 w1
     else on_result
       (update_bucket px ''DeleteBucketCors'' targetBucket (no_update\<lparr>Bu_CORS := Some []\<rparr>) w1)
       (\<lambda>_. writeS3Error 502 ''InternalError'' ''Failed to delete CORS configuration on GCS.'')
       (\<lambda>_. send_status 204))"

subsection \<open>Logging\<close>

definition handlePutLogging :: "'s proxy \<Rightarrow> request \<Rightarrow> 's world \<Rightarrow> 's world" where
  "handlePutLogging px r w0 =
     or_return (decodeControlPlaneXML px decode_logging r w0) (\<lambda>s3Cfg w1.
     or_return (parseBucketFromPath r w1) (\<lambda>targetBucket w2.
     let gcsLogging = TranslateS3ToGCSLogging s3Cfg in
     if DryRun (px_config px) then send_status 200 w2
     else on_result
       (update_bucket px ''PutBucketLogging'' targetBucket (no_update\<lparr>Bu_Logging := gcsLogging\<rparr>) w2)
       (\<lambda>_. writeS3Error 502 ''InternalError'' ''Failed to update logging configuration on GCS.'')
       (\<lambda>_. send_status 200)))"

definition handleGetLogging :: "'s proxy \<Rightarrow> request \<Rightarrow> 's world \<Rightarrow> 's world" where
  "handleGetLogging px r w0 =
     or_return (parseBucketFromPath r w0) (\<lambda>targetBucket w1.
     if DryRun (px_config px) then send_xml (encode_logging \<lparr>Bls_LoggingEnabled = None\<rparr>) w1
     else on_result (bucket_attributes px ''GetBucketLogging'' targetBucket w1)
       (\<lambda>_. writeS3Error 502 ''InternalError'' ''Failed to retrieve logging configuration from GCS.'')
       (\<lambda>attrs. send_xml (encode_logging (TranslateGCSToS3Logging (Ba_Logging attrs)))))"

definition handleDeleteLogging :: "'s proxy \<Rightarrow> request \<Rightarrow> 's world \<Rightarrow> 's world" where
  "handleDeleteLogging px r w0 =
     or_return (parseBucketFromPath r w0) (\<lambda>targetBucket w1.
     if DryRun (px_config px) then send_status 204 w1
     else on_result
       (update_bucket px ''DeleteBucketLogging'' targetBucket
          (no_update\<lparr>Bu_Logging := Some \<lparr>Bl_LogBucket = [], Bl_LogObjectPrefix = []\<rparr>\<rparr>) w1)
       (\<lambda>_. writeS3Error 502 ''InternalError'' ''Failed to delete logging configuration on GCS.'')
       (\<lambda>_. send_status 204))"

subsection \<open>Website\<close>

definition handlePutWebsite :: "'s proxy \<Rightarrow> request \<Rightarrow> 's world \<Rightarrow> 's world" where
  "handlePutWebsite px r w0 =
     or_return (decodeControlPlaneXML px decode_website r w0) (\<lambda>s3Cfg w1.
     or_return (parseBucketFromPath r w1) (\<lambda>targetBucket w2.
     let gcsWebsite = TranslateS3ToGCSWebsite s3Cfg in
     if DryRun (px_config px) then send_status 200 w2
     else on_result
       (update_bucket px ''PutBucketWebsite'' targetBucket (no_update\<lparr>Bu_Website := Some gcsWebsite\<rparr>) w2)
       (\<lambda>_. writeS3Error 502 ''InternalError'' ''Failed to update website configuration on GCS.'')
       (\<lambda>_. send_status 200)))"

definition no_website_message :: string where
  "no_website_message = ''The specified bucket does not have a website configuration.''"

definition handleGetWebsite :: "'s proxy \<Rightarrow> request \<Rightarrow> 's world \<Rightarrow> 's world" where
  "handleGetWebsite px r w0 =
     or_return (parseBucketFromPath r w0) (\<lambda>targetBucket w1.
     if DryRun (px_config px)
     then writeS3Error 404 ''NoSuchWebsiteConfiguration'' no_website_message w1
     else on_result (bucket_attributes px ''GetBucketWebsite'' targetBucket w1)
       (\<lambda>_. writeS3Error 502 ''InternalError'' ''Failed to retrieve website configuration from GCS.'')
       (\<lambda>attrs w2.
          case TranslateGCSToS3Website (Ba_Website attrs) of
            None \<Rightarrow> writeS3Error 404 ''NoSuchWebsiteConfiguration'' no_website_message w2
          | Some s3Cfg \<Rightarrow> send_xml (encode_website s3Cfg) w2))"

definition handleDeleteWebsite :: "'s proxy \<Rightarrow> request \<Rightarrow> 's world \<Rightarrow> 's world" where
  "handleDeleteWebsite px r w0 =
     or_return (parseBucketFromPath r w0) (\<lambda>targetBucket w1.
     if DryRun (px_config px) then send_status 204 w1
     else on_result
       (update_bucket px ''DeleteBucketWebsite'' targetBucket (no_update\<lparr>Bu_Website := Some zero_website\<rparr>) w1)
       (\<lambda>_. writeS3Error 502 ''InternalError'' ''Failed to delete website configuration on GCS.'')
       (\<lambda>_. send_status 204))"

subsection \<open>Object tagging\<close>

definition object_required :: string where
  "object_required = ''Bucket and Object name required.''"

definition no_such_key :: "gcs_error \<Rightarrow> 's world \<Rightarrow> 's world" where
  "no_such_key _ = writeS3Error 404 ''NoSuchKey'' ''The specified key does not exist.''"

definition handlePutObjectTagging :: "'s proxy \<Rightarrow> request \<Rightarrow> 's world \<Rightarrow> 's world" where
  "handlePutObjectTagging px r w0 =
     or_return (decodeControlPlaneXML px decode_tagging r w0) (\<lambda>s3Cfg w1.
     or_return (parse_object_path object_required r w1) (\<lambda>(targetBucket, targetObject) w2.
     if DryRun (px_config px) then send_status 200 w2
     else on_result (object_attributes px ''GetObjectAttrs_Tagging'' targetBucket targetObject w2)
       no_such_key
       (\<lambda>attrs w3.
          on_result
            (update_object px ''PutObjectTagging'' targetBucket targetObject (Oa_Metageneration attrs)
               \<lparr>Ou_Contexts = Some (TranslateS3ToGCSContexts s3Cfg (Oa_Contexts attrs))\<rparr> w3)
            (\<lambda>_. writeS3Error 500 ''InternalError'' ''Failed to update object tagging.'')
            (\<lambda>_. send_status 200))))"

definition dry_run_tagging :: string where
  "dry_run_tagging = xml_header @ ''<Tagging><TagSet></TagSet></Tagging>''"

definition handleGetObjectTagging :: "'s proxy \<Rightarrow> request \<Rightarrow> 's world \<Rightarrow> 's world" where
  "handleGetObjectTagging px r w0 =
     or_return (parse_object_path object_required r w0) (\<lambda>(targetBucket, targetObject) w1.
     if DryRun (px_config px)
     then respond [OpHeader ''Content-Type'' ''application/xml'', OpStatus 200, OpWrite dry_run_tagging] w1
     else on_result (object_attributes px ''GetObjectAttrs_GetTagging'' targetBucket targetObject w1)
       no_such_key
       (\<lambda>attrs.
          send_xml (encode_tagging
            (TranslateGCSContextsToS3Tagging
               (case Oa_Contexts attrs of None \<Rightarrow> [] | Some c \<Rightarrow> px_order px (Ctx_Custom c))
               (Oa_Contexts attrs)))))"

definition handleDeleteObjectTagging :: "'s proxy \<Rightarrow> request \<Rightarrow> 's world \<Rightarrow> 's world" where
  "handleDeleteObjectTagging px r w0 =
     or_return (parse_object_path object_required r w0) (\<lambda>(targetBucket, targetObject) w1.
     if DryRun (px_config px) then send_status 204 w1
     else on_result (object_attributes px ''GetObjectAttrs_DeleteTagging'' targetBucket targetObject w1)
       no_such_key
       (\<lambda>attrs w2.
          on_result
            (update_object px ''DeleteObjectTagging'' targetBucket targetObject (Oa_Metageneration attrs)
               \<lparr>Ou_Contexts = Some \<lparr>Ctx_Custom = Map.empty\<rparr>\<rparr> w2)
            (\<lambda>_. writeS3Error 500 ''InternalError'' ''Failed to delete object tagging.'')
            (\<lambda>_. send_status 204)))"

subsection \<open>RestoreObject\<close>

definition restore_too_big :: string where
  "restore_too_big =
     ''Your request was too big. Max RestoreObject body size is '' @ show_nat maxControlPlaneBodySize
       @ '' bytes.''"

definition restore_success :: "'s proxy \<Rightarrow> 's world \<Rightarrow> 's world" where
  "restore_success px w =
     respond [OpHeader ''Date'' (px_date px), OpHeader ''Content-Length'' ''0'', OpStatus 200] w"

definition restore_probe :: "'s proxy \<Rightarrow> string \<Rightarrow> string \<Rightarrow> 's world \<Rightarrow> 's world" where
  "restore_probe px targetBucket targetObject w =
     (if \<not> px_client px
      then writeS3Error 500 ''InternalError'' ''Proxy misconfiguration: GCS client unavailable.'' w
      else on_result (object_attributes px ''RestoreObject_HeadProbe'' targetBucket targetObject w)
        (\<lambda>err.
           if ge_object_not_exist err
           then writeS3Error 404 ''NoSuchKey'' ''The specified key does not exist.''
           else writeS3Error 502 ''InternalError''
             ''Failed to verify object existence prior to synthesising RestoreObject response.'')
        (\<lambda>_. restore_success px))"

definition handleRestoreObject :: "'s proxy \<Rightarrow> request \<Rightarrow> 's world \<Rightarrow> 's world" where
  "handleRestoreObject px r w0 =
     or_return (parse_object_path ''Bucket and Object name required for RestoreObject.'' r w0)
       (\<lambda>(targetBucket, targetObject) w1.
          if read_capped (req_body r) = BodyTooBig
          then writeS3Error 400 ''MaxMessageLengthExceeded'' restore_too_big w1
          else if \<not> DryRun (px_config px) \<and> \<not> RestoreSkipExistenceCheck (px_config px)
          then restore_probe px targetBucket targetObject w1
          else restore_success px w1)"

subsection \<open>Following a handler step by step\<close>

lemma or_return_cases:
  assumes "\<And>w'. p = (None, w') \<Longrightarrow> Q w'" "\<And>a w'. p = (Some a, w') \<Longrightarrow> Q (k a w')"
  shows "Q (or_return p k)"
  using assms by (cases p; cases "fst p") auto

lemma on_result_cases:
  assumes "\<And>e w'. p = (Inl e, w') \<Longrightarrow> Q (err e w')" "\<And>a w'. p = (Inr a, w') \<Longrightarrow> Q (ok a w')"
  shows "Q (on_result p err ok)"
  using assms by (cases p; cases "fst p") auto

lemma timeGCSCall_result:
  assumes "timeGCSCall px operation fn w = (res, w')"
  shows "fn (call_deadline px) (w_gcs w) = (res, w_gcs w')" "w_rw w' = w_rw w" "fresh w' = fresh w"
    "w_ops w' = w_ops w"
  using timeGCSCall_simps [of px operation fn w] assms by (simp_all add: prod_eq_iff)

lemmas gcs_call_defs = update_bucket_def bucket_attributes_def object_attributes_def update_object_def

lemma gcs_call_fresh:
  "update_bucket px op1 b u w = (res1, w') \<Longrightarrow> fresh w' = fresh w"
  "bucket_attributes px op2 b w = (res2, w') \<Longrightarrow> fresh w' = fresh w"
  "object_attributes px op3 b k w = (res3, w') \<Longrightarrow> fresh w' = fresh w"
  "update_object px op4 b k mg v w = (res4, w') \<Longrightarrow> fresh w' = fresh w"
  unfolding gcs_call_defs by (rule timeGCSCall_result; assumption)+

text \<open>
  A property \<open>Q\<close> of the world a handler leaves, one rule per step: it has to hold of every
  way the step can answer itself, and of the rest of the handler.
\<close>

lemma decoding_rule:
  assumes "\<And>c k m. c \<in> {400, 500} \<Longrightarrow> Q (writeS3Error c k m w)"
    and "\<And>doc body. read_capped (req_body r) = BodyOk body \<Longrightarrow>
           Option.bind (px_xml px body) decode = Some doc \<Longrightarrow> Q (k doc w)"
  shows "Q (or_return (decodeControlPlaneXML px decode r w) k)"
proof (rule or_return_cases)
  fix w' assume "decodeControlPlaneXML px decode r w = (None, w')"
  from decode_None [OF this] assms(1) show "Q w'" by blast
next
  fix a w' assume "decodeControlPlaneXML px decode r w = (Some a, w')"
  with assms(2) show "Q (k a w')" by (auto simp: decode_Some_iff)
qed

lemma bucket_rule:
  assumes "\<And>k m. Q (writeS3Error 400 k m w)"
    and "\<And>b ks. path_parts r = b # ks \<Longrightarrow> b \<noteq> [] \<Longrightarrow> Q (k b w)"
  shows "Q (or_return (parseBucketFromPath r w) k)"
proof (rule or_return_cases)
  fix w' assume "parseBucketFromPath r w = (None, w')"
  from bucket_None [OF this] assms(1) show "Q w'" by blast
next
  fix a w' assume "parseBucketFromPath r w = (Some a, w')"
  with assms(2) show "Q (k a w')" by (auto simp: bucket_Some_iff)
qed

lemma object_rule:
  assumes "\<And>k m. Q (writeS3Error 400 k m w)"
    and "\<And>b x xs. path_parts r = b # x # xs \<Longrightarrow> b \<noteq> [] \<Longrightarrow> x \<noteq> [] \<Longrightarrow>
           Q (k (b, join_str ''/'' (x # xs)) w)"
  shows "Q (or_return (parse_object_path msg r w) k)"
proof (rule or_return_cases)
  fix w' assume "parse_object_path msg r w = (None, w')"
  from object_None [OF this] assms(1) show "Q w'" by blast
next
  fix a w' assume "parse_object_path msg r w = (Some a, w')"
  moreover obtain b k' where "a = (b, k')" by fastforce
  ultimately show "Q (k a w')" using assms(2) by (auto simp: object_Some_iff)
qed

lemma call_rule:
  assumes "\<And>e w'. fresh w' = fresh w \<Longrightarrow> w_ops w' = w_ops w \<Longrightarrow> w_rw w' = w_rw w \<Longrightarrow> fn (call_deadline px) (w_gcs w) = (Inl e, w_gcs w') \<Longrightarrow> Q (err e w')"
    and "\<And>a w'. fresh w' = fresh w \<Longrightarrow> w_ops w' = w_ops w \<Longrightarrow> w_rw w' = w_rw w \<Longrightarrow> fn (call_deadline px) (w_gcs w) = (Inr a, w_gcs w') \<Longrightarrow> Q (ok a w')"
  shows "Q (on_result (timeGCSCall px operation fn w) err ok)"
  by (rule on_result_cases) (blast intro: assms dest: timeGCSCall_result)+

text \<open>The world was answered with one of the given statuses.\<close>

definition answered :: "int set \<Rightarrow> 's world \<Rightarrow> bool" where
  "answered S w \<longleftrightarrow> (\<exists>c\<in>S. world_status w = Some c)"

lemma answered_error: "fresh w \<Longrightarrow> c \<in> S \<Longrightarrow> \<not> informational c \<Longrightarrow> answered S (writeS3Error c k m w)"
  and answered_status: "fresh w \<Longrightarrow> c \<in> S \<Longrightarrow> \<not> informational c \<Longrightarrow> answered S (send_status c w)"
  and answered_xml: "fresh w \<Longrightarrow> 200 \<in> S \<Longrightarrow> answered S (send_xml x w)"
  by (auto simp: answered_def)

lemma answered_written:
  "fresh w \<Longrightarrow> c \<in> S \<Longrightarrow> \<not> informational c \<Longrightarrow>
     answered S (respond [OpHeader k v, OpStatus c, OpWrite b] w)"
  "fresh w \<Longrightarrow> c \<in> S \<Longrightarrow> \<not> informational c \<Longrightarrow>
     answered S (respond [OpHeader k' v', OpHeader k v, OpStatus c] w)"
  by (auto simp: answered_def world_status_def fresh_def)

lemmas lifecycle_handler_defs = handlePutLifecycle_def handleGetLifecycle_def handleDeleteLifecycle_def
lemmas cors_handler_defs = handlePutCORS_def handleGetCORS_def handleDeleteCORS_def
lemmas logging_handler_defs = handlePutLogging_def handleGetLogging_def handleDeleteLogging_def
lemmas website_handler_defs = handlePutWebsite_def handleGetWebsite_def handleDeleteWebsite_def
lemmas tagging_handler_defs =
  handlePutObjectTagging_def handleGetObjectTagging_def handleDeleteObjectTagging_def
lemmas restore_handler_defs = handleRestoreObject_def restore_probe_def restore_success_def

lemmas all_handler_defs = lifecycle_handler_defs cors_handler_defs logging_handler_defs
  website_handler_defs tagging_handler_defs restore_handler_defs gcs_call_defs

lemmas answered_rules =
  decoding_rule [where Q = "answered S" for S] bucket_rule [where Q = "answered S" for S]
  object_rule [where Q = "answered S" for S] call_rule [where Q = "answered S" for S]
  answered_error answered_status answered_xml answered_written

text \<open>Every handler answers exactly once, with one of these statuses.\<close>

lemma put_handlers_answer:
  "fresh w \<Longrightarrow> answered {200, 400, 500, 502} (handlePutLifecycle px r w)"
  "fresh w \<Longrightarrow> answered {200, 400, 500, 502} (handlePutCORS px r w)"
  "fresh w \<Longrightarrow> answered {200, 400, 500, 502} (handlePutLogging px r w)"
  "fresh w \<Longrightarrow> answered {200, 400, 500, 502} (handlePutWebsite px r w)"
  unfolding all_handler_defs
  by (auto intro!: answered_rules simp: Let_def split: sum.splits prod.splits option.splits)

lemma get_handlers_answer:
  "fresh w \<Longrightarrow> answered {200, 400, 404, 502} (handleGetLifecycle px r w)"
  "fresh w \<Longrightarrow> answered {200, 400, 404, 502} (handleGetWebsite px r w)"
  unfolding all_handler_defs
  by (auto intro!: answered_rules simp: Let_def split: sum.splits prod.splits option.splits)

lemma get_default_handlers_answer:
  "fresh w \<Longrightarrow> answered {200, 400, 502} (handleGetCORS px r w)"
  "fresh w \<Longrightarrow> answered {200, 400, 502} (handleGetLogging px r w)"
  unfolding all_handler_defs
  by (auto intro!: answered_rules simp: Let_def split: sum.splits prod.splits option.splits)

lemma delete_handlers_answer:
  "fresh w \<Longrightarrow> answered {204, 400, 502} (handleDeleteLifecycle px r w)"
  "fresh w \<Longrightarrow> answered {204, 400, 502} (handleDeleteCORS px r w)"
  "fresh w \<Longrightarrow> answered {204, 400, 502} (handleDeleteLogging px r w)"
  "fresh w \<Longrightarrow> answered {204, 400, 502} (handleDeleteWebsite px r w)"
  unfolding all_handler_defs
  by (auto intro!: answered_rules simp: Let_def split: sum.splits prod.splits option.splits)

lemma tagging_handlers_answer:
  "fresh w \<Longrightarrow> answered {200, 400, 404, 500} (handlePutObjectTagging px r w)"
  "fresh w \<Longrightarrow> answered {200, 400, 404} (handleGetObjectTagging px r w)"
  "fresh w \<Longrightarrow> answered {204, 400, 404, 500} (handleDeleteObjectTagging px r w)"
  unfolding all_handler_defs no_such_key_def
  by (auto intro!: answered_rules)

lemma restore_handler_answers:
  "fresh w \<Longrightarrow> answered {200, 400, 404, 500, 502} (handleRestoreObject px r w)"
  unfolding all_handler_defs
  by (auto intro!: answered_rules)

text \<open>No handler sends a second status, or one after a byte of the body.\<close>

definition unanswered :: "'s world \<Rightarrow> bool" where
  "unanswered w \<longleftrightarrow> list_all header_op (w_ops w)"

definition answers_once :: "'s world \<Rightarrow> bool" where
  "answers_once w \<longleftrightarrow> plain_run (w_ops w)"

lemma respond_once: "unanswered w \<Longrightarrow> plain_run ops \<Longrightarrow> answers_once (respond ops w)"
  by (simp add: unanswered_def answers_once_def respond_def plain_run_headers)

lemma once_rules:
  "unanswered w \<Longrightarrow> \<not> informational c \<Longrightarrow> answers_once (writeS3Error c k m w)"
  "unanswered w \<Longrightarrow> \<not> informational c \<Longrightarrow> answers_once (send_status c w)"
  "unanswered w \<Longrightarrow> answers_once (send_xml x w)"
  "unanswered w \<Longrightarrow> answers_once (respond [OpHeader k v, OpStatus 200, OpWrite b] w)"
  "unanswered w \<Longrightarrow> answers_once (respond [OpHeader k' v', OpHeader k v, OpStatus 200] w)"
  by (auto simp: writeS3Error_def send_status_def send_xml_def intro!: respond_once)

lemma unanswered_simps [simp]:
  "unanswered (count_metric m w) = unanswered w"
  "unanswered (respond [OpHeader k v] w) = unanswered w"
  by (auto simp: unanswered_def count_metric_def respond_def)

lemma once_call:
  assumes "unanswered w" "\<And>e w'. unanswered w' \<Longrightarrow> answers_once (err e w')"
    and "\<And>a w'. unanswered w' \<Longrightarrow> answers_once (ok a w')"
  shows "answers_once (on_result (timeGCSCall px operation fn w) err ok)"
  by (rule call_rule) (use assms in \<open>simp_all add: unanswered_def\<close>)

lemmas answer_once_rules =
  decoding_rule [where Q = answers_once] bucket_rule [where Q = answers_once]
  object_rule [where Q = answers_once] once_call once_rules

lemma put_handlers_once:
  "unanswered w \<Longrightarrow> answers_once (handlePutLifecycle px r w)"
  "unanswered w \<Longrightarrow> answers_once (handlePutCORS px r w)"
  "unanswered w \<Longrightarrow> answers_once (handlePutLogging px r w)"
  "unanswered w \<Longrightarrow> answers_once (handlePutWebsite px r w)"
  unfolding all_handler_defs
  by (auto intro!: answer_once_rules simp: Let_def split: sum.splits prod.splits option.splits)

lemma get_handlers_once:
  "unanswered w \<Longrightarrow> answers_once (handleGetLifecycle px r w)"
  "unanswered w \<Longrightarrow> answers_once (handleGetCORS px r w)"
  "unanswered w \<Longrightarrow> answers_once (handleGetLogging px r w)"
  "unanswered w \<Longrightarrow> answers_once (handleGetWebsite px r w)"
  unfolding all_handler_defs
  by (auto intro!: answer_once_rules simp: Let_def split: sum.splits prod.splits option.splits)

lemma delete_handlers_once:
  "unanswered w \<Longrightarrow> answers_once (handleDeleteLifecycle px r w)"
  "unanswered w \<Longrightarrow> answers_once (handleDeleteCORS px r w)"
  "unanswered w \<Longrightarrow> answers_once (handleDeleteLogging px r w)"
  "unanswered w \<Longrightarrow> answers_once (handleDeleteWebsite px r w)"
  unfolding all_handler_defs
  by (auto intro!: answer_once_rules simp: Let_def split: sum.splits prod.splits option.splits)

lemma object_handlers_once:
  "unanswered w \<Longrightarrow> answers_once (handlePutObjectTagging px r w)"
  "unanswered w \<Longrightarrow> answers_once (handleGetObjectTagging px r w)"
  "unanswered w \<Longrightarrow> answers_once (handleDeleteObjectTagging px r w)"
  "unanswered w \<Longrightarrow> answers_once (handleRestoreObject px r w)"
  unfolding all_handler_defs no_such_key_def
  by (auto intro!: answer_once_rules simp: Let_def split: sum.splits prod.splits option.splits)

lemmas handlers_answer_once =
  put_handlers_once get_handlers_once delete_handlers_once object_handlers_once

text \<open>In a dry run no handler reaches GCS.\<close>

definition gcs_is :: "'s \<Rightarrow> 's world \<Rightarrow> bool" where
  "gcs_is s w \<longleftrightarrow> w_gcs w = s"

lemma gcs_is_simps [simp]:
  "gcs_is s (writeS3Error c k m w) = gcs_is s w" "gcs_is s (send_status c w) = gcs_is s w"
  "gcs_is s (send_xml x w) = gcs_is s w" "gcs_is s (respond ops w) = gcs_is s w"
  "gcs_is s (count_metric m' w) = gcs_is s w"
  by (simp_all add: gcs_is_def)

lemmas gcs_is_rules =
  decoding_rule [where Q = "gcs_is s" for s] bucket_rule [where Q = "gcs_is s" for s]
  object_rule [where Q = "gcs_is s" for s]

lemma dry_run_handlers:
  assumes "DryRun (px_config px)" "gcs_is s w"
  shows "gcs_is s (handlePutLifecycle px r w)" "gcs_is s (handleGetLifecycle px r w)"
    "gcs_is s (handleDeleteLifecycle px r w)"
    "gcs_is s (handlePutCORS px r w)" "gcs_is s (handleGetCORS px r w)" "gcs_is s (handleDeleteCORS px r w)"
    "gcs_is s (handlePutLogging px r w)" "gcs_is s (handleGetLogging px r w)"
    "gcs_is s (handleDeleteLogging px r w)"
    "gcs_is s (handlePutWebsite px r w)" "gcs_is s (handleGetWebsite px r w)"
    "gcs_is s (handleDeleteWebsite px r w)"
    "gcs_is s (handlePutObjectTagging px r w)" "gcs_is s (handleGetObjectTagging px r w)"
    "gcs_is s (handleDeleteObjectTagging px r w)" "gcs_is s (handleRestoreObject px r w)"
  using assms unfolding all_handler_defs
  by (auto intro!: gcs_is_rules simp: Let_def split: sum.splits prod.splits)

end
