(* ===== verification/Subresources.thy ===== *)
theory Subresources
  imports Handlers
begin

text \<open>
  The contracts of the control-plane handlers, as locales over the handlers themselves:
  what a PUT asks of GCS and when it succeeds, what a GET answers, and that a document
  read back and stored again asks for the same update. Interpreted for lifecycle, CORS,
  logging and website; object tagging is treated at the end.
\<close>

subsection \<open>The effect of a PUT and the answer of a GET\<close>

text \<open>
  The document of a request (\<open>None\<close>: too big, unreadable or malformed) and the bucket it
  addresses.
\<close>

definition put_document :: "'s proxy \<Rightarrow> (xml \<Rightarrow> 'a option) \<Rightarrow> request \<Rightarrow> 'a option" where
  "put_document px decode r =
     (case read_capped (req_body r) of
        BodyOk body \<Rightarrow> Option.bind (px_xml px body) decode | _ \<Rightarrow> None)"

definition path_bucket :: "request \<Rightarrow> string option" where
  "path_bucket r = (case path_parts r of [] \<Rightarrow> None | b # _ \<Rightarrow> if b = [] then None else Some b)"

text \<open>
  What a PUT asks of GCS: nothing when the request is rejected or the proxy runs dry,
  else one update of the addressed bucket. \<open>plan\<close> is what the translation makes of the
  document.
\<close>

definition put_request ::
  "'s proxy \<Rightarrow> (xml \<Rightarrow> 'a option) \<Rightarrow> ('a \<Rightarrow> bucket_update option) \<Rightarrow> request \<Rightarrow>
     (string \<times> bucket_update) option" where
  "put_request px decode plan r =
     (case (put_document px decode r, path_bucket r) of
        (Some doc, Some b) \<Rightarrow>
          (case plan doc of
             None \<Rightarrow> None | Some u \<Rightarrow> if DryRun (px_config px) then None else Some (b, u))
      | _ \<Rightarrow> None)"

definition run_update ::
  "'s proxy \<Rightarrow> (string \<times> bucket_update) option \<Rightarrow> 's \<Rightarrow> (gcs_error + unit) \<times> 's" where
  "run_update px req s =
     (case req of None \<Rightarrow> (Inr (), s)
      | Some (b, u) \<Rightarrow> api_bucket_update (px_api px) (call_deadline px) b u s)"

lemma decode_eq:
  "decodeControlPlaneXML px decode r w = (case put_document px decode r of
     Some doc \<Rightarrow> (Some doc, w) | None \<Rightarrow> (None, snd (decodeControlPlaneXML px decode r w)))"
  by (auto simp: decodeControlPlaneXML_def put_document_def split: body_result.splits option.splits)

lemma decode_rejects:
  assumes "put_document px decode r = None"
  shows "\<exists>c k m. c \<in> {400, 500} \<and> or_return (decodeControlPlaneXML px decode r w) h = writeS3Error c k m w"
  using assms
  by (auto simp: decodeControlPlaneXML_def put_document_def split: body_result.splits option.splits)

lemma decode_accepts:
  "put_document px decode r = Some doc \<Longrightarrow>
     or_return (decodeControlPlaneXML px decode r w) h = h doc w"
  by (subst decode_eq) simp

lemma bucket_rejects:
  "path_bucket r = None \<Longrightarrow> \<exists>k m. or_return (parseBucketFromPath r w) h = writeS3Error 400 k m w"
  by (auto simp: path_bucket_def parseBucketFromPath_def split: list.splits if_splits)

lemma bucket_accepts: "path_bucket r = Some b \<Longrightarrow> or_return (parseBucketFromPath r w) h = h b w"
  by (auto simp: path_bucket_def parseBucketFromPath_def split: list.splits if_splits)


lemma run_update_None [simp]: "run_update px None s = (Inr (), s)"
  by (simp add: run_update_def)

definition lifecycle_plan :: "'s proxy \<Rightarrow> LifecycleConfiguration \<Rightarrow> bucket_update option" where
  "lifecycle_plan px cfg = map_option (\<lambda>gs. no_update\<lparr>Bu_Lifecycle := Some gs\<rparr>) (lifecycle_to_gcs cfg)"

definition cors_plan :: "'s proxy \<Rightarrow> CORSConfiguration \<Rightarrow> bucket_update option" where
  "cors_plan px cfg = Some (no_update\<lparr>Bu_CORS := fst (TranslateS3ToGCSCors (px_unicode px) cfg)\<rparr>)"

definition logging_plan :: "'s proxy \<Rightarrow> BucketLoggingStatus \<Rightarrow> bucket_update option" where
  "logging_plan px cfg = Some (no_update\<lparr>Bu_Logging := TranslateS3ToGCSLogging cfg\<rparr>)"

definition website_plan :: "'s proxy \<Rightarrow> WebsiteConfiguration \<Rightarrow> bucket_update option" where
  "website_plan px cfg = Some (no_update\<lparr>Bu_Website := Some (TranslateS3ToGCSWebsite cfg)\<rparr>)"

lemma update_bucket_result:
  "on_result (update_bucket px op1 b u w) err ok =
     (case api_bucket_update (px_api px) (call_deadline px) b u (w_gcs w) of
        (Inl e, s') \<Rightarrow> err e (snd (update_bucket px op1 b u w))
      | (Inr a, s') \<Rightarrow> ok a (snd (update_bucket px op1 b u w)))"
  by (auto simp: update_bucket_def on_result_def timeGCSCall_def Let_def split: prod.splits sum.splits)

lemma update_bucket_world [simp]:
  "w_gcs (snd (update_bucket px op1 b u w)) =
     snd (api_bucket_update (px_api px) (call_deadline px) b u (w_gcs w))"
  "w_rw (snd (update_bucket px op1 b u w)) = w_rw w"
  "fresh (snd (update_bucket px op1 b u w)) = fresh w"
  by (simp_all add: update_bucket_def)

text \<open>The common shape of the four PUT handlers after the document was decoded.\<close>

definition put_tail ::
  "'s proxy \<Rightarrow> string \<Rightarrow> string \<Rightarrow> writer_op list \<Rightarrow> string \<Rightarrow> bucket_update \<Rightarrow> 's world \<Rightarrow> 's world" where
  "put_tail px operation message f b u w =
     (if DryRun (px_config px) then send_status 200 (respond f w)
      else on_result (update_bucket px operation b u (respond f w))
        (\<lambda>_. writeS3Error 502 ''InternalError'' message) (\<lambda>_. send_status 200))"

lemma put_handlerI:
  assumes put: "\<And>px r w. put px r w =
      or_return (decodeControlPlaneXML px decode r w) (\<lambda>doc w1.
      or_return (parseBucketFromPath r w1) (\<lambda>b w2.
        case plan px doc of
          None \<Rightarrow> writeS3Error 400 (code doc) (msg px doc) w2
        | Some u \<Rightarrow> put_tail px operation message (f px doc) b u w2))"
    and f: "\<And>px doc rw. rw_sent (run_ops (f px doc) rw) = rw_sent rw"
  shows "w_gcs (put px r w) = snd (run_update px (put_request px decode (plan px) r) (w_gcs w))"
    and "fresh w \<Longrightarrow> world_status (put px r w) = Some 200 \<longleftrightarrow>
      (\<exists>doc u. put_document px decode r = Some doc \<and> plan px doc = Some u) \<and> path_bucket r \<noteq> None
      \<and> fst (run_update px (put_request px decode (plan px) r) (w_gcs w)) = Inr ()"
proof -
  have fr: "fresh (respond (f px doc) w) = fresh w" for px doc and w :: "'s world"
    by (simp add: fresh_def f)
  consider "put_document px decode r = None"
    | doc where "put_document px decode r = Some doc" "path_bucket r = None"
    | doc b where "put_document px decode r = Some doc" "path_bucket r = Some b"
    by (cases "put_document px decode r"; cases "path_bucket r") auto
  then have "w_gcs (put px r w) = snd (run_update px (put_request px decode (plan px) r) (w_gcs w))
    \<and> (fresh w \<longrightarrow> world_status (put px r w) = Some 200 \<longleftrightarrow>
      (\<exists>doc u. put_document px decode r = Some doc \<and> plan px doc = Some u) \<and> path_bucket r \<noteq> None
      \<and> fst (run_update px (put_request px decode (plan px) r) (w_gcs w)) = Inr ())"
  proof cases
    case 1
    from decode_rejects [OF 1] obtain c k m where "c \<in> {400, 500}" "put px r w = writeS3Error c k m w"
      unfolding put by blast
    with 1 show ?thesis by (auto simp: put_request_def)
  next
    case 2
    from bucket_rejects [OF 2(2)] obtain k m where "put px r w = writeS3Error 400 k m w"
      unfolding put decode_accepts [OF 2(1)] by blast
    with 2 show ?thesis by (auto simp: put_request_def)
  next
    case 3
    then have "put px r w = (case plan px doc of
          None \<Rightarrow> writeS3Error 400 (code doc) (msg px doc) w
        | Some u \<Rightarrow> put_tail px operation message (f px doc) b u w)"
      unfolding put by (simp add: decode_accepts bucket_accepts)
    with 3 show ?thesis
      by (auto simp: put_request_def run_update_def put_tail_def update_bucket_result fr
          split: option.splits prod.splits sum.splits)
  qed
  then show "w_gcs (put px r w) = snd (run_update px (put_request px decode (plan px) r) (w_gcs w))"
    and "fresh w \<Longrightarrow> world_status (put px r w) = Some 200 \<longleftrightarrow>
      (\<exists>doc u. put_document px decode r = Some doc \<and> plan px doc = Some u) \<and> path_bucket r \<noteq> None
      \<and> fst (run_update px (put_request px decode (plan px) r) (w_gcs w)) = Inr ()"
    by auto
qed

text \<open>
  The contract of a PUT handler of a bucket subresource: its effect on GCS is exactly the
  planned update, and it answers 200 exactly when the plan exists and the update, if one
  is made, succeeds.
\<close>
locale put_handler =
  fixes put :: "'s proxy \<Rightarrow> request \<Rightarrow> 's world \<Rightarrow> 's world"
    and decode :: "xml \<Rightarrow> 'a option"
    and plan :: "'s proxy \<Rightarrow> 'a \<Rightarrow> bucket_update option"
  assumes put_gcs: "w_gcs (put px r w) = snd (run_update px (put_request px decode (plan px) r) (w_gcs w))"
    and put_status: "fresh w \<Longrightarrow> world_status (put px r w) = Some 200 \<longleftrightarrow>
      (\<exists>doc u. put_document px decode r = Some doc \<and> plan px doc = Some u) \<and> path_bucket r \<noteq> None
      \<and> fst (run_update px (put_request px decode (plan px) r) (w_gcs w)) = Inr ()"
begin

lemma rejected_leaves_gcs:
  assumes "fresh w" "put_document px decode r = None \<or> path_bucket r = None
    \<or> (\<exists>doc. put_document px decode r = Some doc \<and> plan px doc = None)"
  shows "w_gcs (put px r w) = w_gcs w \<and> world_status (put px r w) \<noteq> Some 200"
  using assms put_gcs [of px r w] put_status [OF assms(1), of px r]
  by (auto simp: put_request_def run_update_def split: option.splits)

lemma accepted_updates:
  assumes "fresh w" "put_document px decode r = Some doc" "plan px doc = Some u"
    and "path_bucket r = Some b" "\<not> DryRun (px_config px)"
    and "api_bucket_update (px_api px) (call_deadline px) b u (w_gcs w) = (res, s')"
  shows "w_gcs (put px r w) = s' \<and> (world_status (put px r w) = Some 200 \<longleftrightarrow> res = Inr ())"
  using assms put_gcs [of px r w] put_status [OF assms(1), of px r]
  by (simp add: put_request_def run_update_def)

end

lemma put_lifecycle_shape:
  "handlePutLifecycle px r w =
     or_return (decodeControlPlaneXML px decode_lifecycle r w) (\<lambda>doc w1.
     or_return (parseBucketFromPath r w1) (\<lambda>b w2.
       case lifecycle_plan px doc of
         None \<Rightarrow> writeS3Error 400 ''InvalidRequest''
           (case TranslateS3ToGCSLifecycle doc of Inl e \<Rightarrow> lifecycle_message px e | Inr _ \<Rightarrow> []) w2
       | Some u \<Rightarrow> put_tail px ''PutBucketLifecycle''
           ''Failed to update lifecycle configuration on GCS.'' [] b u w2))"
proof -
  have "(case TranslateS3ToGCSLifecycle doc of
       Inl err \<Rightarrow> writeS3Error 400 ''InvalidRequest'' (lifecycle_message px err) w2
     | Inr gs \<Rightarrow>
         if DryRun (px_config px) then send_status 200 w2
         else on_result (update_bucket px ''PutBucketLifecycle'' b (no_update\<lparr>Bu_Lifecycle := Some gs\<rparr>) w2)
           (\<lambda>_. writeS3Error 502 ''InternalError'' ''Failed to update lifecycle configuration on GCS.'')
           (\<lambda>_. send_status 200)) =
    (case lifecycle_plan px doc of
         None \<Rightarrow> writeS3Error 400 ''InvalidRequest''
           (case TranslateS3ToGCSLifecycle doc of Inl e \<Rightarrow> lifecycle_message px e | Inr _ \<Rightarrow> []) w2
       | Some u \<Rightarrow> put_tail px ''PutBucketLifecycle''
           ''Failed to update lifecycle configuration on GCS.'' [] b u w2)" for doc b and w2 :: "'a world"
    by (cases "TranslateS3ToGCSLifecycle doc")
      (simp_all add: lifecycle_plan_def lifecycle_to_gcs_def put_tail_def respond_def)
  then show ?thesis by (simp add: handlePutLifecycle_def)
qed

definition cors_header :: "'s proxy \<Rightarrow> CORSConfiguration \<Rightarrow> writer_op list" where
  "cors_header px doc =
     (let dropped = snd (TranslateS3ToGCSCors (px_unicode px) doc) in
      if dropped \<noteq> [] then [OpHeader ''X-S3Proxy-Warning'' (cors_warning dropped)] else [])"

lemma cors_header_sent: "rw_sent (run_ops (cors_header px doc) rw) = rw_sent rw"
  by (simp add: cors_header_def Let_def)

lemma respond_Nil [simp]: "respond [] w = w"
  by (simp add: respond_def)

lemma put_cors_shape:
  "handlePutCORS px r w =
     or_return (decodeControlPlaneXML px decode_cors r w) (\<lambda>doc w1.
     or_return (parseBucketFromPath r w1) (\<lambda>b w2.
       case cors_plan px doc of
         None \<Rightarrow> writeS3Error 400 [] [] w2
       | Some u \<Rightarrow> put_tail px ''PutBucketCors''
           ''Failed to update CORS configuration on GCS.'' (cors_header px doc) b u w2))"
  by (simp add: handlePutCORS_def cors_plan_def put_tail_def cors_header_def Let_def prod.case_eq_if
      if_distrib [of "\<lambda>f. respond f _"] cong: if_cong)

lemma put_logging_shape:
  "handlePutLogging px r w =
     or_return (decodeControlPlaneXML px decode_logging r w) (\<lambda>doc w1.
     or_return (parseBucketFromPath r w1) (\<lambda>b w2.
       case logging_plan px doc of
         None \<Rightarrow> writeS3Error 400 [] [] w2
       | Some u \<Rightarrow> put_tail px ''PutBucketLogging''
           ''Failed to update logging configuration on GCS.'' [] b u w2))"
  by (simp add: handlePutLogging_def logging_plan_def put_tail_def Let_def cong: if_cong)

lemma put_website_shape:
  "handlePutWebsite px r w =
     or_return (decodeControlPlaneXML px decode_website r w) (\<lambda>doc w1.
     or_return (parseBucketFromPath r w1) (\<lambda>b w2.
       case website_plan px doc of
         None \<Rightarrow> writeS3Error 400 [] [] w2
       | Some u \<Rightarrow> put_tail px ''PutBucketWebsite''
           ''Failed to update website configuration on GCS.'' [] b u w2))"
  by (simp add: handlePutWebsite_def website_plan_def put_tail_def Let_def cong: if_cong)

interpretation put_lifecycle: put_handler handlePutLifecycle decode_lifecycle lifecycle_plan
  using put_handlerI [of handlePutLifecycle, OF put_lifecycle_shape] by unfold_locales simp_all

interpretation put_cors: put_handler handlePutCORS decode_cors cors_plan
  using put_handlerI [of handlePutCORS, OF put_cors_shape cors_header_sent]
  by unfold_locales simp_all

interpretation put_logging: put_handler handlePutLogging decode_logging logging_plan
  using put_handlerI [of handlePutLogging, OF put_logging_shape] by unfold_locales simp_all

interpretation put_website: put_handler handlePutWebsite decode_website website_plan
  using put_handlerI [of handlePutWebsite, OF put_website_shape] by unfold_locales simp_all

subsection \<open>Reading back what was stored\<close>

text \<open>
  What the SDK documents of a bucket update: a nil field leaves the attribute alone, any
  other field replaces it.
\<close>

definition apply_update :: "bucket_update \<Rightarrow> bucket_attrs \<Rightarrow> bucket_attrs" where
  "apply_update u a =
     \<lparr>Ba_Lifecycle = (case Bu_Lifecycle u of None \<Rightarrow> Ba_Lifecycle a | Some l \<Rightarrow> l),
      Ba_CORS = (case Bu_CORS u of None \<Rightarrow> Ba_CORS a | Some c \<Rightarrow> c),
      Ba_Logging = (case Bu_Logging u of None \<Rightarrow> Ba_Logging a | Some l \<Rightarrow> Some l),
      Ba_Website = (case Bu_Website u of None \<Rightarrow> Ba_Website a | Some x \<Rightarrow> Some x)\<rparr>"

text \<open>A client whose bucket attributes show a successful update.\<close>

definition keeps_updates :: "'s gcs_api \<Rightarrow> bool" where
  "keeps_updates api \<longleftrightarrow> (\<forall>d b u s s'. api_bucket_update api d b u s = (Inr (), s') \<longrightarrow>
     (\<forall>d'. \<exists>a s''. api_bucket_attrs api d' b s' = (Inr (apply_update u a), s'')))"

lemma bucket_attributes_result:
  "on_result (bucket_attributes px op1 b w) err ok =
     (case api_bucket_attrs (px_api px) (call_deadline px) b (w_gcs w) of
        (Inl e, s') \<Rightarrow> err e (snd (bucket_attributes px op1 b w))
      | (Inr a, s') \<Rightarrow> ok a (snd (bucket_attributes px op1 b w)))"
  by (auto simp: bucket_attributes_def on_result_def timeGCSCall_def Let_def split: prod.splits sum.splits)

lemma bucket_attributes_world [simp]:
  "w_gcs (snd (bucket_attributes px op1 b w)) = snd (api_bucket_attrs (px_api px) (call_deadline px) b (w_gcs w))"
  "w_rw (snd (bucket_attributes px op1 b w)) = w_rw w"
  "fresh (snd (bucket_attributes px op1 b w)) = fresh w"
  by (simp_all add: bucket_attributes_def)

lemma send_xml_body: "fresh w \<Longrightarrow> rw_body (w_rw (send_xml x w)) = rw_body (w_rw w) @ render x"
  by (simp add: send_xml_def fresh_def)

text \<open>
  The contract of a GET handler of a bucket subresource: outside of a dry run it answers
  with the document \<open>shown\<close> of the attributes, with 404 if there is none, and with 502 if
  the attributes cannot be read.
\<close>

locale get_handler =
  fixes get :: "'s proxy \<Rightarrow> request \<Rightarrow> 's world \<Rightarrow> 's world"
    and shown :: "bucket_attrs \<Rightarrow> xml option"
  assumes get_found: "fresh w \<Longrightarrow> path_bucket r = Some b \<Longrightarrow> \<not> DryRun (px_config px) \<Longrightarrow>
      api_bucket_attrs (px_api px) (call_deadline px) b (w_gcs w) = (Inr a, s') \<Longrightarrow> shown a = Some x \<Longrightarrow>
      world_status (get px r w) = Some 200 \<and> rw_body (w_rw (get px r w)) = rw_body (w_rw w) @ render x
      \<and> w_gcs (get px r w) = s'"
    and get_missing: "fresh w \<Longrightarrow> path_bucket r = Some b \<Longrightarrow> \<not> DryRun (px_config px) \<Longrightarrow>
      api_bucket_attrs (px_api px) (call_deadline px) b (w_gcs w) = (Inr a, s') \<Longrightarrow> shown a = None \<Longrightarrow>
      world_status (get px r w) = Some 404"
    and get_failed: "fresh w \<Longrightarrow> path_bucket r = Some b \<Longrightarrow> \<not> DryRun (px_config px) \<Longrightarrow>
      api_bucket_attrs (px_api px) (call_deadline px) b (w_gcs w) = (Inl e, s') \<Longrightarrow>
      world_status (get px r w) = Some 502"

definition lifecycle_document :: "bucket_attrs \<Rightarrow> xml option" where
  "lifecycle_document a = map_option encode_lifecycle (lifecycle_shown (Ba_Lifecycle a))"

definition cors_document :: "bucket_attrs \<Rightarrow> xml option" where
  "cors_document a =
     Some (encode_cors (case TranslateGCSToS3Cors (Ba_CORS a) of None \<Rightarrow> empty_cors | Some c \<Rightarrow> c))"

definition logging_document :: "bucket_attrs \<Rightarrow> xml option" where
  "logging_document a = Some (encode_logging (TranslateGCSToS3Logging (Ba_Logging a)))"

definition website_document :: "bucket_attrs \<Rightarrow> xml option" where
  "website_document a = map_option encode_website (TranslateGCSToS3Website (Ba_Website a))"

lemma lifecycle_rules_empty_iff: "Lc_Rules (TranslateGCSToS3Lifecycle gs) = [] \<longleftrightarrow> gs = []"
  by (auto simp: TranslateGCSToS3Lifecycle_def enumerate_eq_zip)

interpretation get_lifecycle: get_handler handleGetLifecycle lifecycle_document
  by unfold_locales
    (auto simp: handleGetLifecycle_def bucket_accepts bucket_attributes_result lifecycle_document_def
      lifecycle_shown_def lifecycle_rules_empty_iff send_xml_body Let_def split: if_splits)

interpretation get_cors: get_handler handleGetCORS cors_document
  by unfold_locales
    (auto simp: handleGetCORS_def bucket_accepts bucket_attributes_result cors_document_def send_xml_body)

interpretation get_logging: get_handler handleGetLogging logging_document
  by unfold_locales
    (auto simp: handleGetLogging_def bucket_accepts bucket_attributes_result logging_document_def
      send_xml_body)

interpretation get_website: get_handler handleGetWebsite website_document
  by unfold_locales
    (auto simp: handleGetWebsite_def bucket_accepts bucket_attributes_result website_document_def
      send_xml_body split: option.splits)

text \<open>
  A subresource: its PUT, its GET, and the agreement of the two translations on the
  documents in \<open>plain\<close>. What is shown after a PUT is a document whose PUT asks for the
  same update.
\<close>

locale subresource = put_handler put decode plan + get_handler get shown
  for put get :: "'s proxy \<Rightarrow> request \<Rightarrow> 's world \<Rightarrow> 's world" and decode :: "xml \<Rightarrow> 'a option"
    and plan :: "'s proxy \<Rightarrow> 'a \<Rightarrow> bucket_update option" and shown :: "bucket_attrs \<Rightarrow> xml option" +
  fixes plain :: "'a \<Rightarrow> bool"
  assumes agree: "plain doc \<Longrightarrow> plan px doc = Some u \<Longrightarrow> shown (apply_update u a) = Some x \<Longrightarrow>
    \<exists>doc'. decode x = Some doc' \<and> plan px doc' = Some u"
begin

lemma put_get_put:
  assumes "keeps_updates (px_api px)" "\<not> DryRun (px_config px)"
    and put: "fresh w" "put_document px decode r = Some doc" "plain doc" "path_bucket r = Some b"
      "world_status (put px r w) = Some 200"
    and get: "fresh w1" "rw_body (w_rw w1) = []" "w_gcs w1 = w_gcs (put px r w)" "path_bucket r1 = Some b"
      "api_bucket_attrs (px_api px) (call_deadline px) b (w_gcs w1) = (Inr a, s1)" "shown a = Some x"
    and again: "read_capped (req_body r2) = BodyOk (rw_body (w_rw (get px r1 w1)))"
      "px_xml px (render x) = Some x" "path_bucket r2 = Some b"
  shows "world_status (get px r1 w1) = Some 200
    \<and> put_request px decode (plan px) r2 = put_request px decode (plan px) r
    \<and> put_request px decode (plan px) r \<noteq> None"
proof -
  from put(1,2,5) obtain u where u: "plan px doc = Some u"
    and ok: "fst (run_update px (put_request px decode (plan px) r) (w_gcs w)) = Inr ()"
    by (auto simp: put_status)
  have req: "put_request px decode (plan px) r = Some (b, u)"
    using put(2,4) u assms(2) by (simp add: put_request_def)
  obtain s' where s': "api_bucket_update (px_api px) (call_deadline px) b u (w_gcs w) = (Inr (), s')"
    using ok req by (auto simp: run_update_def prod_eq_iff)
  then have "w_gcs w1 = s'"
    using get(3) put_gcs [of px r w] req by (simp add: run_update_def)
  with s' assms(1) get(5) obtain a' where a: "a = apply_update u a'"
    unfolding keeps_updates_def by (metis Inr_inject prod.inject)
  have found: "world_status (get px r1 w1) = Some 200 \<and> rw_body (w_rw (get px r1 w1)) = render x"
    using get_found [OF get(1,4) assms(2) get(5,6)] get(2) by simp
  from agree [OF put(3) u] get(6) a obtain doc' where "decode x = Some doc'" "plan px doc' = Some u"
    by blast
  moreover from this found again(1,2) have "put_document px decode r2 = Some doc'"
    by (simp add: put_document_def)
  ultimately have "put_request px decode (plan px) r2 = Some (b, u)"
    using again(3) assms(2) by (simp add: put_request_def)
  with found req show ?thesis by simp
qed

end

lemma lifecycle_shown_update:
  assumes "lifecycle_plan px doc = Some u" "lifecycle_document (apply_update u a) = Some x"
  obtains gs s where "lifecycle_to_gcs doc = Some gs" "u = no_update\<lparr>Bu_Lifecycle := Some gs\<rparr>"
    "lifecycle_shown gs = Some s" "x = encode_lifecycle s"
  using assms by (auto simp: lifecycle_plan_def lifecycle_document_def apply_update_def)

interpretation lifecycle_sub: subresource handlePutLifecycle handleGetLifecycle decode_lifecycle
  lifecycle_plan lifecycle_document "\<lambda>doc. list_all plain_rule (Lc_Rules doc)"
proof unfold_locales
  fix doc and px :: "'s proxy" and u a x
  assume plain: "list_all plain_rule (Lc_Rules doc)" and "lifecycle_plan px doc = Some u"
    "lifecycle_document (apply_update u a) = Some x"
  then obtain gs s where "lifecycle_to_gcs doc = Some gs" "u = no_update\<lparr>Bu_Lifecycle := Some gs\<rparr>"
    "lifecycle_shown gs = Some s" "x = encode_lifecycle s"
    by (blast elim: lifecycle_shown_update)
  with lifecycle.put_get_put [OF plain, of gs s]
  show "\<exists>doc'. decode_lifecycle x = Some doc' \<and> lifecycle_plan px doc' = Some u"
    by (simp add: lifecycle_xml.decode_encode lifecycle_plan_def)
qed

interpretation cors_sub: subresource handlePutCORS handleGetCORS decode_cors cors_plan cors_document
  "\<lambda>doc. plain_cors doc \<and> Cc_CORSRules doc \<noteq> []"
proof unfold_locales
  fix doc and px :: "'s proxy" and u a x
  assume plain: "plain_cors doc \<and> Cc_CORSRules doc \<noteq> []" and u: "cors_plan px doc = Some u"
    and x: "cors_document (apply_update u a) = Some x"
  obtain gs where gs: "fst (TranslateS3ToGCSCors (px_unicode px) doc) = Some gs"
    using plain by (simp add: TranslateS3ToGCSCors_def)
  from cors.put_then_get [OF _ gs] plain obtain s where
    "TranslateGCSToS3Cors gs = Some s" "fst (TranslateS3ToGCSCors (px_unicode px) s) = Some gs"
    by blast
  with u x gs show "\<exists>doc'. decode_cors x = Some doc' \<and> cors_plan px doc' = Some u"
    by (auto simp: cors_plan_def cors_document_def apply_update_def cors_xml.decode_encode)
qed

interpretation logging_sub: subresource handlePutLogging handleGetLogging decode_logging logging_plan
  logging_document "\<lambda>doc. plain_logging doc \<and> Bls_LoggingEnabled doc \<noteq> None"
proof unfold_locales
  fix doc and px :: "'s proxy" and u a x
  assume plain: "plain_logging doc \<and> Bls_LoggingEnabled doc \<noteq> None" and u: "logging_plan px doc = Some u"
    and x: "logging_document (apply_update u a) = Some x"
  obtain g where g: "TranslateS3ToGCSLogging doc = Some g"
    using plain by (auto simp: TranslateS3ToGCSLogging_def)
  with logging.put_then_get [OF _ g] plain have
    "TranslateS3ToGCSLogging (TranslateGCSToS3Logging (Some g)) = Some g" by simp
  with u x g show "\<exists>doc'. decode_logging x = Some doc' \<and> logging_plan px doc' = Some u"
    by (auto simp: logging_plan_def logging_document_def apply_update_def logging_xml.decode_encode)
qed

interpretation website_sub: subresource handlePutWebsite handleGetWebsite decode_website website_plan
  website_document "\<lambda>_. True"
proof unfold_locales
  fix doc and px :: "'s proxy" and u a x
  assume u: "website_plan px doc = Some u" and x: "website_document (apply_update u a) = Some x"
  then obtain s where "TranslateGCSToS3Website (Some (TranslateS3ToGCSWebsite doc)) = Some s"
    "x = encode_website s"
    by (auto simp: website_plan_def website_document_def apply_update_def)
  with website_roundtrip [of _ s] u
  show "\<exists>doc'. decode_website x = Some doc' \<and> website_plan px doc' = Some u"
    by (simp add: website_xml.decode_encode website_plan_def)
qed

subsection \<open>Object tagging\<close>

definition path_object :: "request \<Rightarrow> (string \<times> string) option" where
  "path_object r = (case path_parts r of
     b # k # ks \<Rightarrow> if b = [] \<or> k = [] then None else Some (b, join_str ''/'' (k # ks)) | _ \<Rightarrow> None)"

lemma object_accepts:
  "path_object r = Some (b, k) \<Longrightarrow> or_return (parse_object_path msg r w) h = h (b, k) w"
  by (auto simp: path_object_def parse_object_path_def split: list.splits if_splits)

lemma object_rejects:
  "path_object r = None \<Longrightarrow> \<exists>k m. or_return (parse_object_path msg r w) h = writeS3Error 400 k m w"
  by (auto simp: path_object_def parse_object_path_def split: list.splits if_splits)

lemma object_attributes_result:
  "on_result (object_attributes px op1 b k w) err ok =
     (case api_object_attrs (px_api px) (call_deadline px) b k (w_gcs w) of
        (Inl e, s') \<Rightarrow> err e (snd (object_attributes px op1 b k w))
      | (Inr a, s') \<Rightarrow> ok a (snd (object_attributes px op1 b k w)))"
  by (auto simp: object_attributes_def on_result_def timeGCSCall_def Let_def split: prod.splits sum.splits)

lemma update_object_result:
  "on_result (update_object px op1 b k mg u w) err ok =
     (case api_object_update (px_api px) (call_deadline px) b k mg u (w_gcs w) of
        (Inl e, s') \<Rightarrow> err e (snd (update_object px op1 b k mg u w))
      | (Inr a, s') \<Rightarrow> ok a (snd (update_object px op1 b k mg u w)))"
  by (auto simp: update_object_def on_result_def timeGCSCall_def Let_def split: prod.splits sum.splits)

lemma object_call_world [simp]:
  "w_gcs (snd (object_attributes px op1 b k w)) = snd (api_object_attrs (px_api px) (call_deadline px) b k (w_gcs w))"
  "w_rw (snd (object_attributes px op1 b k w)) = w_rw w"
  "fresh (snd (object_attributes px op1 b k w)) = fresh w"
  "w_gcs (snd (update_object px op2 b k mg u w)) = snd (api_object_update (px_api px) (call_deadline px) b k mg u (w_gcs w))"
  "w_rw (snd (update_object px op2 b k mg u w)) = w_rw w"
  "fresh (snd (update_object px op2 b k mg u w)) = fresh w"
  by (simp_all add: object_attributes_def update_object_def)

text \<open>
  What the tagging handlers ask of GCS: they read the object's attributes once and write
  the patch under the metageneration they read.
\<close>

definition tagging_effect ::
  "'s proxy \<Rightarrow> string \<Rightarrow> string \<Rightarrow> (ObjectContexts option \<Rightarrow> ObjectContexts) \<Rightarrow> 's \<Rightarrow> (gcs_error + unit) \<times> 's" where
  "tagging_effect px b k patch s =
     (case api_object_attrs (px_api px) (call_deadline px) b k s of
        (Inl e, s1) \<Rightarrow> (Inl e, s1)
      | (Inr a, s1) \<Rightarrow>
          api_object_update (px_api px) (call_deadline px) b k (Oa_Metageneration a)
            \<lparr>Ou_Contexts = Some (patch (Oa_Contexts a))\<rparr> s1)"

lemma put_tagging_effect:
  assumes "fresh w" "put_document px decode_tagging r = Some doc" "path_object r = Some (b, k)"
    and "\<not> DryRun (px_config px)"
  shows "w_gcs (handlePutObjectTagging px r w) = snd (tagging_effect px b k (TranslateS3ToGCSContexts doc) (w_gcs w))"
    and "world_status (handlePutObjectTagging px r w) = Some 200 \<longleftrightarrow>
      fst (tagging_effect px b k (TranslateS3ToGCSContexts doc) (w_gcs w)) = Inr ()"
  using assms
  by (auto simp: handlePutObjectTagging_def decode_accepts object_accepts object_attributes_result
      update_object_result tagging_effect_def no_such_key_def split: prod.splits sum.splits)

lemma delete_tagging_effect:
  assumes "fresh w" "path_object r = Some (b, k)" "\<not> DryRun (px_config px)"
  shows "w_gcs (handleDeleteObjectTagging px r w) =
      snd (tagging_effect px b k (\<lambda>_. \<lparr>Ctx_Custom = Map.empty\<rparr>) (w_gcs w))"
    and "world_status (handleDeleteObjectTagging px r w) = Some 204 \<longleftrightarrow>
      fst (tagging_effect px b k (\<lambda>_. \<lparr>Ctx_Custom = Map.empty\<rparr>) (w_gcs w)) = Inr ()"
  using assms
  by (auto simp: handleDeleteObjectTagging_def object_accepts object_attributes_result
      update_object_result tagging_effect_def no_such_key_def split: prod.splits sum.splits)

text \<open>A client that applies a patch made under the current metageneration.\<close>

definition contexts_of :: "object_attrs \<Rightarrow> string \<Rightarrow> string option" where
  "contexts_of a k =
     (case Oa_Contexts a of None \<Rightarrow> None | Some c \<Rightarrow> map_option Pl_Value (Ctx_Custom c k))"

definition keeps_patches :: "'s gcs_api \<Rightarrow> bool" where
  "keeps_patches api \<longleftrightarrow> (\<forall>d b k s a s1 p s2.
     api_object_attrs api d b k s = (Inr a, s1) \<and>
     api_object_update api d b k (Oa_Metageneration a) \<lparr>Ou_Contexts = Some p\<rparr> s1 = (Inr (), s2) \<longrightarrow>
     (\<forall>d'. \<exists>a' s3. api_object_attrs api d' b k s2 = (Inr a', s3) \<and>
        contexts_of a' = apply_patch (Oa_Contexts a) p))"

lemma tagging_effect_stored:
  assumes "keeps_patches (px_api px)" "tagging_effect px b k patch s = (Inr (), s2)"
  shows "\<exists>a s1 a' s3. api_object_attrs (px_api px) (call_deadline px) b k s = (Inr a, s1)
    \<and> api_object_attrs (px_api px) (call_deadline px) b k s2 = (Inr a', s3)
    \<and> contexts_of a' = apply_patch (Oa_Contexts a) (patch (Oa_Contexts a))"
proof -
  from assms(2) obtain a s1 where a: "api_object_attrs (px_api px) (call_deadline px) b k s = (Inr a, s1)"
    and "api_object_update (px_api px) (call_deadline px) b k (Oa_Metageneration a)
            \<lparr>Ou_Contexts = Some (patch (Oa_Contexts a))\<rparr> s1 = (Inr (), s2)"
    by (auto simp: tagging_effect_def split: prod.splits sum.splits)
  with assms(1) show ?thesis
    unfolding keeps_patches_def by blast
qed

text \<open>A successful PUT leaves exactly the tags of the document, a DELETE none.\<close>

lemma put_tagging_stores:
  assumes "keeps_patches (px_api px)" "fresh w" "put_document px decode_tagging r = Some doc"
    and "path_object r = Some (b, k)" "\<not> DryRun (px_config px)"
    and "world_status (handlePutObjectTagging px r w) = Some 200"
  shows "\<exists>a s. api_object_attrs (px_api px) (call_deadline px) b k (w_gcs (handlePutObjectTagging px r w)) = (Inr a, s)
    \<and> contexts_of a = tag_map doc"
proof -
  let ?w' = "handlePutObjectTagging px r w"
  have "tagging_effect px b k (TranslateS3ToGCSContexts doc) (w_gcs w) = (Inr (), w_gcs ?w')"
    using put_tagging_effect [OF assms(2-5)] assms(6) by (simp add: prod_eq_iff)
  from tagging_effect_stored [OF assms(1) this] show ?thesis
    by (auto simp: patch_replaces)
qed

lemma delete_tagging_clears:
  assumes "keeps_patches (px_api px)" "fresh w" "path_object r = Some (b, k)" "\<not> DryRun (px_config px)"
    and "world_status (handleDeleteObjectTagging px r w) = Some 204"
  shows "\<exists>a s. api_object_attrs (px_api px) (call_deadline px) b k (w_gcs (handleDeleteObjectTagging px r w)) = (Inr a, s)
    \<and> contexts_of a = Map.empty"
proof -
  let ?w' = "handleDeleteObjectTagging px r w"
  have "tagging_effect px b k (\<lambda>_. \<lparr>Ctx_Custom = Map.empty\<rparr>) (w_gcs w) = (Inr (), w_gcs ?w')"
    using delete_tagging_effect [OF assms(2-4)] assms(5) by (simp add: prod_eq_iff)
  from tagging_effect_stored [OF assms(1) this] show ?thesis
    by (auto simp: apply_patch_def fun_eq_iff)
qed

text \<open>
  Concurrent changes. A client that guards updates: what it reads is the metageneration of
  the moment, reading changes nothing, and an update made for another one is refused and
  changes nothing. \<open>meanwhile f px\<close> is the proxy whose GCS someone else changes by \<open>f\<close>
  between the read of an object's attributes and the next call.
\<close>

definition guards_generation :: "'s gcs_api \<Rightarrow> ('s \<Rightarrow> string \<Rightarrow> string \<Rightarrow> int64) \<Rightarrow> bool" where
  "guards_generation api mg \<longleftrightarrow>
     (\<forall>d b k s. snd (api_object_attrs api d b k s) = s
        \<and> (case fst (api_object_attrs api d b k s) of Inl _ \<Rightarrow> True | Inr a \<Rightarrow> Oa_Metageneration a = mg s b k))
     \<and> (\<forall>d b k m u s. m \<noteq> mg s b k \<longrightarrow> (\<exists>e. api_object_update api d b k m u s = (Inl e, s)))"

definition meanwhile :: "('s \<Rightarrow> 's) \<Rightarrow> 's proxy \<Rightarrow> 's proxy" where
  "meanwhile f px =
     px\<lparr>px_api := (px_api px)\<lparr>api_object_attrs := \<lambda>d b k s.
       let (res, s') = api_object_attrs (px_api px) d b k s in (res, f s')\<rparr>\<rparr>"

lemma meanwhile_simps [simp]:
  "px_config (meanwhile f px) = px_config px" "call_deadline (meanwhile f px) = call_deadline px"
  "put_document (meanwhile f px) decode r = put_document px decode r"
  "api_object_update (px_api (meanwhile f px)) = api_object_update (px_api px)"
  "api_object_attrs (px_api (meanwhile f px)) d b k s =
     (fst (api_object_attrs (px_api px) d b k s), f (snd (api_object_attrs (px_api px) d b k s)))"
  by (simp_all add: meanwhile_def call_deadline_def put_document_def case_prod_beta split: body_result.split)

lemma tagging_effect_meanwhile:
  assumes "guards_generation (px_api px) mg" "mg (f s) b k \<noteq> mg s b k"
  shows "\<exists>e. tagging_effect (meanwhile f px) b k patch s = (Inl e, f s)"
proof -
  let ?x = "api_object_attrs (px_api px) (call_deadline px) b k s"
  have x: "snd ?x = s" "case fst ?x of Inl _ \<Rightarrow> True | Inr a \<Rightarrow> Oa_Metageneration a = mg s b k"
    using assms(1) by (auto simp: guards_generation_def)
  show ?thesis
  proof (cases "fst ?x")
    case (Inl e)
    with x(1) show ?thesis by (simp add: tagging_effect_def)
  next
    case (Inr a)
    with x(2) assms(2) have "Oa_Metageneration a \<noteq> mg (f s) b k" by simp
    then have "\<exists>e. api_object_update (px_api px) (call_deadline px) b k (Oa_Metageneration a)
        \<lparr>Ou_Contexts = Some (patch (Oa_Contexts a))\<rparr> (f s) = (Inl e, f s)"
      using assms(1) by (simp add: guards_generation_def)
    with Inr x(1) show ?thesis by (auto simp: tagging_effect_def)
  qed
qed

subsection \<open>RestoreObject\<close>

definition probe_needed :: "'s proxy \<Rightarrow> bool" where
  "probe_needed px \<longleftrightarrow> \<not> DryRun (px_config px) \<and> \<not> RestoreSkipExistenceCheck (px_config px)"

lemma restore_success_status: "fresh w \<Longrightarrow> world_status (restore_success px w) = Some 200"
  by (simp add: restore_success_def world_status_def fresh_def)

text \<open>
  Success is reported only for an object that exists, unless the probe is turned off; a
  missing object is a 404.
\<close>

lemma restore_status:
  assumes "fresh w" "path_object r = Some (b, k)" "read_capped (req_body r) \<noteq> BodyTooBig"
  shows "world_status (handleRestoreObject px r w) = Some 200 \<longleftrightarrow>
      \<not> probe_needed px
      \<or> px_client px \<and> (\<exists>a. fst (api_object_attrs (px_api px) (call_deadline px) b k (w_gcs w)) = Inr a)"
    and "world_status (handleRestoreObject px r w) = Some 404 \<longleftrightarrow>
      probe_needed px \<and> px_client px
      \<and> (\<exists>e. fst (api_object_attrs (px_api px) (call_deadline px) b k (w_gcs w)) = Inl e \<and> ge_object_not_exist e)"
  using assms
  by (auto simp: handleRestoreObject_def restore_probe_def object_accepts object_attributes_result
      restore_success_status probe_needed_def split: prod.splits sum.splits)

end
