(* ===== verification/Watcher.thy ===== *)
theory Watcher
  imports Credstore
begin

text \<open>
  Hot reload of the credential file (\<^verbatim>\<open>Watch\<close> and \<^verbatim>\<open>runWatcher\<close> in
  \<^verbatim>\<open>pkg/credstore/credstore.go\<close>): the select loop as a step relation. Its inputs are
  the file events of \<^verbatim>\<open>fsnotify\<close>, the debounce timer, the watcher's errors, the closing
  of its channels and the stop function. Times are in milliseconds; \<open>content t\<close> is what
  \<^verbatim>\<open>os.ReadFile\<close> of the path gives at time \<open>t\<close>. The step \<open>Stop\<close> is
  the goroutine's return, on the done channel or a closed one: between the call of the
  stop function and that step the other branches may still be taken.
\<close>

datatype fs_op = FsCreate | FsWrite | FsRemove | FsRename | FsChmod

record fs_event =
  ev_name :: string
  ev_ops :: "fs_op list"

definition debounceDelay :: nat where
  "debounceDelay = 200"

text \<open>\<^verbatim>\<open>filepath.Base\<close>\<close>

definition path_base :: "string \<Rightarrow> string" where
  "path_base p =
     (if p = [] then ''.''
      else let q = rev (dropWhile ((=) (CHR ''/'')) (rev p));
               b = rev (takeWhile ((\<noteq>) (CHR ''/'')) (rev q))
           in if b = [] then ''/'' else b)"

definition relevant_event :: "string \<Rightarrow> fs_event \<Rightarrow> bool" where
  "relevant_event path ev \<longleftrightarrow>
     (path_base (ev_name ev) = path_base path \<or> path_base (ev_name ev) = ''..data'')
     \<and> list_ex (\<lambda>x. x \<in> {FsCreate, FsWrite, FsRemove, FsRename}) (ev_ops ev)"

text \<open>
  The watcher: the store it feeds, the deadline of the pending timer, whether the
  goroutine still runs, and the outcome of each reload (the counter
  \<^verbatim>\<open>HMACCredentialsReloadTotal\<close> and the \<^verbatim>\<open>onReload\<close> callback), latest first.
\<close>

record watcher =
  wt_store :: store
  wt_now :: nat
  wt_pending :: "nat option"
  wt_running :: bool
  wt_reloads :: "(nat \<times> cred_error option) list"

definition start_watcher :: "store \<Rightarrow> nat \<Rightarrow> watcher" where
  "start_watcher s t =
     \<lparr>wt_store = s, wt_now = t, wt_pending = None, wt_running = True, wt_reloads = []\<rparr>"

text \<open>The branch of the select for an event, and the one for the timer.\<close>

definition on_event :: "string \<Rightarrow> fs_event \<Rightarrow> watcher \<Rightarrow> watcher" where
  "on_event path ev w =
     (if relevant_event path ev then w\<lparr>wt_pending := Some (wt_now w + debounceDelay)\<rparr> else w)"

definition on_timer :: "(string \<Rightarrow> bytes option) \<Rightarrow> string \<Rightarrow> watcher \<Rightarrow> watcher" where
  "on_timer read path w =
     (let w1 = w\<lparr>wt_pending := None\<rparr> in
      case LoadFile read path of
        Inl e \<Rightarrow> w1\<lparr>wt_reloads := (wt_now w, Some e) # wt_reloads w\<rparr>
      | Inr m \<Rightarrow> w1\<lparr>wt_store := Replace m (wt_store w),
                    wt_reloads := (wt_now w, None) # wt_reloads w\<rparr>)"

inductive watch_step ::
  "(nat \<Rightarrow> string \<Rightarrow> bytes option) \<Rightarrow> string \<Rightarrow> watcher \<Rightarrow> watcher \<Rightarrow> bool"
  for content path where
  Wait: "wt_now w \<le> t \<Longrightarrow> watch_step content path w (w\<lparr>wt_now := t\<rparr>)"
| Event: "wt_running w \<Longrightarrow> watch_step content path w (on_event path ev w)"
| Timer: "wt_running w \<Longrightarrow> wt_pending w = Some d \<Longrightarrow> d \<le> wt_now w \<Longrightarrow>
    watch_step content path w (on_timer (content (wt_now w)) path w)"
| Watch_error: "wt_running w \<Longrightarrow> watch_step content path w w"
| Stop: "wt_running w \<Longrightarrow> watch_step content path w (w\<lparr>wt_running := False\<rparr>)"

inductive_cases watch_stepE: "watch_step content path w w'"

inductive watch_reachable ::
  "(nat \<Rightarrow> string \<Rightarrow> bytes option) \<Rightarrow> string \<Rightarrow> watcher \<Rightarrow> watcher \<Rightarrow> bool"
  for content path w0 where
  Start: "watch_reachable content path w0 w0"
| Step: "watch_reachable content path w0 w \<Longrightarrow> watch_step content path w w' \<Longrightarrow>
    watch_reachable content path w0 w'"

lemma watcher_simps [simp]:
  "wt_store (on_event path ev w) = wt_store w" "wt_now (on_event path ev w) = wt_now w"
  "wt_reloads (on_event path ev w) = wt_reloads w" "wt_running (on_event path ev w) = wt_running w"
  "wt_now (on_timer read path w) = wt_now w" "wt_pending (on_timer read path w) = None"
  "wt_running (on_timer read path w) = wt_running w"
  by (simp_all add: on_event_def on_timer_def Let_def split: sum.splits)

lemma on_timer_store:
  "wt_store (on_timer read path w) =
     (case LoadFile read path of Inl _ \<Rightarrow> wt_store w | Inr m \<Rightarrow> Replace m (wt_store w))"
  by (simp add: on_timer_def split: sum.splits)

lemma on_timer_reloads:
  "wt_reloads (on_timer read path w) =
     (wt_now w, case LoadFile read path of Inl e \<Rightarrow> Some e | Inr _ \<Rightarrow> None) # wt_reloads w"
  by (simp add: on_timer_def split: sum.splits)

text \<open>A property of the store that every accepted map has is kept by every step.\<close>

lemma watch_store_invariant:
  assumes "watch_reachable content path w0 w" "P (wt_store w0)"
    and "\<And>t m s. LoadFile (content t) path = Inr m \<Longrightarrow> P (Replace m s)"
  shows "P (wt_store w)"
  using assms(1)
proof induction
  case (Step w w')
  from Step(2,3) show ?case
    by (cases rule: watch_step.cases) (auto simp: on_timer_store assms(3) split: sum.splits)
qed (rule assms(2))

text \<open>
  The store the proxy starts with is sound when any credential was configured; the
  watcher never makes it unsound, in particular never empty.
\<close>

lemma watcher_keeps_sound:
  assumes "watch_reachable content path w0 w" "creds.sound (wt_store w0)"
  shows "creds.sound (wt_store w)"
  using assms by (rule watch_store_invariant) (simp add: creds.replace_sound LoadFile_sound)

text \<open>What the store holds was there at the start or was read from the file.\<close>

lemma watcher_provenance:
  assumes "watch_reachable content path w0 w"
  shows "st_map (wt_store w) = st_map (wt_store w0)
    \<or> (\<exists>t. LoadFile (content t) path = Inr (st_map (wt_store w)))"
  by (rule watch_store_invariant [OF assms]) (auto simp: Replace_def)

text \<open>
  Ordering facts kept by every step: time does not run backwards, a pending deadline is
  at most the delay away, and the store is the outcome of the latest successful reload.
\<close>

definition timely :: "watcher \<Rightarrow> bool" where
  "timely w \<longleftrightarrow> (\<forall>d. wt_pending w = Some d \<longrightarrow> d \<le> wt_now w + debounceDelay)
     \<and> (\<forall>(t, e) \<in> set (wt_reloads w). t \<le> wt_now w)
     \<and> sorted (rev (map fst (wt_reloads w)))"

lemma watch_step_timely:
  assumes "watch_step content path w w'" "timely w"
  shows "timely w'"
  using assms(1)
proof (cases rule: watch_step.cases)
  case (Wait t)
  with assms(2) show ?thesis by (fastforce simp: timely_def)
next
  case (Event ev)
  with assms(2) show ?thesis by (auto simp: timely_def on_event_def)
next
  case (Timer d)
  with assms(2) show ?thesis by (auto simp: timely_def on_timer_reloads sorted_append)
qed (use assms(2) in \<open>auto simp: timely_def\<close>)

definition latest_success :: "watcher \<Rightarrow> nat option" where
  "latest_success w = map_option fst (find (\<lambda>(t, e). e = None) (wt_reloads w))"

lemma watcher_current:
  assumes "watch_reachable content path w0 w" "wt_reloads w0 = []"
  shows "case latest_success w of
      None \<Rightarrow> wt_store w = wt_store w0
    | Some t \<Rightarrow> LoadFile (content t) path = Inr (st_map (wt_store w))"
  using assms(1)
proof induction
  case Start
  with assms(2) show ?case by (simp add: latest_success_def)
next
  case (Step w w')
  from Step(2,3) show ?case
    by (cases rule: watch_step.cases)
      (auto simp: latest_success_def on_timer_reloads on_timer_store Replace_def
        split: sum.splits option.splits)
qed

text \<open>After the watcher was stopped only time passes.\<close>

lemma watcher_stopped:
  assumes "watch_reachable content path w0 w" "\<not> wt_running w0"
  shows "wt_store w = wt_store w0 \<and> \<not> wt_running w"
  using assms(1)
proof induction
  case (Step w w')
  from Step(2,3) show ?case by (cases rule: watch_step.cases) auto
qed (simp add: assms(2))

text \<open>
  Progress: a relevant event is followed by a reload, at the earliest when the debounce
  time has passed since the last such event, whatever happens to the channel meanwhile.
\<close>

definition run_reload ::
  "(nat \<Rightarrow> string \<Rightarrow> bytes option) \<Rightarrow> string \<Rightarrow> fs_event \<Rightarrow> watcher \<Rightarrow> watcher" where
  "run_reload content path ev w =
     (let w1 = on_event path ev w;
          w2 = w1\<lparr>wt_now := wt_now w + debounceDelay\<rparr>
      in on_timer (content (wt_now w2)) path w2)"

lemma run_reload_reachable:
  assumes "wt_running w" "relevant_event path ev"
  shows "watch_reachable content path w (run_reload content path ev w)"
proof -
  let ?w1 = "on_event path ev w"
  let ?w2 = "?w1\<lparr>wt_now := wt_now w + debounceDelay\<rparr>"
  have p: "wt_pending ?w1 = Some (wt_now w + debounceDelay)"
    using assms(2) by (simp add: on_event_def)
  have "watch_reachable content path w ?w1"
    by (rule watch_reachable.Step [OF Start Event [OF assms(1)]])
  moreover have "watch_step content path ?w1 ?w2"
    by (rule Wait) simp
  moreover have "watch_step content path ?w2 (on_timer (content (wt_now ?w2)) path ?w2)"
    by (rule Timer [of _ "wt_now w + debounceDelay"]) (use p assms(1) in simp_all)
  ultimately show ?thesis
    unfolding run_reload_def Let_def by (blast intro: watch_reachable.Step)
qed

text \<open>No reload before the debounce time has passed since the last relevant event.\<close>

inductive quiet_since ::
  "(nat \<Rightarrow> string \<Rightarrow> bytes option) \<Rightarrow> string \<Rightarrow> nat \<Rightarrow> watcher \<Rightarrow> watcher \<Rightarrow> bool"
  for content path t0 where
  Event_at: "wt_running w \<Longrightarrow> relevant_event path ev \<Longrightarrow> wt_now w = t0 \<Longrightarrow>
    quiet_since content path t0 w (on_event path ev w)"
| Then: "quiet_since content path t0 w w' \<Longrightarrow> watch_step content path w' w'' \<Longrightarrow>
    wt_now w'' < t0 + debounceDelay \<Longrightarrow> quiet_since content path t0 w w''"

lemma debounce_invariant:
  assumes "quiet_since content path t0 w w'"
  shows "wt_reloads w' = wt_reloads w \<and> wt_store w' = wt_store w \<and> t0 \<le> wt_now w'
    \<and> (\<exists>d. wt_pending w' = Some d \<and> t0 + debounceDelay \<le> d)"
  using assms
proof induction
  case (Event_at w ev)
  then show ?case by (simp add: on_event_def)
next
  case (Then w w' w'')
  from Then(2,3,4) show ?case
    by (cases rule: watch_step.cases) (auto simp: on_event_def)
qed

end
