(* ===== verification/Dispatch.thy ===== *)
theory Dispatch
  imports Subresources Watcher Storage_Class
begin

text \<open>
  The request path of \<^verbatim>\<open>main.go\<close>: \<^verbatim>\<open>validateClientCredential\<close> and \<^verbatim>\<open>handleS3Request\<close>,
  one definition per block of the latter, in its order. A block either answers (left) or
  lets the request go on (right); what comes out of the last one is forwarded to the read
  or the write proxy. The credential store is read at up to three moments of a request,
  between which the watcher may replace it, so the three stores seen are arguments.
\<close>

record store_reads =
  sr_gate :: store
  sr_size :: store
  sr_lookup :: store

datatype proxy_kind = ReadProxy | WriteProxy

datatype 's outcome = Answered "'s world" | Forwarded proxy_kind request "'s world"

subsection \<open>The credential gate\<close>

definition header_value :: "request \<Rightarrow> string \<Rightarrow> string" where
  "header_value r k = hdr_get (req_header r) k"

text \<open>The access key of the header, else the one of the query string.\<close>

definition client_access_key :: "request \<Rightarrow> string option" where
  "client_access_key r =
     (case ExtractAccessKey (header_value r ''Authorization'') of
        Some ak \<Rightarrow> Some ak
      | None \<Rightarrow> ExtractAccessKeyFromQuery (url_rawquery (req_url r)))"

definition validateClientCredential ::
  "store_reads \<Rightarrow> request \<Rightarrow> 's world \<Rightarrow> (credentials \<times> request) option \<times> 's world" where
  "validateClientCredential sr r w =
     (if Size (sr_size sr) = 0
      then (None, count_metric (HMACCredentialLookups ''disabled'') w)
      else (case client_access_key r of
         None \<Rightarrow>
           (None, writeS3Error 403 ''AccessDenied''
              ''Request is missing a valid SigV4 Authorization header.''
              (count_metric (HMACCredentialLookups ''no_auth'') w))
       | Some ak \<Rightarrow>
           (case Lookup (sr_lookup sr) ak of
              None \<Rightarrow>
                (None, writeS3Error 403 ''InvalidAccessKeyId''
                   ''The AWS Access Key Id you provided does not exist in our records.''
                   (count_metric (HMACCredentialLookups ''miss'') w))
            | Some sk \<Rightarrow>
                (let creds = \<lparr>AccessKeyID = ak, SecretAccessKey = sk\<rparr> in
                 (Some (creds, r\<lparr>req_creds := Some creds\<rparr>),
                  count_metric (HMACCredentialLookups ''hit'') w)))))"

definition credential_gate ::
  "store_reads \<Rightarrow> request \<Rightarrow> 's world \<Rightarrow> 's world + request \<times> 's world" where
  "credential_gate sr r w =
     (if 0 < Size (sr_gate sr) then
        (case validateClientCredential sr r w of
           (None, w') \<Rightarrow> Inl w' | (Some (_, r'), w') \<Rightarrow> Inr (r', w'))
      else Inr (r, w))"

subsection \<open>Early rejections\<close>

definition storage_class_message :: "'s proxy \<Rightarrow> string \<Rightarrow> string" where
  "storage_class_message px sc =
     ''The storage class '' @ go_quote (px_unicode px) sc
       @ '' is not recognised. Supported values: STANDARD, REDUCED_REDUNDANCY, STANDARD_IA, ''
       @ ''ONEZONE_IA, GLACIER_IR, GLACIER, DEEP_ARCHIVE, INTELLIGENT_TIERING.''"

definition storage_class_stage :: "'s proxy \<Rightarrow> request \<Rightarrow> 's world \<Rightarrow> 's world + 's world" where
  "storage_class_stage px r w =
     (let sc = header_value r ''x-amz-storage-class'' in
      if sc \<noteq> [] \<and> translateS3StorageClass sc = None
      then Inl (writeS3Error 400 ''InvalidStorageClass'' (storage_class_message px sc) w)
      else Inr w)"

definition chunked_message :: string where
  "chunked_message =
     ''This proxy does not support aws-chunked Transfer-Encoding (Flexible Checksums). ''
       @ ''Please set the environment variable AWS_REQUEST_CHECKSUM_CALCULATION=WHEN_REQUIRED ''
       @ ''or configure your SDK client to disable automatic checksum trailers.''"

definition chunked_stage :: "request \<Rightarrow> 's world \<Rightarrow> 's world + 's world" where
  "chunked_stage r w =
     (if contains_str (header_value r ''Content-Encoding'') ''aws-chunked''
      then Inl (writeS3Error 400 ''InvalidRequest'' chunked_message w) else Inr w)"

text \<open>A query parameter with this name, up to case.\<close>

definition hasQueryParam :: "request \<Rightarrow> string \<Rightarrow> bool" where
  "hasQueryParam r key \<longleftrightarrow> list_ex (\<lambda>p. equal_fold (fst p) key) (url_query (req_url r))"

subsection \<open>Control-plane subresources\<close>

text \<open>
  The shape of the five blocks: the feature gate, then the handler of the method; any
  other method goes on.
\<close>

definition by_method ::
  "request \<Rightarrow> ('s world \<Rightarrow> 's world) \<Rightarrow> ('s world \<Rightarrow> 's world) \<Rightarrow> ('s world \<Rightarrow> 's world) \<Rightarrow>
     's world \<Rightarrow> 's world + 's world" where
  "by_method r put get del w =
     (if req_method r = ''PUT'' then Inl (put w)
      else if req_method r = ''GET'' then Inl (get w)
      else if req_method r = ''DELETE'' then Inl (del w)
      else Inr w)"

definition gated ::
  "'s proxy \<Rightarrow> bool \<Rightarrow> string \<Rightarrow> 's world \<Rightarrow> ('s world \<Rightarrow> 's world + 's world) \<Rightarrow> 's world + 's world" where
  "gated px on feature w k =
     (case ensureFeatureEnabled px on feature w of (ok, w') \<Rightarrow> if ok then k w' else Inl w')"

definition flags :: "'s proxy \<Rightarrow> FeatureFlags" where
  "flags px = Features (px_config px)"

definition lifecycle_stage :: "'s proxy \<Rightarrow> request \<Rightarrow> 's world \<Rightarrow> 's world + 's world" where
  "lifecycle_stage px r w =
     (if hasQueryParam r ''lifecycle'' then
        gated px (Lifecycle_on (flags px)) ''lifecycle'' w
          (by_method r (handlePutLifecycle px r) (handleGetLifecycle px r) (handleDeleteLifecycle px r))
      else Inr w)"

definition cors_stage :: "'s proxy \<Rightarrow> request \<Rightarrow> 's world \<Rightarrow> 's world + 's world" where
  "cors_stage px r w =
     (if hasQueryParam r ''cors'' then
        gated px (CORS_on (flags px)) ''cors'' w
          (by_method r (handlePutCORS px r) (handleGetCORS px r) (handleDeleteCORS px r))
      else Inr w)"

definition logging_stage :: "'s proxy \<Rightarrow> request \<Rightarrow> 's world \<Rightarrow> 's world + 's world" where
  "logging_stage px r w =
     (if hasQueryParam r ''logging'' then
        gated px (Logging_on (flags px)) ''logging'' w
          (by_method r (handlePutLogging px r) (handleGetLogging px r) (handleDeleteLogging px r))
      else Inr w)"

definition website_stage :: "'s proxy \<Rightarrow> request \<Rightarrow> 's world \<Rightarrow> 's world + 's world" where
  "website_stage px r w =
     (if hasQueryParam r ''website'' then
        gated px (Website_on (flags px)) ''website'' w
          (by_method r (handlePutWebsite px r) (handleGetWebsite px r) (handleDeleteWebsite px r))
      else Inr w)"

definition tagging_stage :: "'s proxy \<Rightarrow> request \<Rightarrow> 's world \<Rightarrow> 's world + 's world" where
  "tagging_stage px r w =
     (if hasQueryParam r ''tagging'' then
        gated px (Tagging_on (flags px)) ''tagging'' w
          (by_method r (handlePutObjectTagging px r) (handleGetObjectTagging px r)
             (handleDeleteObjectTagging px r))
      else Inr w)"

definition restore_stage :: "'s proxy \<Rightarrow> request \<Rightarrow> 's world \<Rightarrow> 's world + 's world" where
  "restore_stage px r w =
     (if hasQueryParam r ''restore'' then
        gated px (RestoreObject_on (flags px)) ''restore_object'' w
          (\<lambda>w1. if req_method r = ''POST'' then Inl (handleRestoreObject px r w1)
                else Inl (writeS3Error 501 ''NotImplemented''
                  ''Only POST /<bucket>/<key>?restore is supported for the RestoreObject operation.'' w1))
      else Inr w)"

subsection \<open>Data-plane gates and routing\<close>

definition copy_stage :: "'s proxy \<Rightarrow> request \<Rightarrow> 's world \<Rightarrow> 's world + 's world" where
  "copy_stage px r w =
     (if req_method r = ''PUT'' \<and> header_value r ''x-amz-copy-source'' \<noteq> []
      then gated px (CopyObject_on (flags px)) ''copy_object'' w Inr else Inr w)"

definition multipart_stage :: "'s proxy \<Rightarrow> request \<Rightarrow> 's world \<Rightarrow> 's world + 's world" where
  "multipart_stage px r w =
     (if hasQueryParam r ''uploads'' \<or> hasQueryParam r ''uploadId'' \<or> hasQueryParam r ''partNumber''
      then gated px (MultipartUpload_on (flags px)) ''multipart_upload'' w Inr else Inr w)"

definition delete_stage :: "'s proxy \<Rightarrow> request \<Rightarrow> 's world \<Rightarrow> 's world + 's world" where
  "delete_stage px r w =
     (if req_method r = ''POST'' \<and> hasQueryParam r ''delete''
      then gated px (DeleteObjects_on (flags px)) ''delete_objects'' w Inr else Inr w)"

definition route :: "request \<Rightarrow> proxy_kind" where
  "route r = (if req_method r = ''GET'' \<or> req_method r = ''HEAD'' then ReadProxy else WriteProxy)"

definition stages :: "'s proxy \<Rightarrow> request \<Rightarrow> ('s world \<Rightarrow> 's world + 's world) list" where
  "stages px r =
     [storage_class_stage px r, chunked_stage r, lifecycle_stage px r, cors_stage px r,
      logging_stage px r, website_stage px r, tagging_stage px r, restore_stage px r,
      copy_stage px r, multipart_stage px r, delete_stage px r]"

fun run_stages :: "('s world \<Rightarrow> 's world + 's world) list \<Rightarrow> 's world \<Rightarrow> 's world + 's world" where
  "run_stages [] w = Inr w"
| "run_stages (f # fs) w = res_bind (f w) (run_stages fs)"

definition handleS3Request ::
  "'s proxy \<Rightarrow> store_reads \<Rightarrow> request \<Rightarrow> 's world \<Rightarrow> 's outcome" where
  "handleS3Request px sr r w =
     (case credential_gate sr r w of
        Inl w' \<Rightarrow> Answered w'
      | Inr (r', w') \<Rightarrow>
          (case run_stages (stages px r') w' of
             Inl w'' \<Rightarrow> Answered w''
           | Inr w'' \<Rightarrow> Forwarded (route r') r' w''))"

subsection \<open>Stages\<close>

text \<open>
  A property of worlds holds after the request path when every stage establishes it on
  answering and keeps it on going on.
\<close>

definition stage_ok :: "('s world \<Rightarrow> bool) \<Rightarrow> ('s world \<Rightarrow> bool) \<Rightarrow> ('s world \<Rightarrow> 's world + 's world) \<Rightarrow> bool" where
  "stage_ok P Q f \<longleftrightarrow> (\<forall>w. P w \<longrightarrow> (case f w of Inl w' \<Rightarrow> Q w' | Inr w' \<Rightarrow> P w'))"

lemma run_stages_ok:
  "list_all (stage_ok P Q) fs \<Longrightarrow> P w \<Longrightarrow> (case run_stages fs w of Inl w' \<Rightarrow> Q w' | Inr w' \<Rightarrow> P w')"
proof (induction fs arbitrary: w)
  case (Cons f fs)
  then have "case f w of Inl w' \<Rightarrow> Q w' | Inr w' \<Rightarrow> P w'"
    by (auto simp: stage_ok_def)
  with Cons show ?case by (cases "f w") auto
qed simp

lemma gated_cases:
  "gated px on feature w k = (if on then k w else
     Inl (writeS3Error 501 ''NotImplemented''
       (''The '' @ go_quote (px_unicode px) feature @ '' operation is disabled on this proxy.'')
       (count_metric (FeatureDisabledRejections feature) w)))"
  by (simp add: gated_def ensureFeatureEnabled_def)

lemma stage_ok_control:
  assumes "\<And>w k m. P w \<Longrightarrow> Q (writeS3Error 501 k m (count_metric (FeatureDisabledRejections feature) w))"
    and "\<And>w. P w \<Longrightarrow> Q (put w)" "\<And>w. P w \<Longrightarrow> Q (get w)" "\<And>w. P w \<Longrightarrow> Q (del w)"
  shows "stage_ok P Q (\<lambda>w. if b then gated px on feature w (by_method r put get del) else Inr w)"
  using assms by (auto simp: stage_ok_def gated_cases by_method_def)

lemma stage_ok_gate:
  assumes "\<And>w k m. P w \<Longrightarrow> Q (writeS3Error 501 k m (count_metric (FeatureDisabledRejections feature) w))"
  shows "stage_ok P Q (\<lambda>w. if b then gated px on feature w Inr else Inr w)"
  using assms by (auto simp: stage_ok_def gated_cases)

text \<open>The names of the gates, which are the labels of their rejections.\<close>

definition gate_features :: "string list" where
  "gate_features = [''lifecycle'', ''cors'', ''logging'', ''website'', ''tagging'', ''restore_object'',
     ''copy_object'', ''multipart_upload'', ''delete_objects'']"

lemma stages_ok:
  assumes err: "\<And>w c k m. P w \<Longrightarrow> c \<in> {400, 501} \<Longrightarrow> Q (writeS3Error c k m w)"
    and met: "\<And>w f. P w \<Longrightarrow> f \<in> set gate_features \<Longrightarrow> P (count_metric (FeatureDisabledRejections f) w)"
    and h: "\<And>w. P w \<Longrightarrow> Q (handlePutLifecycle px r w)" "\<And>w. P w \<Longrightarrow> Q (handleGetLifecycle px r w)"
      "\<And>w. P w \<Longrightarrow> Q (handleDeleteLifecycle px r w)"
      "\<And>w. P w \<Longrightarrow> Q (handlePutCORS px r w)" "\<And>w. P w \<Longrightarrow> Q (handleGetCORS px r w)"
      "\<And>w. P w \<Longrightarrow> Q (handleDeleteCORS px r w)"
      "\<And>w. P w \<Longrightarrow> Q (handlePutLogging px r w)" "\<And>w. P w \<Longrightarrow> Q (handleGetLogging px r w)"
      "\<And>w. P w \<Longrightarrow> Q (handleDeleteLogging px r w)"
      "\<And>w. P w \<Longrightarrow> Q (handlePutWebsite px r w)" "\<And>w. P w \<Longrightarrow> Q (handleGetWebsite px r w)"
      "\<And>w. P w \<Longrightarrow> Q (handleDeleteWebsite px r w)"
      "\<And>w. P w \<Longrightarrow> Q (handlePutObjectTagging px r w)" "\<And>w. P w \<Longrightarrow> Q (handleGetObjectTagging px r w)"
      "\<And>w. P w \<Longrightarrow> Q (handleDeleteObjectTagging px r w)" "\<And>w. P w \<Longrightarrow> Q (handleRestoreObject px r w)"
  shows "list_all (stage_ok P Q) (stages px r)"
proof -
  have off: "P w \<Longrightarrow> f \<in> set gate_features \<Longrightarrow>
      Q (writeS3Error 501 k m (count_metric (FeatureDisabledRejections f) w))" for w k m f
    by (simp add: err met)
  have "stage_ok P Q (storage_class_stage px r)" "stage_ok P Q (chunked_stage r)"
    by (auto simp: stage_ok_def storage_class_stage_def chunked_stage_def Let_def err)
  moreover have "stage_ok P Q (lifecycle_stage px r)" "stage_ok P Q (cors_stage px r)"
    "stage_ok P Q (logging_stage px r)" "stage_ok P Q (website_stage px r)" "stage_ok P Q (tagging_stage px r)"
    unfolding lifecycle_stage_def [abs_def] cors_stage_def [abs_def] logging_stage_def [abs_def]
      website_stage_def [abs_def] tagging_stage_def [abs_def]
    by (rule stage_ok_control; (fact h | (erule off, simp add: gate_features_def)))+
  moreover have "stage_ok P Q (copy_stage px r)" "stage_ok P Q (multipart_stage px r)"
    "stage_ok P Q (delete_stage px r)"
    unfolding copy_stage_def [abs_def] multipart_stage_def [abs_def] delete_stage_def [abs_def]
    by (rule stage_ok_gate; (erule off, simp add: gate_features_def))+
  moreover have "stage_ok P Q (restore_stage px r)"
    by (auto simp: stage_ok_def restore_stage_def gated_cases gate_features_def off h err)
  ultimately show ?thesis by (simp add: stages_def)
qed

subsection \<open>What the request path guarantees\<close>

lemma gate_cases:
  obtains (off) "Size (sr_gate sr) = 0" "credential_gate sr r w = Inr (r, w)"
  | (raced) "0 < Size (sr_gate sr)" "Size (sr_size sr) = 0"
      "credential_gate sr r w = Inl (count_metric (HMACCredentialLookups ''disabled'') w)"
  | (no_key) k where "0 < Size (sr_gate sr)" "client_access_key r = None"
      "credential_gate sr r w = Inl (writeS3Error 403 ''AccessDenied'' k
         (count_metric (HMACCredentialLookups ''no_auth'') w))"
  | (unknown) ak k where "0 < Size (sr_gate sr)" "client_access_key r = Some ak" "Lookup (sr_lookup sr) ak = None"
      "credential_gate sr r w = Inl (writeS3Error 403 ''InvalidAccessKeyId'' k
         (count_metric (HMACCredentialLookups ''miss'') w))"
  | (known) ak sk where "0 < Size (sr_gate sr)" "client_access_key r = Some ak" "Lookup (sr_lookup sr) ak = Some sk"
      "credential_gate sr r w =
         Inr (r\<lparr>req_creds := Some \<lparr>AccessKeyID = ak, SecretAccessKey = sk\<rparr>\<rparr>,
              count_metric (HMACCredentialLookups ''hit'') w)"
proof (cases "0 < Size (sr_gate sr)")
  case gate: True
  show thesis
  proof (cases "Size (sr_size sr) = 0")
    case True
    show thesis
      by (rule raced [OF gate True]) (simp add: credential_gate_def validateClientCredential_def gate True)
  next
    case size: False
    show thesis
    proof (cases "client_access_key r")
      case None
      show thesis
        by (rule no_key [OF gate None])
          (simp add: credential_gate_def validateClientCredential_def gate size None)
    next
      case (Some ak)
      show thesis
      proof (cases "Lookup (sr_lookup sr) ak")
        case None
        show thesis
          by (rule unknown [OF gate Some None])
            (simp add: credential_gate_def validateClientCredential_def gate size Some None)
      next
        case sk: (Some sk)
        show thesis
          by (rule known [OF gate Some sk])
            (simp add: credential_gate_def validateClientCredential_def gate size Some sk Let_def)
      qed
    qed
  qed
next
  case False
  then show thesis by (intro off) (simp_all add: credential_gate_def)
qed

text \<open>
  A request is answered by a handler or forwarded only after the gate let it pass; then
  it carries a pair of the store, whose access key it named itself.
\<close>

definition authenticated :: "store \<Rightarrow> request \<Rightarrow> request \<Rightarrow> bool" where
  "authenticated s r r' \<longleftrightarrow>
     (\<exists>ak sk. client_access_key r = Some ak \<and> Lookup s ak = Some sk
        \<and> r' = r\<lparr>req_creds := Some \<lparr>AccessKeyID = ak, SecretAccessKey = sk\<rparr>\<rparr>)"

lemma forwarded_authenticated:
  assumes "handleS3Request px sr r w = Forwarded kind r' w'" "0 < Size (sr_gate sr)"
  shows "authenticated (sr_lookup sr) r r' \<and> kind = route r"
  using assms
  by (cases sr r w rule: gate_cases)
    (auto simp: handleS3Request_def authenticated_def route_def split: sum.splits)

lemma unauthenticated_rejected:
  assumes "0 < Size (sr_gate sr)" "0 < Size (sr_size sr)" "fresh w"
    and "\<forall>ak. client_access_key r = Some ak \<longrightarrow> Lookup (sr_lookup sr) ak = None"
  shows "\<exists>w'. handleS3Request px sr r w = Answered w' \<and> world_status w' = Some 403 \<and> w_gcs w' = w_gcs w"
  using assms
  by (cases sr r w rule: gate_cases) (auto simp: handleS3Request_def)

text \<open>An answer is never a bare return, unless the store was emptied under the request.\<close>

lemma stages_answer:
  assumes "fresh w" "run_stages (stages px r) w = Inl w'"
  shows "answered {200, 204, 400, 404, 500, 501, 502} w'"
proof -
  let ?S = "{200, 204, 400, 404, 500, 501, 502} :: int set"
  have mono: "answered S v \<Longrightarrow> S \<subseteq> ?S \<Longrightarrow> answered ?S v" for S and v :: "'a world"
    by (auto simp: answered_def)
  have "list_all (stage_ok fresh (answered ?S)) (stages px r)"
    by (rule stages_ok)
      (auto intro: answered_error mono [OF put_handlers_answer(1)] mono [OF put_handlers_answer(2)]
        mono [OF put_handlers_answer(3)] mono [OF put_handlers_answer(4)]
        mono [OF get_handlers_answer(1)] mono [OF get_handlers_answer(2)]
        mono [OF get_default_handlers_answer(1)] mono [OF get_default_handlers_answer(2)]
        mono [OF delete_handlers_answer(1)] mono [OF delete_handlers_answer(2)]
        mono [OF delete_handlers_answer(3)] mono [OF delete_handlers_answer(4)]
        mono [OF tagging_handlers_answer(1)] mono [OF tagging_handlers_answer(2)]
        mono [OF tagging_handlers_answer(3)] mono [OF restore_handler_answers])
  from run_stages_ok [OF this assms(1)] assms(2) show ?thesis by simp
qed

lemma stages_fresh:
  assumes "fresh w" "run_stages (stages px r) w = Inr w'"
  shows "fresh w'"
proof -
  have "list_all (stage_ok fresh (\<lambda>_. True)) (stages px r)"
    by (rule stages_ok) auto
  from run_stages_ok [OF this assms(1)] assms(2) show ?thesis by simp
qed

lemma answered_always:
  assumes "handleS3Request px sr r w = Answered w'" "fresh w" "Size (sr_gate sr) = 0 \<or> 0 < Size (sr_size sr)"
  shows "answered {200, 204, 400, 403, 404, 500, 501, 502} w'"
proof -
  have s: "answered {200, 204, 400, 404, 500, 501, 502} w'" if "fresh v" "run_stages (stages px r') v = Inl w'" for v r'
    using stages_answer [OF that] .
  have "answered {200, 204, 400, 404, 500, 501, 502} w' \<or> world_status w' = Some 403"
    using assms
    by (cases sr r w rule: gate_cases) (auto simp: handleS3Request_def split: sum.splits dest: s [rotated])
  then show ?thesis by (auto simp: answered_def)
qed

text \<open>In a dry run the request path never reaches GCS.\<close>

lemma dry_run_stages:
  assumes "DryRun (px_config px)" "run_stages (stages px r) w = res"
  shows "case res of Inl w' \<Rightarrow> w_gcs w' = w_gcs w | Inr w' \<Rightarrow> w_gcs w' = w_gcs w"
proof -
  have "list_all (stage_ok (gcs_is (w_gcs w)) (gcs_is (w_gcs w))) (stages px r)"
    by (rule stages_ok) (auto intro: dry_run_handlers [OF assms(1)])
  from run_stages_ok [OF this, of w] assms(2) show ?thesis
    by (simp add: gcs_is_def split: sum.splits)
qed

text \<open>A request that is answered is answered once; one that goes on, not at all.\<close>

lemma stages_answer_once:
  assumes "unanswered w"
  shows "case run_stages (stages px r) w of Inl w' \<Rightarrow> answers_once w' | Inr w' \<Rightarrow> unanswered w'"
proof -
  have "list_all (stage_ok unanswered answers_once) (stages px r)"
    by (rule stages_ok) (auto intro: handlers_answer_once once_rules)
  from run_stages_ok [OF this assms] show ?thesis .
qed

lemma gate_answers_once:
  assumes "unanswered w"
  shows "case credential_gate sr r w of Inl w' \<Rightarrow> answers_once w' | Inr (r', w') \<Rightarrow> unanswered w'"
proof -
  have "answers_once w'" if "w' = count_metric m w" for w' m
    using assms that plain_run_headers [of "w_ops w" "[]"]
    by (simp add: unanswered_def answers_once_def count_metric_def)
  with assms show ?thesis
    by (cases rule: gate_cases [of sr r w]) (auto intro: once_rules)
qed

text \<open>The stages other than the handlers never touch GCS; so forwarding does not either.\<close>

lemma going_on_leaves_gcs:
  assumes "run_stages (stages px r) w = Inr w'"
  shows "w_gcs w' = w_gcs w"
proof -
  have "list_all (stage_ok (gcs_is (w_gcs w)) (\<lambda>_. True)) (stages px r)"
    by (rule stages_ok) auto
  from run_stages_ok [OF this, of w] assms show ?thesis by (simp add: gcs_is_def)
qed

subsection \<open>Exactly which requests are forwarded\<close>

definition control_method :: "request \<Rightarrow> bool" where
  "control_method r \<longleftrightarrow> req_method r \<in> {''PUT'', ''GET'', ''DELETE''}"

text \<open>A subresource block lets a request go on untouched, or answers it.\<close>

definition passes_control :: "request \<Rightarrow> string \<Rightarrow> bool \<Rightarrow> bool" where
  "passes_control r key on \<longleftrightarrow> (hasQueryParam r key \<longrightarrow> on \<and> \<not> control_method r)"

definition forwardable :: "'s proxy \<Rightarrow> request \<Rightarrow> bool" where
  "forwardable px r \<longleftrightarrow>
     (header_value r ''x-amz-storage-class'' = []
      \<or> translateS3StorageClass (header_value r ''x-amz-storage-class'') \<noteq> None)
     \<and> \<not> contains_str (header_value r ''Content-Encoding'') ''aws-chunked''
     \<and> passes_control r ''lifecycle'' (Lifecycle_on (flags px))
     \<and> passes_control r ''cors'' (CORS_on (flags px))
     \<and> passes_control r ''logging'' (Logging_on (flags px))
     \<and> passes_control r ''website'' (Website_on (flags px))
     \<and> passes_control r ''tagging'' (Tagging_on (flags px))
     \<and> \<not> hasQueryParam r ''restore''
     \<and> (req_method r = ''PUT'' \<and> header_value r ''x-amz-copy-source'' \<noteq> [] \<longrightarrow> CopyObject_on (flags px))
     \<and> (hasQueryParam r ''uploads'' \<or> hasQueryParam r ''uploadId'' \<or> hasQueryParam r ''partNumber''
        \<longrightarrow> MultipartUpload_on (flags px))
     \<and> (req_method r = ''POST'' \<and> hasQueryParam r ''delete'' \<longrightarrow> DeleteObjects_on (flags px))"

lemma control_block_Inr_iff:
  "(if hasQueryParam r key then gated px on feature w (by_method r put get del) else Inr w) = Inr w' \<longleftrightarrow>
     w' = w \<and> passes_control r key on"
  by (auto simp: gated_cases by_method_def passes_control_def control_method_def)

lemma gate_block_Inr_iff:
  "(if b then gated px on feature w Inr else Inr w) = Inr w' \<longleftrightarrow> w' = w \<and> (b \<longrightarrow> on)"
  by (auto simp: gated_cases)

lemma stage_Inr_iff:
  "storage_class_stage px r w = Inr w' \<longleftrightarrow> w' = w \<and>
     (header_value r ''x-amz-storage-class'' = []
      \<or> translateS3StorageClass (header_value r ''x-amz-storage-class'') \<noteq> None)"
  "chunked_stage r w = Inr w' \<longleftrightarrow> w' = w \<and> \<not> contains_str (header_value r ''Content-Encoding'') ''aws-chunked''"
  "restore_stage px r w = Inr w' \<longleftrightarrow> w' = w \<and> \<not> hasQueryParam r ''restore''"
  by (auto simp: storage_class_stage_def chunked_stage_def restore_stage_def gated_cases Let_def)

lemmas block_Inr_iff = control_block_Inr_iff gate_block_Inr_iff stage_Inr_iff

lemma run_stages_Inr_iff: "run_stages (stages px r) w = Inr w' \<longleftrightarrow> w' = w \<and> forwardable px r"
  unfolding stages_def run_stages.simps res_bind_Inr_iff lifecycle_stage_def cors_stage_def
    logging_stage_def website_stage_def tagging_stage_def copy_stage_def multipart_stage_def
    delete_stage_def block_Inr_iff forwardable_def
  by auto

lemma forwardable_creds [simp]: "forwardable px (r\<lparr>req_creds := c\<rparr>) = forwardable px r"
  by (simp add: forwardable_def passes_control_def control_method_def hasQueryParam_def header_value_def)

lemma run_stages_forwardable: "forwardable px r \<Longrightarrow> run_stages (stages px r) w = Inr w"
  by (simp add: run_stages_Inr_iff)

lemma forwarded_iff:
  "handleS3Request px sr r w = Forwarded kind r' w' \<longleftrightarrow>
     kind = route r \<and> forwardable px r \<and> credential_gate sr r w = Inr (r', w')"
  by (cases sr r w rule: gate_cases)
    (auto simp: handleS3Request_def run_stages_Inr_iff route_def run_stages_forwardable split: sum.splits)

text \<open>
  The requests that may change the state of GCS through the control plane: an enabled
  subresource with one of its methods, or an enabled restore.
\<close>

definition control_request :: "'s proxy \<Rightarrow> request \<Rightarrow> bool" where
  "control_request px r \<longleftrightarrow>
     control_method r \<and>
       (hasQueryParam r ''lifecycle'' \<and> Lifecycle_on (flags px)
        \<or> hasQueryParam r ''cors'' \<and> CORS_on (flags px)
        \<or> hasQueryParam r ''logging'' \<and> Logging_on (flags px)
        \<or> hasQueryParam r ''website'' \<and> Website_on (flags px)
        \<or> hasQueryParam r ''tagging'' \<and> Tagging_on (flags px))
     \<or> req_method r = ''POST'' \<and> hasQueryParam r ''restore'' \<and> RestoreObject_on (flags px)"

lemma control_block_gcs:
  assumes "control_method r \<Longrightarrow> hasQueryParam r key \<Longrightarrow> on \<Longrightarrow> C"
  shows "stage_ok (gcs_is s) (\<lambda>w. gcs_is s w \<or> C)
    (\<lambda>w. if hasQueryParam r key then gated px on feature w (by_method r put get del) else Inr w)"
  using assms by (auto simp: stage_ok_def gated_cases by_method_def control_method_def)

lemma gate_block_gcs:
  "stage_ok (gcs_is s) (\<lambda>w. gcs_is s w \<or> C) (\<lambda>w. if b then gated px on feature w Inr else Inr w)"
  by (auto simp: stage_ok_def gated_cases)

lemma stages_gcs:
  "list_all (stage_ok (gcs_is s) (\<lambda>w. gcs_is s w \<or> control_request px r)) (stages px r)"
proof -
  let ?ok = "stage_ok (gcs_is s) (\<lambda>w. gcs_is s w \<or> control_request px r)"
  have "?ok (storage_class_stage px r)" "?ok (chunked_stage r)" "?ok (restore_stage px r)"
    by (auto simp: stage_ok_def storage_class_stage_def chunked_stage_def restore_stage_def
        gated_cases Let_def control_request_def)
  moreover have "?ok (lifecycle_stage px r)" "?ok (cors_stage px r)" "?ok (logging_stage px r)"
    "?ok (website_stage px r)" "?ok (tagging_stage px r)"
    unfolding lifecycle_stage_def [abs_def] cors_stage_def [abs_def] logging_stage_def [abs_def]
      website_stage_def [abs_def] tagging_stage_def [abs_def]
    by (rule control_block_gcs; simp add: control_request_def)+
  moreover have "?ok (copy_stage px r)" "?ok (multipart_stage px r)" "?ok (delete_stage px r)"
    unfolding copy_stage_def [abs_def] multipart_stage_def [abs_def] delete_stage_def [abs_def]
    by (rule gate_block_gcs)+
  ultimately show ?thesis by (simp add: stages_def)
qed

lemma control_request_creds [simp]: "control_request px (r\<lparr>req_creds := c\<rparr>) = control_request px r"
  by (simp add: control_request_def control_method_def hasQueryParam_def)

text \<open>GCS is reached only by such a request, and only after the gate let it pass.\<close>

lemma gcs_reached_only_by_control:
  assumes "handleS3Request px sr r w = Answered w'" "w_gcs w' \<noteq> w_gcs w"
  shows "control_request px r \<and> (0 < Size (sr_gate sr) \<longrightarrow> (\<exists>r'. authenticated (sr_lookup sr) r r'))"
proof -
  have run: "w_gcs v' = w_gcs v \<or> control_request px r'"
    if "run_stages (stages px r') v = Inl v'" for r' and v v' :: "'a world"
    using run_stages_ok [OF stages_gcs, of "w_gcs v" v px r'] that by (simp add: gcs_is_def)
  show ?thesis
    using assms
    by (cases sr r w rule: gate_cases)
      (auto simp: handleS3Request_def authenticated_def split: sum.splits dest: run)
qed

lemma dry_run_handled:
  assumes "DryRun (px_config px)"
  shows "case handleS3Request px sr r w of
      Answered w' \<Rightarrow> w_gcs w' = w_gcs w | Forwarded kind r' w' \<Rightarrow> w_gcs w' = w_gcs w"
proof -
  have run: "w_gcs v' = w_gcs v"
    if "run_stages (stages px r') v = Inl v' \<or> run_stages (stages px r') v = Inr v'" for r' v v'
    using dry_run_stages [OF assms refl, where r = r' and w = v] that by auto
  show ?thesis
    by (cases sr r w rule: gate_cases)
      (auto simp: handleS3Request_def split: sum.splits dest: run [OF disjI1] run [OF disjI2])
qed

end
