(* ===== verification/Director.thy ===== *)
theory Director
  imports Handler_Base Storage_Class
begin

text \<open>
  What happens to a forwarded request and its response (\<^verbatim>\<open>director\<close> and
  \<^verbatim>\<open>modifyResponse\<close> in \<^verbatim>\<open>main.go\<close>, and the transport of a dry run). The Director is
  given \<^verbatim>\<open>httputil.ReverseProxy\<close>'s clone of the request. The base64 text of an MD5 sum is a
  parameter, and so is the signer of the AWS SDK: \<^verbatim>\<open>SignHTTP\<close> works on the request in place
  and may change any part of it, so it returns the request as it left it, and whether it
  succeeded.
\<close>

record upstream =
  up_url :: url
  up_md5 :: "bytes \<Rightarrow> string"
  up_sign :: "credentials \<Rightarrow> request \<Rightarrow> bool \<times> request"

definition on_url :: "(url \<Rightarrow> url) \<Rightarrow> request \<Rightarrow> request" where
  "on_url f r = r\<lparr>req_url := f (req_url r)\<rparr>"

definition on_header :: "(header \<Rightarrow> header) \<Rightarrow> request \<Rightarrow> request" where
  "on_header f r = r\<lparr>req_header := f (req_header r)\<rparr>"

subsection \<open>Address\<close>

definition strip_port :: "string \<Rightarrow> string" where
  "strip_port host = (case last_index_byte host (CHR '':'') of None \<Rightarrow> host | Some i \<Rightarrow> take i host)"

text \<open>The bucket named by a virtual-hosted request.\<close>

definition virtual_bucket :: "string \<Rightarrow> string \<Rightarrow> string option" where
  "virtual_bucket baseDomain host =
     (let sfx = ''.'' @ baseDomain; h = strip_port host in
      if baseDomain \<noteq> [] \<and> suffix sfx h
      then (let bucket = trim_suffix h sfx in if bucket \<noteq> [] then Some bucket else None)
      else None)"

definition director_virtual_host :: "Settings \<Rightarrow> request \<Rightarrow> request" where
  "director_virtual_host cfg r =
     (case virtual_bucket (ProxyBaseDomain cfg) (req_host r) of
        None \<Rightarrow> r
      | Some bucket \<Rightarrow>
          on_url (\<lambda>u. u\<lparr>url_path := ''/'' @ bucket @ url_path u,
                        url_rawpath := (if url_rawpath u \<noteq> [] then ''/'' @ bucket @ url_rawpath u
                                        else url_rawpath u)\<rparr>) r)"

definition director_target :: "upstream \<Rightarrow> request \<Rightarrow> request" where
  "director_target up r =
     (on_url (\<lambda>u. u\<lparr>url_host := url_host (up_url up), url_scheme := url_scheme (up_url up)\<rparr>) r)
       \<lparr>req_host := url_host (up_url up)\<rparr>"

definition director_content_length :: "request \<Rightarrow> request" where
  "director_content_length r =
     (let clStr = hdr_get (req_header r) ''Content-Length'' in
      if clStr \<noteq> [] then
        (case parse_int clStr of None \<Rightarrow> r | Some cl \<Rightarrow> r\<lparr>req_content_length := word_of_int cl\<rparr>)
      else r)"

subsection \<open>Storage class, query and headers\<close>

definition director_storage_class :: "request \<Rightarrow> request" where
  "director_storage_class r =
     (let sc = hdr_get (req_header r) ''x-amz-storage-class'' in
      if sc \<noteq> [] \<and> sc \<noteq> ''STANDARD'' then
        (case translateS3StorageClass sc of
           None \<Rightarrow> r | Some gcsSC \<Rightarrow> on_header (hdr_set ''x-amz-storage-class'' gcsSC) r)
      else r)"

definition director_xid :: "request \<Rightarrow> request" where
  "director_xid r =
     (let q = url_query (req_url r) in
      if values_get q ''x-id'' \<noteq> []
      then on_url (\<lambda>u. u\<lparr>url_rawquery := values_encode (values_del q ''x-id'')\<rparr>) r
      else r)"

definition director_identity :: "Settings \<Rightarrow> request \<Rightarrow> request" where
  "director_identity cfg r =
     (if \<not> DisableHeaderStrip cfg \<and> hdr_get (req_header r) ''Accept-Encoding'' = ''identity''
      then on_header (hdr_del ''Accept-Encoding'') r else r)"

definition strip_always :: "string list" where
  "strip_always = [''User-Agent'', ''Expect'', ''Accept-Encoding'', ''Amz-Sdk-Invocation-Id'', ''Amz-Sdk-Request'']"

definition strip_legacy :: "header \<Rightarrow> header" where
  "strip_legacy h =
     (let h1 = hdr_del ''X-Amz-Trailer'' (hdr_del ''X-Amz-Decoded-Content-Length'' h) in
      if contains_str (hdr_get h1 ''Content-Encoding'') ''aws-chunked''
      then hdr_del ''Content-Encoding'' h1 else h1)"

definition director_headers :: "Settings \<Rightarrow> request \<Rightarrow> request" where
  "director_headers cfg r =
     on_header (\<lambda>h.
       let h1 = fold hdr_del strip_always (hdr_set ''X-Amz-Content-Sha256'' ''UNSIGNED-PAYLOAD'' h)
       in if DisableHeaderStrip cfg then h1 else strip_legacy h1) r"

text \<open>A body that was read and closed after an error.\<close>

definition closed_body :: req_body where
  "closed_body = \<lparr>body_bytes = [], body_fails = True\<rparr>"

definition director_md5 :: "upstream \<Rightarrow> request \<Rightarrow> request" where
  "director_md5 up r =
     (case (req_method r = ''POST'' \<and> values_has (url_query (req_url r)) ''delete'', req_body r) of
        (True, Some b) \<Rightarrow>
          if body_fails b then r\<lparr>req_body := Some closed_body\<rparr>
          else (on_header (hdr_set ''Content-Md5'' (up_md5 up (body_bytes b))) r)
                 \<lparr>req_body := Some b, req_content_length := word_of_int (int (length (body_bytes b)))\<rparr>
      | _ \<Rightarrow> on_header (hdr_del ''Content-Md5'') r)"

subsection \<open>Signing\<close>

definition director_credentials :: "Settings \<Rightarrow> request \<Rightarrow> credentials option" where
  "director_credentials cfg r =
     (case req_creds r of
        Some c \<Rightarrow> Some c
      | None \<Rightarrow>
          if ProxyAccessKey cfg = [] \<or> ProxySecretKey cfg = [] then None
          else Some \<lparr>AccessKeyID = ProxyAccessKey cfg, SecretAccessKey = ProxySecretKey cfg\<rparr>)"

definition director_address :: "Settings \<Rightarrow> upstream \<Rightarrow> request \<Rightarrow> request" where
  "director_address cfg up r =
     director_identity cfg (director_xid (director_storage_class
       (director_content_length (director_target up (director_virtual_host cfg r)))))"

definition director_prepare :: "Settings \<Rightarrow> upstream \<Rightarrow> request \<Rightarrow> request" where
  "director_prepare cfg up r = director_md5 up (director_headers cfg (director_address cfg up r))"

definition director :: "Settings \<Rightarrow> upstream \<Rightarrow> request \<Rightarrow> request" where
  "director cfg up r =
     (case director_credentials cfg r of
        None \<Rightarrow> director_address cfg up r
      | Some creds \<Rightarrow> (let (ok, signed) = up_sign up creds (director_prepare cfg up r) in signed))"

subsection \<open>Responses\<close>

record upstream_response =
  ur_status :: int
  ur_header :: header
  ur_body :: req_body
  ur_request :: request

definition modifyResponse :: "Settings \<Rightarrow> upstream_response \<Rightarrow> upstream_response" where
  "modifyResponse cfg resp =
     (let resp1 = (if DebugLogging cfg \<and> contains_str (url_rawquery (req_url (ur_request resp))) ''versions''
                      \<and> body_fails (ur_body resp)
                   then resp\<lparr>ur_body := closed_body\<rparr> else resp);
          gen = hdr_get (ur_header resp1) ''x-goog-generation''
      in if gen \<noteq> [] then resp1\<lparr>ur_header := hdr_set ''x-amz-version-id'' gen (ur_header resp1)\<rparr> else resp1)"

text \<open>\<^verbatim>\<open>dryRunTransport.RoundTrip\<close>\<close>

definition dry_run_round_trip :: "request \<Rightarrow> upstream_response" where
  "dry_run_round_trip r =
     \<lparr>ur_status = 200, ur_header = Map.empty,
      ur_body = \<lparr>body_bytes = ''Successfully proxied to GCS (DryRun - no real hits).'', body_fails = False\<rparr>,
      ur_request = r\<rparr>"

subsection \<open>What each step leaves alone\<close>

lemma on_simps [simp]:
  "req_header (on_url f r) = req_header r" "req_url (on_url f r) = f (req_url r)"
  "req_method (on_url f r) = req_method r" "req_body (on_url f r) = req_body r"
  "req_creds (on_url f r) = req_creds r" "req_host (on_url f r) = req_host r"
  "req_header (on_header g r) = g (req_header r)" "req_url (on_header g r) = req_url r"
  "req_method (on_header g r) = req_method r" "req_body (on_header g r) = req_body r"
  "req_creds (on_header g r) = req_creds r" "req_host (on_header g r) = req_host r"
  by (simp_all add: on_url_def on_header_def)

lemma director_virtual_host_simps [simp]:
  "req_method (director_virtual_host cfg r) = req_method r"
  "req_body (director_virtual_host cfg r) = req_body r"
  "req_creds (director_virtual_host cfg r) = req_creds r"
  "req_host (director_virtual_host cfg r) = req_host r"
  "req_header (director_virtual_host cfg r) = req_header r"
  "url_host (req_url (director_virtual_host cfg r)) = url_host (req_url r)"
  "url_scheme (req_url (director_virtual_host cfg r)) = url_scheme (req_url r)"
  "url_rawquery (req_url (director_virtual_host cfg r)) = url_rawquery (req_url r)"
  by (simp_all add: director_virtual_host_def Let_def split: option.split)

lemma director_target_simps [simp]:
  "req_method (director_target up r) = req_method r"
  "req_body (director_target up r) = req_body r"
  "req_creds (director_target up r) = req_creds r"
  "req_header (director_target up r) = req_header r"
  "url_path (req_url (director_target up r)) = url_path (req_url r)"
  "url_rawquery (req_url (director_target up r)) = url_rawquery (req_url r)"
  "url_rawpath (req_url (director_target up r)) = url_rawpath (req_url r)"
  by (simp_all add: director_target_def Let_def split: option.split)

lemma director_content_length_simps [simp]:
  "req_method (director_content_length r) = req_method r"
  "req_body (director_content_length r) = req_body r"
  "req_creds (director_content_length r) = req_creds r"
  "req_host (director_content_length r) = req_host r"
  "req_header (director_content_length r) = req_header r"
  "req_url (director_content_length r) = req_url r"
  by (simp_all add: director_content_length_def Let_def split: option.split)

lemma director_storage_class_simps [simp]:
  "req_method (director_storage_class r) = req_method r"
  "req_body (director_storage_class r) = req_body r"
  "req_creds (director_storage_class r) = req_creds r"
  "req_host (director_storage_class r) = req_host r"
  "req_url (director_storage_class r) = req_url r"
  by (simp_all add: director_storage_class_def Let_def split: option.split)

lemma director_xid_simps [simp]:
  "req_method (director_xid r) = req_method r"
  "req_body (director_xid r) = req_body r"
  "req_creds (director_xid r) = req_creds r"
  "req_host (director_xid r) = req_host r"
  "req_header (director_xid r) = req_header r"
  "url_host (req_url (director_xid r)) = url_host (req_url r)"
  "url_scheme (req_url (director_xid r)) = url_scheme (req_url r)"
  "url_path (req_url (director_xid r)) = url_path (req_url r)"
  by (simp_all add: director_xid_def Let_def split: option.split)

lemma director_identity_simps [simp]:
  "req_method (director_identity cfg r) = req_method r"
  "req_body (director_identity cfg r) = req_body r"
  "req_creds (director_identity cfg r) = req_creds r"
  "req_host (director_identity cfg r) = req_host r"
  "req_url (director_identity cfg r) = req_url r"
  by (simp_all add: director_identity_def Let_def split: option.split)

lemma director_target_address [simp]:
  "req_host (director_target up r) = url_host (up_url up)"
  "url_host (req_url (director_target up r)) = url_host (up_url up)"
  "url_scheme (req_url (director_target up r)) = url_scheme (up_url up)"
  by (simp_all add: director_target_def)

lemma director_headers_simps [simp]:
  "req_url (director_headers cfg r) = req_url r" "req_method (director_headers cfg r) = req_method r"
  "req_host (director_headers cfg r) = req_host r" "req_body (director_headers cfg r) = req_body r"
  "req_creds (director_headers cfg r) = req_creds r"
  by (simp_all add: director_headers_def)

lemma director_md5_simps [simp]:
  "req_url (director_md5 up r) = req_url r" "req_method (director_md5 up r) = req_method r"
  "req_host (director_md5 up r) = req_host r" "req_creds (director_md5 up r) = req_creds r"
  by (simp_all add: director_md5_def split: bool.splits option.splits)

lemma address_simps [simp]:
  "req_method (director_address cfg up r) = req_method r"
  "req_body (director_address cfg up r) = req_body r"
  "req_creds (director_address cfg up r) = req_creds r"
  "req_host (director_address cfg up r) = url_host (up_url up)"
  "url_host (req_url (director_address cfg up r)) = url_host (up_url up)"
  "url_scheme (req_url (director_address cfg up r)) = url_scheme (up_url up)"
  "url_path (req_url (director_address cfg up r)) = url_path (req_url (director_virtual_host cfg r))"
  by (simp_all add: director_address_def)

lemma prepare_simps [simp]:
  "req_url (director_prepare cfg up r) = req_url (director_address cfg up r)"
  "req_method (director_prepare cfg up r) = req_method r"
  "req_host (director_prepare cfg up r) = url_host (up_url up)"
  by (simp_all add: director_prepare_def)

text \<open>The path of the request that is given to the signer.\<close>

lemma prepared_path:
  "url_path (req_url (director_prepare cfg up r)) =
     (case virtual_bucket (ProxyBaseDomain cfg) (req_host r) of
        None \<Rightarrow> url_path (req_url r) | Some b \<Rightarrow> ''/'' @ b @ url_path (req_url r))"
  by (simp add: director_virtual_host_def split: option.splits)

lemma suffix_trim: "suffix sfx h \<Longrightarrow> h = trim_suffix h sfx @ sfx"
  by (auto simp: trim_suffix_def suffix_def)

lemma virtual_bucket_iff:
  "virtual_bucket d host = Some b \<longleftrightarrow> d \<noteq> [] \<and> b \<noteq> [] \<and> strip_port host = b @ ''.'' @ d"
proof
  assume "virtual_bucket d host = Some b"
  then show "d \<noteq> [] \<and> b \<noteq> [] \<and> strip_port host = b @ ''.'' @ d"
    using suffix_trim [of "''.'' @ d" "strip_port host"]
    by (auto simp: virtual_bucket_def Let_def split: if_splits)
next
  assume "d \<noteq> [] \<and> b \<noteq> [] \<and> strip_port host = b @ ''.'' @ d"
  then show "virtual_bucket d host = Some b"
    by (simp add: virtual_bucket_def Let_def trim_suffix_def suffix_def)
qed

text \<open>Its query: as it was, or without \<^verbatim>\<open>x-id\<close> and sorted.\<close>

lemma prepared_query:
  "url_query (req_url (director_prepare cfg up r)) =
     (let q = url_query (req_url r) in
      if values_get q ''x-id'' \<noteq> [] then sort_key fst (values_del q ''x-id'') else q)"
proof -
  have xid: "url_query (req_url (director_xid r')) = (let q = url_query (req_url r') in
      if values_get q ''x-id'' \<noteq> [] then sort_key fst (values_del q ''x-id'') else q)" for r'
    by (simp add: director_xid_def Let_def) (simp add: url_query_def parse_query_encode)
  have "url_query (req_url (director_storage_class (director_content_length (director_target up
      (director_virtual_host cfg r))))) = url_query (req_url r)"
    by (simp add: url_query_def)
  then show ?thesis
    by (simp add: director_address_def xid Let_def)
qed

lemma prepared_query_other:
  assumes "k \<noteq> ''x-id''"
  shows "values_get (url_query (req_url (director_prepare cfg up r))) k = values_get (url_query (req_url r)) k"
    and "values_has (url_query (req_url (director_prepare cfg up r))) k = values_has (url_query (req_url r)) k"
  using assms
  by (simp_all only: prepared_query) (simp_all add: Let_def values_get_sort values_get_del values_has_sort values_has_del)

lemma prepared_query_xid: "values_get (url_query (req_url (director_prepare cfg up r))) ''x-id'' = []"
proof -
  have "values_get (values_del q ''x-id'') ''x-id'' = []" for q
    by (induction q) (auto simp: values_get_def values_del_def)
  then show ?thesis
    by (simp only: prepared_query) (simp add: Let_def values_get_sort)
qed

subsection \<open>The headers that are signed\<close>

lemma canonical_values [simp]:
  "canonical ''User-Agent'' = ''User-Agent''" "canonical ''Expect'' = ''Expect''"
  "canonical ''Accept-Encoding'' = ''Accept-Encoding''"
  "canonical ''Amz-Sdk-Invocation-Id'' = ''Amz-Sdk-Invocation-Id''"
  "canonical ''Amz-Sdk-Request'' = ''Amz-Sdk-Request''"
  "canonical ''X-Amz-Trailer'' = ''X-Amz-Trailer''"
  "canonical ''X-Amz-Decoded-Content-Length'' = ''X-Amz-Decoded-Content-Length''"
  "canonical ''Content-Encoding'' = ''Content-Encoding''"
  "canonical ''Content-Md5'' = ''Content-Md5''"
  "canonical ''X-Amz-Content-Sha256'' = ''X-Amz-Content-Sha256''"
  "canonical ''x-amz-storage-class'' = ''X-Amz-Storage-Class''"
  "canonical ''x-amz-version-id'' = ''X-Amz-Version-Id''"
  "canonical ''x-goog-generation'' = ''X-Goog-Generation''"
  "canonical ''Content-Length'' = ''Content-Length''"
  by code_simp+

lemma hdr_get_strip_legacy:
  "hdr_get (strip_legacy h) k =
     (if canonical k \<in> {''X-Amz-Trailer'', ''X-Amz-Decoded-Content-Length''}
       \<or> canonical k = ''Content-Encoding'' \<and> contains_str (hdr_get h ''Content-Encoding'') ''aws-chunked''
      then [] else hdr_get h k)"
  by (auto simp: strip_legacy_def Let_def hdr_get_del)

lemma headers_get:
  "hdr_get (req_header (director_headers cfg r)) k =
     (if canonical k \<in> canonical ` set strip_always then []
      else if \<not> DisableHeaderStrip cfg \<and> (canonical k \<in> {''X-Amz-Trailer'', ''X-Amz-Decoded-Content-Length''}
         \<or> canonical k = ''Content-Encoding''
           \<and> contains_str (hdr_get (req_header r) ''Content-Encoding'') ''aws-chunked'')
      then []
      else if canonical k = ''X-Amz-Content-Sha256'' then ''UNSIGNED-PAYLOAD''
      else hdr_get (req_header r) k)"
  by (auto simp: director_headers_def Let_def hdr_get_strip_legacy hdr_get_set hdr_get_del strip_always_def)

lemma md5_get:
  "canonical k \<noteq> ''Content-Md5'' \<Longrightarrow>
     hdr_get (req_header (director_md5 up r)) k = hdr_get (req_header r) k"
  by (auto simp: director_md5_def hdr_get_set hdr_get_del split: bool.splits option.splits)

lemma prepared_get:
  "canonical k \<noteq> ''Content-Md5'' \<Longrightarrow>
     hdr_get (req_header (director_prepare cfg up r)) k =
     hdr_get (req_header (director_headers cfg (director_address cfg up r))) k"
  by (simp add: director_prepare_def md5_get)

text \<open>What no upstream may see in the signed headers.\<close>

lemma stripped_headers:
  "k \<in> set strip_always \<Longrightarrow> hdr_get (req_header (director_prepare cfg up r)) k = []"
  "hdr_get (req_header (director_prepare cfg up r)) ''X-Amz-Content-Sha256'' = ''UNSIGNED-PAYLOAD''"
  by (auto simp: prepared_get headers_get strip_always_def)

lemma identity_get:
  "canonical k \<noteq> ''Accept-Encoding'' \<Longrightarrow>
     hdr_get (req_header (director_identity cfg r)) k = hdr_get (req_header r) k"
  by (simp add: director_identity_def hdr_get_del)

lemma storage_class_get:
  "hdr_get (req_header (director_storage_class r)) ''x-amz-storage-class'' =
     (let sc = hdr_get (req_header r) ''x-amz-storage-class'' in
      if sc = [] then [] else (case translateS3StorageClass sc of None \<Rightarrow> sc | Some g \<Rightarrow> g))"
  by (auto simp: director_storage_class_def Let_def hdr_get_set translateS3StorageClass_def
      split: option.splits)

lemma prepared_storage_class:
  "hdr_get (req_header (director_prepare cfg up r)) ''x-amz-storage-class'' =
     (let sc = hdr_get (req_header r) ''x-amz-storage-class'' in
      if sc = [] then [] else (case translateS3StorageClass sc of None \<Rightarrow> sc | Some g \<Rightarrow> g))"
  by (simp add: prepared_get headers_get strip_always_def director_address_def identity_get
      storage_class_get)

text \<open>The same with all values of a header.\<close>

lemma storage_class_key: "canonical ''X-Amz-Storage-Class'' = ''X-Amz-Storage-Class''"
  "hdr_get h ''x-amz-storage-class'' = hdr_get h ''X-Amz-Storage-Class''"
  by (simp_all add: hdr_get_def) code_simp+

lemma hdr_lookup:
  "hdr_set k v h k' = (if k' = canonical k then Some [v] else h k')"
  "hdr_del k h k' = (if k' = canonical k then None else h k')"
  by (simp_all add: hdr_set_def hdr_del_def)

lemma strip_legacy_lookup:
  "strip_legacy h k =
     (if k \<in> {''X-Amz-Trailer'', ''X-Amz-Decoded-Content-Length''}
       \<or> k = ''Content-Encoding'' \<and> contains_str (hdr_get h ''Content-Encoding'') ''aws-chunked''
      then None else h k)"
  by (auto simp: strip_legacy_def Let_def hdr_lookup hdr_get_del)

lemma headers_lookup:
  "req_header (director_headers cfg r) k =
     (if k \<in> set strip_always then None
      else if \<not> DisableHeaderStrip cfg \<and> (k \<in> {''X-Amz-Trailer'', ''X-Amz-Decoded-Content-Length''}
         \<or> k = ''Content-Encoding'' \<and> contains_str (hdr_get (req_header r) ''Content-Encoding'') ''aws-chunked'')
      then None
      else if k = ''X-Amz-Content-Sha256'' then Some [''UNSIGNED-PAYLOAD'']
      else req_header r k)"
  by (auto simp: director_headers_def Let_def strip_legacy_lookup hdr_lookup strip_always_def hdr_get_set hdr_get_del)

lemma md5_lookup:
  "k \<noteq> ''Content-Md5'' \<Longrightarrow> req_header (director_md5 up r) k = req_header r k"
  by (auto simp: director_md5_def hdr_lookup split: bool.splits option.splits)

lemma stripped_lookup:
  "k \<in> set strip_always \<Longrightarrow> req_header (director_prepare cfg up r) k = None"
  "req_header (director_prepare cfg up r) ''X-Amz-Content-Sha256'' = Some [''UNSIGNED-PAYLOAD'']"
  by (auto simp: director_prepare_def md5_lookup headers_lookup strip_always_def)

lemma storage_class_lookup:
  "req_header (director_storage_class r) ''X-Amz-Storage-Class'' =
     (let sc = hdr_get (req_header r) ''X-Amz-Storage-Class'' in
      if sc \<in> {[], ''STANDARD''} then req_header r ''X-Amz-Storage-Class''
      else (case translateS3StorageClass sc of
              None \<Rightarrow> req_header r ''X-Amz-Storage-Class'' | Some class \<Rightarrow> Some [class]))"
  by (auto simp: director_storage_class_def Let_def hdr_lookup storage_class_key split: option.splits)

lemma prepared_class:
  "req_header (director_prepare cfg up r) ''X-Amz-Storage-Class'' =
     (let sc = hdr_get (req_header r) ''X-Amz-Storage-Class'' in
      if sc \<in> {[], ''STANDARD''} then req_header r ''X-Amz-Storage-Class''
      else (case translateS3StorageClass sc of
              None \<Rightarrow> req_header r ''X-Amz-Storage-Class'' | Some class \<Rightarrow> Some [class]))"
proof -
  have "req_header (director_identity cfg q) ''X-Amz-Storage-Class'' = req_header q ''X-Amz-Storage-Class''" for q
    by (simp add: director_identity_def hdr_lookup)
  then show ?thesis
    by (simp add: director_prepare_def md5_lookup headers_lookup strip_always_def director_address_def
        storage_class_lookup Let_def split: option.split)
qed

text \<open>The body and its digest.\<close>

definition bulk_delete :: "request \<Rightarrow> bool" where
  "bulk_delete r \<longleftrightarrow> req_method r = ''POST'' \<and> values_has (url_query (req_url r)) ''delete''"

lemma bulk_delete_address: "bulk_delete (director_address cfg up r) = bulk_delete r"
  using prepared_query_other(2) [of "''delete''" cfg up r] by (simp add: bulk_delete_def)

lemma prepared_digest:
  assumes "bulk_delete r" "req_body r = Some b" "\<not> body_fails b"
  shows "req_body (director_prepare cfg up r) = Some b"
    and "hdr_get (req_header (director_prepare cfg up r)) ''Content-Md5'' = up_md5 up (body_bytes b)"
    and "req_content_length (director_prepare cfg up r) = word_of_int (int (length (body_bytes b)))"
proof -
  have "req_method r = ''POST'' \<and>
      values_has (url_query (req_url (director_headers cfg (director_address cfg up r)))) ''delete''"
    using assms(1) bulk_delete_address [of cfg up r] by (simp add: bulk_delete_def)
  then show "req_body (director_prepare cfg up r) = Some b"
    "hdr_get (req_header (director_prepare cfg up r)) ''Content-Md5'' = up_md5 up (body_bytes b)"
    "req_content_length (director_prepare cfg up r) = word_of_int (int (length (body_bytes b)))"
    using assms(2,3) by (simp_all add: director_prepare_def director_md5_def hdr_get_set)
qed

lemma prepared_no_digest:
  assumes "\<not> bulk_delete r \<or> req_body r = None"
  shows "hdr_get (req_header (director_prepare cfg up r)) ''Content-Md5'' = []"
    and "req_body (director_prepare cfg up r) = req_body r"
proof -
  have "bulk_delete r = (req_method r = ''POST'' \<and>
      values_has (url_query (req_url (director_headers cfg (director_address cfg up r)))) ''delete'')"
    using bulk_delete_address [of cfg up r] by (simp add: bulk_delete_def)
  with assms show "hdr_get (req_header (director_prepare cfg up r)) ''Content-Md5'' = []"
    "req_body (director_prepare cfg up r) = req_body r"
    by (auto simp: director_prepare_def director_md5_def hdr_get_del split: bool.splits option.splits)
qed

text \<open>A digest that could not be computed leaves the client's own header in place.\<close>

lemma prepared_failed_digest:
  assumes "bulk_delete r" "req_body r = Some b" "body_fails b"
  shows "req_body (director_prepare cfg up r) = Some closed_body"
proof -
  have "req_method r = ''POST'' \<and>
      values_has (url_query (req_url (director_headers cfg (director_address cfg up r)))) ''delete''"
    using assms(1) bulk_delete_address [of cfg up r] by (simp add: bulk_delete_def)
  with assms(2,3) show ?thesis by (simp add: director_prepare_def director_md5_def)
qed

subsection \<open>Responses\<close>

lemma modify_version:
  "hdr_get (ur_header (modifyResponse cfg resp)) ''x-amz-version-id'' =
     (let gen = hdr_get (ur_header resp) ''x-goog-generation'' in
      if gen \<noteq> [] then gen else hdr_get (ur_header resp) ''x-amz-version-id'')"
  by (simp add: modifyResponse_def Let_def hdr_get_set)

lemma modify_other:
  "ur_status (modifyResponse cfg resp) = ur_status resp"
  "\<not> body_fails (ur_body resp) \<Longrightarrow> ur_body (modifyResponse cfg resp) = ur_body resp"
  "canonical k \<noteq> ''X-Amz-Version-Id'' \<Longrightarrow>
     hdr_get (ur_header (modifyResponse cfg resp)) k = hdr_get (ur_header resp) k"
  by (auto simp: modifyResponse_def Let_def hdr_get_set)

end
