(* ===== verification/Reqlog.thy ===== *)
theory Reqlog
  imports Go_Http Go_Time
begin

text \<open>
  \<^verbatim>\<open>pkg/reqlog/reqlog.go\<close>: the request log record and its line, what is read off a
  request for it, the middleware's status recorder, and the removal of old log files. The
  regular expressions are written out as matchers (each is deterministic: no character
  can be taken by two of its parts). Writing the log is third-party code.
\<close>

subsection \<open>Records and lines\<close>

record Record =
  TimestampMs :: int64
  RequestID :: string
  SourceIP :: string
  HTTPMethod :: string
  APIMethod :: string
  Bucket :: string
  AccessKey :: string
  GUploaderUploadID :: string
  StatusCode :: int
  DurationMs :: int64

definition csv_fields :: "Record \<Rightarrow> string list" where
  "csv_fields rec =
     [show_int (sint (TimestampMs rec)), RequestID rec, SourceIP rec, HTTPMethod rec, APIMethod rec,
      Bucket rec, AccessKey rec, GUploaderUploadID rec, show_int (StatusCode rec),
      show_int (sint (DurationMs rec))]"

definition ToCSVLine :: "Record \<Rightarrow> string" where
  "ToCSVLine rec = join_str [CHR 0x01] (csv_fields rec)"

lemma csv_roundtrip:
  assumes "\<forall>f \<in> set (csv_fields rec). CHR 0x01 \<notin> set f"
  shows "split_byte (CHR 0x01) (ToCSVLine rec) = csv_fields rec"
  unfolding ToCSVLine_def using assms by (intro split_byte_join) (auto simp: csv_fields_def)

subsection \<open>The status recorder\<close>

record statusRecorder =
  sr_inner :: response
  sr_status :: int

definition sr_wrap :: "response \<Rightarrow> statusRecorder" where
  "sr_wrap w = \<lparr>sr_inner = w, sr_status = 200\<rparr>"

definition sr_WriteHeader :: "int \<Rightarrow> statusRecorder \<Rightarrow> statusRecorder" where
  "sr_WriteHeader code sr = sr\<lparr>sr_status := code, sr_inner := write_header code (sr_inner sr)\<rparr>"

text \<open>The other methods are the embedded writer's.\<close>

fun sr_op :: "writer_op \<Rightarrow> statusRecorder \<Rightarrow> statusRecorder" where
  "sr_op (OpHeader k v) sr = sr\<lparr>sr_inner := set_header k v (sr_inner sr)\<rparr>"
| "sr_op (OpAddHeaders h) sr = sr\<lparr>sr_inner := run_op (OpAddHeaders h) (sr_inner sr)\<rparr>"
| "sr_op OpClearHeaders sr = sr\<lparr>sr_inner := run_op OpClearHeaders (sr_inner sr)\<rparr>"
| "sr_op (OpStatus c) sr = sr_WriteHeader c sr"
| "sr_op (OpWrite b) sr = sr\<lparr>sr_inner := write_body b (sr_inner sr)\<rparr>"

interpretation recorder: status_writer sr_wrap sr_inner sr_status sr_op "\<lambda>_. True"
proof unfold_locales
  show "sr_inner (sr_op x v) = run_op x (sr_inner v)" for x v
    by (cases x) (simp_all add: sr_WriteHeader_def)
  show "\<forall>c. x \<noteq> OpStatus c \<Longrightarrow> sr_status (sr_op x v) = sr_status v" for x v
    by (cases x) simp_all
qed (simp_all add: sr_wrap_def sr_WriteHeader_def)

text \<open>It does not drop a status after an informational one, but follows every later call.\<close>

lemma recorder_last_status:
  "sr_status (recorder.do_ops (ops @ [OpStatus c]) (sr_wrap w)) = c"
  by (simp add: sr_WriteHeader_def)

subsection \<open>Reading the request\<close>

definition ExtractGUploaderUploadID :: "header \<Rightarrow> string" where
  "ExtractGUploaderUploadID h = hdr_get h ''X-GUploader-UploadID''"

text \<open>\<^verbatim>\<open>net.SplitHostPort\<close>, its host only.\<close>

definition split_host :: "string \<Rightarrow> string option" where
  "split_host hostport =
     (case last_index_byte hostport (CHR '':'') of
        None \<Rightarrow> None
      | Some i \<Rightarrow>
          if hostport \<noteq> [] \<and> hd hostport = CHR ''['' then
            (case index_byte hostport (CHR '']'') of
               None \<Rightarrow> None
             | Some e \<Rightarrow>
                 if e + 1 \<noteq> i \<or> CHR ''['' \<in> set (drop 1 hostport) \<or> CHR '']'' \<in> set (drop (e + 1) hostport)
                 then None else Some (take (e - 1) (drop 1 hostport)))
          else if CHR '':'' \<in> set (take i hostport) \<or> CHR ''['' \<in> set hostport \<or> CHR '']'' \<in> set hostport
          then None else Some (take i hostport))"

definition ExtractSourceIP :: "request \<Rightarrow> string" where
  "ExtractSourceIP r =
     (let xff = hdr_get (req_header r) ''X-Forwarded-For'';
          xri = hdr_get (req_header r) ''X-Real-Ip''
      in if xff \<noteq> [] then
           (case index_byte xff (CHR '','') of
              Some idx \<Rightarrow> trim_space (take idx xff) | None \<Rightarrow> trim_space xff)
         else if xri \<noteq> [] then trim_space xri
         else (case split_host (req_remote_addr r) of None \<Rightarrow> req_remote_addr r | Some h \<Rightarrow> h))"

text \<open>The operations named by a query parameter, in the order they are tried.\<close>

definition method_name :: "(string \<times> string) list \<Rightarrow> string \<Rightarrow> string option" where
  "method_name names method = map_of names method"

definition query_operations :: "(string \<times> (string \<times> string) list) list" where
  "query_operations =
     [(''lifecycle'', [(''GET'', ''GetBucketLifecycle''), (''PUT'', ''PutBucketLifecycle''),
                       (''DELETE'', ''DeleteBucketLifecycle'')]),
      (''cors'', [(''GET'', ''GetBucketCors''), (''PUT'', ''PutBucketCors''), (''DELETE'', ''DeleteBucketCors'')]),
      (''acl'', [(''GET'', ''GetObjectAcl''), (''PUT'', ''PutObjectAcl'')]),
      (''versioning'', [(''GET'', ''GetBucketVersioning''), (''PUT'', ''PutBucketVersioning'')]),
      (''tagging'', [(''GET'', ''GetTagging''), (''PUT'', ''PutTagging''), (''DELETE'', ''DeleteTagging'')])]"

definition query_operation :: "url_values \<Rightarrow> string \<Rightarrow> string option" where
  "query_operation q method =
     (case List.map_filter (\<lambda>(key, names). if values_has q key then method_name names method else None)
             query_operations of
        op # _ \<Rightarrow> Some op
      | [] \<Rightarrow> if values_has q ''delete'' then Some ''DeleteObjects'' else None)"

definition bucket_operations :: "(string \<times> string) list" where
  "bucket_operations = [(''GET'', ''ListObjects''), (''HEAD'', ''HeadBucket''), (''PUT'', ''CreateBucket''),
     (''DELETE'', ''DeleteBucket'')]"

definition object_operations :: "(string \<times> string) list" where
  "object_operations = [(''GET'', ''GetObject''), (''PUT'', ''PutObject''), (''DELETE'', ''DeleteObject''),
     (''HEAD'', ''HeadObject'')]"

definition path_operation :: "string \<Rightarrow> string \<Rightarrow> string option" where
  "path_operation path method =
     (let parts = split2_byte (CHR ''/'') (trim_prefix path ''/'');
          hasBucket = (1 \<le> length parts \<and> parts ! 0 \<noteq> []);
          hasKey = (length parts = 2 \<and> parts ! 1 \<noteq> [])
      in if hasBucket \<and> \<not> hasKey then method_name bucket_operations method
         else if hasBucket \<and> hasKey then method_name object_operations method
         else None)"

definition InferAPIMethod :: "request \<Rightarrow> string" where
  "InferAPIMethod r =
     (let method = req_method r; path = url_path (req_url r); q = url_query (req_url r) in
      if path = ''/'' then (if method = ''GET'' then ''ListBuckets'' else ''Unknown'')
      else (case query_operation q method of
         Some op \<Rightarrow> op
       | None \<Rightarrow> (case path_operation path method of Some op \<Rightarrow> op | None \<Rightarrow> ''Unknown'')))"

definition ExtractBucket :: "request \<Rightarrow> string" where
  "ExtractBucket r =
     (let trimmed = trim_prefix (url_path (req_url r)) ''/'' in
      if trimmed = [] then [] else hd (split2_byte (CHR ''/'') trimmed))"

definition regex_space :: "char \<Rightarrow> bool" where
  "regex_space c \<longleftrightarrow> byte_of c \<in> {9, 10, 12, 13, 32}"

text \<open>A match of \<^verbatim>\<open>credentialRe\<close> at the head of the string: its submatch.\<close>

definition credential_at :: "string \<Rightarrow> string option" where
  "credential_at s =
     (if prefix ''Credential='' s then
        (let rest = dropWhile regex_space (drop (length ''Credential='') s);
             stop = (\<lambda>c. c = CHR ''/'' \<or> c = CHR '','' \<or> regex_space c);
             ak = takeWhile (\<lambda>c. \<not> stop c) rest;
             after = dropWhile (\<lambda>c. \<not> stop c) rest
         in if ak \<noteq> [] \<and> after \<noteq> [] \<and> hd after = CHR ''/'' then Some ak else None)
      else None)"

fun find_credential :: "string \<Rightarrow> string option" where
  "find_credential [] = None"
| "find_credential (c # cs) =
     (case credential_at (c # cs) of Some ak \<Rightarrow> Some ak | None \<Rightarrow> find_credential cs)"

definition sigv2_key :: "string \<Rightarrow> string option" where
  "sigv2_key auth =
     (if prefix ''AWS '' auth then
        (case index_byte (drop 4 auth) (CHR '':'') of
           None \<Rightarrow> None
         | Some i \<Rightarrow> if 0 < i then Some (trim_space (take i (drop 4 auth))) else None)
      else None)"

definition header_key :: "string \<Rightarrow> string option" where
  "header_key auth =
     (if auth = [] then None
      else (case find_credential auth of Some ak \<Rightarrow> Some ak | None \<Rightarrow> sigv2_key auth))"

definition log_access_key :: "request \<Rightarrow> string" where
  "log_access_key r =
     (case header_key (hdr_get (req_header r) ''Authorization'') of
        Some ak \<Rightarrow> ak
      | None \<Rightarrow>
          (let q = url_query (req_url r);
               cred = values_get q ''X-Amz-Credential'';
               ak2 = values_get q ''AWSAccessKeyId''
           in case index_byte cred (CHR ''/'') of
                Some i \<Rightarrow> if 0 < i then take i cred else ak2
              | None \<Rightarrow> ak2))"

text \<open>\<^verbatim>\<open>Middleware\<close>: the record of a request, once its handler has returned.\<close>

definition log_record :: "int64 \<Rightarrow> int64 \<Rightarrow> request \<Rightarrow> writer_op list \<Rightarrow> response \<Rightarrow> Record" where
  "log_record start duration r ops w =
     (let rec = recorder.do_ops ops (sr_wrap w) in
      \<lparr>TimestampMs = start, RequestID = req_id r, SourceIP = ExtractSourceIP r, HTTPMethod = req_method r,
       APIMethod = InferAPIMethod r, Bucket = ExtractBucket r, AccessKey = log_access_key r,
       GUploaderUploadID = ExtractGUploaderUploadID (rw_header (sr_inner rec)),
       StatusCode = sr_status rec, DurationMs = duration\<rparr>)"

subsection \<open>Old log files\<close>

definition is_digit :: "char \<Rightarrow> bool" where
  "is_digit c \<longleftrightarrow> digit_val c \<noteq> None"

text \<open>A match of \<^verbatim>\<open>logFileRe\<close>: its first submatch.\<close>

definition log_file_digits :: "string \<Rightarrow> string option" where
  "log_file_digits name =
     (let digits = take 8 (drop 4 name); rest = drop 16 name in
      if prefix ''req_'' name \<and> length digits = 8 \<and> list_all is_digit digits
         \<and> take 4 (drop 12 name) = ''.csv''
         \<and> (rest = [] \<or> hd rest = CHR ''.'' \<and> tl rest \<noteq> [] \<and> list_all is_digit (tl rest))
      then Some digits else None)"

definition log_file_date :: "string \<Rightarrow> date option" where
  "log_file_date name = Option.bind (log_file_digits name) parse_date_compact"

record dir_entry =
  de_name :: string
  de_is_dir :: bool

text \<open>
  The cutoff: so many days earlier on the local calendar, at the same local time. The date
  of a file is read as its midnight in UTC.
\<close>

definition cutoff :: "zone \<Rightarrow> gotime \<Rightarrow> nat \<Rightarrow> gotime" where
  "cutoff z now keepDays = zn_moment z (days_back keepDays (zn_civil z now))"

definition expired :: "zone \<Rightarrow> gotime \<Rightarrow> nat \<Rightarrow> dir_entry \<Rightarrow> bool" where
  "expired z now keepDays e \<longleftrightarrow>
     \<not> de_is_dir e \<and>
     (case log_file_date (de_name e) of
        None \<Rightarrow> False | Some d \<Rightarrow> \<not> time_after (midnight d) (cutoff z now keepDays))"

text \<open>
  \<open>read_ok\<close> and \<open>remove_ok\<close> say whether \<^verbatim>\<open>os.ReadDir\<close> and which calls of \<^verbatim>\<open>os.Remove\<close>
  succeed; the result is what is left.
\<close>

definition cleanOldLogs ::
  "zone \<Rightarrow> gotime \<Rightarrow> nat \<Rightarrow> bool \<Rightarrow> (string \<Rightarrow> bool) \<Rightarrow> dir_entry list \<Rightarrow> dir_entry list" where
  "cleanOldLogs z now keepDays read_ok remove_ok files =
     (if \<not> read_ok then files
      else filter (\<lambda>e. \<not> (expired z now keepDays e \<and> remove_ok (de_name e))) files)"

lemma prev_day_less:
  assumes "1 \<le> dyear d"
  shows "prev_day d < d"
  using assms by (cases d) (auto simp: prev_day_def less_date_def less_eq_date_def)

lemma expired_iff:
  "expired z now keepDays e \<longleftrightarrow> \<not> de_is_dir e \<and>
     (\<exists>d. log_file_date (de_name e) = Some d \<and> d \<le> gt_date (cutoff z now keepDays))"
  by (auto simp: expired_def time_after_def midnight_def not_less split: option.splits)

lemma prev_days_le: "keepDays < dyear d \<Longrightarrow> (prev_day ^^ keepDays) d \<le> d \<and> dyear d - keepDays \<le> dyear ((prev_day ^^ keepDays) d)"
proof (induction keepDays)
  case (Suc n)
  let ?p = "(prev_day ^^ n) d"
  from Suc have le: "?p \<le> d" and y: "dyear d - n \<le> dyear ?p" by auto
  then have "1 \<le> dyear ?p" using Suc.prems by linarith
  from prev_day_less [OF this] le have "prev_day ?p \<le> d" by simp
  moreover have "dyear ?p - 1 \<le> dyear (prev_day ?p)"
    by (simp add: prev_day_def)
  ultimately show ?case using y Suc.prems by simp
qed simp

lemma prev_days_less:
  assumes "0 < keepDays" "keepDays < dyear d"
  shows "(prev_day ^^ keepDays) d < d"
proof -
  obtain n where n: "keepDays = Suc n" using assms(1) by (cases keepDays) auto
  with prev_days_le [of n d] assms(2) have le: "(prev_day ^^ n) d \<le> d" "1 \<le> dyear ((prev_day ^^ n) d)"
    by auto
  from prev_day_less [OF le(2)] le(1) n show ?thesis by simp
qed

text \<open>What a run removes, and what it never removes.\<close>

lemma cleaned:
  assumes "e \<in> set files" "e \<notin> set (cleanOldLogs z now keepDays read_ok remove_ok files)"
  shows "\<not> de_is_dir e \<and> read_ok \<and> remove_ok (de_name e)
    \<and> (\<exists>d. log_file_date (de_name e) = Some d \<and> d \<le> gt_date (cutoff z now keepDays))"
  using assms by (auto simp: cleanOldLogs_def expired_iff split: if_splits)

text \<open>In UTC the cutoff is so many days before the day of the run.\<close>

lemma utc_cutoff:
  assumes "gt_nanos now < nat day_nanos"
  shows "cutoff (fixed_zone 0) now keepDays = days_back keepDays now"
  using assms by (simp add: cutoff_def fixed_zone_def shift_clock_def days_back_def Let_def)

lemma kept_recent:
  assumes "e \<in> set files" "log_file_date (de_name e) = Some d" "gt_date now \<le> d" "gt_nanos now < nat day_nanos"
    and "0 < keepDays" "keepDays < dyear (gt_date now)"
  shows "e \<in> set (cleanOldLogs (fixed_zone 0) now keepDays read_ok remove_ok files)"
proof -
  have "(prev_day ^^ keepDays) (gt_date now) < d"
    using prev_days_less [OF assms(5,6)] assms(3) by simp
  then show ?thesis
    using assms(1,2) by (auto simp: cleanOldLogs_def expired_iff utc_cutoff [OF assms(4)] days_back_def)
qed

lemma a_week: "(f ^^ 7) x = f (f (f (f (f (f (f x))))))"
  by (simp add: eval_nat_numeral)

text \<open>
  East of Greenwich a file that is exactly so many days old outlives the run shortly after
  midnight, although it would be removed in UTC.
\<close>

lemma kept_one_day_more:
  "cutoff (fixed_zone (8 * 3600 * 1000000000)) \<lparr>gt_date = Date 2025 3 9, gt_nanos = 58200 * 1000000000\<rparr> 7 =
     \<lparr>gt_date = Date 2025 3 2, gt_nanos = 58200 * 1000000000\<rparr>"
  "zn_civil (fixed_zone (8 * 3600 * 1000000000)) \<lparr>gt_date = Date 2025 3 9, gt_nanos = 58200 * 1000000000\<rparr> =
     \<lparr>gt_date = Date 2025 3 10, gt_nanos = 600 * 1000000000\<rparr>"
  by (simp_all add: cutoff_def fixed_zone_def shift_clock_def days_back_def prev_day_def next_day_def days_in_def
      leap_year_def Let_def a_week)

lemma cleaned_twice:
  "cleanOldLogs z now keepDays read_ok remove_ok (cleanOldLogs z now keepDays read_ok remove_ok files) =
   cleanOldLogs z now keepDays read_ok remove_ok files"
  by (simp add: cleanOldLogs_def)

end
