(* ===== verification/Server.thy ===== *)
theory Server
  imports Dispatch Director Reqlog
begin

text \<open>
  The rest of \<^verbatim>\<open>main.go\<close>: the operational endpoints, the observability middleware's
  recorder and label, the read proxy's flush interval, and the running proxy as a whole:
  a loaded configuration, its credential store under the watcher, and a request whose
  three store reads happen at any three moments of the watcher's run.
\<close>

subsection \<open>Operational endpoints\<close>

definition send_text :: "int \<Rightarrow> string \<Rightarrow> 's world \<Rightarrow> 's world" where
  "send_text code body w = respond [OpStatus code, OpWrite body] w"

definition handleHealth :: "'s proxy \<Rightarrow> 's world \<Rightarrow> 's world" where
  "handleHealth px w =
     (if HealthEndpoint_on (Features (px_config px)) then send_text 200 ''OK'' w
      else featureDisabled404 px ''health_endpoint'' w)"

definition json_object :: "(string \<times> string) list \<Rightarrow> string" where
  "json_object kvs =
     ''{'' @ join_str '','' (map (\<lambda>(k, v). [CHR 34] @ k @ [CHR 34] @ '':'' @ [CHR 34] @ v @ [CHR 34]) kvs) @ ''}''"

definition readyz_timeout :: deadline where
  "readyz_timeout = Some (5 * nanos_per_sec)"

definition readyz_probe :: "'s proxy \<Rightarrow> 's world \<Rightarrow> 's world" where
  "readyz_probe px w =
     (case api_bucket_attrs (px_api px) readyz_timeout (TargetBucket (px_config px)) (w_gcs w) of
        (Inl e, s') \<Rightarrow>
          send_text 503 (json_object [(''status'', ''not_ready''), (''reason'', ''gcs_connectivity_failed'')])
            (w\<lparr>w_gcs := s'\<rparr>)
      | (Inr a, s') \<Rightarrow>
          send_text 200 (json_object [(''status'', ''ready''), (''mode'', ''live''), (''probe'', ''target_bucket'')])
            (w\<lparr>w_gcs := s'\<rparr>))"

definition handleReadyz :: "'s proxy \<Rightarrow> 's world \<Rightarrow> 's world" where
  "handleReadyz px w =
     (if \<not> ReadyzEndpoint_on (Features (px_config px)) then featureDisabled404 px ''readyz_endpoint'' w
      else if DryRun (px_config px)
      then send_text 200 (json_object [(''status'', ''ready''), (''mode'', ''dry_run'')]) w
      else if \<not> px_client px
      then send_text 503 (json_object [(''status'', ''not_ready''), (''reason'', ''gcs_client_nil'')]) w
      else if TargetBucket (px_config px) = []
      then send_text 200
             (json_object [(''status'', ''ready''), (''mode'', ''live''), (''probe'', ''client_only'')]) w
      else readyz_probe px w)"

lemma send_text_status: "fresh w \<Longrightarrow> \<not> informational c \<Longrightarrow> world_status (send_text c b w) = Some c"
  by (simp add: send_text_def world_status_def fresh_def)

lemma disabled_status: "fresh w \<Longrightarrow> world_status (featureDisabled404 px f w) = Some 404"
  by (simp add: featureDisabled404_def world_status_def fresh_def count_metric_def)

lemma readyz_ready_iff:
  assumes "fresh w" "ReadyzEndpoint_on (Features (px_config px))"
  shows "world_status (handleReadyz px w) = Some 200 \<longleftrightarrow>
    DryRun (px_config px)
    \<or> px_client px \<and> (TargetBucket (px_config px) = []
        \<or> (\<exists>a. fst (api_bucket_attrs (px_api px) readyz_timeout (TargetBucket (px_config px)) (w_gcs w)) = Inr a))"
  using assms
  by (auto simp: handleReadyz_def readyz_probe_def send_text_status split: prod.splits sum.splits)

subsection \<open>The observability middleware\<close>

record obs_recorder =
  obs_inner :: response
  obs_status :: int

definition obs_wrap :: "response \<Rightarrow> obs_recorder" where
  "obs_wrap w = \<lparr>obs_inner = w, obs_status = 200\<rparr>"

definition obs_WriteHeader :: "int \<Rightarrow> obs_recorder \<Rightarrow> obs_recorder" where
  "obs_WriteHeader code v = v\<lparr>obs_status := code, obs_inner := write_header code (obs_inner v)\<rparr>"

fun obs_op :: "writer_op \<Rightarrow> obs_recorder \<Rightarrow> obs_recorder" where
  "obs_op (OpHeader k v) w = w\<lparr>obs_inner := set_header k v (obs_inner w)\<rparr>"
| "obs_op (OpAddHeaders h) w = w\<lparr>obs_inner := run_op (OpAddHeaders h) (obs_inner w)\<rparr>"
| "obs_op OpClearHeaders w = w\<lparr>obs_inner := run_op OpClearHeaders (obs_inner w)\<rparr>"
| "obs_op (OpStatus c) w = obs_WriteHeader c w"
| "obs_op (OpWrite b) w = w\<lparr>obs_inner := write_body b (obs_inner w)\<rparr>"

interpretation observed: status_writer obs_wrap obs_inner obs_status obs_op "\<lambda>_. True"
proof unfold_locales
  show "obs_inner (obs_op x v) = run_op x (obs_inner v)" for x v
    by (cases x) (simp_all add: obs_WriteHeader_def)
  show "\<forall>c. x \<noteq> OpStatus c \<Longrightarrow> obs_status (obs_op x v) = obs_status v" for x v
    by (cases x) simp_all
qed (simp_all add: obs_wrap_def obs_WriteHeader_def)

definition handler_label :: "request \<Rightarrow> string" where
  "handler_label r =
     (let q = url_query (req_url r) in
      case find (values_has q) [''lifecycle'', ''cors'', ''logging'', ''website'', ''tagging''] of
        Some key \<Rightarrow> key
      | None \<Rightarrow> if values_has q ''restore'' \<and> req_method r = ''POST'' then ''restore'' else ''proxy'')"

record observation =
  ob_request_id :: string
  ob_source_ip :: string
  ob_method :: string
  ob_uri :: string
  ob_status :: int
  ob_content_length :: int64
  ob_handler :: string
  ob_access_key :: "string option"
  ob_upload_id :: "string option"

definition nonempty :: "string \<Rightarrow> string option" where
  "nonempty s = (if s = [] then None else Some s)"

text \<open>\<^verbatim>\<open>observabilityMiddleware\<close>: the fields of its log line, once the handler has returned.\<close>

definition observe :: "request \<Rightarrow> writer_op list \<Rightarrow> response \<Rightarrow> observation" where
  "observe r ops w =
     (let rec = observed.do_ops ops (obs_wrap w) in
      \<lparr>ob_request_id = req_id r, ob_source_ip = ExtractSourceIP r, ob_method = req_method r,
       ob_uri = req_uri r, ob_status = obs_status rec, ob_content_length = req_content_length r,
       ob_handler = handler_label r, ob_access_key = nonempty (log_access_key r),
       ob_upload_id = nonempty (ExtractGUploaderUploadID (rw_header (obs_inner rec)))\<rparr>)"

subsection \<open>The read proxy's flush interval\<close>

datatype flush = FlushImmediately | FlushByFramework | FlushEvery int64

definition read_flush :: "Settings \<Rightarrow> flush" where
  "read_flush cfg =
     (if FlushIntervalMS cfg < 0 then FlushImmediately
      else if FlushIntervalMS cfg = 0 then FlushByFramework
      else FlushEvery (word_of_int (FlushIntervalMS cfg) * 1000000))"

subsection \<open>The running proxy\<close>

text \<open>
  A proxy that started with this configuration, and the stores one request reads: each is
  the store at some moment of the watcher's run.
\<close>

definition started :: "(string \<Rightarrow> bytes option) \<Rightarrow> environ \<Rightarrow> 's proxy \<Rightarrow> bool" where
  "started read env px \<longleftrightarrow> LoadConfig read env = Inr (px_config px)"

inductive store_at :: "(nat \<Rightarrow> string \<Rightarrow> bytes option) \<Rightarrow> Settings \<Rightarrow> store \<Rightarrow> bool"
  for content cfg where
  Unwatched: "store_at content cfg (seed_store cfg)"
| Watched: "CredentialsFile cfg \<noteq> [] \<Longrightarrow>
    watch_reachable content (CredentialsFile cfg) (start_watcher (seed_store cfg) t) w \<Longrightarrow>
    store_at content cfg (wt_store w)"

definition reads_at :: "(nat \<Rightarrow> string \<Rightarrow> bytes option) \<Rightarrow> Settings \<Rightarrow> store_reads \<Rightarrow> bool" where
  "reads_at content cfg sr \<longleftrightarrow>
     store_at content cfg (sr_gate sr) \<and> store_at content cfg (sr_size sr) \<and> store_at content cfg (sr_lookup sr)"

lemma store_at_sound: "store_at content cfg s \<Longrightarrow> creds.sound (seed_store cfg) \<Longrightarrow> creds.sound s"
proof (induction rule: store_at.induct)
  case (Watched t w)
  then show ?case using watcher_keeps_sound by (fastforce simp: start_watcher_def)
qed

lemma reads_sound:
  assumes "started read env px" "\<not> DryRun (px_config px)" "reads_at content (px_config px) sr"
  shows "creds.sound (sr_gate sr)" "creds.sound (sr_size sr)" "creds.sound (sr_lookup sr)"
  using assms loaded_store_sound [of read env "px_config px"] store_at_sound
  unfolding started_def reads_at_def by blast+

text \<open>
  The store of a watched file is never empty, nor is one seeded from any other source; so
  either every store the proxy ever holds is sound, or it stays empty and there is no
  complete fallback pair.
\<close>

lemma seed_unsound_unwatched:
  assumes "LoadConfig read env = Inr cfg" "\<not> creds.sound (seed_store cfg)"
  shows "CredentialsFile cfg = [] \<and> seed_store cfg = New"
proof (rule LoadConfig_Inr [OF assms(1)])
  fix m path source
  assume l: "loadHMACCredentials read env (proxyAK env) (proxySK env) = Inr (m, path, source)"
    and cfg: "cfg = build_settings env (m, path, source)"
  have "source = FromNone"
    using seed_sound [OF l, of cfg] cfg assms(2) by auto
  with loaded_credentials [OF l] cfg show ?thesis
    by (auto simp: seed_store_def fcard_fempty)
qed

lemma forwarded_credentials:
  assumes "started read env px" "reads_at content (px_config px) sr" "req_creds r = None"
    and "handleS3Request px sr r w = Forwarded kind r' w'"
  shows "case director_credentials (px_config px) r' of
      Some c \<Rightarrow> client_access_key r = Some (AccessKeyID c)
        \<and> Lookup (sr_lookup sr) (AccessKeyID c) = Some (SecretAccessKey c)
    | None \<Rightarrow> DryRun (px_config px)"
proof (cases "creds.sound (seed_store (px_config px))")
  case True
  then have "0 < Size (sr_gate sr)"
    using assms(2) store_at_sound [of content "px_config px" "sr_gate sr"]
    by (simp add: reads_at_def creds.sound_def)
  with forwarded_authenticated [OF assms(4)] show ?thesis
    by (auto simp: authenticated_def director_credentials_def)
next
  case False
  note unsound = this
  have cfg: "LoadConfig read env = Inr (px_config px)" using assms(1) by (simp add: started_def)
  from seed_unsound_unwatched [OF cfg False] have
    seed: "CredentialsFile (px_config px) = []" "seed_store (px_config px) = New" by auto
  then have "sr_gate sr = New"
    using assms(2) by (auto simp: reads_at_def elim: store_at.cases)
  then have "credential_gate sr r w = Inr (r, w)"
    by (simp add: credential_gate_def New_def Size_def fcard_fempty)
  with assms(4) have "r' = r" by (simp add: forwarded_iff)
  moreover have "DryRun (px_config px)"
    using unsound loaded_store_sound [OF cfg] by blast
  ultimately show ?thesis
    using no_fallback_pair [OF cfg False] assms(3) by (auto simp: director_credentials_def)
qed

end
