(* ===== verification/Reverse_Proxy.thy ===== *)
theory Reverse_Proxy
  imports Director Reqlog
begin

text \<open>
  The data plane of \<^verbatim>\<open>main.go\<close> around the Director: \<^verbatim>\<open>httputil.ReverseProxy.ServeHTTP\<close>
  as the two proxies run it. The request is cloned, given to the Director, freed of its
  hop-by-hop headers and sent with the transport; the response goes through
  \<^verbatim>\<open>modifyResponse\<close> and is copied to the client. What the transport answers and what
  happens to a connection that switches protocols are parameters; the headers the Director
  signed are the ones before the changes modelled here.
\<close>

subsection \<open>Header lists\<close>

definition hdr_values :: "header \<Rightarrow> string \<Rightarrow> string list" where
  "hdr_values h k = (case h k of None \<Rightarrow> [] | Some vs \<Rightarrow> vs)"

definition trim_by :: "(char \<Rightarrow> bool) \<Rightarrow> string \<Rightarrow> string" where
  "trim_by ws s = rev (dropWhile ws (rev (dropWhile ws s)))"

definition http_space :: "char \<Rightarrow> bool" where
  "http_space c \<longleftrightarrow> c \<in> set [CHR '' '', CHR 9, CHR 10, CHR 13]"

definition http_ows :: "char \<Rightarrow> bool" where
  "http_ows c \<longleftrightarrow> c \<in> set [CHR '' '', CHR 9]"

text \<open>\<^verbatim>\<open>httpguts.HeaderValuesContainsToken\<close>\<close>

definition has_token :: "string list \<Rightarrow> string \<Rightarrow> bool" where
  "has_token vs token \<longleftrightarrow>
     list_ex (\<lambda>v. list_ex (\<lambda>p. map ascii_lower (trim_by http_ows p) = map ascii_lower token)
       (split_byte (CHR '','') v)) vs"

definition hopHeaders :: "string list" where
  "hopHeaders = [''Connection'', ''Proxy-Connection'', ''Keep-Alive'', ''Proxy-Authenticate'',
     ''Proxy-Authorization'', ''Te'', ''Trailer'', ''Transfer-Encoding'', ''Upgrade'']"

text \<open>The headers the Connection header names.\<close>

definition connection_named :: "header \<Rightarrow> string list" where
  "connection_named h =
     filter ((\<noteq>) []) (map (trim_by http_space)
       (concat (map (split_byte (CHR '','')) (hdr_values h ''Connection''))))"

definition removeHopByHopHeaders :: "header \<Rightarrow> header" where
  "removeHopByHopHeaders h = fold hdr_del hopHeaders (fold hdr_del (connection_named h) h)"

definition upgrade_type :: "header \<Rightarrow> string" where
  "upgrade_type h =
     (if has_token (hdr_values h ''Connection'') ''Upgrade'' then hdr_get h ''Upgrade'' else [])"

definition ascii_print :: "string \<Rightarrow> bool" where
  "ascii_print s \<longleftrightarrow> list_all (\<lambda>c. 32 \<le> byte_of c \<and> byte_of c \<le> 126) s"

subsection \<open>The request\<close>

text \<open>The clone the Director works on.\<close>

definition clone_request :: "request \<Rightarrow> request" where
  "clone_request r = (if req_content_length r = 0 then r\<lparr>req_body := None\<rparr> else r)"

definition keep_te :: "request \<Rightarrow> header \<Rightarrow> header" where
  "keep_te r h =
     (if has_token (hdr_values (req_header r) ''Te'') ''trailers'' then hdr_set ''Te'' ''trailers'' h else h)"

definition keep_upgrade :: "string \<Rightarrow> header \<Rightarrow> header" where
  "keep_upgrade t h =
     (if t \<noteq> [] then hdr_set ''Upgrade'' t (hdr_set ''Connection'' ''Upgrade'' h) else h)"

text \<open>The address of the client is added to the chain of forwarders.\<close>

definition forwarded_for :: "request \<Rightarrow> header \<Rightarrow> header" where
  "forwarded_for r h =
     (case split_host (req_remote_addr r) of
        None \<Rightarrow> h
      | Some ip \<Rightarrow>
          (case h ''X-Forwarded-For'' of
             None \<Rightarrow> hdr_set ''X-Forwarded-For'' ip h
           | Some prior \<Rightarrow>
               if prior = [] then h
               else hdr_set ''X-Forwarded-For'' (join_str '', '' prior @ '', '' @ ip) h))"

definition mark_user_agent :: "header \<Rightarrow> header" where
  "mark_user_agent h = (if h ''User-Agent'' = None then hdr_set ''User-Agent'' [] h else h)"

definition outgoing_header :: "request \<Rightarrow> header \<Rightarrow> header" where
  "outgoing_header r h =
     mark_user_agent (forwarded_for r (keep_upgrade (upgrade_type h) (keep_te r (removeHopByHopHeaders h))))"

text \<open>What the Director leaves, and what is sent of it.\<close>

definition directed :: "Settings \<Rightarrow> upstream \<Rightarrow> request \<Rightarrow> request" where
  "directed cfg up r = director cfg up (clone_request r)"

definition sent_request :: "Settings \<Rightarrow> upstream \<Rightarrow> request \<Rightarrow> request" where
  "sent_request cfg up r = on_header (outgoing_header r) (directed cfg up r)"

subsection \<open>The response\<close>

text \<open>
  One round trip: the informational responses that arrive first, then the response, or
  none when the transport fails.
\<close>

record round_trip =
  rt_early :: "(int \<times> header) list"
  rt_result :: "upstream_response option"

record 's backend =
  be_trip :: "request \<Rightarrow> 's \<Rightarrow> round_trip \<times> 's"
  be_switch :: "upstream_response \<Rightarrow> writer_op list"

definition early_ops :: "(int \<times> header) list \<Rightarrow> writer_op list" where
  "early_ops early = concat (map (\<lambda>(c, h). [OpAddHeaders h, OpStatus c, OpClearHeaders]) early)"

definition response_ops :: "upstream_response \<Rightarrow> writer_op list" where
  "response_ops res =
     [OpAddHeaders (ur_header res), OpStatus (ur_status res)]
     @ (if body_bytes (ur_body res) = [] then [] else [OpWrite (body_bytes (ur_body res))])"

definition strip_response :: "upstream_response \<Rightarrow> upstream_response" where
  "strip_response res = res\<lparr>ur_header := removeHopByHopHeaders (ur_header res)\<rparr>"

text \<open>
  The calls on the client's writer, the panic that ends the handler, and the state after
  the round trip. A body that breaks off aborts the connection.
\<close>

definition copy_back :: "Settings \<Rightarrow> 's backend \<Rightarrow> round_trip \<Rightarrow> writer_op list \<times> panic option" where
  "copy_back cfg be rt =
     (case rt_result rt of
        None \<Rightarrow> (early_ops (rt_early rt) @ [OpStatus 502], None)
      | Some res \<Rightarrow>
          if ur_status res = 101 then (early_ops (rt_early rt) @ be_switch be (modifyResponse cfg res), None)
          else let res' = modifyResponse cfg (strip_response res) in
            (early_ops (rt_early rt) @ response_ops res',
             if body_fails (ur_body res') then Some ErrAbortHandler else None))"

definition reverse_proxy ::
  "Settings \<Rightarrow> upstream \<Rightarrow> 's backend \<Rightarrow> request \<Rightarrow> 's \<Rightarrow> (writer_op list \<times> panic option) \<times> 's" where
  "reverse_proxy cfg up be r s =
     (if \<not> ascii_print (upgrade_type (req_header (directed cfg up r))) then (([OpStatus 502], None), s)
      else let (rt, s') = be_trip be (sent_request cfg up r) s in (copy_back cfg be rt, s'))"

text \<open>The transport of \<^verbatim>\<open>main\<close>: the dry-run one, or the network.\<close>

definition dry_backend :: "'s backend" where
  "dry_backend = \<lparr>be_trip = (\<lambda>r s. (\<lparr>rt_early = [], rt_result = Some (dry_run_round_trip r)\<rparr>, s)), be_switch = (\<lambda>_. [])\<rparr>"

definition proxy_backend :: "Settings \<Rightarrow> 's backend \<Rightarrow> 's backend" where
  "proxy_backend cfg network = (if DryRun cfg then dry_backend else network)"


subsection \<open>What is changed on the way\<close>

lemma canonical_hop:
  "map canonical hopHeaders = hopHeaders"
  "canonical ''X-Forwarded-For'' = ''X-Forwarded-For''"
  by code_simp+

lemma fold_hdr_del: "fold hdr_del ks h k = (if k \<in> canonical ` set ks then None else h k)"
  by (induction ks arbitrary: h) (auto simp: hdr_del_def)

text \<open>A header the hop-by-hop rules leave alone.\<close>

definition end_to_end :: "header \<Rightarrow> string \<Rightarrow> bool" where
  "end_to_end h k \<longleftrightarrow> k \<notin> set hopHeaders \<and> k \<notin> canonical ` set (connection_named h)"

lemma removeHopByHop_lookup:
  "removeHopByHopHeaders h k = (if end_to_end h k then h k else None)"
proof -
  have "canonical ` set hopHeaders = set hopHeaders"
    by (metis canonical_hop(1) list.set_map)
  then show ?thesis by (simp add: removeHopByHopHeaders_def fold_hdr_del end_to_end_def)
qed

lemma hop_members: "''Te'' \<in> set hopHeaders" "''Connection'' \<in> set hopHeaders" "''Upgrade'' \<in> set hopHeaders"
  by (simp_all add: hopHeaders_def)

lemma canonical_special: "canonical ''Te'' = ''Te''" "canonical ''Connection'' = ''Connection''"
  "canonical ''Upgrade'' = ''Upgrade''"
  by code_simp+

lemma keep_lookup:
  assumes "k \<notin> set hopHeaders"
  shows "keep_te r h k = h k" "keep_upgrade t h k = h k"
  using assms hop_members
  by (auto simp: keep_te_def keep_upgrade_def hdr_set_def canonical_special)

lemma forwarded_lookup: "k \<noteq> ''X-Forwarded-For'' \<Longrightarrow> forwarded_for r h k = h k"
  by (auto simp: forwarded_for_def hdr_set_def canonical_hop split: option.splits)

lemma agent_lookup: "k \<noteq> ''User-Agent'' \<Longrightarrow> mark_user_agent h k = h k"
  by (auto simp: mark_user_agent_def hdr_set_def canonical_hop)

lemma outgoing_lookup:
  assumes "end_to_end h k" "k \<notin> {''X-Forwarded-For'', ''User-Agent''}"
  shows "outgoing_header r h k = h k"
proof -
  have "k \<notin> set hopHeaders" using assms(1) by (simp add: end_to_end_def)
  with assms show ?thesis
    by (simp add: outgoing_header_def agent_lookup forwarded_lookup keep_lookup removeHopByHop_lookup)
qed

lemma outgoing_dropped:
  assumes "\<not> end_to_end h k" "k \<notin> {''X-Forwarded-For'', ''User-Agent''}" "k \<notin> set hopHeaders"
  shows "outgoing_header r h k = None"
  using assms
  by (simp add: outgoing_header_def agent_lookup forwarded_lookup keep_lookup removeHopByHop_lookup)

text \<open>The chain of forwarders the request goes out with.\<close>

definition forwarders :: "string list option \<Rightarrow> string \<Rightarrow> string list option" where
  "forwarders before remote =
     (case split_host remote of
        None \<Rightarrow> before
      | Some ip \<Rightarrow>
          (case before of
             None \<Rightarrow> Some [ip]
           | Some vs \<Rightarrow> if vs = [] then before else Some [join_str '', '' vs @ '', '' @ ip]))"

lemma forwarded_not_hop: "''X-Forwarded-For'' \<notin> set hopHeaders"
  by (simp add: hopHeaders_def)

lemma outgoing_forwarded:
  "outgoing_header r h ''X-Forwarded-For'' =
     forwarders (if end_to_end h ''X-Forwarded-For'' then h ''X-Forwarded-For'' else None) (req_remote_addr r)"
proof -
  let ?h = "keep_upgrade (upgrade_type h) (keep_te r (removeHopByHopHeaders h))"
  have "?h ''X-Forwarded-For'' = (if end_to_end h ''X-Forwarded-For'' then h ''X-Forwarded-For'' else None)"
    by (simp only: keep_lookup [OF forwarded_not_hop] removeHopByHop_lookup)
  then show ?thesis
    unfolding outgoing_header_def
    by (simp add: agent_lookup forwarded_for_def forwarders_def hdr_set_def canonical_hop split: option.splits)
qed

lemma outgoing_agent:
  "outgoing_header r h ''User-Agent'' =
     (case (if end_to_end h ''User-Agent'' then h ''User-Agent'' else None) of None \<Rightarrow> Some [[]] | Some vs \<Rightarrow> Some vs)"
proof -
  let ?h = "keep_upgrade (upgrade_type h) (keep_te r (removeHopByHopHeaders h))"
  have "''User-Agent'' \<notin> set hopHeaders" by (simp add: hopHeaders_def)
  from keep_lookup [OF this]
  have k: "?h ''User-Agent'' = (if end_to_end h ''User-Agent'' then h ''User-Agent'' else None)"
    by (simp only: removeHopByHop_lookup)
  have "canonical ''User-Agent'' = ''User-Agent''" by code_simp
  then show ?thesis
    unfolding outgoing_header_def
    by (simp add: forwarded_lookup mark_user_agent_def hdr_set_def k split: option.splits)
qed

lemma sent_simps' [simp]:
  "req_method (sent_request cfg up r) = req_method (directed cfg up r)"
  "req_url (sent_request cfg up r) = req_url (directed cfg up r)"
  "req_host (sent_request cfg up r) = req_host (directed cfg up r)"
  "req_body (sent_request cfg up r) = req_body (directed cfg up r)"
  "req_header (sent_request cfg up r) = outgoing_header r (req_header (directed cfg up r))"
  by (simp_all add: sent_request_def)

subsection \<open>What comes back\<close>

lemma modify_status [simp]: "ur_status (modifyResponse cfg res) = ur_status res"
  by (simp add: modifyResponse_def Let_def)

lemma modify_body:
  "\<not> body_fails (ur_body res) \<Longrightarrow> ur_body (modifyResponse cfg res) = ur_body res"
  by (simp add: modifyResponse_def Let_def)

lemma modify_fails: "body_fails (ur_body (modifyResponse cfg res)) = body_fails (ur_body res)"
  by (simp add: modifyResponse_def Let_def closed_body_def)

lemma response_ops_run:
  assumes "rw_sent w = None" "\<not> informational (ur_status res)"
  shows "rw_sent (run_ops (response_ops res) w) = Some (ur_status res, add_headers (ur_header res) (rw_header w))"
    and "rw_body (run_ops (response_ops res) w) = rw_body w @ body_bytes (ur_body res)"
  using assms by (auto simp: response_ops_def write_header_def write_body_def Let_def)

lemma response_ops_final: "\<not> informational (ur_status res) \<Longrightarrow> list_all final_op (response_ops res)"
  by (simp add: response_ops_def)

lemma modified_header:
  "ur_header (modifyResponse cfg (strip_response res)) k =
     (if k = ''X-Amz-Version-Id'' \<and> hdr_get (removeHopByHopHeaders (ur_header res)) ''x-goog-generation'' \<noteq> []
      then Some [hdr_get (removeHopByHopHeaders (ur_header res)) ''x-goog-generation'']
      else removeHopByHopHeaders (ur_header res) k)"
  by (simp add: modifyResponse_def strip_response_def hdr_set_def canonical_hop Let_def)

end
