(* ===== verification/Server_Stack.thy ===== *)
theory Server_Stack
  imports Server Reverse_Proxy
begin

text \<open>
  The middleware stack \<^verbatim>\<open>main.go\<close> builds around every handler, outermost first: the
  request id, the request log (when it is enabled), the recoverer, the metrics, the
  observability log and the concurrency limit (when it is set). The four wrappers sit on one
  response writer: what reaches the writer of the server is what each of them passes on.
  The middlewares of chi (request id, recoverer, throttle) are parameters.
\<close>

record stack =
  sk_id :: "request \<Rightarrow> string"
  sk_throttle :: "request \<Rightarrow> writer_op list option"
  sk_recover :: "request \<Rightarrow> panic \<Rightarrow> writer_op list option"

text \<open>
  What the documentation of the recoverer promises: an aborted handler is not recovered,
  any other panic is answered with the status 500, unless the request upgrades the protocol.
\<close>

definition upgrades :: "request \<Rightarrow> bool" where
  "upgrades r \<longleftrightarrow> hdr_get (req_header r) ''Connection'' = ''Upgrade''"

definition recovers :: "stack \<Rightarrow> bool" where
  "recovers sk \<longleftrightarrow>
     (\<forall>r. sk_recover sk r ErrAbortHandler = None
        \<and> (\<not> upgrades r \<longrightarrow> sk_recover sk r OtherPanic = Some [OpStatus 500]))"

lemma upgrades_id [simp]: "upgrades (r\<lparr>req_id := i\<rparr>) = upgrades r"
  by (simp add: upgrades_def)

subsection \<open>What the counting writer passes on\<close>

text \<open>Every call but a second status, or one after the first byte of the body.\<close>

fun passed :: "bool \<Rightarrow> writer_op list \<Rightarrow> writer_op list" where
  "passed wrote [] = []"
| "passed wrote (OpStatus c # xs) = (if wrote then passed True xs else OpStatus c # passed True xs)"
| "passed wrote (OpWrite b # xs) = OpWrite b # passed True xs"
| "passed wrote (x # xs) = x # passed wrote xs"

lemma passed_inner:
  "cw_inner (counting.do_ops ops v) = run_ops (passed (cw_wroteHeader v) ops) (cw_inner v)"
proof (induction ops arbitrary: v)
  case (Cons x xs)
  then show ?case by (cases x) (simp_all add: cw_WriteHeader_def cw_Write_def Let_def)
qed simp

lemma passed_final: "list_all final_op ops \<Longrightarrow> list_all final_op (passed wrote ops)"
  by (induction wrote ops rule: passed.induct) simp_all

lemma passed_true: "passed True ops = filter (\<lambda>x. \<not> status_op x) ops"
proof (induction ops)
  case (Cons x ops)
  then show ?case by (cases x) simp_all
qed simp

subsection \<open>The stack\<close>

text \<open>
  One request: the calls that reach the server's writer, the events of the collectors, the
  line of the observability log and the one of the request log, and the panic that reaches
  the server, which then closes the connection. A panic skips the code after the call of
  the next handler, except what is deferred.
\<close>

record served =
  sv_ops :: "writer_op list"
  sv_events :: "metric_event list"
  sv_observed :: "observation option"
  sv_logged :: "Record option"
  sv_panic :: "panic option"

definition throttled :: "Settings \<Rightarrow> stack \<Rightarrow> (request \<Rightarrow> handler_run) \<Rightarrow> request \<Rightarrow> handler_run" where
  "throttled cfg sk h r =
     (if 0 < MaxConcurrentRequests cfg then
        (case sk_throttle sk r of
           Some ops \<Rightarrow> \<lparr>hr_ops = ops, hr_read = 0, hr_panic = None\<rparr>
         | None \<Rightarrow> h r)
      else h r)"

definition recoverer ::
  "stack \<Rightarrow> request \<Rightarrow> writer_op list \<Rightarrow> panic option \<Rightarrow> writer_op list \<times> panic option" where
  "recoverer sk r ops p =
     (case p of
        None \<Rightarrow> (ops, None)
      | Some q \<Rightarrow> (case sk_recover sk r q of None \<Rightarrow> (ops, Some q) | Some answer \<Rightarrow> (ops @ answer, None)))"

definition middleware_stack ::
  "Settings \<Rightarrow> stack \<Rightarrow> int64 \<Rightarrow> int64 \<Rightarrow> (request \<Rightarrow> handler_run) \<Rightarrow> request \<Rightarrow> served" where
  "middleware_stack cfg sk start duration h r0 =
     (let r = r0\<lparr>req_id := sk_id sk r0\<rparr>;
          run = throttled cfg sk h r;
          observed = (if hr_panic run = None then Some (observe r (hr_ops run) empty_response) else None);
          (_, events, p) = WithMetrics (\<lambda>_. run) r empty_response;
          (ops, p') = recoverer sk r (passed False (hr_ops run)) p;
          logged = (if ReqLogEnabled cfg \<and> p' = None
                    then Some (log_record start duration r ops empty_response) else None)
      in \<lparr>sv_ops = ops, sv_events = events, sv_observed = observed, sv_logged = logged, sv_panic = p'\<rparr>)"

definition client_response :: "served \<Rightarrow> response" where
  "client_response sv = run_ops (sv_ops sv) empty_response"

subsection \<open>One status for all\<close>

text \<open>
  Whatever the handler does, the request log and the metrics record the status that is
  sent: the counting writer below them lets one status through.
\<close>


definition in_step :: "bool \<Rightarrow> statusRecorder \<Rightarrow> bool" where
  "in_step wrote v \<longleftrightarrow> (wrote \<longleftrightarrow> rw_sent (sr_inner v) \<noteq> None) \<and> sr_status v = final_status (sr_inner v)"

lemma recorder_op_in_step:
  "in_step False v \<Longrightarrow> \<not> informational c \<Longrightarrow> in_step True (sr_op (OpStatus c) v)"
  "in_step wrote v \<Longrightarrow> in_step True (sr_op (OpWrite b) v)"
  "in_step wrote v \<Longrightarrow> in_step wrote (sr_op (OpHeader k x) v)"
  "in_step wrote v \<Longrightarrow> in_step wrote (sr_op (OpAddHeaders h) v)"
  "in_step wrote v \<Longrightarrow> in_step wrote (sr_op OpClearHeaders v)"
  by (auto simp: in_step_def final_status_def sr_WriteHeader_def write_header_def split: option.splits)

lemma recorder_in_step:
  "in_step wrote v \<Longrightarrow> list_all final_op ops \<Longrightarrow>
   \<exists>wrote'. in_step wrote' (recorder.do_ops (passed wrote ops) v)"
proof (induction wrote ops arbitrary: v rule: passed.induct)
  case (2 wrote c xs)
  then show ?case using recorder_op_in_step(1) by (cases wrote) (auto simp del: sr_op.simps)
next
  case (3 wrote b xs)
  then show ?case using recorder_op_in_step(2) by (auto simp del: sr_op.simps)
qed (auto simp del: sr_op.simps intro: recorder_op_in_step)

text \<open>So the status in the request log is the one that is sent, also after a recovery.\<close>

lemma in_step_start: "in_step False (sr_wrap empty_response)"
  by (simp add: in_step_def sr_wrap_def final_status_def)

lemma logged_status:
  assumes "list_all final_op ops"
  shows "StatusCode (log_record start duration r (passed False ops) empty_response) =
    final_status (run_ops (passed False ops) empty_response)"
proof -
  obtain wrote where "in_step wrote (recorder.do_ops (passed False ops) (sr_wrap empty_response))"
    using recorder_in_step [OF in_step_start assms] by blast
  then show ?thesis
    by (simp add: in_step_def log_record_def recorder.inner_do_ops passed_final assms sr_wrap_def)
qed

lemma counted_status:
  assumes "list_all final_op ops"
  shows "observed_status (counting.do_ops ops (cw_wrap empty_response)) panicked =
    final_status (run_ops (passed False ops @ (if panicked then [OpStatus 500] else [])) empty_response)"
proof -
  have "cw_inner (counting.do_ops ops (cw_wrap empty_response)) = run_ops (passed False ops) empty_response"
    by (simp add: passed_inner cw_wrap_def)
  then show ?thesis
    using observed_status_sent [of empty_response ops panicked] assms by simp
qed


lemma counts_request:
  "request_counts (sv_events (middleware_stack cfg sk start duration h r)) =
    (let r1 = r\<lparr>req_id := sk_id sk r\<rparr>; run = throttled cfg sk h r1 in
     [(req_method r, classifyEndpoint (req_method r) (req_uri r),
       show_int (observed_status (counting.do_ops (hr_ops run) (cw_wrap empty_response)) (hr_panic run \<noteq> None)))])"
  by (simp add: middleware_stack_def WithMetrics_counts Let_def case_prod_beta)

text \<open>The three ways a request ends: it returns, it is recovered, it is aborted.\<close>

lemma stack_returns:
  assumes "throttled cfg sk h (r\<lparr>req_id := sk_id sk r\<rparr>) = run" "hr_panic run = None"
    and "list_all final_op (hr_ops run)"
    and "sv = middleware_stack cfg sk start duration h r"
  shows "sv_panic sv = None" "sv_ops sv = passed False (hr_ops run)"
    and "request_counts (sv_events sv) =
      [(req_method r, classifyEndpoint (req_method r) (req_uri r), show_int (final_status (client_response sv)))]"
    and "map_option StatusCode (sv_logged sv) =
      (if ReqLogEnabled cfg then Some (final_status (client_response sv)) else None)"
    and "sv_observed sv = Some (observe (r\<lparr>req_id := sk_id sk r\<rparr>) (hr_ops run) empty_response)"
proof -
  show ops: "sv_panic sv = None" "sv_ops sv = passed False (hr_ops run)"
    and "sv_observed sv = Some (observe (r\<lparr>req_id := sk_id sk r\<rparr>) (hr_ops run) empty_response)"
    using assms(1,2) unfolding assms(4)
    by (simp_all add: middleware_stack_def Let_def case_prod_beta WithMetrics_def recoverer_def)
  show "request_counts (sv_events sv) =
      [(req_method r, classifyEndpoint (req_method r) (req_uri r), show_int (final_status (client_response sv)))]"
    using assms(1,2) counted_status [OF assms(3), of False] ops(2)
    unfolding client_response_def by (simp add: assms(4) counts_request Let_def)
  show "map_option StatusCode (sv_logged sv) =
      (if ReqLogEnabled cfg then Some (final_status (client_response sv)) else None)"
    using assms(1,2) logged_status [OF assms(3)] ops(2)
    unfolding client_response_def
    by (simp add: assms(4) middleware_stack_def Let_def case_prod_beta WithMetrics_def recoverer_def)
qed

lemma stack_recovers:
  assumes "throttled cfg sk h (r\<lparr>req_id := sk_id sk r\<rparr>) = run" "hr_panic run = Some OtherPanic"
    and "list_all final_op (hr_ops run)" "recovers sk" "\<not> upgrades r"
    and "sv = middleware_stack cfg sk start duration h r"
  shows "sv_panic sv = None" "sv_observed sv = None"
    and "final_status (client_response sv) =
      (case rw_sent (run_ops (passed False (hr_ops run)) empty_response) of None \<Rightarrow> 500 | Some (c, _) \<Rightarrow> c)"
    and "request_counts (sv_events sv) =
      [(req_method r, classifyEndpoint (req_method r) (req_uri r), show_int (final_status (client_response sv)))]"
    and "map_option StatusCode (sv_logged sv) = (if ReqLogEnabled cfg then Some 500 else None)"
proof -
  have ops: "sv_ops sv = passed False (hr_ops run) @ [OpStatus 500]"
    using assms(1,2,4,5) unfolding assms(6)
    by (simp add: middleware_stack_def Let_def case_prod_beta WithMetrics_def recoverer_def recovers_def)
  show "sv_panic sv = None" "sv_observed sv = None"
    using assms(1,2,4,5) unfolding assms(6)
    by (simp_all add: middleware_stack_def Let_def case_prod_beta WithMetrics_def recoverer_def recovers_def)
  show "final_status (client_response sv) =
      (case rw_sent (run_ops (passed False (hr_ops run)) empty_response) of None \<Rightarrow> 500 | Some (c, _) \<Rightarrow> c)"
    by (simp add: client_response_def ops final_status_def split: option.splits)
  show "request_counts (sv_events sv) =
      [(req_method r, classifyEndpoint (req_method r) (req_uri r), show_int (final_status (client_response sv)))]"
    using assms(1,2) counted_status [OF assms(3), of True] ops
    by (simp add: assms(6) client_response_def counts_request Let_def)
  show "map_option StatusCode (sv_logged sv) = (if ReqLogEnabled cfg then Some 500 else None)"
    using assms(1,2,4,5) unfolding assms(6)
    by (simp add: middleware_stack_def Let_def case_prod_beta WithMetrics_def recoverer_def recovers_def
        log_record_def sr_WriteHeader_def)
qed

lemma stack_aborts:
  assumes "throttled cfg sk h (r\<lparr>req_id := sk_id sk r\<rparr>) = run" "hr_panic run = Some ErrAbortHandler"
    and "list_all final_op (hr_ops run)" "recovers sk"
    and "sv = middleware_stack cfg sk start duration h r"
  shows "sv_panic sv = Some ErrAbortHandler" "sv_observed sv = None" "sv_logged sv = None"
    and "sv_ops sv = passed False (hr_ops run)"
    and "request_counts (sv_events sv) =
      [(req_method r, classifyEndpoint (req_method r) (req_uri r),
        show_int (case rw_sent (client_response sv) of None \<Rightarrow> 500 | Some (c, _) \<Rightarrow> c))]"
proof -
  show ops: "sv_ops sv = passed False (hr_ops run)"
    and "sv_panic sv = Some ErrAbortHandler" "sv_observed sv = None" "sv_logged sv = None"
    using assms(1,2,4) unfolding assms(5)
    by (simp_all add: middleware_stack_def Let_def case_prod_beta WithMetrics_def recoverer_def recovers_def)
  show "request_counts (sv_events sv) =
      [(req_method r, classifyEndpoint (req_method r) (req_uri r),
        show_int (case rw_sent (client_response sv) of None \<Rightarrow> 500 | Some (c, _) \<Rightarrow> c))]"
    using assms(1,2) counted_status [OF assms(3), of True] ops
    by (auto simp: assms(5) client_response_def counts_request final_status_def Let_def split: option.splits)
qed

text \<open>Every way of ending at once: what is counted is what is sent, and nothing stays in flight.\<close>

lemma stack_in_flight: "in_flight e (sv_events (middleware_stack cfg sk start duration h r)) = 0"
  by (simp add: middleware_stack_def WithMetrics_in_flight Let_def case_prod_beta)

lemma stack_counts:
  assumes "throttled cfg sk h (r\<lparr>req_id := sk_id sk r\<rparr>) = run" "list_all final_op (hr_ops run)"
    and "recovers sk" "\<not> upgrades r" "sv = middleware_stack cfg sk start duration h r"
  shows "request_counts (sv_events sv) =
    [(req_method r, classifyEndpoint (req_method r) (req_uri r),
      show_int (if sv_panic sv = None then final_status (client_response sv)
                else case rw_sent (client_response sv) of None \<Rightarrow> 500 | Some (c, _) \<Rightarrow> c))]"
proof (cases "hr_panic run")
  case None
  from stack_returns [OF assms(1) None assms(2,5)] show ?thesis by simp
next
  case (Some p)
  then show ?thesis
    using stack_aborts [OF assms(1) _ assms(2,3,5)] stack_recovers [OF assms(1) _ assms(2,3,4,5)]
    by (cases p) simp_all
qed

text \<open>Once the counting writer has seen a status, no other one is passed on or recorded.\<close>

lemma cw_status_stays: "cw_wroteHeader v \<Longrightarrow> cw_status (counting.do_ops ops v) = cw_status v"
proof (induction ops arbitrary: v)
  case (Cons x ops)
  then show ?case by (cases x) (simp_all add: cw_WriteHeader_def cw_Write_def Let_def)
qed simp

lemma sent_kept:
  assumes "rw_sent w = Some s"
  shows "rw_sent (run_ops ops w) = Some s"
  using assms
proof (induction ops arbitrary: w)
  case (Cons x xs)
  then show ?case by (cases x) (auto simp: split: option.splits)
qed simp

lemma no_status_run:
  "rw_sent w = None \<Longrightarrow> list_all (\<lambda>x. \<not> status_op x) ops \<Longrightarrow> final_status (run_ops ops w) = 200"
proof (induction ops arbitrary: w)
  case (Cons x ops)
  show ?case
  proof (cases x)
    case (OpWrite b)
    with Cons.prems show ?thesis using sent_kept [of "write_body b w" "(200, rw_header w)" ops]
      by (simp add: final_status_def)
  qed (use Cons in simp_all)
qed (simp add: final_status_def)

text \<open>A handler that sends one status: all four wrappers agree on it.\<close>

lemma passed_headers: "list_all (\<lambda>x. \<not> status_op x) ops \<Longrightarrow> passed wrote ops = ops"
  by (induction wrote ops rule: passed.induct) simp_all

lemma passed_plain: "plain_run ops \<Longrightarrow> passed False ops = ops"
  by (induction ops rule: plain_run.induct) (simp_all add: passed_headers)

lemma observed_kept:
  assumes "list_all (\<lambda>x. \<not> status_op x) ops"
  shows "obs_status (observed.do_ops ops v) = obs_status v"
  using assms by (intro observed.status_no_header) (auto simp: list_all_iff status_op_def)

lemma observed_plain:
  assumes "plain_run ops" "rw_sent (obs_inner v) = None" "obs_status v = 200"
  shows "obs_status (observed.do_ops ops v) = final_status (run_ops ops (obs_inner v))"
  using assms
proof (induction ops arbitrary: v rule: plain_run.induct)
  case (2 c xs)
  then show ?case
    by (simp add: observed_kept obs_WriteHeader_def final_status_def sent_kept)
next
  case (3 b xs)
  then show ?case by (simp add: observed_kept final_status_def sent_kept)
qed (simp_all add: final_status_def)

lemma observe_plain:
  assumes "plain_run ops"
  shows "ob_status (observe r ops empty_response) = final_status (run_ops ops empty_response)"
  using observed_plain [OF assms, of "obs_wrap empty_response"]
  by (simp add: observe_def Let_def obs_wrap_def)

end
