(* ===== verification/Clean_Paths.thy ===== *)
theory Clean_Paths
  imports Go_Url
begin

text \<open>
  Clean paths as \<^verbatim>\<open>net/http\<close> and package \<^verbatim>\<open>path\<close> make them: the escaped path of a
  request, the path the root mux redirects an unclean one to, and which paths it leaves
  alone (those without an empty or dot segment, but for an empty one at the end).
\<close>

definition path_escape_char :: "char \<Rightarrow> string" where
  "path_escape_char c =
     (if unreserved c \<or> c \<in> set ''$&+,/:;=@'' then [c]
      else [CHR ''%'', hex_upper (byte_of c div 16), hex_upper (byte_of c mod 16)])"

text \<open>\<^verbatim>\<open>URL.EscapedPath\<close> of a parsed URL, whose raw path, if set, encodes its path.\<close>

definition escaped_path :: "url \<Rightarrow> string" where
  "escaped_path u =
     (if url_rawpath u \<noteq> [] then url_rawpath u
      else if url_path u = ''*'' then ''*'' else concat (map path_escape_char (url_path u)))"

definition clean_step :: "string \<Rightarrow> string list \<Rightarrow> string list" where
  "clean_step seg acc =
     (if seg = [] \<or> seg = ''.'' then acc else if seg = ''..'' then tl acc else seg # acc)"

text \<open>\<^verbatim>\<open>path.Clean\<close> of a rooted path, and \<^verbatim>\<open>cleanPath\<close> of \<^verbatim>\<open>net/http\<close>.\<close>

definition clean_segments :: "string \<Rightarrow> string list" where
  "clean_segments p = rev (fold clean_step (split_byte (CHR ''/'') p) [])"

definition clean_path :: "string \<Rightarrow> string" where
  "clean_path p =
     (if p = [] then ''/''
      else let q = (if hd p = CHR ''/'' then p else CHR ''/'' # p);
               np = CHR ''/'' # join_str ''/'' (clean_segments q)
           in if last q = CHR ''/'' \<and> np \<noteq> ''/'' then np @ ''/'' else np)"

subsection \<open>Which paths are clean\<close>

definition plain_segment :: "string \<Rightarrow> bool" where
  "plain_segment seg \<longleftrightarrow> seg \<noteq> [] \<and> seg \<noteq> ''.'' \<and> seg \<noteq> ''..''"

text \<open>A rooted path without an empty or dot segment, but for an empty one at the end.\<close>

definition is_clean :: "string \<Rightarrow> bool" where
  "is_clean p \<longleftrightarrow>
     (case p of
        [] \<Rightarrow> False
      | c # x \<Rightarrow> c = CHR ''/'' \<and>
          (let segs = split_byte (CHR ''/'') x in
           list_all plain_segment (butlast segs) \<and> (last segs = [] \<or> plain_segment (last segs))))"

lemma clean_step_plain:
  "list_all plain_segment acc \<Longrightarrow> list_all plain_segment (clean_step seg acc)"
  by (cases acc) (auto simp: clean_step_def plain_segment_def)

lemma clean_fold_plain:
  "list_all plain_segment acc \<Longrightarrow> list_all plain_segment (fold clean_step segs acc)"
  by (induction segs arbitrary: acc) (simp_all add: clean_step_plain)

lemma clean_step_set: "set (clean_step seg acc) \<subseteq> insert seg (set acc)"
  by (cases acc) (auto simp: clean_step_def)

lemma clean_fold_set: "set (fold clean_step segs acc) \<subseteq> set segs \<union> set acc"
proof (induction segs arbitrary: acc)
  case (Cons seg segs)
  show ?case using Cons [of "clean_step seg acc"] clean_step_set [of seg acc] by auto
qed simp

lemma clean_fold_id: "list_all plain_segment segs \<Longrightarrow> fold clean_step segs acc = rev segs @ acc"
  by (induction segs arbitrary: acc) (auto simp: clean_step_def plain_segment_def)

lemma join_snoc: "xs \<noteq> [] \<Longrightarrow> join_str sep (xs @ [y]) = join_str sep xs @ sep @ y"
  by (induction sep xs rule: join_str.induct) auto

lemma clean_segments_rooted: "clean_segments (CHR ''/'' # x) = rev (fold clean_step (split_byte (CHR ''/'') x) [])"
  by (simp add: clean_segments_def clean_step_def)

lemma clean_segments_props:
  "list_all plain_segment (clean_segments p)" "seg \<in> set (clean_segments p) \<Longrightarrow> CHR ''/'' \<notin> set seg"
proof -
  show "list_all plain_segment (clean_segments p)"
    using clean_fold_plain [of "[]" "split_byte (CHR ''/'') p"] by (simp add: clean_segments_def list_all_iff)
  show "seg \<in> set (clean_segments p) \<Longrightarrow> CHR ''/'' \<notin> set seg"
    using clean_fold_set [of "split_byte (CHR ''/'') p" "[]"] split_byte_free [of seg]
    by (auto simp: clean_segments_def)
qed

lemma plain_last:
  assumes "xs \<noteq> []" "list_all plain_segment xs" "\<And>x. x \<in> set xs \<Longrightarrow> CHR ''/'' \<notin> set x"
  shows "join_str ''/'' xs \<noteq> [] \<and> last (join_str ''/'' xs) \<noteq> CHR ''/''"
  using assms
proof (induction "''/''" xs rule: join_str.induct)
  case (2 x)
  then show ?case by (auto simp: plain_segment_def) (metis last_in_set)
qed auto

lemma clean_path_is_clean: "is_clean (clean_path p)"
proof (cases "p = []")
  case True
  then show ?thesis by (simp add: clean_path_def is_clean_def)
next
  case False
  define q where "q = (if hd p = CHR ''/'' then p else CHR ''/'' # p)"
  let ?cs = "clean_segments q"
  have cp: "clean_path p = (if last q = CHR ''/'' \<and> CHR ''/'' # join_str ''/'' ?cs \<noteq> ''/''
      then CHR ''/'' # join_str ''/'' ?cs @ ''/'' else CHR ''/'' # join_str ''/'' ?cs)"
    using False by (simp add: clean_path_def q_def Let_def)
  note plain = clean_segments_props(1) [of q] clean_segments_props(2) [of _ q]
  show ?thesis
  proof (cases "?cs = []")
    case True
    then show ?thesis by (simp add: cp is_clean_def)
  next
    case ne: False
    have s1: "split_byte (CHR ''/'') (join_str ''/'' ?cs) = ?cs"
      by (rule split_byte_join [OF ne]) (rule plain(2))
    have "split_byte (CHR ''/'') (join_str ''/'' (?cs @ [[]])) = ?cs @ [[]]"
      by (rule split_byte_join) (use plain(2) in auto)
    then have s2: "split_byte (CHR ''/'') (join_str ''/'' ?cs @ ''/'') = ?cs @ [[]]"
      by (simp add: join_snoc ne)
    have "list_all plain_segment (butlast ?cs)" "plain_segment (last ?cs)"
      using plain(1) ne by (auto simp: list_all_iff dest: in_set_butlastD)
    with plain(1) show ?thesis by (simp add: cp is_clean_def s1 s2 Let_def)
  qed
qed

lemma clean_path_clean:
  assumes "is_clean p"
  shows "clean_path p = p"
proof -
  obtain x where p: "p = CHR ''/'' # x" using assms by (auto simp: is_clean_def split: list.splits)
  let ?segs = "split_byte (CHR ''/'') x"
  have ne: "?segs \<noteq> []" by (rule split_byte_nonempty)
  have x: "x = join_str ''/'' ?segs" by (simp add: join_split_byte)
  have b: "list_all plain_segment (butlast ?segs)" and l: "last ?segs = [] \<or> plain_segment (last ?segs)"
    using assms by (simp_all add: is_clean_def p Let_def)
  have free: "\<And>y. y \<in> set ?segs \<Longrightarrow> CHR ''/'' \<notin> set y" by (rule split_byte_free)
  have segs: "?segs = butlast ?segs @ [last ?segs]" using ne by simp
  show ?thesis
  proof (cases "last ?segs = []")
    case True
    have cs: "clean_segments p = butlast ?segs"
      unfolding p clean_segments_rooted
      by (subst segs) (simp add: clean_fold_id [OF b] True clean_step_def)
    show ?thesis
    proof (cases "butlast ?segs = []")
      case b0: True
      with segs True have "?segs = [[]]" by simp
      with x have "x = []" by simp
      then show ?thesis by (simp add: clean_path_def p clean_segments_def clean_step_def)
    next
      case False
      have "x = join_str ''/'' (butlast ?segs @ [[]])" using x segs True by simp
      then have "x = join_str ''/'' (butlast ?segs) @ ''/''" by (simp add: join_snoc False)
      moreover from this have "x \<noteq> [] \<and> last x = CHR ''/''"
        by (metis append_is_Nil_conv last_snoc not_Cons_self2)
      moreover have "join_str ''/'' (butlast ?segs) \<noteq> []"
        using plain_last [OF False b] free by (auto dest: in_set_butlastD)
      ultimately show ?thesis using cs by (simp add: clean_path_def p Let_def)
    qed
  next
    case False
    then have all: "list_all plain_segment ?segs" using l b
      by (subst segs) (simp only: list_all_append list.pred_inject simp_thms)
    have cs: "clean_segments p = ?segs"
      unfolding p clean_segments_rooted by (simp add: clean_fold_id [OF all])
    have "x \<noteq> [] \<and> last x \<noteq> CHR ''/''" using plain_last [OF ne all free] x by simp
    with cs x show ?thesis by (simp add: clean_path_def p Let_def)
  qed
qed

lemma clean_path_iff: "clean_path p = p \<longleftrightarrow> is_clean p"
  using clean_path_is_clean [of p] clean_path_clean [of p] by auto

end
