(* ===== verification/Routing.thy ===== *)
theory Routing
  imports Server_Stack Clean_Paths
begin

text \<open>
  From the listener to the handlers: the root \<^verbatim>\<open>http.ServeMux\<close> of \<^verbatim>\<open>main.go\<close>, which
  redirects a path that is not clean, serves \<^verbatim>\<open>/metrics\<close> and hands everything else to
  the chi router behind the middleware stack; the routes registered there; and the S3
  handler with the reverse proxy behind it. How chi matches a request against the routes
  and what it answers itself are parameters, as is the page of the Prometheus handler.
\<close>

subsection \<open>The root mux\<close>

datatype mux_target = BadRequest | Redirect string string | MetricsPage | Router | NoPattern

definition root_mux :: "request \<Rightarrow> mux_target" where
  "root_mux r =
     (let p = escaped_path (req_url r) in
      if req_uri r = ''*'' then BadRequest
      else if req_method r \<noteq> ''CONNECT'' \<and> clean_path p \<noteq> p
      then Redirect (clean_path p) (url_rawquery (req_url r))
      else if p = ''/metrics'' then MetricsPage
      else if p \<noteq> [] \<and> hd p = CHR ''/'' then Router
      else NoPattern)"

subsection \<open>The routes\<close>

datatype endpoint = Health | Readyz | S3

definition routes :: "(string \<times> string \<times> endpoint) list" where
  "routes =
     [(''GET'', ''/health'', Health), (''GET'', ''/readyz'', Readyz),
      (''GET'', ''/*'', S3), (''PUT'', ''/*'', S3), (''POST'', ''/*'', S3), (''DELETE'', ''/*'', S3),
      (''HEAD'', ''/*'', S3)]"

record 's site =
  si_px :: "'s proxy"
  si_up :: upstream
  si_network :: "'s backend"
  si_stack :: stack
  si_find :: "(string \<times> string \<times> endpoint) list \<Rightarrow> request \<Rightarrow> endpoint + writer_op list"
  si_read :: "request \<Rightarrow> nat"
  si_scrape :: "writer_op list"

abbreviation si_config :: "'s site \<Rightarrow> Settings" where
  "si_config site \<equiv> px_config (si_px site)"

text \<open>What chi's documentation promises: a handler is called for the method it was registered for.\<close>

definition routes_by_method :: "'s site \<Rightarrow> bool" where
  "routes_by_method site \<longleftrightarrow>
     (\<forall>table r e. si_find site table r = Inl e \<longrightarrow> (\<exists>pat. (req_method r, pat, e) \<in> set table))"

subsection \<open>The handlers\<close>

text \<open>
  A handler's run: the calls on the writer, the collectors' events of \<^verbatim>\<open>main.go\<close> and the
  state of GCS afterwards.
\<close>

definition start_world :: "'s \<Rightarrow> 's world" where
  "start_world s = \<lparr>w_ops = [], w_gcs = s, w_metrics = []\<rparr>"

definition world_run :: "nat \<Rightarrow> 's world \<Rightarrow> handler_run \<times> metric list \<times> 's" where
  "world_run n w = (\<lparr>hr_ops = w_ops w, hr_read = n, hr_panic = None\<rparr>, w_metrics w, w_gcs w)"

definition forward :: "'s site \<Rightarrow> request \<Rightarrow> nat \<Rightarrow> 's world \<Rightarrow> handler_run \<times> metric list \<times> 's" where
  "forward site r n w =
     (let cfg = si_config site;
          ((ops, p), s') = reverse_proxy cfg (si_up site) (proxy_backend cfg (si_network site)) r (w_gcs w)
      in (\<lparr>hr_ops = w_ops w @ ops, hr_read = n, hr_panic = p\<rparr>, w_metrics w, s'))"

definition s3_run :: "'s site \<Rightarrow> store_reads \<Rightarrow> request \<Rightarrow> 's \<Rightarrow> handler_run \<times> metric list \<times> 's" where
  "s3_run site sr r s =
     (case handleS3Request (si_px site) sr r (start_world s) of
        Answered w \<Rightarrow> world_run (si_read site r) w
      | Forwarded kind r' w \<Rightarrow> forward site r' (si_read site r) w)"

definition router_run :: "'s site \<Rightarrow> store_reads \<Rightarrow> request \<Rightarrow> 's \<Rightarrow> handler_run \<times> metric list \<times> 's" where
  "router_run site sr r s =
     (case si_find site routes r of
        Inr ops \<Rightarrow> (\<lparr>hr_ops = ops, hr_read = 0, hr_panic = None\<rparr>, [], s)
      | Inl Health \<Rightarrow> world_run 0 (handleHealth (si_px site) (start_world s))
      | Inl Readyz \<Rightarrow> world_run 0 (handleReadyz (si_px site) (start_world s))
      | Inl S3 \<Rightarrow> s3_run site sr r s)"

subsection \<open>One request\<close>

datatype answer =
    Refused
  | Moved string string
  | Unrouted
  | Scraped "writer_op list"
  | Served served

definition rejected :: "Settings \<Rightarrow> stack \<Rightarrow> request \<Rightarrow> bool" where
  "rejected cfg sk r \<longleftrightarrow> 0 < MaxConcurrentRequests cfg \<and> sk_throttle sk (r\<lparr>req_id := sk_id sk r\<rparr>) \<noteq> None"

definition metrics_page :: "'s site \<Rightarrow> 's \<Rightarrow> writer_op list \<times> metric list" where
  "metrics_page site s =
     (if MetricsEndpoint_on (Features (si_config site)) then (si_scrape site, [])
      else let w = featureDisabled404 (si_px site) ''metrics_endpoint'' (start_world s) in (w_ops w, w_metrics w))"

definition serve ::
  "'s site \<Rightarrow> store_reads \<Rightarrow> int64 \<Rightarrow> int64 \<Rightarrow> request \<Rightarrow> 's \<Rightarrow> answer \<times> metric list \<times> 's" where
  "serve site sr start duration r s =
     (case root_mux r of
        BadRequest \<Rightarrow> (Refused, [], s)
      | Redirect p q \<Rightarrow> (Moved p q, [], s)
      | NoPattern \<Rightarrow> (Unrouted, [], s)
      | MetricsPage \<Rightarrow> (let (ops, ms) = metrics_page site s in (Scraped ops, ms, s))
      | Router \<Rightarrow>
          (let sk = si_stack site;
               sv = middleware_stack (si_config site) sk start duration (\<lambda>r. fst (router_run site sr r s)) r
           in if rejected (si_config site) sk r then (Served sv, [], s)
              else let (_, ms, s') = router_run site sr (r\<lparr>req_id := sk_id sk r\<rparr>) s in (Served sv, ms, s')))"

subsection \<open>What the S3 handler writes\<close>

lemma start_world_simps [simp]:
  "unanswered (start_world s)" "fresh (start_world s)" "w_gcs (start_world s) = s"
  "w_ops (start_world s) = []" "w_metrics (start_world s) = []" "w_rw (start_world s) = empty_response"
  by (simp_all add: start_world_def unanswered_def fresh_def)

text \<open>An answered request is answered once; a forwarded one has had nothing written.\<close>

lemma s3_answers_once:
  assumes "handleS3Request px sr r (start_world s) = Answered w"
  shows "plain_run (w_ops w)"
proof -
  have g: "case credential_gate sr r (start_world s) of
      Inl w' \<Rightarrow> answers_once w' | Inr (r', w') \<Rightarrow> unanswered w'"
    by (rule gate_answers_once) simp
  have "answers_once w"
    using assms g stages_answer_once [of _ px]
    by (fastforce simp: handleS3Request_def split: sum.splits prod.splits)
  then show ?thesis by (simp add: answers_once_def)
qed

lemma s3_forwards_unanswered:
  assumes "handleS3Request px sr r (start_world s) = Forwarded kind r' w"
  shows "list_all header_op (w_ops w)"
proof -
  have g: "case credential_gate sr r (start_world s) of
      Inl w' \<Rightarrow> answers_once w' | Inr (r', w') \<Rightarrow> unanswered w'"
    by (rule gate_answers_once) simp
  have "unanswered w"
    using assms g stages_answer_once [of _ px]
    by (fastforce simp: handleS3Request_def split: sum.splits prod.splits)
  then show ?thesis by (simp add: unanswered_def)
qed

lemma response_ops_plain: "\<not> informational (ur_status res) \<Longrightarrow> plain_run (response_ops res)"
  by (simp add: response_ops_def)

lemma copy_back_plain:
  assumes "rt_early rt = []"
    and "case rt_result rt of None \<Rightarrow> True | Some res \<Rightarrow> \<not> informational (ur_status res) \<and> ur_status res \<noteq> 101"
  shows "plain_run (fst (copy_back cfg be rt))"
  using assms
  by (auto simp: copy_back_def early_ops_def response_ops_plain strip_response_def Let_def split: option.splits)

subsection \<open>Requests that reach the S3 handler\<close>

definition numbered :: "'s site \<Rightarrow> request \<Rightarrow> request" where
  "numbered site r = r\<lparr>req_id := sk_id (si_stack site) r\<rparr>"

definition reaches_s3 :: "'s site \<Rightarrow> request \<Rightarrow> bool" where
  "reaches_s3 site r \<longleftrightarrow>
     root_mux r = Router \<and> \<not> rejected (si_config site) (si_stack site) r
     \<and> si_find site routes (numbered site r) = Inl S3"

lemma not_rejected:
  "\<not> rejected cfg sk r \<Longrightarrow> throttled cfg sk h (r\<lparr>req_id := sk_id sk r\<rparr>) = h (r\<lparr>req_id := sk_id sk r\<rparr>)"
  by (auto simp: rejected_def throttled_def)

lemma serve_s3:
  assumes "reaches_s3 site r" "s3_run site sr (numbered site r) s = (run, ms, s')"
  shows "serve site sr start duration r s =
    (Served (middleware_stack (si_config site) (si_stack site) start duration (\<lambda>_. run) r), ms, s')"
proof -
  let ?h = "\<lambda>r. fst (router_run site sr r s)"
  have nr: "\<not> rejected (si_config site) (si_stack site) r" and mux: "root_mux r = Router"
    and find: "si_find site routes (numbered site r) = Inl S3"
    using assms(1) by (simp_all add: reaches_s3_def)
  have rr: "router_run site sr (numbered site r) s = (run, ms, s')"
    using assms(2) find by (simp add: router_run_def)
  have "throttled (si_config site) (si_stack site) ?h (numbered site r) = run"
    "throttled (si_config site) (si_stack site) (\<lambda>_. run) (numbered site r) = run"
    using not_rejected [OF nr, of ?h] not_rejected [OF nr, of "\<lambda>_. run"] rr by (simp_all add: numbered_def)
  then have "middleware_stack (si_config site) (si_stack site) start duration ?h r =
    middleware_stack (si_config site) (si_stack site) start duration (\<lambda>_. run) r"
    by (simp add: middleware_stack_def numbered_def Let_def)
  then show ?thesis
    using mux nr rr by (simp add: serve_def numbered_def Let_def)
qed

text \<open>
  A network without informational responses, protocol switches and bodies that break off.
\<close>

definition calm :: "'s backend \<Rightarrow> bool" where
  "calm be \<longleftrightarrow>
     (\<forall>r s. rt_early (fst (be_trip be r s)) = []
       \<and> (case rt_result (fst (be_trip be r s)) of
            None \<Rightarrow> True
          | Some res \<Rightarrow> \<not> informational (ur_status res) \<and> ur_status res \<noteq> 101 \<and> \<not> body_fails (ur_body res)))"

lemma dry_backend_calm: "calm dry_backend"
  by (simp add: calm_def dry_backend_def dry_run_round_trip_def)

lemma proxy_backend_calm: "calm network \<Longrightarrow> calm (proxy_backend cfg network)"
  by (simp add: proxy_backend_def dry_backend_calm)

lemma reverse_proxy_plain:
  assumes "calm be" "reverse_proxy cfg up be r s = ((ops, p), s')"
  shows "plain_run ops" "p = None"
proof -
  obtain rt s1 where t: "be_trip be (sent_request cfg up r) s = (rt, s1)" by fastforce
  have c: "rt_early rt = []" "case rt_result rt of None \<Rightarrow> True
     | Some res \<Rightarrow> \<not> informational (ur_status res) \<and> ur_status res \<noteq> 101 \<and> \<not> body_fails (ur_body res)"
    using assms(1) [unfolded calm_def, rule_format, of "sent_request cfg up r" s] t by simp_all
  have "plain_run (fst (copy_back cfg be rt))"
    by (rule copy_back_plain [OF c(1)]) (use c(2) in \<open>simp split: option.splits\<close>)
  moreover have "snd (copy_back cfg be rt) = None"
    using c by (auto simp: copy_back_def modify_fails strip_response_def Let_def split: option.splits)
  ultimately show "plain_run ops" "p = None"
    using assms(2) t by (auto simp: reverse_proxy_def split: if_splits)
qed

lemma s3_run_plain:
  assumes "calm (si_network site)" "s3_run site sr r s = (run, ms, s')"
  shows "plain_run (hr_ops run)" "hr_panic run = None"
proof -
  consider w where "handleS3Request (si_px site) sr r (start_world s) = Answered w"
    | kind r' w where "handleS3Request (si_px site) sr r (start_world s) = Forwarded kind r' w"
    by (cases "handleS3Request (si_px site) sr r (start_world s)") auto
  then have "plain_run (hr_ops run) \<and> hr_panic run = None"
  proof cases
    case 1
    then show ?thesis using assms(2) s3_answers_once [OF 1] by (auto simp: s3_run_def world_run_def)
  next
    case 2
    let ?x = "reverse_proxy (si_config site) (si_up site) (proxy_backend (si_config site) (si_network site)) r' (w_gcs w)"
    have rp: "?x = ((fst (fst ?x), snd (fst ?x)), snd ?x)" by simp
    have "run = fst (forward site r' (si_read site r) w)"
      using assms(2) by (simp add: s3_run_def 2)
    then have "hr_ops run = w_ops w @ fst (fst ?x)" "hr_panic run = snd (fst ?x)"
      by (simp_all add: forward_def Let_def case_prod_beta)
    then show ?thesis
      using reverse_proxy_plain [OF proxy_backend_calm [OF assms(1)] rp]
        plain_run_headers [OF s3_forwards_unanswered [OF 2]]
      by (simp only: simp_thms)
  qed
  then show "plain_run (hr_ops run)" "hr_panic run = None" by simp_all
qed

subsection \<open>From the S3 handler to the client\<close>

lemma s3_forwards_untouched:
  assumes "handleS3Request px sr r (start_world s) = Forwarded kind r' w"
  shows "w_ops w = []" "w_gcs w = s"
proof -
  have st: "w_ops w = []" if "w_ops v = []" "run_stages (stages px q) v = Inr w" for q v
  proof -
    have "list_all (stage_ok (\<lambda>w. w_ops w = []) (\<lambda>_. True)) (stages px q)"
      by (rule stages_ok) (auto simp: count_metric_def)
    from run_stages_ok [OF this that(1)] that(2) show ?thesis by simp
  qed
  obtain v where v: "credential_gate sr r (start_world s) = Inr (r', v)" "run_stages (stages px r') v = Inr w"
    using assms by (auto simp: handleS3Request_def split: sum.splits prod.splits)
  from v(1) have g: "w_ops v = []" "w_gcs v = s"
    by (cases rule: gate_cases [of sr r "start_world s"]; auto simp: count_metric_def)+
  from st [OF g(1) v(2)] show "w_ops w = []" .
  from going_on_leaves_gcs [OF v(2)] g(2) show "w_gcs w = s" by simp
qed

lemma forwarded_run:
  assumes "\<not> DryRun (si_config site)"
    and "handleS3Request (si_px site) sr r (start_world s) = Forwarded kind r' w"
    and "ascii_print (upgrade_type (req_header (directed (si_config site) (si_up site) r')))"
    and "be_trip (si_network site) (sent_request (si_config site) (si_up site) r') s = (rt, s')"
  shows "s3_run site sr r s =
    (\<lparr>hr_ops = fst (copy_back (si_config site) (si_network site) rt), hr_read = si_read site r,
      hr_panic = snd (copy_back (si_config site) (si_network site) rt)\<rparr>, w_metrics w, s')"
  using assms s3_forwards_untouched [OF assms(2)]
  by (simp add: s3_run_def forward_def reverse_proxy_def proxy_backend_def Let_def case_prod_beta)

lemma add_headers_empty: "hdr_values (add_headers h Map.empty) k = hdr_values h k"
  by (simp add: hdr_values_def add_headers_def split: option.splits)

lemma served_once:
  assumes "reaches_s3 site r" "s3_run site sr (numbered site r) s = (run, ms, s')"
    and "plain_run (hr_ops run)" "hr_panic run = None"
  obtains sv where "serve site sr start duration r s = (Served sv, ms, s')" "sv_panic sv = None"
    "client_response sv = run_ops (hr_ops run) empty_response"
    "request_counts (sv_events sv) =
      [(req_method r, classifyEndpoint (req_method r) (req_uri r), show_int (final_status (client_response sv)))]"
    "map_option StatusCode (sv_logged sv) =
      (if ReqLogEnabled (si_config site) then Some (final_status (client_response sv)) else None)"
    "map_option ob_status (sv_observed sv) = Some (final_status (client_response sv))"
proof -
  define sv where "sv = middleware_stack (si_config site) (si_stack site) start duration (\<lambda>_. run) r"
  have th: "throttled (si_config site) (si_stack site) (\<lambda>_. run) (r\<lparr>req_id := sk_id (si_stack site) r\<rparr>) = run"
    using assms(1) not_rejected by (simp add: reaches_s3_def)
  note st = stack_returns [OF th assms(4) plain_run_final [OF assms(3)] sv_def]
  have cl: "client_response sv = run_ops (hr_ops run) empty_response"
    by (simp add: client_response_def st(2) passed_plain [OF assms(3)])
  have ob: "map_option ob_status (sv_observed sv) = Some (final_status (client_response sv))"
    by (simp add: st(5) observe_plain [OF assms(3)] cl)
  show thesis
    using that [OF _ st(1) cl st(3,4) ob] serve_s3 [OF assms(1,2)] by (simp add: sv_def)
qed

lemma relayed_header:
  "hdr_values (ur_header (modifyResponse cfg (strip_response res))) k =
    (let generation = (if end_to_end (ur_header res) ''X-Goog-Generation''
                       then hdr_get (ur_header res) ''X-Goog-Generation'' else [])
     in if k = ''X-Amz-Version-Id'' \<and> generation \<noteq> [] then [generation]
        else if end_to_end (ur_header res) k then hdr_values (ur_header res) k else [])"
proof -
  have "canonical ''X-Goog-Generation'' = ''X-Goog-Generation''" by code_simp
  then show ?thesis
    by (auto simp: hdr_values_def modified_header removeHopByHop_lookup hdr_get_def Let_def)
qed

text \<open>
  A request that is forwarded and reaches the transport: what the reverse proxy copies back
  goes through the middleware stack as it is.
\<close>

definition relays :: "'s site \<Rightarrow> store_reads \<Rightarrow> request \<Rightarrow> 's \<Rightarrow> round_trip \<Rightarrow> 's \<Rightarrow> bool" where
  "relays site sr r s rt s' \<longleftrightarrow>
     reaches_s3 site r \<and> \<not> DryRun (si_config site)
     \<and> (case handleS3Request (si_px site) sr (numbered site r) (start_world s) of
          Answered w \<Rightarrow> False
        | Forwarded kind r' w \<Rightarrow>
            ascii_print (upgrade_type (req_header (directed (si_config site) (si_up site) r')))
            \<and> be_trip (si_network site) (sent_request (si_config site) (si_up site) r') s = (rt, s'))"

lemma relays_run:
  assumes "relays site sr r s rt s'" "copy_back (si_config site) (si_network site) rt = (ops, p)"
  obtains ms n where "s3_run site sr (numbered site r) s = (\<lparr>hr_ops = ops, hr_read = n, hr_panic = p\<rparr>, ms, s')"
proof -
  obtain kind r' w where f: "handleS3Request (si_px site) sr (numbered site r) (start_world s) = Forwarded kind r' w"
    using assms(1) by (auto simp: relays_def split: outcome.splits)
  then have "ascii_print (upgrade_type (req_header (directed (si_config site) (si_up site) r')))"
    "be_trip (si_network site) (sent_request (si_config site) (si_up site) r') s = (rt, s')"
    "\<not> DryRun (si_config site)"
    using assms(1) by (simp_all add: relays_def)
  from that [OF forwarded_run [OF this(3) f this(1,2), unfolded assms(2) fst_conv snd_conv]]
  show thesis .
qed

lemma run_body_kept:
  "list_all (\<lambda>x. \<forall>b. x \<noteq> OpWrite b) ops \<Longrightarrow> rw_body (run_ops ops w) = rw_body w"
proof (induction ops arbitrary: w)
  case (Cons x ops)
  then show ?case by (cases x) simp_all
qed simp

lemma run_body_early:
  "rw_body (run_ops (filter (\<lambda>x. \<not> status_op x) (early_ops early @ response_ops res)) w) =
   rw_body w @ body_bytes (ur_body res)"
proof -
  have "list_all (\<lambda>x. \<forall>b. x \<noteq> OpWrite b) (filter (\<lambda>x. \<not> status_op x) (early_ops early))"
    by (auto simp: early_ops_def list_all_iff)
  from run_body_kept [OF this] show ?thesis by (simp add: response_ops_def)
qed

lemma relayed_copy:
  "copy_back cfg be \<lparr>rt_early = early, rt_result = None\<rparr> = (early_ops early @ [OpStatus 502], None)"
  "ur_status res \<noteq> 101 \<Longrightarrow> copy_back cfg be \<lparr>rt_early = early, rt_result = Some res\<rparr> =
     (early_ops early @ response_ops (modifyResponse cfg (strip_response res)),
      if body_fails (ur_body res) then Some ErrAbortHandler else None)"
  by (simp_all add: copy_back_def modify_fails strip_response_def Let_def)

lemma relays_served:
  assumes "relays site sr r s rt s'" "copy_back (si_config site) (si_network site) rt = (ops, p)"
  obtains ms run where "hr_ops run = ops" "hr_panic run = p"
    "serve site sr start duration r s =
      (Served (middleware_stack (si_config site) (si_stack site) start duration (\<lambda>_. run) r), ms, s')"
    "throttled (si_config site) (si_stack site) (\<lambda>_. run) (r\<lparr>req_id := sk_id (si_stack site) r\<rparr>) = run"
proof -
  have reach: "reaches_s3 site r" using assms(1) by (simp add: relays_def)
  obtain ms n where "s3_run site sr (numbered site r) s = (\<lparr>hr_ops = ops, hr_read = n, hr_panic = p\<rparr>, ms, s')"
    using relays_run [OF assms(1,2)] .
  from serve_s3 [OF reach this] show thesis
    by (rule that [rotated 2]) (use reach not_rejected in \<open>simp_all add: reaches_s3_def\<close>)
qed

lemma relays_once:
  assumes "relays site sr r s rt s'" "copy_back (si_config site) (si_network site) rt = (ops, None)"
    and "plain_run ops"
  obtains sv ms where "serve site sr start duration r s = (Served sv, ms, s')" "sv_panic sv = None"
    "client_response sv = run_ops ops empty_response"
    "request_counts (sv_events sv) =
      [(req_method r, classifyEndpoint (req_method r) (req_uri r), show_int (final_status (client_response sv)))]"
    "map_option StatusCode (sv_logged sv) =
      (if ReqLogEnabled (si_config site) then Some (final_status (client_response sv)) else None)"
    "map_option ob_status (sv_observed sv) = Some (final_status (client_response sv))"
proof -
  obtain ms n where run: "s3_run site sr (numbered site r) s = (\<lparr>hr_ops = ops, hr_read = n, hr_panic = None\<rparr>, ms, s')"
    using relays_run [OF assms(1,2)] .
  show thesis
    by (rule served_once [OF _ run, of start duration]) (use assms(1,3) that in \<open>auto simp: relays_def\<close>)
qed

subsection \<open>Any sequence of requests\<close>

definition serve_all :: "'s site \<Rightarrow> (store_reads \<times> int64 \<times> int64 \<times> request) list \<Rightarrow> 's \<Rightarrow> 's" where
  "serve_all site reqs s = fold (\<lambda>(sr, start, duration, r) s. snd (snd (serve site sr start duration r s))) reqs s"

lemma serve_all_keeps:
  assumes "\<And>sr start duration r t. (sr, start, duration, r) \<in> set reqs \<Longrightarrow>
      snd (snd (serve site sr start duration r t)) = t"
  shows "serve_all site reqs s = s"
  using assms by (induction reqs) (fastforce simp: serve_all_def)+

lemma serve_state:
  "snd (snd (serve site sr start duration r s)) =
     (if root_mux r = Router \<and> \<not> rejected (si_config site) (si_stack site) r
      then snd (snd (router_run site sr (numbered site r) s)) else s)"
  by (simp add: serve_def numbered_def Let_def split: mux_target.splits prod.splits)

lemma world_run_gcs [simp]: "snd (snd (world_run n w)) = w_gcs w"
  by (simp add: world_run_def)

lemma health_gcs: "w_gcs (handleHealth px w) = w_gcs w"
  by (simp add: handleHealth_def send_text_def featureDisabled404_def)

lemma dry_proxy_gcs: "DryRun cfg \<Longrightarrow> snd (reverse_proxy cfg up (proxy_backend cfg network) r s) = s"
  by (simp add: reverse_proxy_def proxy_backend_def dry_backend_def)

lemma dry_run_serves:
  assumes "DryRun (si_config site)"
  shows "snd (snd (serve site sr start duration r s)) = s"
proof -
  have "w_gcs (handleReadyz (si_px site) (start_world s)) = s"
    by (simp add: handleReadyz_def featureDisabled404_def send_text_def assms)
  moreover have "snd (snd (s3_run site sr r' s)) = s" for r'
    using dry_run_handled [OF assms, where sr = sr and r = r' and w = "start_world s"] dry_proxy_gcs [OF assms]
    by (auto simp: s3_run_def forward_def Let_def case_prod_beta split: outcome.splits)
  ultimately have "snd (snd (router_run site sr r' s)) = s" for r'
    by (auto simp: router_run_def health_gcs split: sum.splits endpoint.splits)
  then show ?thesis by (simp add: serve_state)
qed

lemma stranger_serves:
  assumes "0 < Size (sr_gate sr)" "0 < Size (sr_size sr)"
    and "Option.bind (client_access_key r) (Lookup (sr_lookup sr)) = None"
    and "si_find site routes (numbered site r) \<noteq> Inl Readyz"
  shows "snd (snd (serve site sr start duration r s)) = s"
proof -
  have "client_access_key (numbered site r) = client_access_key r"
    by (cases "ExtractAccessKey (header_value r ''Authorization'')")
      (simp_all add: client_access_key_def numbered_def header_value_def)
  then have "\<forall>ak. client_access_key (numbered site r) = Some ak \<longrightarrow> Lookup (sr_lookup sr) ak = None"
    using assms(3) by auto
  from unauthenticated_rejected [OF assms(1,2) start_world_simps(2) this, of "si_px site" s]
  have "snd (snd (s3_run site sr (numbered site r) s)) = s"
    by (auto simp: s3_run_def)
  then show ?thesis
    using assms(4) by (auto simp: serve_state router_run_def health_gcs split: sum.splits endpoint.splits)
qed

end
