(* ===== verification/Start_Up.thy ===== *)
theory Start_Up
  imports Routing
begin

text \<open>
  How \<^verbatim>\<open>main\<close> brings the server up: the configuration, the request log and its clean-up,
  the seeded credential store and its watcher, the GCS client and its warm-up, the address
  of the storage host, and the transports of the two proxies. What the environment, the
  file system, \<^verbatim>\<open>fsnotify\<close>, the client library and \<^verbatim>\<open>url.Parse\<close> answer are parameters.
\<close>

subsection \<open>Paths\<close>

text \<open>\<^verbatim>\<open>filepath.Clean\<close> and \<^verbatim>\<open>filepath.Dir\<close> on Unix.\<close>

definition file_step :: "bool \<Rightarrow> string \<Rightarrow> string list \<Rightarrow> string list" where
  "file_step rooted seg acc =
     (if seg = [] \<or> seg = ''.'' then acc
      else if seg = ''..'' then
        (case acc of
           [] \<Rightarrow> if rooted then [] else [seg]
         | a # as \<Rightarrow> if a = ''..'' then seg # acc else as)
      else seg # acc)"

definition file_clean :: "string \<Rightarrow> string" where
  "file_clean p =
     (let rooted = (p \<noteq> [] \<and> hd p = CHR ''/'');
          body = join_str ''/'' (rev (fold (file_step rooted) (split_byte (CHR ''/'') p) []))
      in if rooted then CHR ''/'' # body else if body = [] then ''.'' else body)"

definition path_dir :: "string \<Rightarrow> string" where
  "path_dir p = file_clean (rev (dropWhile ((\<noteq>) (CHR ''/'')) (rev p)))"

subsection \<open>The request log\<close>

text \<open>\<^verbatim>\<open>reqlog.Init\<close>: what the library's file writer is given.\<close>

record log_writer =
  lw_FileName :: string
  lw_RotateDaily :: bool
  lw_RotateSize :: bool
  lw_MaxSize :: int
  lw_MaxBackup :: int
  lw_ChanBufferLength :: int
  lw_WriteFileBuffer :: int

definition reqlog_Init :: "string \<Rightarrow> int \<Rightarrow> int \<Rightarrow> int \<Rightarrow> log_writer" where
  "reqlog_Init filePath maxSizeMB maxBackup chanBuf =
     \<lparr>lw_FileName = filePath, lw_RotateDaily = True, lw_RotateSize = (0 < maxSizeMB), lw_MaxSize = maxSizeMB,
      lw_MaxBackup = maxBackup, lw_ChanBufferLength = chanBuf, lw_WriteFileBuffer = 5\<rparr>"

text \<open>The directory the clean-up works on.\<close>

definition log_dir :: "Settings \<Rightarrow> string" where
  "log_dir cfg = path_dir (replace_all ''%Y%M%D'' ''placeholder'' (ReqLogPath cfg))"

text \<open>\<^verbatim>\<open>StartCleanup\<close>: the next run is due five minutes past the next midnight of the local zone.\<close>

definition next_cleanup :: "zone \<Rightarrow> gotime \<Rightarrow> gotime" where
  "next_cleanup z now =
     zn_moment z \<lparr>gt_date = next_day (gt_date (zn_civil z now)), gt_nanos = 300 * 1000000000\<rparr>"

text \<open>
  The loop: it sleeps until the next run is due, and wakes up then or later; the directory
  is the one found then, if it can be read.
\<close>

inductive cleanup_loop ::
  "zone \<Rightarrow> nat \<Rightarrow> bool \<Rightarrow> (string \<Rightarrow> bool) \<Rightarrow> (gotime \<times> dir_entry list) \<Rightarrow> (gotime \<times> dir_entry list) \<Rightarrow> bool"
  for z keepDays read_ok remove_ok where
  Run: "\<not> time_after (next_cleanup z now) woken \<Longrightarrow>
    cleanup_loop z keepDays read_ok remove_ok (now, files)
      (woken, cleanOldLogs z woken keepDays read_ok remove_ok files)"

subsection \<open>The transports\<close>

record transport =
  tr_MaxIdleConns :: int
  tr_MaxIdleConnsPerHost :: int
  tr_IdleConnTimeout :: int64
  tr_ResponseHeaderTimeout :: int64
  tr_TLSHandshakeTimeout :: int64
  tr_ExpectContinueTimeout :: int64
  tr_DisableCompression :: bool
  tr_ForceAttemptHTTP2 :: bool
  tr_ReadBufferSize :: int
  tr_WriteBufferSize :: int

definition newBaseTransport :: "Settings \<Rightarrow> int \<Rightarrow> int \<Rightarrow> transport" where
  "newBaseTransport cfg readBuf writeBuf =
     \<lparr>tr_MaxIdleConns = MaxIdleConns cfg, tr_MaxIdleConnsPerHost = MaxIdleConnsPerHost cfg,
      tr_IdleConnTimeout = IdleConnTimeout cfg, tr_ResponseHeaderTimeout = ResponseHeaderTimeout cfg,
      tr_TLSHandshakeTimeout = 10 * nanos_per_sec, tr_ExpectContinueTimeout = nanos_per_sec,
      tr_DisableCompression = True, tr_ForceAttemptHTTP2 = True,
      tr_ReadBufferSize = readBuf, tr_WriteBufferSize = writeBuf\<rparr>"

datatype round_tripper = DryRunTransport | Network transport

text \<open>A proxy: its transport, its flush interval, and the size of the buffers of its pool.\<close>

record proxy_setup =
  ps_transport :: round_tripper
  ps_flush :: flush
  ps_buffers :: "int option"

definition buffer_pool :: "Settings \<Rightarrow> int option" where
  "buffer_pool cfg = (if 0 < ProxyBufferSize cfg then Some (ProxyBufferSize cfg) else None)"

definition read_proxy :: "Settings \<Rightarrow> proxy_setup" where
  "read_proxy cfg =
     \<lparr>ps_transport = (if DryRun cfg then DryRunTransport else Network (newBaseTransport cfg (ReadBufferSize cfg) 0)),
      ps_flush = read_flush cfg, ps_buffers = buffer_pool cfg\<rparr>"

definition write_proxy :: "Settings \<Rightarrow> proxy_setup" where
  "write_proxy cfg =
     \<lparr>ps_transport = (if DryRun cfg then DryRunTransport else Network (newBaseTransport cfg 0 (WriteBufferSize cfg))),
      ps_flush = FlushByFramework, ps_buffers = buffer_pool cfg\<rparr>"

subsection \<open>The start-up sequence\<close>

text \<open>
  What is outside: the environment, the files, whether a directory can be watched, whether
  a client can be made with a key file, the parser of URLs, and the calls of the client.
\<close>

record 's host =
  ho_env :: environ
  ho_read :: "string \<Rightarrow> bytes option"
  ho_watch :: "string \<Rightarrow> bool"
  ho_client :: "string \<Rightarrow> bool"
  ho_url :: "string \<Rightarrow> url option"
  ho_api :: "'s gcs_api"

datatype startup_error = ConfigRefused fatal_error | NoClient | BadStorageURL

record running =
  ru_config :: Settings
  ru_store :: store
  ru_watched :: "string option"
  ru_client :: bool
  ru_url :: url
  ru_logger :: "log_writer option"
  ru_cleanup :: "(string \<times> int) option"
  ru_read :: proxy_setup
  ru_write :: proxy_setup

text \<open>\<^verbatim>\<open>Watch\<close>: without its directory the server goes on with the seeded store.\<close>

definition watched_path :: "'s host \<Rightarrow> Settings \<Rightarrow> string option" where
  "watched_path ho cfg =
     (let path = CredentialsFile cfg in if path \<noteq> [] \<and> ho_watch ho (path_dir path) then Some path else None)"

definition warmup_timeout :: deadline where
  "warmup_timeout = Some (10 * nanos_per_sec)"

text \<open>The client and its warm-up call, whose outcome does not matter.\<close>

definition start_client :: "'s host \<Rightarrow> Settings \<Rightarrow> 's \<Rightarrow> (startup_error + bool) \<times> 's" where
  "start_client ho cfg s =
     (if DryRun cfg then (Inr False, s)
      else if \<not> ho_client ho (JSONKey cfg) then (Inl NoClient, s)
      else if TargetBucket cfg \<noteq> []
      then (Inr True, snd (api_bucket_attrs (ho_api ho) warmup_timeout (TargetBucket cfg) s))
      else (Inr True, s))"

definition start_up :: "'s host \<Rightarrow> 's \<Rightarrow> (startup_error + running) \<times> 's" where
  "start_up ho s =
     (case LoadConfig (ho_read ho) (ho_env ho) of
        Inl e \<Rightarrow> (Inl (ConfigRefused e), s)
      | Inr cfg \<Rightarrow>
          (case start_client ho cfg s of
             (Inl e, s') \<Rightarrow> (Inl e, s')
           | (Inr client, s') \<Rightarrow>
               (case ho_url ho (StorageBaseURL cfg) of
                  None \<Rightarrow> (Inl BadStorageURL, s')
                | Some u \<Rightarrow>
                    (Inr \<lparr>ru_config = cfg, ru_store = seed_store cfg, ru_watched = watched_path ho cfg,
                       ru_client = client, ru_url = u,
                       ru_logger = (if ReqLogEnabled cfg
                         then Some (reqlog_Init (ReqLogPath cfg) (ReqLogMaxSizeMB cfg) (ReqLogMaxBackup cfg) (ReqLogChanBuf cfg))
                         else None),
                       ru_cleanup = (if ReqLogEnabled cfg then Some (log_dir cfg, ReqLogKeepDays cfg) else None),
                       ru_read = read_proxy cfg, ru_write = write_proxy cfg\<rparr>, s'))))"

text \<open>A site that is the running server: its configuration, client, calls and address.\<close>

definition runs :: "'s host \<Rightarrow> running \<Rightarrow> 's site \<Rightarrow> bool" where
  "runs ho ru site \<longleftrightarrow>
     si_config site = ru_config ru \<and> px_client (si_px site) = ru_client ru \<and> px_api (si_px site) = ho_api ho
     \<and> up_url (si_up site) = ru_url ru"

text \<open>The stores the requests of a server can read: the seeded one, or those of the watcher.\<close>

definition store_of :: "(nat \<Rightarrow> string \<Rightarrow> bytes option) \<Rightarrow> running \<Rightarrow> store \<Rightarrow> bool" where
  "store_of content ru st \<longleftrightarrow>
     st = ru_store ru
     \<or> (\<exists>path t w. ru_watched ru = Some path \<and> watch_reachable content path (start_watcher (ru_store ru) t) w
          \<and> st = wt_store w)"

definition reads_of :: "(nat \<Rightarrow> string \<Rightarrow> bytes option) \<Rightarrow> running \<Rightarrow> store_reads \<Rightarrow> bool" where
  "reads_of content ru sr \<longleftrightarrow>
     store_of content ru (sr_gate sr) \<and> store_of content ru (sr_size sr) \<and> store_of content ru (sr_lookup sr)"

subsection \<open>What runs\<close>

lemma start_up_running:
  assumes "start_up ho s = (Inr ru, s')"
  shows "LoadConfig (ho_read ho) (ho_env ho) = Inr (ru_config ru)"
    and "ru_store ru = seed_store (ru_config ru)" "ru_watched ru = watched_path ho (ru_config ru)"
    and "start_client ho (ru_config ru) s = (Inr (ru_client ru), s')"
    and "ho_url ho (StorageBaseURL (ru_config ru)) = Some (ru_url ru)"
    and "ru_read ru = read_proxy (ru_config ru)" "ru_write ru = write_proxy (ru_config ru)"
  using assms by (auto simp: start_up_def split: sum.splits option.splits prod.splits)

lemma started_client:
  assumes "start_client ho cfg s = (Inr client, s')"
  shows "client \<longleftrightarrow> \<not> DryRun cfg" "DryRun cfg \<Longrightarrow> s' = s"
  using assms by (auto simp: start_client_def split: if_splits)

lemma store_of_at:
  assumes "start_up ho s = (Inr ru, s')" "store_of content ru st"
  shows "store_at content (ru_config ru) st"
proof -
  note run = start_up_running [OF assms(1)]
  from assms(2) consider "st = seed_store (ru_config ru)"
    | t w where "CredentialsFile (ru_config ru) \<noteq> []" "st = wt_store w"
        "watch_reachable content (CredentialsFile (ru_config ru)) (start_watcher (seed_store (ru_config ru)) t) w"
    by (auto simp: store_of_def run(2,3) watched_path_def Let_def split: if_splits)
  then show ?thesis
    by cases (auto intro: store_at.intros)
qed

lemma reads_of_at:
  "start_up ho s = (Inr ru, s') \<Longrightarrow> reads_of content ru sr \<Longrightarrow> reads_at content (ru_config ru) sr"
  by (simp add: reads_of_def reads_at_def store_of_at)

end
