(* ===== verification/Watch_Stop.thy ===== *)
theory Watch_Stop
  imports Start_Up
begin

text \<open>
  \<^verbatim>\<open>Store.Watch\<close> of \<^verbatim>\<open>pkg/credstore/credstore.go\<close> around the loop of Watcher: how it starts, and
  the function \<open>stop\<close> it returns. The test of the channel \<open>done\<close> and its \<open>close\<close> are two steps,
  which callers on several goroutines interleave with each other and with the loop. The proxy
  itself never calls \<open>stop\<close>: its watcher ends with the process.
\<close>

subsection \<open>Starting\<close>

datatype watch_error = Create_watcher | Watch_directory string

text \<open>
  Whether \<^verbatim>\<open>fsnotify\<close> gives a watcher and takes the directory are arguments, as is the time. With
  each error comes whether a watcher was made that has to be closed again.
\<close>

definition Watch :: "bool \<Rightarrow> (string \<Rightarrow> bool) \<Rightarrow> string \<Rightarrow> store \<Rightarrow> nat \<Rightarrow> (watch_error \<times> bool) + watcher" where
  "Watch created adds path s t =
     (if \<not> created then Inl (Create_watcher, False)
      else let dir = path_dir path in
        if \<not> adds dir then Inl (Watch_directory dir, True) else Inr (start_watcher s t))"

text \<open>Start_Up's view of \<^verbatim>\<open>Watch\<close> is whether it succeeds.\<close>

lemma watched_path_iff_Watch:
  assumes "ho_watch ho = (\<lambda>d. created \<and> adds d)" "CredentialsFile cfg \<noteq> []"
  shows "watched_path ho cfg = Some (CredentialsFile cfg) \<longleftrightarrow> (\<exists>w. Watch created adds (CredentialsFile cfg) s t = Inr w)"
  using assms by (simp add: watched_path_def Watch_def Let_def)

subsection \<open>Stopping\<close>

text \<open>
  A goroutine that calls \<open>stop\<close>: before the test of \<open>done\<close>, past it, past \<open>close(done)\<close>, returned,
  or panicked because the channel was closed already.
\<close>

datatype stopper = Calling | Past_test | Past_close | Returned | Panicked

record watching =
  wg_watcher :: watcher
  wg_done :: bool
  wg_closed :: nat
  wg_stoppers :: "stopper list"

definition stop_next :: "watching \<Rightarrow> nat \<Rightarrow> watching" where
  "stop_next g i =
     (let to = (\<lambda>p g. g\<lparr>wg_stoppers := (wg_stoppers g)[i := p]\<rparr>) in
      case wg_stoppers g ! i of
        Calling \<Rightarrow> if wg_done g then to Returned g else to Past_test g
      | Past_test \<Rightarrow> if wg_done g then to Panicked g else to Past_close (g\<lparr>wg_done := True\<rparr>)
      | Past_close \<Rightarrow> to Returned (g\<lparr>wg_closed := wg_closed g + 1\<rparr>)
      | Returned \<Rightarrow> g
      | Panicked \<Rightarrow> g)"

text \<open>
  The loop returns on the closed channel \<open>done\<close>, or once the watcher is closed and with it the
  channels of its events and errors; a new caller may come at any time.
\<close>

inductive watching_step ::
  "(nat \<Rightarrow> string \<Rightarrow> bytes option) \<Rightarrow> string \<Rightarrow> watching \<Rightarrow> watching \<Rightarrow> bool"
  for content path where
  Loop: "watch_step content path (wg_watcher g) w \<Longrightarrow>
    wt_running w = wt_running (wg_watcher g) \<or> wg_done g \<or> 0 < wg_closed g \<Longrightarrow>
    watching_step content path g (g\<lparr>wg_watcher := w\<rparr>)"
| Call: "watching_step content path g (g\<lparr>wg_stoppers := wg_stoppers g @ [Calling]\<rparr>)"
| Stopper: "i < length (wg_stoppers g) \<Longrightarrow> watching_step content path g (stop_next g i)"

definition watching_start :: "watcher \<Rightarrow> watching" where
  "watching_start w = \<lparr>wg_watcher = w, wg_done = False, wg_closed = 0, wg_stoppers = []\<rparr>"

inductive watching_reachable ::
  "(nat \<Rightarrow> string \<Rightarrow> bytes option) \<Rightarrow> string \<Rightarrow> watcher \<Rightarrow> watching \<Rightarrow> bool"
  for content path w0 where
  Begin: "watching_reachable content path w0 (watching_start w0)"
| Next: "watching_reachable content path w0 g \<Longrightarrow> watching_step content path g g' \<Longrightarrow>
    watching_reachable content path w0 g'"

lemma stop_next_keeps [simp]:
  "wg_watcher (stop_next g i) = wg_watcher g" "wg_stoppers (stop_next g i) = [] \<longleftrightarrow> wg_stoppers g = []"
  by (simp_all add: stop_next_def Let_def split: stopper.splits)

text \<open>What Watcher says of the loop holds whoever calls \<open>stop\<close>.\<close>

lemma watching_refines_watch:
  "watching_reachable content path w0 g \<Longrightarrow> watch_reachable content path w0 (wg_watcher g)"
proof (induction rule: watching_reachable.induct)
  case Begin
  show ?case by (simp add: watching_start_def watch_reachable.Start)
next
  case (Next g g')
  from Next(2) show ?case
    by cases (use Next(3) in \<open>auto intro: watch_reachable.Step\<close>)
qed

text \<open>
  The counts behind it: one caller at most is past its \<open>close\<close>, and only once \<open>done\<close> is closed;
  the watcher is closed at most once.
\<close>

definition stop_inv :: "watching \<Rightarrow> bool" where
  "stop_inv g \<longleftrightarrow> wg_closed g + count_list (wg_stoppers g) Past_close = (if wg_done g then 1 else 0)
     \<and> (wt_running (wg_watcher g) \<or> wg_done g)
     \<and> (Returned \<in> set (wg_stoppers g) \<or> Panicked \<in> set (wg_stoppers g) \<longrightarrow> wg_done g)"

lemma count_list_update:
  "i < length xs \<Longrightarrow>
    count_list (xs[i := x]) y + (if xs ! i = y then 1 else 0) = count_list xs y + (if x = y then 1 else 0)"
proof (induction xs arbitrary: i)
  case (Cons z zs)
  then show ?case by (cases i) fastforce+
qed simp

lemma stop_next_inv:
  assumes "stop_inv g" "i < length (wg_stoppers g)"
  shows "stop_inv (stop_next g i)"
proof -
  note counts = count_list_update [OF assms(2), of _ Past_close]
  note hints = stop_inv_def stop_next_def Let_def
  show ?thesis
  proof (cases "wg_stoppers g ! i")
    case Calling
    with assms counts show ?thesis
      by (auto simp: hints dest!: set_update_subset_insert [THEN subsetD] split: if_splits)
  next
    case Past_test
    with assms counts show ?thesis
      by (auto simp: hints dest!: set_update_subset_insert [THEN subsetD] split: if_splits)
  next
    case Past_close
    with assms counts [of Returned] show ?thesis
      by (auto simp: hints dest!: set_update_subset_insert [THEN subsetD] split: if_splits)
  qed (use assms in \<open>simp_all add: hints\<close>)
qed

lemma watching_invariant:
  assumes "watching_reachable content path w0 g" "wt_running w0"
  shows "stop_inv g"
  using assms(1)
proof (induction rule: watching_reachable.induct)
  case Begin
  show ?case using assms(2) by (simp add: stop_inv_def watching_start_def)
next
  case (Next g g')
  from Next(2) show ?case
  proof cases
    case (Loop w)
    then show ?thesis using Next(3) by (auto simp: stop_inv_def split: if_splits)
  next
    case (Stopper i)
    with Next(3) show ?thesis by (simp add: stop_next_inv)
  qed (use Next(3) in \<open>simp add: stop_inv_def\<close>)
qed

text \<open>
  The loop runs until someone calls \<open>stop\<close>, whatever the file, the timer and the errors do; the
  watcher is closed once; and a call returns only when \<open>done\<close> is closed.
\<close>

theorem loop_runs_until_stopped:
  assumes "watching_reachable content path w0 g" "wt_running w0" "wg_stoppers g = []"
  shows "wt_running (wg_watcher g)"
proof -
  have "wg_stoppers g = [] \<longrightarrow> \<not> wg_done g"
    using assms(1)
  proof (induction rule: watching_reachable.induct)
    case (Next g g')
    from Next(2) show ?case by cases (use Next(3) in auto)
  qed (simp add: watching_start_def)
  with watching_invariant [OF assms(1,2)] assms(3) show ?thesis by (simp add: stop_inv_def)
qed

theorem watcher_closed_at_most_once:
  assumes "watching_reachable content path w0 g" "wt_running w0"
  shows "wg_closed g \<le> 1"
  using watching_invariant [OF assms] by (simp add: stop_inv_def split: if_splits)

text \<open>
  One caller at a time is safe: a call by itself ends in three steps, with the channel and the
  watcher closed, and a later one returns at its test.
\<close>

lemma stop_alone:
  assumes "i < length (wg_stoppers g)" "wg_stoppers g ! i = Calling"
  shows "wg_stoppers (((\<lambda>g. stop_next g i) ^^ 3) g) ! i = Returned
    \<and> wg_done (((\<lambda>g. stop_next g i) ^^ 3) g)
    \<and> wg_closed (((\<lambda>g. stop_next g i) ^^ 3) g) = (if wg_done g then wg_closed g else wg_closed g + 1)"
  using assms by (simp add: numeral_3_eq_3 stop_next_def Let_def)

text \<open>
  Two at the same time are not: both pass the test before either closes the channel, and the
  second \<open>close\<close> panics.
\<close>

theorem concurrent_stops_can_panic:
  "\<exists>g. watching_reachable content path w0 g \<and> Panicked \<in> set (wg_stoppers g)"
proof -
  let ?g = "(watching_start w0)\<lparr>wg_stoppers := [Calling, Calling]\<rparr>"
  let ?run = "foldl stop_next ?g [0, 1, 0, 1]"
  have call: "watching_reachable content path w0 ?g"
    using Next [OF Next [OF Begin Call] Call] by (simp add: watching_start_def)
  have "watching_reachable content path w0 ?run"
    using Next [OF Next [OF Next [OF Next [OF call Stopper [of 0]] Stopper [of 1]] Stopper [of 0]] Stopper [of 1]]
    by (simp add: stop_next_def watching_start_def)
  moreover have "wg_stoppers ?run ! 1 = Panicked" "length (wg_stoppers ?run) = 2"
    by (simp_all add: stop_next_def watching_start_def)
  ultimately show ?thesis
    by (metis nth_mem one_less_numeral_iff semiring_norm(76))
qed

end
