(* ===== verification/Xml_Reader.thy ===== *)
theory Xml_Reader
  imports S3_Xml
begin

text \<open>
  A reader for the XML the proxy writes: elements without attributes, character data with
  the references \<^verbatim>\<open>xml.EscapeText\<close> uses, and nothing else. It goes over the text once, into
  tokens, and builds the tree on a stack. What \<open>render\<close> writes of a tree whose texts are
  made of XML characters in UTF-8 is read back as this tree.
\<close>

subsection \<open>Character data\<close>

definition references :: "(string \<times> char) list" where
  "references = [(''#34;'', CHR 34), (''quot;'', CHR 34), (''#39;'', CHR 39), (''apos;'', CHR 39),
     (''amp;'', CHR ''&''), (''lt;'', CHR ''<''), (''gt;'', CHR ''>''), (''#x9;'', CHR 9), (''#xA;'', CHR 10),
     (''#xD;'', CHR 13)]"

function unescape :: "string \<Rightarrow> string option" where
  "unescape [] = Some []"
| "unescape (c # s) =
     (if c = CHR ''&''
      then (case find (\<lambda>(e, a). prefix e s) references of
              None \<Rightarrow> None
            | Some (e, a) \<Rightarrow> map_option (Cons a) (unescape (drop (length e) s)))
      else map_option (Cons c) (unescape s))"
  by pat_completeness auto
termination by (relation "measure length") auto

lemma unescape_plain:
  "CHR ''&'' \<notin> set raw \<Longrightarrow> unescape (raw @ rest) = map_option ((@) raw) (unescape rest)"
proof (induction raw)
  case Nil
  then show ?case by (cases "unescape rest") simp_all
next
  case (Cons c raw)
  then show ?case by (cases "unescape rest") auto
qed

lemma unescape_reference:
  "unescape (''&#34;'' @ rest) = map_option (Cons (CHR 34)) (unescape rest)"
  "unescape (''&#39;'' @ rest) = map_option (Cons (CHR 39)) (unescape rest)"
  "unescape (''&amp;'' @ rest) = map_option (Cons (CHR 38)) (unescape rest)"
  "unescape (''&lt;'' @ rest) = map_option (Cons (CHR 60)) (unescape rest)"
  "unescape (''&gt;'' @ rest) = map_option (Cons (CHR 62)) (unescape rest)"
  "unescape (''&#x9;'' @ rest) = map_option (Cons (CHR 9)) (unescape rest)"
  "unescape (''&#xA;'' @ rest) = map_option (Cons (CHR 10)) (unescape rest)"
  "unescape (''&#xD;'' @ rest) = map_option (Cons (CHR 13)) (unescape rest)"
  by (simp_all add: references_def)

lemma reference_chars:
  "char_of (34 :: nat) = CHR 34" "char_of (39 :: nat) = CHR 39" "char_of (38 :: nat) = CHR ''&''"
  "char_of (60 :: nat) = CHR ''<''" "char_of (62 :: nat) = CHR ''>''" "char_of (9 :: nat) = CHR 9"
  "char_of (10 :: nat) = CHR 10" "char_of (13 :: nat) = CHR 13"
  by (code_simp; simp)+

lemmas unescape_references = unescape_reference [unfolded append.simps]

text \<open>A text that XML can express: UTF-8, of XML characters only.\<close>

function xml_text :: "string \<Rightarrow> bool" where
  "xml_text s \<longleftrightarrow>
     (if s = [] then True
      else let (r, w) = decode_rune s in xml_char r \<and> \<not> (r = rune_error \<and> w = 1) \<and> xml_text (drop w s))"
  by pat_completeness auto
termination
proof (relation "measure length")
  fix s x r w
  assume "s \<noteq> []" "x = decode_rune s" "(r, w) = x"
  with decode_rune_width [of s] show "(drop w s, s) \<in> measure length"
    by (metis diff_less in_measure length_drop length_greater_0_conv less_le_trans snd_conv zero_less_one)
qed simp

declare xml_text.simps [simp del]

lemma xml_text_Nil [simp]: "xml_text []"
  by (subst xml_text.simps) simp

lemma xml_text_step:
  "s \<noteq> [] \<Longrightarrow> decode_rune s = (r, w) \<Longrightarrow>
     xml_text s \<longleftrightarrow> xml_char r \<and> \<not> (r = rune_error \<and> w = 1) \<and> xml_text (drop w s)"
  by (subst xml_text.simps) simp

lemma decode_rune_low:
  assumes "s \<noteq> []" "decode_rune s = (r, w)" "r < 0x80"
  shows "w = 1" "take w s = [char_of r]"
proof -
  show "w = 1"
    using assms by (auto simp: decode_rune_def Let_def in_range_def second_lo_def split: list.splits if_splits)
  with assms decode_rune_ascii [of s r] show "take w s = [char_of r]" by auto
qed

lemma decode_rune_raw:
  assumes "s \<noteq> []" "decode_rune s = (r, w)" "r \<noteq> 38" "\<not> (r = rune_error \<and> w = 1)"
  shows "CHR ''&'' \<notin> set (take w s)"
proof (cases "w = 1")
  case True
  with assms decode_rune_ascii [of s r] have "r < 0x80" "take w s = [char_of r]" by auto
  moreover have "CHR ''&'' \<noteq> char_of r"
    using assms(3) \<open>r < 0x80\<close> by (auto simp: char_of_eq_iff take_bit_nat_eq_self dest!: sym [of _ "char_of r"])
  ultimately show ?thesis by simp
next
  case False
  with decode_rune_width(1) [OF assms(1)] assms(2) have "1 < w" by auto
  with decode_rune_multi [OF assms(2)] show ?thesis by fastforce
qed

theorem unescape_escape: "xml_text s \<Longrightarrow> unescape (xml_escape s) = Some s"
proof (induction s rule: flat_runes_induct)
  case Nil
  then show ?case by (simp add: xml_escape_def)
next
  case (Step s r w)
  then have ok: "xml_char r" "\<not> (r = rune_error \<and> w = 1)" "xml_text (drop w s)"
    by (simp_all add: xml_text_step)
  have rest: "unescape (xml_escape (drop w s)) = Some (drop w s)" using Step ok by simp
  have cut: "s = take w s @ drop w s" by simp
  have esc: "xml_escape s = xml_escape_rune r (take w s) @ xml_escape (drop w s)"
    unfolding xml_escape_def by (rule flat_runes_step [OF Step(1,2)])
  show ?case
  proof (cases "r \<in> {34, 39, 38, 60, 62, 9, 10, 13}")
    case True
    then have "r < 0x80" by auto
    from decode_rune_low(2) [OF Step(1,2) this] have raw: "take w s = [char_of r]" .
    have "unescape (xml_escape_rune r (take w s) @ xml_escape (drop w s)) =
        map_option (Cons (char_of r)) (unescape (xml_escape (drop w s)))"
      using True by (elim insertE emptyE)
        (simp_all add: xml_escape_rune_def unescape_references reference_chars del: unescape.simps)
    then have "unescape (xml_escape s) = map_option (Cons (char_of r)) (unescape (xml_escape (drop w s)))"
      by (simp only: esc)
    with rest raw cut show ?thesis by (metis append_Cons append_Nil option.simps(9))
  next
    case False
    have "length (take w s) = w" using Step(4) by simp
    with False ok have "xml_escape_rune r (take w s) = take w s"
      by (auto simp: xml_escape_rune_def)
    moreover have "CHR ''&'' \<notin> set (take w s)"
      using decode_rune_raw [OF Step(1,2)] False ok(2) by simp
    ultimately show ?thesis using rest by (simp add: esc unescape_plain)
  qed
qed

text \<open>Text that needs no escaping.\<close>

definition plain_byte :: "nat \<Rightarrow> bool" where
  "plain_byte n \<longleftrightarrow> 45 \<le> n \<and> n \<le> 57 \<or> 65 \<le> n \<and> n \<le> 90 \<or> 97 \<le> n \<and> n \<le> 122"

lemma plain_byte_escape: "plain_byte n \<Longrightarrow> xml_escape_rune n [c] = [c]"
proof -
  assume n: "plain_byte n"
  then have "n \<noteq> 34" "n \<noteq> 39" "n \<noteq> 38" "n \<noteq> 60" "n \<noteq> 62" "n \<noteq> 9" "n \<noteq> 10" "n \<noteq> 13" "n \<noteq> rune_error"
    "0x20 \<le> n" "n \<le> 0xD7FF"
    unfolding plain_byte_def by linarith+
  then show ?thesis by (simp add: xml_escape_rune_def xml_char_def)
qed

lemma xml_escape_plain:
  assumes "list_all (\<lambda>c. plain_byte (byte_of c)) s"
  shows "xml_escape s = s"
proof -
  from assms have "list_all is_ascii s"
    by (auto simp: plain_byte_def is_ascii_def list_all_iff)
  then have "xml_escape s = concat (map (\<lambda>c. xml_escape_rune (byte_of c) [c]) s)"
    by (simp add: xml_escape_def flat_runes_ascii)
  also have "\<dots> = s"
    using assms by (induction s) (simp_all add: plain_byte_escape)
  finally show ?thesis .
qed

lemma plain_byte_low:
  assumes "plain_byte n"
  shows "n < 0x80" "xml_char n" "n \<noteq> rune_error"
proof -
  show "n < 0x80" using assms unfolding plain_byte_def by linarith
  then show "n \<noteq> rune_error" by simp
  have "0x20 \<le> n" using assms unfolding plain_byte_def by linarith
  with \<open>n < 0x80\<close> show "xml_char n" by (simp add: xml_char_def)
qed

lemma xml_text_plain: "list_all (\<lambda>c. plain_byte (byte_of c)) s \<Longrightarrow> xml_text s"
proof (induction s)
  case (Cons c s)
  then have c: "plain_byte (byte_of c)" and s: "xml_text s" by simp_all
  from plain_byte_low(1) [OF c] have "decode_rune (c # s) = (byte_of c, 1)"
    by (simp add: decode_rune_def)
  from xml_text_step [OF _ this] s plain_byte_low(2,3) [OF c] show ?case by simp
qed simp

lemma xml_escape_number: "xml_escape (show_int i) = show_int i"
  using show_int_chars [of i]
  by (intro xml_escape_plain) (auto simp: list_all_iff number_char_def plain_byte_def Let_def)

subsection \<open>Tokens\<close>

datatype token = Start string | End string | Chars string

text \<open>The names of the documents' elements are words of letters.\<close>

definition letter :: "char \<Rightarrow> bool" where
  "letter c \<longleftrightarrow> (let n = (of_char c :: nat) in 65 \<le> n \<and> n \<le> 90 \<or> 97 \<le> n \<and> n \<le> 122)"

definition plain_name :: "string \<Rightarrow> bool" where
  "plain_name n \<longleftrightarrow> n \<noteq> [] \<and> list_all letter n"

definition tag_token :: "string \<Rightarrow> token option" where
  "tag_token t =
     (if plain_name t then Some (Start t)
      else if t \<noteq> [] \<and> hd t = CHR ''/'' \<and> plain_name (tl t) then Some (End (tl t))
      else None)"

function tokens :: "string \<Rightarrow> token list option" where
  "tokens [] = Some []"
| "tokens (c # s) =
     (if c = CHR ''<''
      then (case dropWhile (\<lambda>a. a \<noteq> CHR ''>'') s of
              [] \<Rightarrow> None
            | _ # rest \<Rightarrow> Option.bind (tag_token (takeWhile (\<lambda>a. a \<noteq> CHR ''>'') s))
                (\<lambda>t. map_option (Cons t) (tokens rest)))
      else Option.bind (unescape (c # takeWhile (\<lambda>a. a \<noteq> CHR ''<'') s))
             (\<lambda>u. map_option (Cons (Chars u)) (tokens (dropWhile (\<lambda>a. a \<noteq> CHR ''<'') s))))"
  by pat_completeness auto
termination
proof (relation "measure length")
  fix c :: char and s a rest
  assume "dropWhile (\<lambda>a. a \<noteq> CHR ''>'') s = a # rest"
  then have "length (a # rest) \<le> length s" by (metis length_dropWhile_le)
  then show "(rest, c # s) \<in> measure length" by simp
qed (auto simp: le_imp_less_Suc length_dropWhile_le)

lemma letter_not: "letter c \<Longrightarrow> c \<noteq> CHR ''<'' \<and> c \<noteq> CHR ''>'' \<and> c \<noteq> CHR ''/''"
  by (auto simp: letter_def)

lemma takeWhile_stop:
  "list_all (\<lambda>a. a \<noteq> z) n \<Longrightarrow> takeWhile (\<lambda>a. a \<noteq> z) (n @ z # rest) = n"
  "list_all (\<lambda>a. a \<noteq> z) n \<Longrightarrow> dropWhile (\<lambda>a. a \<noteq> z) (n @ z # rest) = z # rest"
  by (induction n) simp_all

lemma tokens_tag:
  assumes "list_all (\<lambda>a. a \<noteq> CHR ''>'') t" "tag_token t = Some k"
  shows "tokens (CHR ''<'' # t @ CHR ''>'' # rest) = map_option (Cons k) (tokens rest)"
  using assms(2) by (simp add: takeWhile_stop [OF assms(1)])

lemma plain_name_stops:
  assumes "plain_name n"
  shows "list_all (\<lambda>a. a \<noteq> CHR ''>'') n" "hd n \<noteq> CHR ''/''"
  using assms letter_not by (auto simp: plain_name_def list_all_iff)

lemma tokens_start:
  "plain_name n \<Longrightarrow> tokens (CHR ''<'' # n @ CHR ''>'' # rest) = map_option (Cons (Start n)) (tokens rest)"
  by (rule tokens_tag) (simp_all add: plain_name_stops tag_token_def)

lemma tokens_end:
  assumes "plain_name n"
  shows "tokens (CHR ''<'' # CHR ''/'' # n @ CHR ''>'' # rest) = map_option (Cons (End n)) (tokens rest)"
proof -
  have "\<not> plain_name (CHR ''/'' # n)" using letter_not by (auto simp: plain_name_def)
  with assms tokens_tag [of "CHR ''/'' # n" "End n" rest] show ?thesis
    by (simp add: plain_name_stops tag_token_def)
qed

lemma tokens_chars:
  assumes "xml_text s" "s \<noteq> []"
  shows "tokens (xml_escape s @ CHR ''<'' # rest) = map_option (Cons (Chars s)) (tokens (CHR ''<'' # rest))"
proof -
  have free: "list_all (\<lambda>a. a \<noteq> CHR ''<'') (xml_escape s)"
    using xml_escape_markup_free [of s] by (auto simp: list_all_iff markup_free_def)
  have un: "unescape (xml_escape s) = Some s" using unescape_escape [OF assms(1)] .
  with assms(2) obtain c cs where e: "xml_escape s = c # cs" by (cases "xml_escape s") auto
  with free have "c \<noteq> CHR ''<''" "list_all (\<lambda>a. a \<noteq> CHR ''<'') cs" by auto
  with un show ?thesis
    by (simp add: e takeWhile_stop del: unescape.simps)
qed

subsection \<open>Trees\<close>

text \<open>The stack holds the open elements, innermost first, with the content read so far.\<close>

fun build :: "token list \<Rightarrow> (string \<times> xml list) list \<Rightarrow> xml option" where
  "build [] [(_, [Elem n ks])] = Some (Elem n ks)"
| "build (Start n # ts) st = build ts ((n, []) # st)"
| "build (Chars s # ts) ((n, ks) # st) = build ts ((n, ks @ [Text s]) # st)"
| "build (End m # ts) ((n, ks) # (n', ks') # st) =
     (if m = n then build ts ((n', ks' @ [Elem n ks]) # st) else None)"
| "build _ _ = None"

definition read_xml :: "string \<Rightarrow> xml option" where
  "read_xml s = Option.bind (tokens s) (\<lambda>ts. build ts [([], [])])"

text \<open>The trees the proxy writes: an element holds one text, or elements only.\<close>

fun shaped :: "xml \<Rightarrow> bool" where
  "shaped (Text s) \<longleftrightarrow> False"
| "shaped (Elem n ks) \<longleftrightarrow>
     plain_name n \<and> ((case ks of [Text s] \<Rightarrow> s \<noteq> [] | _ \<Rightarrow> False) \<or> list_all shaped ks)"

fun texts :: "xml \<Rightarrow> string list" where
  "texts (Text s) = [s]"
| "texts (Elem n ks) = concat (map texts ks)"

fun toks :: "xml \<Rightarrow> token list" where
  "toks (Text s) = [Chars s]"
| "toks (Elem n ks) = Start n # concat (map toks ks) @ [End n]"

lemma map_option_Cons_append: "map_option ((@) []) v = v" "map_option (Cons a) (map_option ((@) as) v) = map_option ((@) (a # as)) v"
  "map_option ((@) as) (map_option ((@) bs) v) = map_option ((@) (as @ bs)) v"
  "map_option ((@) as) (map_option (Cons b) v) = map_option ((@) (as @ [b])) v"
  by (cases v; simp)+

lemma tokens_kids:
  assumes "\<And>k rest. k \<in> set ks \<Longrightarrow> tokens (render k @ rest) = map_option ((@) (toks k)) (tokens rest)"
  shows "tokens (concat (map render ks) @ rest) = map_option ((@) (concat (map toks ks))) (tokens rest)"
  using assms by (induction ks) (simp_all add: map_option_Cons_append)

lemma tokens_render:
  "shaped x \<Longrightarrow> list_all xml_text (texts x) \<Longrightarrow> tokens (render x @ rest) = map_option ((@) (toks x)) (tokens rest)"
proof (induction x arbitrary: rest rule: shaped.induct)
  case (2 n ks)
  then have n: "plain_name n" by simp
  have kids: "tokens (concat (map render ks) @ CHR ''<'' # r) =
      map_option ((@) (concat (map toks ks))) (tokens (CHR ''<'' # r))" for r
  proof (cases "list_all shaped ks")
    case True
    show ?thesis
      by (rule tokens_kids) (use 2 True in \<open>auto simp: list_all_iff\<close>)
  next
    case False
    with 2(2) obtain s where s: "ks = [Text s]" "s \<noteq> []"
      by (cases ks rule: remdups_adj.cases) (auto split: xml.splits)
    with 2(3) tokens_chars [of s r] show ?thesis
      by (simp del: tokens.simps) (metis append_Cons append_Nil)
  qed
  show ?case
    using kids [of "CHR ''/'' # n @ CHR ''>'' # rest"]
    by (cases "tokens rest")
      (simp_all add: tokens_start [OF n] tokens_end [OF n] del: tokens.simps)
qed simp

lemma build_kids:
  assumes "\<And>k rest m ls st. k \<in> set ks \<Longrightarrow> build (toks k @ rest) ((m, ls) # st) = build rest ((m, ls @ [k]) # st)"
  shows "build (concat (map toks ks) @ rest) ((m, ls) # st) = build rest ((m, ls @ ks) # st)"
  using assms by (induction ks arbitrary: ls) simp_all

lemma build_toks: "build (toks x @ rest) ((m, ls) # st) = build rest ((m, ls @ [x]) # st)"
proof (induction x arbitrary: rest m ls st rule: toks.induct)
  case (2 n ks)
  show ?case by (simp add: build_kids [OF 2])
qed simp

theorem read_render:
  assumes "shaped x" "list_all xml_text (texts x)"
  shows "read_xml (render x) = Some x"
proof -
  from assms(1) obtain n ks where x: "x = Elem n ks" by (cases x) auto
  have "tokens (render x) = Some (toks x)"
    using tokens_render [OF assms, of "[]"] by (simp del: render.simps toks.simps)
  with build_toks [of x "[]" "[]" "[]" "[]"] show ?thesis
    by (simp add: read_xml_def x del: toks.simps)
qed

subsection \<open>The documents\<close>

lemma shaped_text_elem: "shaped (text_elem n s) = plain_name n"
  by (simp add: text_elem_def)

lemma shaped_int_elem: "shaped (int_elem n i) = plain_name n"
  by (simp add: int_elem_def shaped_text_elem)

lemma shaped_bool_elem: "shaped (bool_elem n b) = plain_name n"
  by (simp add: bool_elem_def shaped_text_elem)

lemma shaped_opt: "(\<And>a. shaped (f a)) \<Longrightarrow> list_all shaped (opt_elem f v)"
  by (simp add: opt_elem_def split: option.splits)

lemma shaped_map: "(\<And>a. shaped (f a)) \<Longrightarrow> list_all shaped (map f xs)"
  by (simp add: list_all_iff)

lemma shaped_struct: "plain_name n \<Longrightarrow> list_all shaped ks \<Longrightarrow> shaped (Elem n ks)"
  by simp

lemmas shaped_simps = shaped_text_elem shaped_int_elem shaped_bool_elem plain_name_def letter_def

lemma shaped_tag: "shaped (encode_tag t)"
  unfolding encode_tag_def tag_kids_def by (rule shaped_struct) (simp_all add: shaped_simps)

lemma shaped_and: "shaped (encode_and a)"
  unfolding encode_and_def and_kids_def
  by (rule shaped_struct) (simp_all add: shaped_simps shaped_opt shaped_map shaped_tag)

lemma shaped_filter: "shaped (encode_filter f)"
  unfolding encode_filter_def filter_kids_def
  by (rule shaped_struct) (simp_all add: shaped_simps shaped_opt shaped_tag shaped_and)

lemma shaped_rule: "shaped (encode_rule r)"
  unfolding encode_rule_def rule_kids_def encode_transition_def transition_kids_def encode_expiration_def
    expiration_kids_def encode_nvt_def nvt_kids_def encode_nve_def nve_kids_def encode_abort_def abort_kids_def
  by (rule shaped_struct)
    (simp_all add: shaped_simps shaped_opt shaped_map shaped_filter shaped_struct del: shaped.simps)

lemma shaped_lifecycle: "shaped (encode_lifecycle c)"
  unfolding encode_lifecycle_def lifecycle_kids_def
  by (rule shaped_struct) (simp_all add: shaped_simps shaped_map shaped_rule)

lemma shaped_cors: "shaped (encode_cors c)"
  unfolding encode_cors_def cors_kids_def encode_cors_rule_def cors_rule_kids_def
  by (rule shaped_struct) (simp_all add: shaped_simps shaped_opt shaped_map shaped_struct del: shaped.simps)

lemma shaped_logging: "shaped (encode_logging c)"
  unfolding encode_logging_def logging_kids_def
  by (rule shaped_struct) (simp_all add: shaped_simps shaped_opt shaped_struct del: shaped.simps)

lemma shaped_website: "shaped (encode_website c)"
  unfolding encode_website_def website_kids_def
  by (rule shaped_struct) (simp_all add: shaped_simps shaped_opt shaped_struct del: shaped.simps)

lemma shaped_tagging: "shaped (encode_tagging c)"
  unfolding encode_tagging_def tagging_kids_def
  by (rule shaped_struct) (simp_all add: shaped_simps shaped_map shaped_tag)

text \<open>Every text of the document can be expressed in XML.\<close>

definition sendable :: "xml \<Rightarrow> bool" where
  "sendable x \<longleftrightarrow> list_all xml_text (texts x)"

lemma read_sent: "shaped x \<Longrightarrow> sendable x \<Longrightarrow> read_xml (render x) = Some x"
  unfolding sendable_def by (rule read_render)

text \<open>
  What is written, letter by letter, for one document of each kind with every field
  given (\<open>t\<close> and \<open>n\<close> are the texts and the numbers put into the fields), and for the
  zero values.
\<close>

definition full_rule :: "(nat \<Rightarrow> string) \<Rightarrow> (nat \<Rightarrow> int64) \<Rightarrow> Rule" where
  "full_rule t n = \<lparr>R_ID = t 0, R_Priority = n 0,
     R_Filter = Some \<lparr>F_Prefix = Some (t 1), F_Tag = Some \<lparr>Tag_Key = t 2, Tag_Value = t 3\<rparr>,
       F_And = Some \<lparr>And_Prefix = Some (t 4), And_Tags = [\<lparr>Tag_Key = t 5, Tag_Value = t 6\<rparr>],
         And_ObjectSizeGreaterThan = Some (n 1), And_ObjectSizeLessThan = Some (n 2)\<rparr>,
       F_ObjectSizeGreaterThan = Some (n 3), F_ObjectSizeLessThan = Some (n 4)\<rparr>,
     R_Status = t 7, R_Transitions = [\<lparr>Tr_Days = Some (n 5), Tr_Date = Some (t 8), Tr_StorageClass = t 9\<rparr>],
     R_Expiration = Some \<lparr>Exp_Days = Some (n 6), Exp_Date = Some (t 10),
       Exp_ExpiredObjectDeleteMarker = Some True\<rparr>,
     R_NoncurrentVersionTransitions = [\<lparr>Nvt_NoncurrentDays = Some (n 7), Nvt_StorageClass = t 11\<rparr>],
     R_NoncurrentVersionExpirations = Some \<lparr>Nve_NoncurrentDays = Some (n 8)\<rparr>,
     R_AbortIncompleteMultipartUpload = Some \<lparr>Abort_DaysAfterInitiation = Some (n 9)\<rparr>\<rparr>"

definition full_rule_text :: "(nat \<Rightarrow> string) \<Rightarrow> (nat \<Rightarrow> int64) \<Rightarrow> string" where
  "full_rule_text t n = (let T = \<lambda>i. xml_escape (t i); N = \<lambda>i. show_int (sint (n i)) in
     ''<Rule><ID>'' @ T 0 @ ''</ID><Priority>'' @ N 0 @ ''</Priority>''
     @ ''<Filter><Prefix>'' @ T 1 @ ''</Prefix>''
     @ ''<Tag><Key>'' @ T 2 @ ''</Key><Value>'' @ T 3 @ ''</Value></Tag>''
     @ ''<And><Prefix>'' @ T 4 @ ''</Prefix><Tag><Key>'' @ T 5 @ ''</Key><Value>'' @ T 6 @ ''</Value></Tag>''
     @ ''<ObjectSizeGreaterThan>'' @ N 1 @ ''</ObjectSizeGreaterThan>''
     @ ''<ObjectSizeLessThan>'' @ N 2 @ ''</ObjectSizeLessThan></And>''
     @ ''<ObjectSizeGreaterThan>'' @ N 3 @ ''</ObjectSizeGreaterThan>''
     @ ''<ObjectSizeLessThan>'' @ N 4 @ ''</ObjectSizeLessThan></Filter>''
     @ ''<Status>'' @ T 7 @ ''</Status>''
     @ ''<Transition><Days>'' @ N 5 @ ''</Days><Date>'' @ T 8 @ ''</Date>''
     @ ''<StorageClass>'' @ T 9 @ ''</StorageClass></Transition>''
     @ ''<Expiration><Days>'' @ N 6 @ ''</Days><Date>'' @ T 10 @ ''</Date>''
     @ ''<ExpiredObjectDeleteMarker>true</ExpiredObjectDeleteMarker></Expiration>''
     @ ''<NoncurrentVersionTransition><NoncurrentDays>'' @ N 7 @ ''</NoncurrentDays>''
     @ ''<StorageClass>'' @ T 11 @ ''</StorageClass></NoncurrentVersionTransition>''
     @ ''<NoncurrentVersionExpiration><NoncurrentDays>'' @ N 8
     @ ''</NoncurrentDays></NoncurrentVersionExpiration>''
     @ ''<AbortIncompleteMultipartUpload><DaysAfterInitiation>'' @ N 9
     @ ''</DaysAfterInitiation></AbortIncompleteMultipartUpload></Rule>'')"

definition full_cors :: "(nat \<Rightarrow> string) \<Rightarrow> (nat \<Rightarrow> int64) \<Rightarrow> CORSRule" where
  "full_cors t n = \<lparr>Cr_ID = Some (t 0), Cr_AllowedHeaders = [t 1], Cr_AllowedMethods = [t 2],
     Cr_AllowedOrigins = [t 3, t 4], Cr_ExposeHeaders = [t 5], Cr_MaxAgeSeconds = Some (n 0)\<rparr>"

definition full_cors_text :: "(nat \<Rightarrow> string) \<Rightarrow> (nat \<Rightarrow> int64) \<Rightarrow> string" where
  "full_cors_text t n = (let T = \<lambda>i. xml_escape (t i) in
     ''<CORSRule><ID>'' @ T 0 @ ''</ID><AllowedHeader>'' @ T 1 @ ''</AllowedHeader>''
     @ ''<AllowedMethod>'' @ T 2 @ ''</AllowedMethod><AllowedOrigin>'' @ T 3 @ ''</AllowedOrigin>''
     @ ''<AllowedOrigin>'' @ T 4 @ ''</AllowedOrigin><ExposeHeader>'' @ T 5 @ ''</ExposeHeader>''
     @ ''<MaxAgeSeconds>'' @ show_int (sint (n 0)) @ ''</MaxAgeSeconds></CORSRule>'')"

definition wire_format :: "(nat \<Rightarrow> string) \<Rightarrow> (nat \<Rightarrow> int64) \<Rightarrow> (xml \<times> string) list" where
  "wire_format t n =
     [(encode_lifecycle \<lparr>Lc_Rules = [zero_Rule, full_rule t n]\<rparr>,
       ''<LifecycleConfiguration><Rule><Status></Status></Rule>'' @ full_rule_text t n @ ''</LifecycleConfiguration>''),
      (encode_cors \<lparr>Cc_CORSRules = [zero_CORSRule, full_cors t n]\<rparr>,
       ''<CORSConfiguration><CORSRule></CORSRule>'' @ full_cors_text t n @ ''</CORSConfiguration>''),
      (encode_logging \<lparr>Bls_LoggingEnabled = None\<rparr>, ''<BucketLoggingStatus></BucketLoggingStatus>''),
      (encode_logging \<lparr>Bls_LoggingEnabled = Some \<lparr>Le_TargetBucket = t 0, Le_TargetPrefix = t 1\<rparr>\<rparr>,
       ''<BucketLoggingStatus><LoggingEnabled><TargetBucket>'' @ xml_escape (t 0) @ ''</TargetBucket><TargetPrefix>''
         @ xml_escape (t 1) @ ''</TargetPrefix></LoggingEnabled></BucketLoggingStatus>''),
      (encode_website \<lparr>Ws_IndexDocument = None, Ws_ErrorDocument = None\<rparr>,
       ''<WebsiteConfiguration></WebsiteConfiguration>''),
      (encode_website \<lparr>Ws_IndexDocument = Some \<lparr>Idx_Suffix = t 0\<rparr>, Ws_ErrorDocument = Some \<lparr>Err_Key = t 1\<rparr>\<rparr>,
       ''<WebsiteConfiguration><IndexDocument><Suffix>'' @ xml_escape (t 0) @ ''</Suffix></IndexDocument><ErrorDocument><Key>''
         @ xml_escape (t 1) @ ''</Key></ErrorDocument></WebsiteConfiguration>''),
      (encode_tagging \<lparr>Tg_TagSet = []\<rparr>, ''<Tagging><TagSet></TagSet></Tagging>''),
      (encode_tagging \<lparr>Tg_TagSet = [\<lparr>Tag_Key = t 0, Tag_Value = t 1\<rparr>]\<rparr>,
       ''<Tagging><TagSet><Tag><Key>'' @ xml_escape (t 0) @ ''</Key><Value>'' @ xml_escape (t 1)
         @ ''</Value></Tag></TagSet></Tagging>'')]"

lemma render_text_elem: "render (text_elem n s) = ''<'' @ n @ ''>'' @ xml_escape s @ ''</'' @ n @ ''>''"
  by (simp add: text_elem_def xml_escape_def)

lemma render_int_elem: "render (int_elem n i) = ''<'' @ n @ ''>'' @ show_int (sint i) @ ''</'' @ n @ ''>''"
  by (simp add: int_elem_def render_text_elem xml_escape_number)

lemma render_bool_elem: "render (bool_elem n True) = ''<'' @ n @ ''>true</'' @ n @ ''>''"
proof -
  have "xml_escape ''true'' = ''true''" by (rule xml_escape_plain) (simp add: plain_byte_def)
  then show ?thesis by (simp add: bool_elem_def render_text_elem)
qed

lemma opt_elem_cases: "opt_elem f None = []" "opt_elem f (Some a) = [f a]"
  by (simp_all add: opt_elem_def)

lemmas render_fields = render_text_elem render_int_elem render_bool_elem opt_elem_cases zero_defs
  encode_tag_def tag_kids_def encode_and_def and_kids_def encode_filter_def filter_kids_def
  encode_transition_def transition_kids_def encode_expiration_def expiration_kids_def encode_nvt_def nvt_kids_def
  encode_nve_def nve_kids_def encode_abort_def abort_kids_def

lemma full_rule_rendered:
  "t 0 \<noteq> [] \<Longrightarrow> n 0 \<noteq> 0 \<Longrightarrow> render (encode_rule (full_rule t n)) = full_rule_text t n"
  by (simp add: encode_rule_def rule_kids_def render_fields full_rule_def full_rule_text_def)

lemma full_cors_rendered: "render (encode_cors_rule (full_cors t n)) = full_cors_text t n"
  by (simp add: encode_cors_rule_def cors_rule_kids_def render_fields full_cors_def full_cors_text_def)

lemma zero_rules_rendered:
  "render (encode_rule zero_Rule) = ''<Rule><Status></Status></Rule>''"
  "render (encode_cors_rule zero_CORSRule) = ''<CORSRule></CORSRule>''"
  by (simp_all add: encode_rule_def rule_kids_def encode_cors_rule_def cors_rule_kids_def render_fields
      xml_escape_def)

lemma wire_format_rendered:
  assumes "t 0 \<noteq> []" "n 0 \<noteq> 0"
  shows "list_all (\<lambda>(x, s). render x = s) (wire_format t n)"
  by (simp add: wire_format_def encode_lifecycle_def lifecycle_kids_def encode_cors_def cors_kids_def
      zero_rules_rendered full_rule_rendered [where t = t and n = n, OF assms] full_cors_rendered encode_logging_def logging_kids_def
      encode_website_def website_kids_def encode_tagging_def tagging_kids_def opt_elem_cases render_text_elem
      encode_tag_def tag_kids_def)

end
