(* ===== verification/Examples.thy ===== *)
theory Examples
  imports Lifecycle_Json Server Xml_Reader
begin

text \<open>
  Concrete values at which the properties are applied: an environment with one legacy
  pair and the configuration loaded from it, a GCS held in memory, a proxy over it, and
  requests signed with the loaded key.
\<close>

subsection \<open>A loaded configuration\<close>

definition ex_read :: "string \<Rightarrow> bytes option" where
  "ex_read = Map.empty"

definition ex_env :: environ where
  "ex_env = map_of [(''DRY_RUN'', ''false''), (''PROXY_AWS_ACCESS_KEY_ID'', ''AK1''),
     (''PROXY_AWS_SECRET_ACCESS_KEY'', ''secret''), (''DISABLE_HEADER_STRIP'', ''false'')]"

definition ex_creds :: credmap where
  "ex_creds = fmupd ''AK1'' ''secret'' fmempty"

definition ex_config :: Settings where
  "ex_config = build_settings ex_env (ex_creds, [], FromLegacy)"

definition ex_dry_config :: Settings where
  "ex_dry_config = build_settings Map.empty (fmempty, [], FromNone)"

lemma ex_env_reads:
  "proxyAK ex_env = ''AK1''" "proxySK ex_env = ''secret''" "load_dry_run ex_env = False"
  "ex_env ''HMAC_CREDENTIALS_FILE'' = None" "ex_env ''HMAC_CREDENTIALS'' = None"
  "load_features ex_env = load_features Map.empty"
  "ex_env ''PROXY_BASE_DOMAIN'' = None" "ex_env ''RESTORE_SKIP_EXISTENCE_CHECK'' = None"
  "ex_env ''DISABLE_HEADER_STRIP'' = Some ''false''" "ex_env ''DRY_RUN'' = Some ''false''"
  by (simp_all add: ex_env_def proxyAK_def proxySK_def load_dry_run_def getEnv_def load_features_def
      getEnvBool_def)

lemma ex_loaded: "LoadConfig ex_read ex_env = Inr ex_config"
  by (simp add: LoadConfig_def loadHMACCredentials_def ex_env_reads getEnv_def ex_config_def ex_creds_def
      Let_def)

lemma ex_dry_loaded: "LoadConfig ex_read Map.empty = Inr ex_dry_config"
  by (simp add: LoadConfig_def loadHMACCredentials_def getEnv_def ex_dry_config_def load_dry_run_def
      proxyAK_def proxySK_def)

lemma ex_features [simp]:
  "Features ex_config = load_features Map.empty" "DryRun ex_config = False"
  "HMACCredentials ex_config = ex_creds" "CredentialsFile ex_config = []"
  "Features ex_dry_config = load_features Map.empty" "DryRun ex_dry_config = True"
  "ProxyBaseDomain ex_config = []" "RestoreSkipExistenceCheck ex_config = False"
  "DisableHeaderStrip ex_config = False"
  by (simp_all add: ex_config_def ex_dry_config_def ex_env_reads load_dry_run_def getEnv_def
      build_settings_def getEnvBool_def)

lemma all_features [simp]:
  "Lifecycle_on (load_features Map.empty)" "CORS_on (load_features Map.empty)"
  "Logging_on (load_features Map.empty)" "Website_on (load_features Map.empty)"
  "Tagging_on (load_features Map.empty)" "RestoreObject_on (load_features Map.empty)"
  "CopyObject_on (load_features Map.empty)" "MultipartUpload_on (load_features Map.empty)"
  "DeleteObjects_on (load_features Map.empty)" "ReadyzEndpoint_on (load_features Map.empty)"
  by (simp_all add: load_features_def getEnvBool_def)

definition ex_store :: store where
  "ex_store = seed_store ex_config"

definition ex_reads :: store_reads where
  "ex_reads = \<lparr>sr_gate = ex_store, sr_size = ex_store, sr_lookup = ex_store\<rparr>"

lemma ex_store_simps [simp]:
  "Lookup ex_store ak = (if ak = ''AK1'' then Some ''secret'' else None)"
  "Size ex_store = 1"
  by (simp_all add: ex_store_def seed_store_def ex_creds_def Replace_def Lookup_def Size_def
      fcard_finsert_if)

lemma ex_reads_simps [simp]:
  "sr_gate ex_reads = ex_store" "sr_size ex_reads = ex_store" "sr_lookup ex_reads = ex_store"
  by (simp_all add: ex_reads_def)

lemma ex_reads_at: "reads_at content ex_config ex_reads"
  by (simp add: reads_at_def ex_store_def store_at.Unwatched)

subsection \<open>GCS in memory\<close>

record memory =
  mem_bucket :: "string \<Rightarrow> bucket_attrs"
  mem_object :: "string \<times> string \<Rightarrow> object_attrs option"

definition mem_missing :: gcs_error where
  "mem_missing = \<lparr>ge_api_code = Some 404, ge_canceled = False, ge_deadline = False, ge_object_not_exist = True\<rparr>"

definition mem_stale :: gcs_error where
  "mem_stale = \<lparr>ge_api_code = Some 412, ge_canceled = False, ge_deadline = False, ge_object_not_exist = False\<rparr>"

definition mem_patch :: "object_attrs \<Rightarrow> object_update \<Rightarrow> object_attrs" where
  "mem_patch a u =
     (case Ou_Contexts u of
        None \<Rightarrow> a
      | Some p \<Rightarrow>
          \<lparr>Oa_Contexts = Some \<lparr>Ctx_Custom =
             (\<lambda>k. map_option (\<lambda>v. \<lparr>Pl_Value = v, Pl_Delete = False\<rparr>) (apply_patch (Oa_Contexts a) p k))\<rparr>,
           Oa_Metageneration = Oa_Metageneration a + 1\<rparr>)"

definition mem_api :: "memory gcs_api" where
  "mem_api =
     \<lparr>api_bucket_attrs = (\<lambda>d b s. (Inr (mem_bucket s b), s)),
      api_bucket_update = (\<lambda>d b u s.
        (Inr (), s\<lparr>mem_bucket := (mem_bucket s)(b := apply_update u (mem_bucket s b))\<rparr>)),
      api_object_attrs = (\<lambda>d b k s.
        (case mem_object s (b, k) of None \<Rightarrow> Inl mem_missing | Some a \<Rightarrow> Inr a, s)),
      api_object_update = (\<lambda>d b k mg u s.
        (case mem_object s (b, k) of
           None \<Rightarrow> (Inl mem_missing, s)
         | Some a \<Rightarrow>
             if Oa_Metageneration a \<noteq> mg then (Inl mem_stale, s)
             else (Inr (), s\<lparr>mem_object := (mem_object s)((b, k) \<mapsto> mem_patch a u)\<rparr>)))\<rparr>"

lemma mem_keeps_updates: "keeps_updates mem_api"
  by (auto simp: keeps_updates_def mem_api_def)

lemma mem_keeps_patches: "keeps_patches mem_api"
  by (auto simp: keeps_patches_def mem_api_def mem_patch_def contexts_of_def fun_eq_iff
      option.map_comp o_def option.map_ident split: option.splits if_splits)

definition ex_attrs :: bucket_attrs where
  "ex_attrs = \<lparr>Ba_Lifecycle = [], Ba_CORS = [], Ba_Logging = None, Ba_Website = None\<rparr>"

definition ex_object :: object_attrs where
  "ex_object = \<lparr>Oa_Contexts = Some \<lparr>Ctx_Custom = [''old'' \<mapsto> \<lparr>Pl_Value = ''1'', Pl_Delete = False\<rparr>]\<rparr>,
     Oa_Metageneration = 7\<rparr>"

definition ex_memory :: memory where
  "ex_memory = \<lparr>mem_bucket = (\<lambda>_. ex_attrs), mem_object = [(''bkt'', ''key'') \<mapsto> ex_object]\<rparr>"

subsection \<open>Proxies, worlds and requests\<close>

text \<open>A proxy whose tokenizer knows one document.\<close>

definition ex_proxy :: "Settings \<Rightarrow> xml \<Rightarrow> memory proxy" where
  "ex_proxy cfg x =
     \<lparr>px_config = cfg, px_api = mem_api, px_client = True,
      px_xml = (\<lambda>b. if b = render x then Some x else None),
      px_unicode = \<lparr>uni_print = (\<lambda>_. True), uni_lower = id\<rparr>,
      px_order = (\<lambda>_. []), px_date = [], px_parse_error = (\<lambda>_. [])\<rparr>"

lemma ex_proxy_simps [simp]:
  "px_config (ex_proxy cfg x) = cfg" "px_api (ex_proxy cfg x) = mem_api" "px_client (ex_proxy cfg x) = True"
  "px_xml (ex_proxy cfg x) (render x) = Some x"
  by (simp_all add: ex_proxy_def)

definition ex_world :: "memory world" where
  "ex_world = \<lparr>w_ops = [], w_gcs = ex_memory, w_metrics = []\<rparr>"

lemma ex_world_simps [simp]: "fresh ex_world" "w_gcs ex_world = ex_memory" "rw_body (w_rw ex_world) = []"
  by (simp_all add: ex_world_def fresh_def)

definition ex_auth :: string where
  "ex_auth = ''AWS4-HMAC-SHA256 Credential=AK1/20250101/us-east-1/s3/aws4_request''"

definition ex_request :: "string \<Rightarrow> string \<Rightarrow> string \<Rightarrow> (string \<times> string) list \<Rightarrow> bytes option \<Rightarrow> request" where
  "ex_request method path query headers body =
     \<lparr>req_method = method, req_host = ''proxy'',
      req_url = \<lparr>url_scheme = [], url_host = [], url_path = path, url_rawpath = [], url_rawquery = query\<rparr>,
      req_uri = path @ (if query = [] then [] else CHR ''?'' # query),
      req_header = map_of (map (\<lambda>(k, v). (k, [v])) headers),
      req_body = map_option (\<lambda>b. \<lparr>body_bytes = b, body_fails = False\<rparr>) body,
      req_content_length = 0, req_remote_addr = ''10.0.0.1:4711'', req_id = ''r1'', req_creds = None\<rparr>"

lemma ex_request_simps [simp]:
  "req_method (ex_request m p q h b) = m" "url_path (req_url (ex_request m p q h b)) = p"
  "url_rawquery (req_url (ex_request m p q h b)) = q" "req_creds (ex_request m p q h b) = None"
  "req_header (ex_request m p q h b) = map_of (map (\<lambda>(k, v). (k, [v])) h)"
  "req_body (ex_request m p q h b) = map_option (\<lambda>b. \<lparr>body_bytes = b, body_fails = False\<rparr>) b"
  "req_host (ex_request m p q h b) = ''proxy''"
  by (simp_all add: ex_request_def)

definition signed :: "(string \<times> string) list" where
  "signed = [(''Authorization'', ex_auth)]"

lemma canonical_examples [simp]:
  "canonical ''Authorization'' = ''Authorization''"
  "canonical ''x-amz-copy-source'' = ''X-Amz-Copy-Source''"
  by code_simp+

lemma ex_key: "ExtractAccessKey ex_auth = Some ''AK1''"
  by code_simp

lemma ex_queries:
  "parse_query [] = []" "parse_query ''lifecycle'' = [(''lifecycle'', [])]"
  "parse_query ''restore'' = [(''restore'', [])]" "parse_query ''delete'' = [(''delete'', [])]"
  "parse_query ''x-id=PutObject&partNumber=2'' = [(''x-id'', ''PutObject''), (''partNumber'', ''2'')]"
  by code_simp+

subsection \<open>Requests through the request path\<close>

lemma ex_contains [simp]: "contains_str [] ''aws-chunked'' = False"
  by code_simp

lemma header_value_creds [simp]: "header_value (r\<lparr>req_creds := c\<rparr>) k = header_value r k"
  by (simp add: header_value_def)

lemma hasQueryParam_creds [simp]: "hasQueryParam (r\<lparr>req_creds := c\<rparr>) k = hasQueryParam r k"
  by (simp add: hasQueryParam_def)

text \<open>A signed request passes the gate with the pair of the store.\<close>

definition ex_pair :: credentials where
  "ex_pair = \<lparr>AccessKeyID = ''AK1'', SecretAccessKey = ''secret''\<rparr>"

lemma signed_header [simp]:
  "header_value (ex_request m p q signed b) ''Authorization'' = ex_auth"
  "header_value (ex_request m p q signed b) ''x-amz-storage-class'' = []"
  "header_value (ex_request m p q signed b) ''Content-Encoding'' = []"
  "header_value (ex_request m p q signed b) ''x-amz-copy-source'' = []"
  by (simp_all add: header_value_def hdr_get_def signed_def)

lemma ex_client_key [simp]: "client_access_key (ex_request m p q signed b) = Some ''AK1''"
  by (simp add: client_access_key_def ex_key)

lemma ex_gate [simp]:
  "credential_gate ex_reads (ex_request m p q signed b) w =
     Inr ((ex_request m p q signed b)\<lparr>req_creds := Some ex_pair\<rparr>, count_metric (HMACCredentialLookups ''hit'') w)"
  by (simp add: credential_gate_def validateClientCredential_def ex_pair_def Let_def)

lemma ex_query [simp]: "url_query (req_url (ex_request m p q h b)) = parse_query q"
  by (simp add: url_query_def)

definition ex_get :: request where
  "ex_get = ex_request ''GET'' ''/bkt/key'' [] signed None"

lemma ex_get_forwarded:
  "handleS3Request (ex_proxy ex_config x) ex_reads ex_get ex_world =
     Forwarded ReadProxy (ex_get\<lparr>req_creds := Some ex_pair\<rparr>)
       (count_metric (HMACCredentialLookups ''hit'') ex_world)"
  by (simp add: forwarded_iff ex_get_def route_def forwardable_def passes_control_def hasQueryParam_def
      ex_queries)

definition ex_up :: upstream where
  "ex_up = \<lparr>up_url = \<lparr>url_scheme = ''https'', url_host = ''storage.googleapis.com'', url_path = [],
     url_rawpath = [], url_rawquery = []\<rparr>, up_md5 = (\<lambda>b. ''digest''), up_sign = (\<lambda>c r. (True, r))\<rparr>"

lemma ex_started: "started ex_read ex_env (ex_proxy ex_config x)"
  by (simp add: started_def ex_loaded)

lemma fold_keys [simp]:
  "equal_fold ''lifecycle'' ''lifecycle''" "equal_fold ''website'' ''website''"
  "\<not> equal_fold ''website'' ''lifecycle''" "\<not> equal_fold ''website'' ''cors''"
  "\<not> equal_fold ''website'' ''logging''"
  by code_simp+

lemma ex_website_query [simp]:
  "hasQueryParam (ex_request m p ''website'' h b) k = equal_fold ''website'' k"
proof -
  have "parse_query ''website'' = [(''website'', [])]" by code_simp
  then show ?thesis by (simp add: hasQueryParam_def)
qed

definition ex_site :: WebsiteConfiguration where
  "ex_site = \<lparr>Ws_IndexDocument = Some \<lparr>Idx_Suffix = ''index.html''\<rparr>, Ws_ErrorDocument = None\<rparr>"

abbreviation ex_site_doc :: xml where
  "ex_site_doc \<equiv> encode_website ex_site"

definition ex_put_site :: request where
  "ex_put_site = ex_request ''PUT'' ''/bkt'' ''website'' signed (Some (render ex_site_doc))"

lemma ex_site_rendered: "render ex_site_doc =
    ''<WebsiteConfiguration><IndexDocument><Suffix>index.html</Suffix></IndexDocument></WebsiteConfiguration>''"
proof -
  have "xml_escape ''index.html'' = ''index.html''"
    by (rule xml_escape_plain) code_simp
  then show ?thesis
    by (simp add: encode_website_def website_kids_def ex_site_def opt_elem_def text_elem_def)
qed

lemma ex_site_size: "length (render ex_site_doc) \<le> maxControlPlaneBodySize"
  by (simp add: ex_site_rendered maxControlPlaneBodySize_def)

lemma ex_paths:
  "path_parts (ex_request m ''/bkt'' q h b) = [''bkt'']"
  "path_parts (ex_request m ''/bkt/key'' q h b) = [''bkt'', ''key'']"
  unfolding path_parts_def ex_request_simps by code_simp+

lemma ex_put_site_run:
  "handleS3Request (ex_proxy ex_config ex_site_doc) ex_reads ex_put_site ex_world =
     Answered (handlePutWebsite (ex_proxy ex_config ex_site_doc) (ex_put_site\<lparr>req_creds := Some ex_pair\<rparr>)
       (count_metric (HMACCredentialLookups ''hit'') ex_world))"
  unfolding ex_put_site_def
  by (simp add: handleS3Request_def stages_def storage_class_stage_def chunked_stage_def lifecycle_stage_def
      cors_stage_def logging_stage_def website_stage_def gated_cases by_method_def flags_def)

lemma ex_put_site_parts:
  "put_document (ex_proxy ex_config ex_site_doc) decode_website (ex_put_site\<lparr>req_creds := c\<rparr>) = Some ex_site"
  "path_bucket (ex_put_site\<lparr>req_creds := c\<rparr>) = Some ''bkt''"
proof -
  have "path_parts (ex_put_site\<lparr>req_creds := c\<rparr>) = path_parts ex_put_site"
    by (simp add: path_parts_def)
  then show "path_bucket (ex_put_site\<lparr>req_creds := c\<rparr>) = Some ''bkt''"
    by (simp add: path_bucket_def ex_put_site_def ex_paths)
  show "put_document (ex_proxy ex_config ex_site_doc) decode_website (ex_put_site\<lparr>req_creds := c\<rparr>) = Some ex_site"
    using ex_site_size
    by (simp add: put_document_def read_capped_def ex_put_site_def website_xml.decode_encode)
qed

lemma ex_site_translated:
  "TranslateS3ToGCSWebsite ex_site = \<lparr>Bw_MainPageSuffix = ''index.html'', Bw_NotFoundPage = []\<rparr>"
  by (simp add: TranslateS3ToGCSWebsite_def ex_site_def zero_website_def)

lemma ex_put_site_stores:
  "Ba_Website (mem_bucket (w_gcs (handlePutWebsite (ex_proxy ex_config ex_site_doc)
      (ex_put_site\<lparr>req_creds := c\<rparr>) (count_metric m ex_world))) ''bkt'') =
    Some \<lparr>Bw_MainPageSuffix = ''index.html'', Bw_NotFoundPage = []\<rparr>"
  by (simp add: put_website.put_gcs put_request_def ex_put_site_parts website_plan_def run_update_def
      mem_api_def apply_update_def ex_site_translated no_update_def)

lemma ex_memory_site: "Ba_Website (mem_bucket ex_memory b) = None"
  by (simp add: ex_memory_def ex_attrs_def)

definition ex_anonymous :: request where
  "ex_anonymous = ex_request ''GET'' ''/bkt/key'' [] [] None"

lemma ex_anonymous_key: "client_access_key ex_anonymous = None"
  by (simp add: client_access_key_def ex_anonymous_def header_value_def ExtractAccessKey_def
      ExtractAccessKeyFromQuery_def)

end
