(* ===== verification/Signature_Blind.thy ===== *)
theory Signature_Blind
  imports Server_Stack Dispatch Director
begin

text \<open>
  What the value of the \<^verbatim>\<open>Authorization\<close> header is used for between the gate and the signer:
  its access key, and nothing else. \<open>with_authorization\<close> exchanges the header; the
  definitions of Dispatch and Director are compared on a request and its exchanged form.
\<close>

definition with_authorization :: "string list option \<Rightarrow> request \<Rightarrow> request" where
  "with_authorization a r = r\<lparr>req_header := (req_header r)(''Authorization'' := a)\<rparr>"

definition exchange :: "string list option \<Rightarrow> 's outcome \<Rightarrow> 's outcome" where
  "exchange a out = (case out of Answered w \<Rightarrow> Answered w | Forwarded kind r w \<Rightarrow> Forwarded kind (with_authorization a r) w)"

lemma with_authorization_simps [simp]:
  "req_method (with_authorization a r) = req_method r" "req_host (with_authorization a r) = req_host r"
  "req_url (with_authorization a r) = req_url r" "req_uri (with_authorization a r) = req_uri r"
  "req_body (with_authorization a r) = req_body r" "req_creds (with_authorization a r) = req_creds r"
  "req_content_length (with_authorization a r) = req_content_length r"
  "req_header (with_authorization a r) = (req_header r)(''Authorization'' := a)"
  by (simp_all add: with_authorization_def)

lemma hdr_get_authorization:
  "canonical k \<noteq> ''Authorization'' \<Longrightarrow> hdr_get (h(''Authorization'' := a)) k = hdr_get h k"
  by (simp add: hdr_get_def)

lemma other_keys:
  "canonical ''x-amz-storage-class'' \<noteq> ''Authorization''" "canonical ''Content-Encoding'' \<noteq> ''Authorization''"
  "canonical ''x-amz-copy-source'' \<noteq> ''Authorization''" "canonical ''Content-Length'' \<noteq> ''Authorization''"
  "canonical ''Accept-Encoding'' \<noteq> ''Authorization''" "canonical ''Content-Md5'' \<noteq> ''Authorization''"
  "canonical ''X-Amz-Content-Sha256'' \<noteq> ''Authorization''" "canonical ''X-Amz-Trailer'' \<noteq> ''Authorization''"
  "canonical ''X-Amz-Decoded-Content-Length'' \<noteq> ''Authorization''"
  "\<forall>k \<in> set strip_always. canonical k \<noteq> ''Authorization''"
  by code_simp+

subsection \<open>The handlers\<close>

lemma path_blind [simp]:
  "path_parts (with_authorization a r) = path_parts r"
  "parseBucketFromPath (with_authorization a r) w = parseBucketFromPath r w"
  "parse_object_path m (with_authorization a r) w = parse_object_path m r w"
  "hasQueryParam (with_authorization a r) q = hasQueryParam r q"
  "decodeControlPlaneXML px d (with_authorization a r) w = decodeControlPlaneXML px d r w"
  by (simp_all add: decodeControlPlaneXML_def path_parts_def parseBucketFromPath_def parse_object_path_def hasQueryParam_def)

lemma handlers_blind:
  "handlePutLifecycle px (with_authorization a r) = handlePutLifecycle px r"
  "handleGetLifecycle px (with_authorization a r) = handleGetLifecycle px r"
  "handleDeleteLifecycle px (with_authorization a r) = handleDeleteLifecycle px r"
  "handlePutCORS px (with_authorization a r) = handlePutCORS px r"
  "handleGetCORS px (with_authorization a r) = handleGetCORS px r"
  "handleDeleteCORS px (with_authorization a r) = handleDeleteCORS px r"
  "handlePutLogging px (with_authorization a r) = handlePutLogging px r"
  "handleGetLogging px (with_authorization a r) = handleGetLogging px r"
  "handleDeleteLogging px (with_authorization a r) = handleDeleteLogging px r"
  "handlePutWebsite px (with_authorization a r) = handlePutWebsite px r"
  "handleGetWebsite px (with_authorization a r) = handleGetWebsite px r"
  "handleDeleteWebsite px (with_authorization a r) = handleDeleteWebsite px r"
  "handlePutObjectTagging px (with_authorization a r) = handlePutObjectTagging px r"
  "handleGetObjectTagging px (with_authorization a r) = handleGetObjectTagging px r"
  "handleDeleteObjectTagging px (with_authorization a r) = handleDeleteObjectTagging px r"
  "handleRestoreObject px (with_authorization a r) = handleRestoreObject px r"
  by (rule ext; simp add: handlePutLifecycle_def handleGetLifecycle_def handleDeleteLifecycle_def
      handlePutCORS_def handleGetCORS_def handleDeleteCORS_def handlePutLogging_def handleGetLogging_def
      handleDeleteLogging_def handlePutWebsite_def handleGetWebsite_def handleDeleteWebsite_def
      handlePutObjectTagging_def handleGetObjectTagging_def handleDeleteObjectTagging_def handleRestoreObject_def
      cong: if_cong)+

lemma by_method_blind: "by_method (with_authorization a r) = by_method r"
  by (intro ext) (simp add: by_method_def)

lemma stages_blind: "stages px (with_authorization a r) = stages px r"
proof -
  note stage_defs = storage_class_stage_def chunked_stage_def lifecycle_stage_def cors_stage_def logging_stage_def
    website_stage_def tagging_stage_def restore_stage_def copy_stage_def multipart_stage_def delete_stage_def
  have header: "header_value (with_authorization a r) k = header_value r k" if "canonical k \<noteq> ''Authorization''" for k
    using that by (simp add: header_value_def hdr_get_authorization)
  show ?thesis
    by (simp add: stages_def stage_defs [abs_def] handlers_blind by_method_blind other_keys header cong: if_cong)
qed

subsection \<open>The gate and the Director\<close>

lemma gate_blind:
  assumes "client_access_key (with_authorization a r) = client_access_key r"
  shows "credential_gate sr (with_authorization a r) w =
    map_sum id (map_prod (with_authorization a) id) (credential_gate sr r w)"
  using assms
  by (auto simp: credential_gate_def validateClientCredential_def Let_def with_authorization_def split: option.splits)

lemma handle_blind:
  assumes "client_access_key (with_authorization a r) = client_access_key r"
  shows "handleS3Request px sr (with_authorization a r) w = exchange a (handleS3Request px sr r w)"
proof (cases "credential_gate sr r w")
  case (Inl w')
  then show ?thesis by (simp add: handleS3Request_def gate_blind [OF assms] exchange_def)
next
  case (Inr p)
  obtain r' w' where p: "p = (r', w')" by fastforce
  have "route (with_authorization a r') = route r'" by (simp add: route_def)
  with Inr p show ?thesis
    by (cases "run_stages (stages px r') w'")
      (simp_all add: handleS3Request_def gate_blind [OF assms] exchange_def stages_blind)
qed

lemma upd_commute: "k \<noteq> ''Authorization'' \<Longrightarrow> (h(''Authorization'' := a))(k := v) = (h(k := v))(''Authorization'' := a)"
  by (rule fun_upd_twist) auto

lemma hdr_ops_commute:
  "canonical k \<noteq> ''Authorization'' \<Longrightarrow> hdr_set k v (h(''Authorization'' := a)) = (hdr_set k v h)(''Authorization'' := a)"
  "canonical k \<noteq> ''Authorization'' \<Longrightarrow> hdr_del k (h(''Authorization'' := a)) = (hdr_del k h)(''Authorization'' := a)"
  by (simp_all add: hdr_set_def hdr_del_def fun_upd_twist)

lemma fold_del_commute:
  "\<forall>k \<in> set ks. canonical k \<noteq> ''Authorization'' \<Longrightarrow>
     fold hdr_del ks (h(''Authorization'' := a)) = (fold hdr_del ks h)(''Authorization'' := a)"
  by (induction ks arbitrary: h) (simp_all add: hdr_ops_commute)

lemma steps_blind:
  "director_virtual_host cfg (with_authorization a r) = with_authorization a (director_virtual_host cfg r)"
  "director_target up (with_authorization a r) = with_authorization a (director_target up r)"
  "director_content_length (with_authorization a r) = with_authorization a (director_content_length r)"
  "director_storage_class (with_authorization a r) = with_authorization a (director_storage_class r)"
  "director_xid (with_authorization a r) = with_authorization a (director_xid r)"
  "director_identity cfg (with_authorization a r) = with_authorization a (director_identity cfg r)"
  "director_md5 up (with_authorization a r) = with_authorization a (director_md5 up r)"
  by (auto simp: director_virtual_host_def director_target_def director_content_length_def director_storage_class_def
      director_xid_def director_identity_def director_md5_def with_authorization_def on_url_def on_header_def Let_def
      hdr_get_authorization hdr_ops_commute other_keys split: option.splits bool.splits)

lemma headers_blind: "director_headers cfg (with_authorization a r) = with_authorization a (director_headers cfg r)"
  by (simp add: director_headers_def on_header_def with_authorization_def strip_legacy_def Let_def
      hdr_get_authorization hdr_ops_commute fold_del_commute other_keys)

lemma prepare_blind: "director_prepare cfg up (with_authorization a r) = with_authorization a (director_prepare cfg up r)"
  by (simp add: director_prepare_def director_address_def steps_blind headers_blind)

text \<open>
  The signer of the SDK leaves the header out of what it signs (it is one of the headers it
  ignores) and sets it: when it succeeds, the request it leaves does not depend on the old
  value.
\<close>

definition signer_ignores_authorization :: "upstream \<Rightarrow> bool" where
  "signer_ignores_authorization up \<longleftrightarrow>
     (\<forall>c r a. fst (up_sign up c r) \<longrightarrow> up_sign up c (with_authorization a r) = up_sign up c r)"

lemma director_blind:
  assumes "signer_ignores_authorization up" "director_credentials cfg r = Some c"
    and "fst (up_sign up c (director_prepare cfg up r))"
  shows "director cfg up (with_authorization a r) = director cfg up r"
proof -
  have "director_credentials cfg (with_authorization a r) = Some c"
    using assms(2) by (simp add: director_credentials_def)
  moreover have "up_sign up c (with_authorization a (director_prepare cfg up r)) = up_sign up c (director_prepare cfg up r)"
    using assms(1,3) by (simp add: signer_ignores_authorization_def)
  ultimately show ?thesis
    using assms(2) by (simp add: director_def prepare_blind)
qed

end
