(* ===== verification/Path_Properties.thy ===== *)
theory Path_Properties
  imports Examples Signature_Blind
begin

text \<open>
  The properties of the request path as a whole: what may reach GCS, what is forwarded
  and under whose credentials, what is answered. They combine the configuration, the
  watched store, the request path and the Director.
\<close>

subsection \<open>Forwarding under the client's own credentials\<close>

lemma store_reads_sound:
  assumes "started read env px" "\<not> DryRun (px_config px)" "reads_at content (px_config px) sr"
  shows "0 < Size (sr_gate sr) \<and> 0 < Size (sr_size sr)"
  using reads_sound [OF assms] by (simp add: creds.sound_def)

text \<open>A signer for the instances: it writes down with which pair it was called.\<close>

definition naming_signer :: upstream where
  "naming_signer = \<lparr>up_url = req_url ex_get, up_md5 = id,
     up_sign = (\<lambda>c r. (True, with_authorization (Some [AccessKeyID c, SecretAccessKey c]) r))\<rparr>"

text \<open>
  C1. A proxy that started outside of a dry run forwards a request only when the client
  named an access key that is in the credential store at the moment of the lookup, and the
  Director then gives the prepared request to the signer with exactly that key and its
  secret and sends on what the signer leaves of it, whatever the three moments of the
  watcher's run at which the request reads the store. In particular the single-pair
  fallback of the Director is never taken.
\<close>
theorem forwarded_signed_with_client_key:
  assumes "started read env px" "\<not> DryRun (px_config px)" "reads_at content (px_config px) sr"
    and "handleS3Request px sr r w = Forwarded kind r' w'"
  shows "\<exists>ak sk. client_access_key r = Some ak \<and> Lookup (sr_lookup sr) ak = Some sk \<and>
    director (px_config px) up r' =
      snd (up_sign up \<lparr>AccessKeyID = ak, SecretAccessKey = sk\<rparr> (director_prepare (px_config px) up r'))"
  using forwarded_authenticated [OF assms(4)] store_reads_sound [OF assms(1-3)]
  by (auto simp: authenticated_def director_def director_credentials_def split_beta Let_def)

theorem forwarded_signed_with_client_key_witness:
  "\<exists>ak sk. client_access_key ex_get = Some ak \<and> Lookup (sr_lookup ex_reads) ak = Some sk \<and>
    director ex_config naming_signer (ex_get\<lparr>req_creds := Some ex_pair\<rparr>) =
      with_authorization (Some [ak, sk]) (director_prepare ex_config naming_signer (ex_get\<lparr>req_creds := Some ex_pair\<rparr>))"
  using forwarded_signed_with_client_key
    [OF ex_started _ _ ex_get_forwarded, where content = "\<lambda>_. ex_read" and up = naming_signer]
  by (auto simp: ex_reads_at naming_signer_def)

text \<open>
  C3. Outside of a dry run a request that names no access key of the store is answered
  with 403 and changes nothing at GCS.
\<close>
theorem unknown_key_is_forbidden:
  assumes "started read env px" "\<not> DryRun (px_config px)" "reads_at content (px_config px) sr"
    and "fresh w" "Option.bind (client_access_key r) (Lookup (sr_lookup sr)) = None"
  shows "\<exists>w'. handleS3Request px sr r w = Answered w' \<and> world_status w' = Some 403 \<and> w_gcs w' = w_gcs w"
proof (rule unauthenticated_rejected)
  show "\<forall>ak. client_access_key r = Some ak \<longrightarrow> Lookup (sr_lookup sr) ak = None"
    using assms(5) by auto
qed (use store_reads_sound [OF assms(1-3)] assms(4) in auto)

theorem unknown_key_is_forbidden_witness:
  "\<exists>w'. handleS3Request (ex_proxy ex_config ex_site_doc) ex_reads ex_anonymous ex_world = Answered w'
     \<and> world_status w' = Some 403 \<and> w_gcs w' = ex_memory"
  using unknown_key_is_forbidden [OF ex_started [of ex_site_doc], where content = "\<lambda>_. ex_read"
      and sr = ex_reads and r = ex_anonymous and w = ex_world]
  by (simp add: ex_reads_at ex_anonymous_key)

text \<open>
  C4. Outside of a dry run an answered request changed the state of GCS only if it was an
  enabled control-plane operation by its method and query, and the client named an access
  key of the store.
\<close>
theorem gcs_changed_only_by_authenticated_control:
  assumes "started read env px" "\<not> DryRun (px_config px)" "reads_at content (px_config px) sr"
    and "handleS3Request px sr r w = Answered w'" "w_gcs w' \<noteq> w_gcs w"
  shows "control_request px r \<and> (\<exists>ak sk. client_access_key r = Some ak \<and> Lookup (sr_lookup sr) ak = Some sk)"
  using gcs_reached_only_by_control [OF assms(4,5)] store_reads_sound [OF assms(1-3)]
  by (auto simp: authenticated_def)

theorem gcs_changed_only_by_authenticated_control_witness:
  "control_request (ex_proxy ex_config ex_site_doc) ex_put_site
   \<and> (\<exists>ak sk. client_access_key ex_put_site = Some ak \<and> Lookup (sr_lookup ex_reads) ak = Some sk)"
proof (rule gcs_changed_only_by_authenticated_control [OF ex_started _ _ ex_put_site_run])
  show "reads_at (\<lambda>_. ex_read) (px_config (ex_proxy ex_config ex_site_doc)) ex_reads"
    by (simp add: ex_reads_at)
  show "w_gcs (handlePutWebsite (ex_proxy ex_config ex_site_doc) (ex_put_site\<lparr>req_creds := Some ex_pair\<rparr>)
      (count_metric (HMACCredentialLookups ''hit'') ex_world)) \<noteq> w_gcs ex_world"
    using ex_put_site_stores [of "Some ex_pair" "HMACCredentialLookups ''hit''"] ex_memory_site [of "''bkt''"]
    by auto
qed simp

subsection \<open>Which requests are forwarded and what is answered\<close>

text \<open>
  C14. A request is forwarded exactly when the credential gate lets it pass and it is
  forwardable: its storage class is absent or one the proxy knows, its content is not
  aws-chunked, every subresource it names is one whose feature is on and whose methods it
  does not use, it names no restore, and the copy, multipart and bulk delete features it
  uses are on. GET and HEAD then go to the read proxy, everything else to the write proxy.
\<close>
theorem forwarded_exactly:
  "handleS3Request px sr r w = Forwarded kind r' w' \<longleftrightarrow>
     forwardable px r \<and> credential_gate sr r w = Inr (r', w')
     \<and> kind = (if req_method r = ''GET'' \<or> req_method r = ''HEAD'' then ReadProxy else WriteProxy)"
  by (auto simp: forwarded_iff route_def)

text \<open>
  Outside of a dry run every request that is not forwarded is answered with an explicit
  status, one of these eight: no path through the handlers returns without a response.
\<close>
theorem every_answer_has_a_status:
  assumes "started read env px" "\<not> DryRun (px_config px)" "reads_at content (px_config px) sr"
    and "fresh w" "handleS3Request px sr r w = Answered w'"
  shows "\<exists>c\<in>{200, 204, 400, 403, 404, 500, 501, 502}. world_status w' = Some c"
  using answered_always [OF assms(5,4)] store_reads_sound [OF assms(1-3)]
  by (auto simp: answered_def)

theorem every_answer_has_a_status_witness:
  "\<exists>c\<in>{200, 204, 400, 403, 404, 500, 501, 502}.
     world_status (handlePutWebsite (ex_proxy ex_config ex_site_doc) (ex_put_site\<lparr>req_creds := Some ex_pair\<rparr>)
       (count_metric (HMACCredentialLookups ''hit'') ex_world)) = Some c"
proof (rule every_answer_has_a_status [OF ex_started _ _ _ ex_put_site_run])
  show "reads_at (\<lambda>_. ex_read) (px_config (ex_proxy ex_config ex_site_doc)) ex_reads"
    by (simp add: ex_reads_at)
qed simp_all

text \<open>
  In a dry run neither the request path, whatever the credential store holds, nor the
  readiness probe changes the state of GCS.
\<close>
theorem dry_run_leaves_gcs:
  assumes "DryRun (px_config px)"
  shows "(case handleS3Request px sr r w of
      Answered w' \<Rightarrow> w_gcs w' = w_gcs w | Forwarded kind r' w' \<Rightarrow> w_gcs w' = w_gcs w)
    \<and> w_gcs (handleReadyz px w) = w_gcs w"
proof
  show "case handleS3Request px sr r w of
      Answered w' \<Rightarrow> w_gcs w' = w_gcs w | Forwarded kind r' w' \<Rightarrow> w_gcs w' = w_gcs w"
    by (rule dry_run_handled [OF assms])
  show "w_gcs (handleReadyz px w) = w_gcs w"
    by (simp add: handleReadyz_def featureDisabled404_def send_text_def assms)
qed

theorem dry_run_leaves_gcs_witness:
  "w_gcs (handleReadyz (ex_proxy ex_dry_config ex_site_doc) ex_world) = ex_memory"
  using dry_run_leaves_gcs [where px = "ex_proxy ex_dry_config ex_site_doc" and sr = ex_reads
      and r = ex_put_site and w = ex_world]
  by simp

text \<open>
  The readiness endpoint, when it is on, reports ready exactly in a dry run, or when
  there is a GCS client and the target bucket, if one is configured, can be read within
  five seconds.
\<close>
theorem ready_exactly:
  assumes "fresh w" "ReadyzEndpoint_on (Features (px_config px))"
  shows "world_status (handleReadyz px w) = Some 200 \<longleftrightarrow>
    DryRun (px_config px)
    \<or> px_client px \<and> (TargetBucket (px_config px) = []
        \<or> (\<exists>a. fst (api_bucket_attrs (px_api px) (Some (5 * nanos_per_sec)) (TargetBucket (px_config px))
              (w_gcs w)) = Inr a))"
  using readyz_ready_iff [OF assms] by (simp add: readyz_timeout_def)

theorem ready_exactly_witness:
  "world_status (handleReadyz (ex_proxy ex_config ex_site_doc) ex_world) = Some 200"
  using ready_exactly [of ex_world "ex_proxy ex_config ex_site_doc"]
  by (simp add: mem_api_def)

subsection \<open>What the signature of a client is worth\<close>

text \<open>An invented signature for the key of the store.\<close>

definition forged :: "string list option" where
  "forged = Some [''AWS4-HMAC-SHA256 Credential=AK1/x'']"

lemma forged_key:
  "client_access_key (with_authorization forged ex_put_site) = client_access_key ex_put_site"
  "client_access_key (with_authorization forged ex_get) = client_access_key ex_get"
proof -
  have "ExtractAccessKey ''AWS4-HMAC-SHA256 Credential=AK1/x'' = Some ''AK1''" by code_simp
  then show "client_access_key (with_authorization forged ex_put_site) = client_access_key ex_put_site"
    "client_access_key (with_authorization forged ex_get) = client_access_key ex_get"
    unfolding ex_put_site_def ex_get_def ex_client_key
    by (simp_all add: client_access_key_def header_value_def forged_def hdr_get_def)
qed
lemma naming_signer_ignores: "signer_ignores_authorization naming_signer"
  by (simp add: signer_ignores_authorization_def naming_signer_def with_authorization_def)

text \<open>
  C2. What the proxy does with a request, that is its answer, its effect on GCS and what it
  forwards, depends on the Authorization header only through the access key named in it:
  the signature of the client is never checked. Where the Director finds credentials for a
  forwarded request and the signing succeeds, what it sends does not depend on the rest of
  the header either.
\<close>
theorem signature_is_never_checked:
  assumes "client_access_key (with_authorization a r) = client_access_key r"
    and "signer_ignores_authorization up"
  shows "handleS3Request px sr (with_authorization a r) w = exchange a (handleS3Request px sr r w)
    \<and> (\<forall>kind r' w' c. handleS3Request px sr r w = Forwarded kind r' w'
         \<and> director_credentials (px_config px) r' = Some c
         \<and> fst (up_sign up c (director_prepare (px_config px) up r')) \<longrightarrow>
         director (px_config px) up (with_authorization a r') = director (px_config px) up r')"
  using handle_blind [OF assms(1)] director_blind [OF assms(2)] by blast

theorem signature_is_never_checked_witness:
  "(\<exists>w'. handleS3Request (ex_proxy ex_config ex_site_doc) ex_reads (with_authorization forged ex_put_site) ex_world = Answered w'
        \<and> w_gcs w' \<noteq> w_gcs ex_world)
   \<and> (\<exists>r' w'. handleS3Request (ex_proxy ex_config ex_site_doc) ex_reads ex_get ex_world = Forwarded ReadProxy r' w'
        \<and> handleS3Request (ex_proxy ex_config ex_site_doc) ex_reads (with_authorization forged ex_get) ex_world =
            Forwarded ReadProxy (with_authorization forged r') w'
        \<and> director ex_config naming_signer (with_authorization forged r') = director ex_config naming_signer r')"
proof -
  let ?w = "handlePutWebsite (ex_proxy ex_config ex_site_doc) (ex_put_site\<lparr>req_creds := Some ex_pair\<rparr>)
      (count_metric (HMACCredentialLookups ''hit'') ex_world)"
  let ?r = "ex_get\<lparr>req_creds := Some ex_pair\<rparr>"
  note claim = signature_is_never_checked [OF _ naming_signer_ignores,
      where px = "ex_proxy ex_config ex_site_doc" and sr = ex_reads and w = ex_world]
  have "handleS3Request (ex_proxy ex_config ex_site_doc) ex_reads (with_authorization forged ex_put_site) ex_world = Answered ?w"
    using claim [OF forged_key(1)] by (simp add: ex_put_site_run exchange_def)
  moreover have "w_gcs ?w \<noteq> w_gcs ex_world"
    using ex_put_site_stores [of "Some ex_pair" "HMACCredentialLookups ''hit''"] ex_memory_site [of "''bkt''"] by auto
  moreover have "director_credentials ex_config ?r = Some ex_pair"
    by (simp add: director_credentials_def)
  ultimately show ?thesis
    using claim [OF forged_key(2)] by (auto simp: ex_get_forwarded exchange_def naming_signer_def)
qed

end
