(* ===== verification/Store_Properties.thy ===== *)
theory Store_Properties
  imports Examples
begin

text \<open>
  The properties of the credentials: what a configuration may start with, what the store
  holds under the watcher, when the watcher reloads, and which access key is read off a
  request.
\<close>

subsection \<open>A credential file and a watcher to apply them to\<close>

definition ex_file :: bytes where
  "ex_file = ''{\"A\":\"b\"}''"

definition ex_pairs :: credmap where
  "ex_pairs = fmupd ''A'' ''b'' fmempty"

definition ex_content :: "nat \<Rightarrow> string \<Rightarrow> bytes option" where
  "ex_content t p = Some ex_file"

lemma ex_json_chars:
  "json_chars ''A\":\"b\"}'' = Some (''A'', '':\"b\"}'')" "json_chars ''b\"}'' = Some (''b'', ''}'')"
  by (simp_all add: json_chars.simps(2) decode_rune_def encode_rune_def valid_rune_def emit_def Let_def
      char_of_eq_iff)

lemma ex_file_parsed: "credstore_parse ex_file = Inr ex_pairs"
proof -
  have "trim_space ex_file = ex_file" "\<not> blank ''A''" "\<not> blank ''b''" by code_simp+
  moreover have "json_flat ex_file = Some [(''A'', ''b'')]"
    by (simp add: ex_file_def json_flat_def json_members.simps json_member_def json_value_def
        ex_json_chars skip_space_def json_space_def)
  moreover have "ex_file \<noteq> []" by (simp add: ex_file_def)
  ultimately show ?thesis
    by (simp add: credstore_parse_def of_pairs_def fmpred_iff ex_pairs_def)
qed

definition ex_event :: fs_event where
  "ex_event = \<lparr>ev_name = ''/etc/hmac.json'', ev_ops = [FsWrite]\<rparr>"

lemma ex_relevant: "relevant_event ''/etc/hmac.json'' ex_event"
  by (simp add: relevant_event_def ex_event_def)

abbreviation ex_watcher :: watcher where
  "ex_watcher \<equiv> start_watcher ex_store 1000"

lemma ex_watcher_runs: "wt_running ex_watcher" "wt_now ex_watcher = 1000" "wt_reloads ex_watcher = []"
  by (simp_all add: start_watcher_def)

subsection \<open>Starting\<close>

text \<open>
  C21. The proxy refuses to start for want of credentials exactly when it is not a dry run,
  neither a credential file nor inline credentials are set, and the legacy pair is not
  complete.
\<close>
theorem refuses_to_start_exactly:
  "LoadConfig read env = Inl NoCredentials \<longleftrightarrow>
     \<not> load_dry_run env \<and> getEnv env ''HMAC_CREDENTIALS_FILE'' [] = [] \<and> getEnv env ''HMAC_CREDENTIALS'' [] = []
     \<and> (proxyAK env = [] \<or> proxySK env = [])"
proof -
  have "fmdom m \<noteq> {||}" if "LoadFile read p = Inr m \<or> ParseJSON p = Inr m" for p m
    using that LoadFile_sound parse_sound by (auto simp: sound_credentials_def ParseJSON_def)
  then show ?thesis
    by (auto simp: LoadConfig_def loadHMACCredentials_def res_bind_def Let_def split: sum.splits)
qed

text \<open>
  A proxy that started outside of a dry run never holds an empty store, an empty access
  key or an empty secret: neither at the start nor at any moment of the watcher's run,
  whatever is written to the credential file.
\<close>
theorem store_always_holds_credentials:
  assumes "started read env px" "\<not> DryRun (px_config px)" "store_at content (px_config px) s"
  shows "0 < Size s \<and> Lookup s [] = None \<and> [] \<notin> ran (Lookup s)"
proof -
  have "creds.sound s"
    using store_at_sound [OF assms(3)] loaded_store_sound [of read env "px_config px"] assms(1,2)
    by (simp add: started_def)
  then show ?thesis
    by (auto simp: creds.sound_def ran_def intro: creds.sound_no_empty_key)
qed

theorem store_always_holds_credentials_witness:
  "0 < Size ex_store \<and> Lookup ex_store [] = None \<and> [] \<notin> ran (Lookup ex_store)"
  by (rule store_always_holds_credentials [of ex_read ex_env "ex_proxy ex_config ex_site_doc"
        "\<lambda>_. ex_read"])
    (simp_all add: ex_started, simp add: ex_store_def store_at.Unwatched)

subsection \<open>Hot reload\<close>

text \<open>
  C22. At every moment of the watcher's run the store is what the latest successful reload
  read from the file, or the initial one when no reload succeeded: a reload that fails
  leaves the credentials in service untouched.
\<close>
theorem store_is_latest_good_reload:
  assumes "watch_reachable content path (start_watcher s t0) w"
  shows "case latest_success w of
      None \<Rightarrow> wt_store w = s
    | Some t \<Rightarrow> LoadFile (content t) path = Inr (st_map (wt_store w))"
  using watcher_current [OF assms] by (cases "latest_success w") (simp_all add: start_watcher_def)

lemma ex_reload_store:
  "wt_store (run_reload ex_content p ex_event w) = Replace ex_pairs (wt_store w)"
  "latest_success (run_reload ex_content p ex_event ex_watcher) = Some 1200"
  by (simp_all add: run_reload_def on_timer_def LoadFile_def ex_content_def ex_file_parsed Let_def
      latest_success_def start_watcher_def debounceDelay_def)

theorem store_is_latest_good_reload_witness:
  "LoadFile (ex_content 1200) ''/etc/hmac.json'' =
     Inr (st_map (wt_store (run_reload ex_content ''/etc/hmac.json'' ex_event ex_watcher)))"
  using store_is_latest_good_reload
    [OF run_reload_reachable [OF ex_watcher_runs(1) ex_relevant], of ex_content]
  by (simp add: ex_reload_store)

text \<open>
  C23. A relevant change of a watched file that holds valid credentials is taken over: 200
  milliseconds later the watcher can have reloaded, and then its store is exactly the
  content of the file.
\<close>
theorem relevant_change_is_loaded:
  assumes "wt_running w" "relevant_event path ev"
    and "LoadFile (content (wt_now w + 200)) path = Inr m"
  shows "\<exists>w'. watch_reachable content path w w' \<and> wt_now w' = wt_now w + 200 \<and> wt_pending w' = None
    \<and> Lookup (wt_store w') = fmlookup m"
proof (intro exI conjI)
  let ?w' = "run_reload content path ev w"
  show "watch_reachable content path w ?w'"
    by (rule run_reload_reachable [OF assms(1,2)])
  show "wt_now ?w' = wt_now w + 200" "wt_pending ?w' = None"
    by (simp_all add: run_reload_def Let_def debounceDelay_def)
  show "Lookup (wt_store ?w') = fmlookup m"
    using assms(3)
    by (simp add: run_reload_def on_timer_store Let_def debounceDelay_def fun_eq_iff creds.lookup_replace)
qed

theorem relevant_change_is_loaded_witness:
  "\<exists>w'. watch_reachable ex_content ''/etc/hmac.json'' ex_watcher w' \<and> wt_now w' = 1200
     \<and> wt_pending w' = None \<and> Lookup (wt_store w') = fmlookup ex_pairs"
  using relevant_change_is_loaded [OF ex_watcher_runs(1) ex_relevant, of ex_content ex_pairs]
  by (simp add: LoadFile_def ex_content_def ex_file_parsed ex_watcher_runs)

text \<open>
  Debouncing: within 200 milliseconds of a relevant event there is no reload and the
  store does not change, whatever other events arrive, and the pending deadline is never
  earlier than 200 milliseconds after the event.
\<close>
theorem no_reload_while_debouncing:
  assumes "quiet_since content path t0 w w'"
  shows "wt_reloads w' = wt_reloads w \<and> wt_store w' = wt_store w
    \<and> (\<exists>d. wt_pending w' = Some d \<and> t0 + 200 \<le> d)"
  using debounce_invariant [OF assms] by (simp add: debounceDelay_def)

theorem no_reload_while_debouncing_witness:
  "wt_reloads (on_event ''/etc/hmac.json'' ex_event ex_watcher) = []
   \<and> wt_store (on_event ''/etc/hmac.json'' ex_event ex_watcher) = ex_store
   \<and> (\<exists>d. wt_pending (on_event ''/etc/hmac.json'' ex_event ex_watcher) = Some d \<and> 1000 + 200 \<le> d)"
  using no_reload_while_debouncing
    [OF quiet_since.Event_at [OF ex_watcher_runs(1) ex_relevant ex_watcher_runs(2)]]
  by (simp add: start_watcher_def)

subsection \<open>Settings\<close>

text \<open>
  Whatever the environment holds, every setting that sizes a buffer, a channel or the
  request log is positive, the concurrency limit is not negative, and the GCS call timeout
  is not negative.
\<close>

lemma settings_in_range:
  assumes "LoadConfig read env = Inr cfg"
  shows "0 \<le> MaxConcurrentRequests cfg \<and> 0 < ReadBufferSize cfg \<and> 0 < WriteBufferSize cfg
     \<and> 0 < ProxyBufferSize cfg \<and> 0 < ReqLogMaxSizeMB cfg \<and> 0 < ReqLogMaxBackup cfg
     \<and> 0 < ReqLogChanBuf cfg \<and> 0 < ReqLogKeepDays cfg \<and> 0 \<le> gcsCallTimeoutSec env"
proof -
  from assms obtain creds where "cfg = build_settings env creds"
    by (rule LoadConfig_Inr) blast
  then have "sane_settings cfg" by (simp add: build_sane)
  moreover have "0 \<le> gcsCallTimeoutSec env"
    by (simp add: gcsCallTimeoutSec_def env_int_bound or_zero_nonneg)
  ultimately show ?thesis by (simp add: sane_settings_def)
qed

text \<open>
  C29. The timeout of a GCS call, in nanoseconds of a 64-bit duration, is exactly the
  configured number of seconds up to 292 years; no deadline is set exactly for zero.
\<close>
theorem call_timeout_is_exact:
  assumes "LoadConfig read env = Inr (px_config px)" "gcsCallTimeoutSec env \<le> 9223372036"
  shows "call_deadline px =
    (if gcsCallTimeoutSec env = 0 then None else Some (seconds (gcsCallTimeoutSec env)))
    \<and> sint (seconds (gcsCallTimeoutSec env)) = gcsCallTimeoutSec env * 1000000000"
proof -
  from assms(1) obtain m path source where "px_config px = build_settings env (m, path, source)"
    by (rule LoadConfig_Inr) blast
  then have c: "GCSCallTimeout (px_config px) = seconds (gcsCallTimeoutSec env)" by simp
  have n: "0 \<le> gcsCallTimeoutSec env"
    by (simp add: gcsCallTimeoutSec_def env_int_bound or_zero_nonneg)
  from timeout_exact [OF this assms(2)] n show ?thesis
    by (simp add: call_deadline_def c)
qed

lemma ex_timeout: "gcsCallTimeoutSec ex_env = 30"
proof -
  have "parse_int ''30'' = Some 30" by code_simp
  then show ?thesis
    by (simp add: gcsCallTimeoutSec_def env_int_def getEnv_def ex_env_def or_zero_def Let_def)
qed

theorem call_timeout_is_exact_witness:
  "call_deadline (ex_proxy ex_config ex_site_doc) = Some (seconds 30) \<and> sint (seconds 30) = 30000000000"
  using call_timeout_is_exact [of ex_read ex_env "ex_proxy ex_config ex_site_doc"]
  by (simp add: ex_timeout ex_loaded)

subsection \<open>The access key of a request\<close>

lemma split_byte_concat: "split_byte c (x @ c # s) = split_byte c x @ split_byte c s"
proof (induction x)
  case (Cons a x)
  then show ?case by (auto split: list.splits simp: append_eq_Cons_conv)
qed simp

lemma find_append: "list_all (\<lambda>x. \<not> P x) xs \<Longrightarrow> find P (xs @ ys) = find P ys"
  by (induction xs) simp_all

lemma credential_segment_value:
  "credential_segment (''X-Amz-Credential='' @ v)" "segment_value (''X-Amz-Credential='' @ v) = v"
proof -
  have i: "index_byte (''X-Amz-Credential='' @ v) (CHR ''='') = Some 16"
    using index_byte_append [of "CHR ''=''" "''X-Amz-Credential''" v] by simp
  have "equal_fold ''X-Amz-Credential'' ''X-Amz-Credential''" by code_simp
  with i show "credential_segment (''X-Amz-Credential='' @ v)" "segment_value (''X-Amz-Credential='' @ v) = v"
    by (simp_all add: credential_segment_def segment_value_def)
qed

text \<open>
  The access key of a presigned URL is found: it is the value of the first segment of
  the query named X-Amz-Credential, up to its first slash, which may be escaped in either
  case or not at all; what comes before and after that segment does not matter.
\<close>
theorem presigned_key_is_found:
  assumes "list_all (\<lambda>s. \<not> credential_segment s) (split_byte (CHR ''&'') pre)"
    and "ak \<noteq> []" "set ak \<inter> set ''/%&'' = {}" "sep \<in> {''/'', ''%2F'', ''%2f''}" "CHR ''&'' \<notin> set scope"
  shows "ExtractAccessKeyFromQuery (pre @ ''&X-Amz-Credential='' @ ak @ sep @ scope @ ''&'' @ post) = Some ak"
proof -
  let ?seg = "''X-Amz-Credential='' @ ak @ sep @ scope"
  have "CHR ''&'' \<notin> set ?seg" using assms(3-5) by auto
  then have "split_byte (CHR ''&'') (?seg @ CHR ''&'' # post) = ?seg # split_byte (CHR ''&'') post"
    by (rule split_byte_append)
  with split_byte_concat [of "CHR ''&''" pre "?seg @ CHR ''&'' # post"]
  have "split_byte (CHR ''&'') (pre @ ''&X-Amz-Credential='' @ ak @ sep @ scope @ ''&'' @ post) =
      split_byte (CHR ''&'') pre @ ?seg # split_byte (CHR ''&'') post"
    by simp
  moreover have "find credential_segment (?seg # xs) = Some ?seg" for xs
    using credential_segment_value(1) [of "ak @ sep @ scope"] by simp
  moreover have "presigned_key (segment_value ?seg) = Some ak"
    using presigned_key_escaped [of ak scope] assms(2-4)
    unfolding credential_segment_value(2) by auto
  ultimately show ?thesis
    by (simp only: ExtractAccessKeyFromQuery_find find_append [OF assms(1)]) simp
qed

theorem presigned_key_is_found_witness:
  "ExtractAccessKeyFromQuery ''X-Amz-Date=1&X-Amz-Credential=AK1%2F20250101&X-Amz-Expires=60'' = Some ''AK1''"
proof -
  have "list_all (\<lambda>s. \<not> credential_segment s) (split_byte (CHR ''&'') ''X-Amz-Date=1'')" by code_simp
  from presigned_key_is_found [OF this, of "''AK1''" "''%2F''" "''20250101''" "''X-Amz-Expires=60''"]
  show ?thesis by simp
qed

end
