(* ===== verification/Subresource_Properties.thy ===== *)
theory Subresource_Properties
  imports Examples
begin

text \<open>
  The properties of the control-plane subresources: what a PUT stores, what a GET shows of
  it, and what becomes of a document that cannot be expressed at GCS.
\<close>

subsection \<open>One document, stored and read back\<close>

text \<open>The concrete run shared by the four witnesses: PUT the document, then GET.\<close>

definition ex_put :: "xml \<Rightarrow> request" where
  "ex_put x = ex_request ''PUT'' ''/bkt'' [] [] (Some (render x))"

definition ex_read_back :: request where
  "ex_read_back = ex_request ''GET'' ''/bkt'' [] [] None"

definition ex_next :: "memory world \<Rightarrow> memory world" where
  "ex_next w = \<lparr>w_ops = [], w_gcs = w_gcs w, w_metrics = []\<rparr>"

lemma ex_next_simps [simp]:
  "fresh (ex_next w)" "rw_body (w_rw (ex_next w)) = []" "w_gcs (ex_next w) = w_gcs w"
  by (simp_all add: ex_next_def fresh_def)

lemma ex_bucket [simp]: "path_bucket (ex_put x) = Some ''bkt''" "path_bucket ex_read_back = Some ''bkt''"
  by (simp_all add: path_bucket_def ex_put_def ex_read_back_def ex_paths)

definition small :: "xml \<Rightarrow> bool" where
  "small x \<longleftrightarrow> length (render x) \<le> maxControlPlaneBodySize"

lemma ex_body [simp]: "small x \<Longrightarrow> read_capped (req_body (ex_put x)) = BodyOk (render x)"
  by (simp add: small_def read_capped_def ex_put_def)

lemma ex_document: "small x \<Longrightarrow> put_document (ex_proxy cfg x) decode (ex_put x) = decode x"
  by (simp add: put_document_def)

lemma ex_run:
  assumes "subresource put get decode plan shown plain" "small x" "decode x = Some doc"
    and "plan (ex_proxy ex_config x) doc = Some u" "shown (apply_update u ex_attrs) = Some x"
  defines "w1 \<equiv> ex_next (put (ex_proxy ex_config x) (ex_put x) ex_world)"
  shows "world_status (put (ex_proxy ex_config x) (ex_put x) ex_world) = Some 200"
    and "api_bucket_attrs mem_api d ''bkt'' (w_gcs w1) = (Inr (apply_update u ex_attrs), w_gcs w1)"
    and "rw_body (w_rw (get (ex_proxy ex_config x) ex_read_back w1)) = render x"
proof -
  note put = put_handler.put_status [OF subresource.axioms(1) [OF assms(1)]]
    put_handler.put_gcs [OF subresource.axioms(1) [OF assms(1)]]
  have req: "put_request (ex_proxy ex_config x) decode (plan (ex_proxy ex_config x)) (ex_put x) = Some (''bkt'', u)"
    using assms(2-4) by (simp add: put_request_def ex_document)
  then show "world_status (put (ex_proxy ex_config x) (ex_put x) ex_world) = Some 200"
    using assms(2-4) by (simp add: put ex_document run_update_def mem_api_def)
  show a: "api_bucket_attrs mem_api d ''bkt'' (w_gcs w1) = (Inr (apply_update u ex_attrs), w_gcs w1)" for d
    by (simp add: w1_def put req run_update_def mem_api_def ex_memory_def)
  show "rw_body (w_rw (get (ex_proxy ex_config x) ex_read_back w1)) = render x"
    using get_handler.get_found [OF subresource.axioms(2) [OF assms(1)], of w1 ex_read_back "''bkt''"
        "ex_proxy ex_config x" "apply_update u ex_attrs" "w_gcs w1" x] a assms(5)
    by (simp add: w1_def)
qed

text \<open>
  C30. Lifecycle: for a client whose bucket attributes show successful updates, a document
  that was accepted by PUT, read back by GET and stored again by PUT asks GCS for exactly
  the update of the first PUT. This is outside of a dry run and for documents whose day
  counts are not negative, whose aborts of incomplete uploads wait at least one day, and
  whose rules name at most one prefix each.
\<close>
theorem lifecycle_put_get_put:
  assumes "keeps_updates (px_api px)" "\<not> DryRun (px_config px)"
    and "fresh w" "put_document px decode_lifecycle r = Some doc" "list_all plain_rule (Lc_Rules doc)"
      "path_bucket r = Some b" "world_status (handlePutLifecycle px r w) = Some 200"
    and "fresh w1" "rw_body (w_rw w1) = []" "w_gcs w1 = w_gcs (handlePutLifecycle px r w)" "path_bucket r1 = Some b"
      "api_bucket_attrs (px_api px) (call_deadline px) b (w_gcs w1) = (Inr a, s1)" "lifecycle_document a = Some x"
    and "read_capped (req_body r2) = BodyOk (rw_body (w_rw (handleGetLifecycle px r1 w1)))"
      "px_xml px (render x) = Some x" "path_bucket r2 = Some b"
  shows "world_status (handleGetLifecycle px r1 w1) = Some 200
    \<and> put_request px decode_lifecycle (lifecycle_plan px) r2 = put_request px decode_lifecycle (lifecycle_plan px) r
    \<and> put_request px decode_lifecycle (lifecycle_plan px) r \<noteq> None"
  using assms by (rule lifecycle_sub.put_get_put)

definition ex_rule :: Rule where
  "ex_rule = zero_Rule\<lparr>R_ID := ''rule-0'', R_Status := ''Enabled'',
     R_Filter := Some (zero_Filter\<lparr>F_Prefix := Some ''logs''\<rparr>),
     R_Expiration := Some (zero_Expiration\<lparr>Exp_Days := Some 30\<rparr>)\<rparr>"

definition ex_lifecycle :: LifecycleConfiguration where
  "ex_lifecycle = \<lparr>Lc_Rules = [ex_rule]\<rparr>"

definition ex_gcs_rule :: LifecycleRule where
  "ex_gcs_rule = \<lparr>Lr_Action = delete_action,
     Lr_Condition = zero_Condition\<lparr>Cond_AgeInDays := 30, Cond_MatchesPrefix := [''logs'']\<rparr>\<rparr>"

lemma ex_lifecycle_to_gcs: "TranslateS3ToGCSLifecycle ex_lifecycle = Inr [ex_gcs_rule]"
  by (simp add: TranslateS3ToGCSLifecycle_def ex_lifecycle_def ex_rule_def translate_rule_def check_filter_def
      zero_defs expiration_rules_def expiration_rule_def transition_rules_def noncurrent_rules_def
      abort_rules_def applySDKFilter_def nonempty_prefix_def set_age_def set_created_before_def
      ex_gcs_rule_def zero_Condition_def Let_def)

lemma ex_lifecycle_shown: "lifecycle_shown [ex_gcs_rule] = Some ex_lifecycle"
proof -
  have "show_nat 0 = ''0''" by code_simp
  then show ?thesis
    by (simp add: lifecycle_shown_def TranslateGCSToS3Lifecycle_def ex_gcs_rule_def reverse_rule_def
        delete_action_def zero_Condition_def prefix_filter_def positive_def s3_date_def ex_lifecycle_def
        ex_rule_def zero_Expiration_def Let_def)
qed

lemma ex_lifecycle_plain: "list_all plain_rule (Lc_Rules ex_lifecycle)"
  by (simp add: ex_lifecycle_def ex_rule_def plain_rule_def zero_defs filter_prefixes_def nonempty_prefix_def
      nonneg_def)

lemma ex_escapes: "xml_escape ''rule-0'' = ''rule-0''" "xml_escape ''logs'' = ''logs''"
  "xml_escape ''Enabled'' = ''Enabled''" "xml_escape ''30'' = ''30''" "xml_escape ''0'' = ''0''"
  by (rule xml_escape_plain, code_simp)+

lemma ex_lifecycle_small: "small (encode_lifecycle ex_lifecycle)"
proof -
  have "show_int 30 = ''30''" "show_int 0 = ''0''" by code_simp+
  then show ?thesis
    by (simp add: small_def maxControlPlaneBodySize_def encode_lifecycle_def lifecycle_kids_def encode_rule_def
        rule_kids_def encode_filter_def filter_kids_def encode_expiration_def expiration_kids_def
        ex_lifecycle_def ex_rule_def zero_defs opt_elem_def text_elem_def int_elem_def ex_escapes)
qed

theorem lifecycle_put_get_put_witness:
  "put_request (ex_proxy ex_config (encode_lifecycle ex_lifecycle)) decode_lifecycle
     (lifecycle_plan (ex_proxy ex_config (encode_lifecycle ex_lifecycle))) (ex_put (encode_lifecycle ex_lifecycle))
   \<noteq> None"
proof -
  let ?x = "encode_lifecycle ex_lifecycle"
  have shown: "lifecycle_document (apply_update (no_update\<lparr>Bu_Lifecycle := Some [ex_gcs_rule]\<rparr>) ex_attrs) = Some ?x"
    by (simp add: lifecycle_document_def apply_update_def ex_lifecycle_shown)
  have plan: "lifecycle_plan (ex_proxy ex_config ?x) ex_lifecycle =
      Some (no_update\<lparr>Bu_Lifecycle := Some [ex_gcs_rule]\<rparr>)"
    by (simp add: lifecycle_plan_def lifecycle_to_gcs_def ex_lifecycle_to_gcs)
  note run = ex_run [OF lifecycle_sub.subresource_axioms ex_lifecycle_small lifecycle_xml.decode_encode plan shown]
  show ?thesis
    using lifecycle_put_get_put [where px = "ex_proxy ex_config ?x" and w = ex_world and r = "ex_put ?x"
        and doc = ex_lifecycle and ?w1.0 = "ex_next (handlePutLifecycle (ex_proxy ex_config ?x) (ex_put ?x) ex_world)"
        and ?r1.0 = ex_read_back and b = "''bkt''" and ?r2.0 = "ex_put ?x" and x = ?x,
        OF _ _ _ _ _ _ run(1) _ _ _ _ _ shown] run(2,3) ex_lifecycle_small
    by (simp add: mem_keeps_updates ex_document lifecycle_xml.decode_encode ex_lifecycle_plain)
qed

text \<open>
  CORS: the same, for documents with at least one rule and max ages that fit a 64-bit
  duration.
\<close>
theorem cors_put_get_put:
  assumes "keeps_updates (px_api px)" "\<not> DryRun (px_config px)"
    and "fresh w" "put_document px decode_cors r = Some doc" "plain_cors doc \<and> Cc_CORSRules doc \<noteq> []"
      "path_bucket r = Some b" "world_status (handlePutCORS px r w) = Some 200"
    and "fresh w1" "rw_body (w_rw w1) = []" "w_gcs w1 = w_gcs (handlePutCORS px r w)" "path_bucket r1 = Some b"
      "api_bucket_attrs (px_api px) (call_deadline px) b (w_gcs w1) = (Inr a, s1)" "cors_document a = Some x"
    and "read_capped (req_body r2) = BodyOk (rw_body (w_rw (handleGetCORS px r1 w1)))"
      "px_xml px (render x) = Some x" "path_bucket r2 = Some b"
  shows "world_status (handleGetCORS px r1 w1) = Some 200
    \<and> put_request px decode_cors (cors_plan px) r2 = put_request px decode_cors (cors_plan px) r
    \<and> put_request px decode_cors (cors_plan px) r \<noteq> None"
  using assms by (rule cors_sub.put_get_put)

definition ex_cors :: CORSConfiguration where
  "ex_cors = \<lparr>Cc_CORSRules = [zero_CORSRule\<lparr>Cr_AllowedMethods := [''GET''],
     Cr_AllowedOrigins := [''example.com''], Cr_MaxAgeSeconds := Some 60\<rparr>]\<rparr>"

definition ex_gcs_cors :: CORS where
  "ex_gcs_cors = \<lparr>Co_MaxAge = 60 * nanos_per_sec, Co_Methods = [''GET''], Co_Origins = [''example.com''],
     Co_ResponseHeaders = []\<rparr>"

lemma ex_cors_plan: "cors_plan px ex_cors = Some (no_update\<lparr>Bu_CORS := Some [ex_gcs_cors]\<rparr>)"
  by (simp add: cors_plan_def TranslateS3ToGCSCors_def ex_cors_def cors_rule_to_gcs_def ex_gcs_cors_def
      zero_CORSRule_def)

lemma ex_cors_shown: "cors_document (apply_update (no_update\<lparr>Bu_CORS := Some [ex_gcs_cors]\<rparr>) ex_attrs) =
    Some (encode_cors ex_cors)"
proof -
  have "seconds_of (60 * nanos_per_sec) = 60"
    by (rule seconds_of_whole) simp_all
  moreover have "0 < sint (60 * nanos_per_sec)" by code_simp
  ultimately show ?thesis
    by (simp add: cors_document_def apply_update_def TranslateGCSToS3Cors_def cors_rule_to_s3_def
        ex_gcs_cors_def ex_cors_def zero_CORSRule_def)
qed

lemma ex_cors_small: "small (encode_cors ex_cors)"
proof -
  have "show_int 60 = ''60''" by code_simp
  moreover have "xml_escape ''GET'' = ''GET''" "xml_escape ''example.com'' = ''example.com''"
    "xml_escape ''60'' = ''60''"
    by (rule xml_escape_plain, code_simp)+
  ultimately show ?thesis
    by (simp add: small_def maxControlPlaneBodySize_def encode_cors_def cors_kids_def encode_cors_rule_def
        cors_rule_kids_def ex_cors_def zero_CORSRule_def opt_elem_def text_elem_def int_elem_def)
qed

theorem cors_put_get_put_witness:
  "put_request (ex_proxy ex_config (encode_cors ex_cors)) decode_cors
     (cors_plan (ex_proxy ex_config (encode_cors ex_cors))) (ex_put (encode_cors ex_cors)) \<noteq> None"
proof -
  let ?x = "encode_cors ex_cors"
  note run = ex_run [OF cors_sub.subresource_axioms ex_cors_small cors_xml.decode_encode ex_cors_plan ex_cors_shown]
  have "plain_cors ex_cors \<and> Cc_CORSRules ex_cors \<noteq> []"
    by (simp add: ex_cors_def plain_cors_def)
  then show ?thesis
    using cors_put_get_put [where px = "ex_proxy ex_config ?x" and w = ex_world and r = "ex_put ?x"
        and doc = ex_cors and ?w1.0 = "ex_next (handlePutCORS (ex_proxy ex_config ?x) (ex_put ?x) ex_world)"
        and ?r1.0 = ex_read_back and b = "''bkt''" and ?r2.0 = "ex_put ?x" and x = ?x,
        OF _ _ _ _ _ _ run(1) _ _ _ _ _ ex_cors_shown] run(2,3) ex_cors_small
    by (simp add: mem_keeps_updates ex_document cors_xml.decode_encode)
qed

text \<open>Logging: the same, for documents that enable logging into a named bucket.\<close>
theorem logging_put_get_put:
  assumes "keeps_updates (px_api px)" "\<not> DryRun (px_config px)"
    and "fresh w" "put_document px decode_logging r = Some doc"
      "plain_logging doc \<and> Bls_LoggingEnabled doc \<noteq> None"
      "path_bucket r = Some b" "world_status (handlePutLogging px r w) = Some 200"
    and "fresh w1" "rw_body (w_rw w1) = []" "w_gcs w1 = w_gcs (handlePutLogging px r w)" "path_bucket r1 = Some b"
      "api_bucket_attrs (px_api px) (call_deadline px) b (w_gcs w1) = (Inr a, s1)" "logging_document a = Some x"
    and "read_capped (req_body r2) = BodyOk (rw_body (w_rw (handleGetLogging px r1 w1)))"
      "px_xml px (render x) = Some x" "path_bucket r2 = Some b"
  shows "world_status (handleGetLogging px r1 w1) = Some 200
    \<and> put_request px decode_logging (logging_plan px) r2 = put_request px decode_logging (logging_plan px) r
    \<and> put_request px decode_logging (logging_plan px) r \<noteq> None"
  using assms by (rule logging_sub.put_get_put)

definition ex_logging :: BucketLoggingStatus where
  "ex_logging = \<lparr>Bls_LoggingEnabled = Some \<lparr>Le_TargetBucket = ''audit'', Le_TargetPrefix = ''p''\<rparr>\<rparr>"

definition ex_gcs_logging :: BucketLogging where
  "ex_gcs_logging = \<lparr>Bl_LogBucket = ''audit'', Bl_LogObjectPrefix = ''p''\<rparr>"

lemma ex_logging_plan: "logging_plan px ex_logging = Some (no_update\<lparr>Bu_Logging := Some ex_gcs_logging\<rparr>)"
  by (simp add: logging_plan_def TranslateS3ToGCSLogging_def ex_logging_def ex_gcs_logging_def)

lemma ex_logging_shown:
  "logging_document (apply_update (no_update\<lparr>Bu_Logging := Some ex_gcs_logging\<rparr>) ex_attrs) =
     Some (encode_logging ex_logging)"
  by (simp add: logging_document_def apply_update_def TranslateGCSToS3Logging_def ex_gcs_logging_def ex_logging_def)

lemma ex_logging_small: "small (encode_logging ex_logging)"
proof -
  have "xml_escape ''audit'' = ''audit''" "xml_escape ''p'' = ''p''"
    by (rule xml_escape_plain, code_simp)+
  then show ?thesis
    by (simp add: small_def maxControlPlaneBodySize_def encode_logging_def logging_kids_def ex_logging_def
        opt_elem_def text_elem_def)
qed

theorem logging_put_get_put_witness:
  "put_request (ex_proxy ex_config (encode_logging ex_logging)) decode_logging
     (logging_plan (ex_proxy ex_config (encode_logging ex_logging))) (ex_put (encode_logging ex_logging)) \<noteq> None"
proof -
  let ?x = "encode_logging ex_logging"
  note run = ex_run [OF logging_sub.subresource_axioms ex_logging_small logging_xml.decode_encode
      ex_logging_plan ex_logging_shown]
  have "plain_logging ex_logging \<and> Bls_LoggingEnabled ex_logging \<noteq> None"
    by (simp add: ex_logging_def plain_logging_def)
  then show ?thesis
    using logging_put_get_put [where px = "ex_proxy ex_config ?x" and w = ex_world and r = "ex_put ?x"
        and doc = ex_logging and ?w1.0 = "ex_next (handlePutLogging (ex_proxy ex_config ?x) (ex_put ?x) ex_world)"
        and ?r1.0 = ex_read_back and b = "''bkt''" and ?r2.0 = "ex_put ?x" and x = ?x,
        OF _ _ _ _ _ _ run(1) _ _ _ _ _ ex_logging_shown] run(2,3) ex_logging_small
    by (simp add: mem_keeps_updates ex_document logging_xml.decode_encode)
qed

text \<open>Website: the same, for every document that GET shows at all.\<close>
theorem website_put_get_put:
  assumes "keeps_updates (px_api px)" "\<not> DryRun (px_config px)"
    and "fresh w" "put_document px decode_website r = Some doc"
      "path_bucket r = Some b" "world_status (handlePutWebsite px r w) = Some 200"
    and "fresh w1" "rw_body (w_rw w1) = []" "w_gcs w1 = w_gcs (handlePutWebsite px r w)" "path_bucket r1 = Some b"
      "api_bucket_attrs (px_api px) (call_deadline px) b (w_gcs w1) = (Inr a, s1)" "website_document a = Some x"
    and "read_capped (req_body r2) = BodyOk (rw_body (w_rw (handleGetWebsite px r1 w1)))"
      "px_xml px (render x) = Some x" "path_bucket r2 = Some b"
  shows "world_status (handleGetWebsite px r1 w1) = Some 200
    \<and> put_request px decode_website (website_plan px) r2 = put_request px decode_website (website_plan px) r
    \<and> put_request px decode_website (website_plan px) r \<noteq> None"
  using assms website_sub.put_get_put [of px w r doc b w1 r1 a s1 x r2] by simp

lemma ex_site_plan: "website_plan px ex_site =
    Some (no_update\<lparr>Bu_Website := Some \<lparr>Bw_MainPageSuffix = ''index.html'', Bw_NotFoundPage = []\<rparr>\<rparr>)"
  by (simp add: website_plan_def TranslateS3ToGCSWebsite_def ex_site_def zero_website_def)

lemma ex_site_shown:
  "website_document (apply_update
      (no_update\<lparr>Bu_Website := Some \<lparr>Bw_MainPageSuffix = ''index.html'', Bw_NotFoundPage = []\<rparr>\<rparr>) ex_attrs) =
    Some ex_site_doc"
  by (simp add: website_document_def apply_update_def TranslateGCSToS3Website_def ex_site_def)

theorem website_put_get_put_witness:
  "put_request (ex_proxy ex_config ex_site_doc) decode_website
     (website_plan (ex_proxy ex_config ex_site_doc)) (ex_put ex_site_doc) \<noteq> None"
proof -
  have small: "small ex_site_doc" using ex_site_size by (simp add: small_def)
  note run = ex_run [OF website_sub.subresource_axioms small website_xml.decode_encode ex_site_plan ex_site_shown]
  show ?thesis
    using website_put_get_put [where px = "ex_proxy ex_config ex_site_doc" and w = ex_world
        and r = "ex_put ex_site_doc" and doc = ex_site
        and ?w1.0 = "ex_next (handlePutWebsite (ex_proxy ex_config ex_site_doc) (ex_put ex_site_doc) ex_world)"
        and ?r1.0 = ex_read_back and b = "''bkt''" and ?r2.0 = "ex_put ex_site_doc" and x = ex_site_doc,
        OF _ _ _ _ _ run(1) _ _ _ _ _ ex_site_shown] run(2,3) small
    by (simp add: mem_keeps_updates ex_document website_xml.decode_encode)
qed

subsection \<open>What a PUT does to GCS\<close>

lemma lifecycle_error_iff:
  "list_ex unsupported_rule (Lc_Rules doc) \<longleftrightarrow> (\<exists>e. TranslateS3ToGCSLifecycle doc = Inl e)"
  by (simp add: translation_fails_iff)

text \<open>
  C31. Outside of a dry run, a readable lifecycle document with an enabled rule that GCS
  cannot express (a filter by size or tag, alone or inside And, or a date whose first ten
  bytes are not a day of the calendar) is answered with 400 and GCS is left alone, even
  when other rules could be expressed. Every other one leads to exactly one update of the
  addressed bucket, which sets the translated rules and nothing else, and is answered with
  200 exactly when GCS accepts it.
\<close>
theorem lifecycle_put_all_or_nothing:
  assumes "fresh w" "put_document px decode_lifecycle r = Some doc" "path_bucket r = Some b" "\<not> DryRun (px_config px)"
  shows "if list_ex unsupported_rule (Lc_Rules doc)
    then world_status (handlePutLifecycle px r w) = Some 400 \<and> w_gcs (handlePutLifecycle px r w) = w_gcs w
    else (\<exists>gs. TranslateS3ToGCSLifecycle doc = Inr gs \<and>
      (let (res, s') = api_bucket_update (px_api px) (call_deadline px) b
              (no_update\<lparr>Bu_Lifecycle := Some gs\<rparr>) (w_gcs w) in
       w_gcs (handlePutLifecycle px r w) = s'
       \<and> (world_status (handlePutLifecycle px r w) = Some 200 \<longleftrightarrow> res = Inr ())))"
proof (cases "TranslateS3ToGCSLifecycle doc")
  case (Inl e)
  then have "list_ex unsupported_rule (Lc_Rules doc)"
    by (simp add: lifecycle_error_iff)
  with Inl assms show ?thesis
    by (simp add: handlePutLifecycle_def decode_accepts bucket_accepts)
next
  case (Inr gs)
  then have ok: "\<not> list_ex unsupported_rule (Lc_Rules doc)"
    by (simp add: lifecycle_error_iff)
  have plan: "lifecycle_plan px doc = Some (no_update\<lparr>Bu_Lifecycle := Some gs\<rparr>)"
    using Inr by (simp add: lifecycle_plan_def lifecycle_to_gcs_def)
  from put_lifecycle.accepted_updates [OF assms(1,2) plan assms(3,4)] Inr ok show ?thesis
    by (auto split: prod.split)
qed

theorem lifecycle_put_all_or_nothing_witness:
  "w_gcs (handlePutLifecycle (ex_proxy ex_config (encode_lifecycle ex_lifecycle))
      (ex_put (encode_lifecycle ex_lifecycle)) ex_world) =
   ex_memory\<lparr>mem_bucket := (mem_bucket ex_memory)
      (''bkt'' := apply_update (no_update\<lparr>Bu_Lifecycle := Some [ex_gcs_rule]\<rparr>) ex_attrs)\<rparr>"
proof -
  have "\<not> list_ex unsupported_rule (Lc_Rules ex_lifecycle)"
    by (simp add: lifecycle_error_iff ex_lifecycle_to_gcs)
  then show ?thesis
    using lifecycle_put_all_or_nothing [of ex_world "ex_proxy ex_config (encode_lifecycle ex_lifecycle)"
        "ex_put (encode_lifecycle ex_lifecycle)" ex_lifecycle "''bkt''"]
    by (simp add: ex_document ex_lifecycle_small lifecycle_xml.decode_encode ex_lifecycle_to_gcs mem_api_def
        ex_memory_def)
qed

text \<open>
  C32. A PUT whose body is too large, unreadable or malformed, or whose path names no
  bucket, changes nothing at GCS and is not answered with success, for each of the four
  bucket subresources.
\<close>
theorem malformed_put_changes_nothing:
  assumes "fresh w"
    and "read_capped (req_body r) \<in> {BodyTooBig, BodyFailed} \<or> path_bucket r = None
      \<or> (\<exists>body. read_capped (req_body r) = BodyOk body \<and> px_xml px body = None)"
  shows "\<forall>put \<in> {handlePutLifecycle, handlePutCORS, handlePutLogging, handlePutWebsite}.
    w_gcs (put px r w) = w_gcs w \<and> world_status (put px r w) \<noteq> Some 200"
proof -
  have bad: "put_document px decode r = None \<or> path_bucket r = None" for decode :: "xml \<Rightarrow> 'x option"
    using assms(2) by (auto simp: put_document_def)
  have "w_gcs (handlePutLifecycle px r w) = w_gcs w \<and> world_status (handlePutLifecycle px r w) \<noteq> Some 200"
    by (rule put_lifecycle.rejected_leaves_gcs [OF assms(1)]) (use bad [of decode_lifecycle] in blast)
  moreover have "w_gcs (handlePutCORS px r w) = w_gcs w \<and> world_status (handlePutCORS px r w) \<noteq> Some 200"
    by (rule put_cors.rejected_leaves_gcs [OF assms(1)]) (use bad [of decode_cors] in blast)
  moreover have "w_gcs (handlePutLogging px r w) = w_gcs w \<and> world_status (handlePutLogging px r w) \<noteq> Some 200"
    by (rule put_logging.rejected_leaves_gcs [OF assms(1)]) (use bad [of decode_logging] in blast)
  moreover have "w_gcs (handlePutWebsite px r w) = w_gcs w \<and> world_status (handlePutWebsite px r w) \<noteq> Some 200"
    by (rule put_website.rejected_leaves_gcs [OF assms(1)]) (use bad [of decode_website] in blast)
  ultimately show ?thesis by simp
qed

theorem malformed_put_changes_nothing_witness:
  "list_all (\<lambda>put. w_gcs (put (ex_proxy ex_config ex_site_doc) ex_read_back ex_world) = ex_memory
       \<and> world_status (put (ex_proxy ex_config ex_site_doc) ex_read_back ex_world) \<noteq> Some 200)
     [handlePutLifecycle, handlePutCORS, handlePutLogging, handlePutWebsite]"
proof -
  have "read_capped (req_body ex_read_back) = BodyOk []"
    by (simp add: read_capped_def ex_read_back_def)
  moreover have "px_xml (ex_proxy ex_config ex_site_doc) [] = None"
    by (simp add: ex_proxy_def ex_site_rendered)
  ultimately show ?thesis
    using malformed_put_changes_nothing [of ex_world ex_read_back "ex_proxy ex_config ex_site_doc"] by simp
qed

subsection \<open>Object tagging\<close>

text \<open>
  C33. Outside of a dry run, a tagging PUT that is answered with 200 leaves the object with exactly the tags of
  the document, whatever tags it had before (the last of two tags with the same key
  counts), for a client that applies a patch made under the current metageneration.
\<close>
theorem tagging_put_replaces_all_tags:
  assumes "keeps_patches (px_api px)" "fresh w" "put_document px decode_tagging r = Some doc"
    and "path_object r = Some (b, k)" "\<not> DryRun (px_config px)"
    and "world_status (handlePutObjectTagging px r w) = Some 200"
  shows "\<exists>a s. api_object_attrs (px_api px) (call_deadline px) b k (w_gcs (handlePutObjectTagging px r w)) = (Inr a, s)
    \<and> contexts_of a = tag_map doc"
  using assms by (rule put_tagging_stores)

definition ex_tags :: Tagging where
  "ex_tags = \<lparr>Tg_TagSet = [\<lparr>Tag_Key = ''env'', Tag_Value = ''prod''\<rparr>]\<rparr>"

abbreviation ex_tags_doc :: xml where
  "ex_tags_doc \<equiv> encode_tagging ex_tags"

definition ex_tag_put :: request where
  "ex_tag_put = ex_request ''PUT'' ''/bkt/key'' ''tagging'' [] (Some (render ex_tags_doc))"

lemma ex_tag_put_parts:
  "put_document (ex_proxy ex_config ex_tags_doc) decode_tagging ex_tag_put = Some ex_tags"
  "path_object ex_tag_put = Some (''bkt'', ''key'')"
proof -
  have "xml_escape ''env'' = ''env''" "xml_escape ''prod'' = ''prod''"
    by (rule xml_escape_plain, code_simp)+
  then have "length (render ex_tags_doc) \<le> maxControlPlaneBodySize"
    by (simp add: maxControlPlaneBodySize_def encode_tagging_def tagging_kids_def encode_tag_def tag_kids_def
        ex_tags_def text_elem_def)
  then show "put_document (ex_proxy ex_config ex_tags_doc) decode_tagging ex_tag_put = Some ex_tags"
    by (simp add: put_document_def read_capped_def ex_tag_put_def tagging_xml.decode_encode)
  show "path_object ex_tag_put = Some (''bkt'', ''key'')"
    by (simp add: path_object_def ex_tag_put_def ex_paths)
qed

lemma ex_tagging_works: "fst (tagging_effect (ex_proxy ex_config x) ''bkt'' ''key'' p ex_memory) = Inr ()"
  by (simp add: tagging_effect_def mem_api_def ex_memory_def)

theorem tagging_put_replaces_all_tags_witness:
  "\<exists>a s. api_object_attrs mem_api (call_deadline (ex_proxy ex_config ex_tags_doc)) ''bkt'' ''key''
      (w_gcs (handlePutObjectTagging (ex_proxy ex_config ex_tags_doc) ex_tag_put ex_world)) = (Inr a, s)
    \<and> contexts_of a = [''env'' \<mapsto> ''prod'']"
proof -
  have ok: "world_status (handlePutObjectTagging (ex_proxy ex_config ex_tags_doc) ex_tag_put ex_world) = Some 200"
    using put_tagging_effect(2) [of ex_world "ex_proxy ex_config ex_tags_doc" ex_tag_put ex_tags "''bkt''" "''key''"]
    by (simp add: ex_tag_put_parts ex_tagging_works)
  have "tag_map ex_tags = [''env'' \<mapsto> ''prod'']"
    by (simp add: tag_map_def ex_tags_def fun_eq_iff)
  then show ?thesis
    using tagging_put_replaces_all_tags [OF _ _ ex_tag_put_parts _ ok]
    by (simp add: mem_keeps_patches)
qed

text \<open>
  A tagging PUT or DELETE never overwrites a change it has not seen: when someone else
  changes the object between the read of its attributes and the update, the state of GCS
  stays the one they left, and the client is not told that its request succeeded. (GCS
  guards updates by the metageneration.)
\<close>
theorem tagging_overwrites_no_concurrent_change:
  assumes "guards_generation (px_api px) mg" "fresh w" "path_object r = Some (b, k)" "\<not> DryRun (px_config px)"
    and "put_document px decode_tagging r = Some doc" "mg (f (w_gcs w)) b k \<noteq> mg (w_gcs w) b k"
  shows "w_gcs (handlePutObjectTagging (meanwhile f px) r w) = f (w_gcs w)
    \<and> world_status (handlePutObjectTagging (meanwhile f px) r w) \<noteq> Some 200
    \<and> w_gcs (handleDeleteObjectTagging (meanwhile f px) r w) = f (w_gcs w)
    \<and> world_status (handleDeleteObjectTagging (meanwhile f px) r w) \<noteq> Some 204"
proof -
  note effect = tagging_effect_meanwhile [where px = px and mg = mg and f = f, OF assms(1,6)]
  have put: "put_document (meanwhile f px) decode_tagging r = Some doc" "\<not> DryRun (px_config (meanwhile f px))"
    using assms(4,5) by simp_all
  show ?thesis
    using put_tagging_effect [OF assms(2) put(1) assms(3) put(2)]
      delete_tagging_effect [OF assms(2,3) put(2)] effect [of "TranslateS3ToGCSContexts doc"]
      effect [of "\<lambda>_. \<lparr>Ctx_Custom = Map.empty\<rparr>"]
    by auto
qed

definition mem_generation :: "memory \<Rightarrow> string \<Rightarrow> string \<Rightarrow> int64" where
  "mem_generation s b k = (case mem_object s (b, k) of None \<Rightarrow> 0 | Some a \<Rightarrow> Oa_Metageneration a)"

lemma mem_guards: "guards_generation mem_api mem_generation"
  by (auto simp: guards_generation_def mem_api_def mem_generation_def split: option.splits)

text \<open>Another client retags the object meanwhile.\<close>

definition ex_other :: "memory \<Rightarrow> memory" where
  "ex_other s = s\<lparr>mem_object := [(''bkt'', ''key'') \<mapsto> ex_object\<lparr>Oa_Metageneration := 8\<rparr>]\<rparr>"

theorem tagging_overwrites_no_concurrent_change_witness:
  "w_gcs (handlePutObjectTagging (meanwhile ex_other (ex_proxy ex_config ex_tags_doc)) ex_tag_put ex_world) =
     ex_other ex_memory"
proof -
  have "mem_generation (ex_other (w_gcs ex_world)) ''bkt'' ''key'' \<noteq> mem_generation (w_gcs ex_world) ''bkt'' ''key''"
    by (simp add: mem_generation_def ex_other_def ex_memory_def ex_object_def)
  with tagging_overwrites_no_concurrent_change [where mg = mem_generation and f = ex_other and w = ex_world,
      OF _ _ ex_tag_put_parts(2) _ ex_tag_put_parts(1)]
  show ?thesis by (simp add: mem_guards)
qed

text \<open>A tagging DELETE that is answered with 204 leaves the object without tags.\<close>
theorem tagging_delete_clears:
  assumes "keeps_patches (px_api px)" "fresh w" "path_object r = Some (b, k)" "\<not> DryRun (px_config px)"
    and "world_status (handleDeleteObjectTagging px r w) = Some 204"
  shows "\<exists>a s. api_object_attrs (px_api px) (call_deadline px) b k (w_gcs (handleDeleteObjectTagging px r w)) = (Inr a, s)
    \<and> contexts_of a = Map.empty"
  using assms by (rule delete_tagging_clears)

theorem tagging_delete_clears_witness:
  "\<exists>a s. api_object_attrs mem_api (call_deadline (ex_proxy ex_config ex_tags_doc)) ''bkt'' ''key''
      (w_gcs (handleDeleteObjectTagging (ex_proxy ex_config ex_tags_doc) ex_tag_put ex_world)) = (Inr a, s)
    \<and> contexts_of a = Map.empty"
proof -
  have "world_status (handleDeleteObjectTagging (ex_proxy ex_config ex_tags_doc) ex_tag_put ex_world) = Some 204"
    using delete_tagging_effect(2) [of ex_world ex_tag_put "''bkt''" "''key''" "ex_proxy ex_config ex_tags_doc"]
    by (simp add: ex_tag_put_parts ex_tagging_works)
  from tagging_delete_clears [OF _ _ ex_tag_put_parts(2) _ this] show ?thesis
    by (simp add: mem_keeps_patches)
qed

lemma get_tagging_found:
  assumes "fresh w" "path_object r = Some (b, k)" "\<not> DryRun (px_config px)"
    and "api_object_attrs (px_api px) (call_deadline px) b k (w_gcs w) = (Inr a, s)"
  shows "\<exists>v. fresh v \<and> rw_body (w_rw v) = rw_body (w_rw w) \<and> handleGetObjectTagging px r w =
    send_xml (encode_tagging (TranslateGCSContextsToS3Tagging
       (case Oa_Contexts a of None \<Rightarrow> [] | Some c \<Rightarrow> px_order px (Ctx_Custom c)) (Oa_Contexts a))) v"
  using assms
  by (intro exI [of _ "snd (object_attributes px ''GetObjectAttrs_GetTagging'' b k w)"])
    (simp add: handleGetObjectTagging_def object_accepts object_attributes_result)

text \<open>
  A tagging GET answers 200 with a document whose tags are exactly the contexts of the
  object with a non-empty key, each once, in whatever order Go enumerates the map.
\<close>
theorem tagging_get_shows_contexts:
  assumes "fresh w" "rw_body (w_rw w) = []" "path_object r = Some (b, k)" "\<not> DryRun (px_config px)"
    and "api_object_attrs (px_api px) (call_deadline px) b k (w_gcs w) = (Inr a, s)"
    and "case Oa_Contexts a of None \<Rightarrow> True
      | Some c \<Rightarrow> distinct (px_order px (Ctx_Custom c)) \<and> set (px_order px (Ctx_Custom c)) = dom (Ctx_Custom c)"
  shows "world_status (handleGetObjectTagging px r w) = Some 200
    \<and> (\<exists>t. rw_body (w_rw (handleGetObjectTagging px r w)) = render (encode_tagging t)
         \<and> tag_map t = (contexts_of a)([] := None))"
proof -
  let ?t = "TranslateGCSContextsToS3Tagging
       (case Oa_Contexts a of None \<Rightarrow> [] | Some c \<Rightarrow> px_order px (Ctx_Custom c)) (Oa_Contexts a)"
  from get_tagging_found [OF assms(1,3,4,5)] assms(2) obtain v where
    "fresh v" "rw_body (w_rw v) = []" "handleGetObjectTagging px r w = send_xml (encode_tagging ?t) v"
    by auto
  then have "world_status (handleGetObjectTagging px r w) = Some 200"
    "rw_body (w_rw (handleGetObjectTagging px r w)) = render (encode_tagging ?t)"
    by (simp_all add: send_xml_body)
  moreover have "tag_map ?t = (contexts_of a)([] := None)"
  proof (cases "Oa_Contexts a")
    case None
    then show ?thesis
      by (simp add: TranslateGCSContextsToS3Tagging_def tag_map_def contexts_of_def fun_eq_iff)
  next
    case (Some c)
    with assms(6) tag_map_shown [of "px_order px (Ctx_Custom c)" c] show ?thesis
      by (simp add: contexts_of_def fun_eq_iff)
  qed
  ultimately show ?thesis by blast
qed

theorem tagging_get_shows_contexts_witness:
  "\<exists>t. rw_body (w_rw (handleGetObjectTagging
        ((ex_proxy ex_config ex_tags_doc)\<lparr>px_order := \<lambda>m. if m = Map.empty then [] else [''old'']\<rparr>) ex_tag_put ex_world))
      = render (encode_tagging t) \<and> tag_map t = [''old'' \<mapsto> ''1'']"
proof -
  let ?px = "(ex_proxy ex_config ex_tags_doc)\<lparr>px_order := \<lambda>m. if m = Map.empty then [] else [''old'']\<rparr>"
  have "(contexts_of ex_object)([] := None) = [''old'' \<mapsto> ''1'']"
    by (simp add: contexts_of_def ex_object_def fun_eq_iff)
  moreover have "api_object_attrs mem_api d ''bkt'' ''key'' ex_memory = (Inr ex_object, ex_memory)" for d
    by (simp add: mem_api_def ex_memory_def)
  ultimately show ?thesis
    using tagging_get_shows_contexts [OF _ _ ex_tag_put_parts(2), of ex_world ?px ex_object ex_memory]
    by (simp add: ex_object_def)
qed

subsection \<open>RestoreObject\<close>

text \<open>
  The synthetic RestoreObject reports success only for an object that exists, unless
  the existence probe is turned off or the proxy runs dry, and reports 404 exactly when the
  probe says that the object does not exist.
\<close>
theorem restore_reports_existing_objects:
  assumes "fresh w" "path_object r = Some (b, k)" "read_capped (req_body r) \<noteq> BodyTooBig"
  shows "(world_status (handleRestoreObject px r w) = Some 200 \<longleftrightarrow>
      \<not> probe_needed px
      \<or> px_client px \<and> (\<exists>a. fst (api_object_attrs (px_api px) (call_deadline px) b k (w_gcs w)) = Inr a))
    \<and> (world_status (handleRestoreObject px r w) = Some 404 \<longleftrightarrow>
      probe_needed px \<and> px_client px
      \<and> (\<exists>e. fst (api_object_attrs (px_api px) (call_deadline px) b k (w_gcs w)) = Inl e \<and> ge_object_not_exist e))"
  using restore_status [OF assms] by blast

definition ex_restore :: request where
  "ex_restore = ex_request ''POST'' ''/bkt/key'' ''restore'' [] None"

theorem restore_reports_existing_objects_witness:
  "world_status (handleRestoreObject (ex_proxy ex_config ex_site_doc) ex_restore ex_world) = Some 200"
proof -
  have "path_object ex_restore = Some (''bkt'', ''key'')" "read_capped (req_body ex_restore) \<noteq> BodyTooBig"
    by (simp_all add: path_object_def ex_restore_def ex_paths read_capped_def)
  from restore_reports_existing_objects [OF _ this, of ex_world "ex_proxy ex_config ex_site_doc"] show ?thesis
    by (simp add: mem_api_def ex_memory_def)
qed

end
