(* ===== verification/Go_Json.thy ===== *)
theory Go_Json
  imports Credstore_Json
begin

text \<open>
  \<^verbatim>\<open>encoding/json\<close> on whole documents: reading a text into a value, as \<^verbatim>\<open>Unmarshal\<close> scans it,
  and writing a value as \<^verbatim>\<open>MarshalIndent\<close> with two blanks does. Numbers are kept as their
  text, as \<^verbatim>\<open>json.Number\<close> keeps them. What is written reads back.
\<close>

datatype json = JNull | JBool bool | JNum string | JStr string | JArr "json list" | JObj "(string \<times> json) list"

subsection \<open>Reading\<close>

definition json_digit :: "char \<Rightarrow> bool" where
  "json_digit c \<longleftrightarrow> 48 \<le> byte_of c \<and> byte_of c \<le> 57"

text \<open>One or more digits, and what follows.\<close>

definition some_digits :: "string \<Rightarrow> (string \<times> string) option" where
  "some_digits s =
     (if takeWhile json_digit s = [] then None else Some (takeWhile json_digit s, dropWhile json_digit s))"

text \<open>A part of a number that may be missing.\<close>

definition fraction_part :: "string \<Rightarrow> (string \<times> string) option" where
  "fraction_part s =
     (case s of
        c # cs \<Rightarrow> if c = CHR ''.'' then map_option (\<lambda>(d, r). (c # d, r)) (some_digits cs) else Some ([], s)
      | [] \<Rightarrow> Some ([], s))"

definition exponent_part :: "string \<Rightarrow> (string \<times> string) option" where
  "exponent_part s =
     (case s of
        c # cs \<Rightarrow>
          if c = CHR ''e'' \<or> c = CHR ''E'' then
            (let sign = (if take 1 cs = ''+'' \<or> take 1 cs = ''-'' then take 1 cs else [])
             in map_option (\<lambda>(d, r). (c # sign @ d, r)) (some_digits (drop (length sign) cs)))
          else Some ([], s)
      | [] \<Rightarrow> Some ([], s))"

text \<open>No leading zero, unless the integer part is zero.\<close>

definition integer_part :: "string \<Rightarrow> (string \<times> string) option" where
  "integer_part s = (if take 1 s = ''0'' then Some (''0'', drop 1 s) else some_digits s)"

definition json_number :: "string \<Rightarrow> (string \<times> string) option" where
  "json_number s =
     (let sign = (if take 1 s = ''-'' then ''-'' else []) in
      Option.bind (integer_part (drop (length sign) s)) (\<lambda>(i, r1).
      Option.bind (fraction_part r1) (\<lambda>(f, r2).
      map_option (\<lambda>(e, r3). (sign @ i @ f @ e, r3)) (exponent_part r2))))"

text \<open>A value, from its first byte; the fuel bounds the calls that are open.\<close>

fun read_value :: "nat \<Rightarrow> string \<Rightarrow> (json \<times> string) option"
and read_elements :: "nat \<Rightarrow> string \<Rightarrow> (json list \<times> string) option"
and read_members :: "nat \<Rightarrow> string \<Rightarrow> ((string \<times> json) list \<times> string) option" where
  "read_value 0 s = None"
| "read_value (Suc n) s =
     (case skip_space s of
        [] \<Rightarrow> None
      | c # cs \<Rightarrow>
          if byte_of c = 34 then map_option (\<lambda>(v, r). (JStr v, r)) (json_chars cs)
          else if c = CHR ''['' then
            (if take 1 (skip_space cs) = '']'' then Some (JArr [], drop 1 (skip_space cs))
             else map_option (\<lambda>(vs, r). (JArr vs, r)) (read_elements n cs))
          else if c = CHR ''{'' then
            (if take 1 (skip_space cs) = ''}'' then Some (JObj [], drop 1 (skip_space cs))
             else map_option (\<lambda>(kvs, r). (JObj kvs, r)) (read_members n cs))
          else if prefix ''null'' (c # cs) then Some (JNull, drop 4 (c # cs))
          else if prefix ''true'' (c # cs) then Some (JBool True, drop 4 (c # cs))
          else if prefix ''false'' (c # cs) then Some (JBool False, drop 5 (c # cs))
          else map_option (\<lambda>(t, r). (JNum t, r)) (json_number (c # cs)))"
| "read_elements 0 s = None"
| "read_elements (Suc n) s =
     (case read_value n s of
        None \<Rightarrow> None
      | Some (v, r) \<Rightarrow>
          (case skip_space r of
             [] \<Rightarrow> None
           | c # cs \<Rightarrow>
               if c = CHR '','' then map_option (\<lambda>(vs, r'). (v # vs, r')) (read_elements n cs)
               else if c = CHR '']'' then Some ([v], cs) else None))"
| "read_members 0 s = None"
| "read_members (Suc n) s =
     (case skip_space s of
        [] \<Rightarrow> None
      | q # qs \<Rightarrow>
          if byte_of q \<noteq> 34 then None
          else (case json_chars qs of
             None \<Rightarrow> None
           | Some (k, r) \<Rightarrow>
               (case skip_space r of
                  [] \<Rightarrow> None
                | d # ds \<Rightarrow>
                    if d \<noteq> CHR '':'' then None
                    else (case read_value n ds of
                       None \<Rightarrow> None
                     | Some (v, r') \<Rightarrow>
                         (case skip_space r' of
                            [] \<Rightarrow> None
                          | c # cs \<Rightarrow>
                              if c = CHR '','' then map_option (\<lambda>(kvs, r''). ((k, v) # kvs, r'')) (read_members n cs)
                              else if c = CHR ''}'' then Some ([(k, v)], cs) else None)))))"

text \<open>How deep arrays and objects are nested: \<^verbatim>\<open>Unmarshal\<close> takes 10000 levels.\<close>

fun nesting :: "json \<Rightarrow> nat" where
  "nesting (JArr vs) = Suc (foldr (\<lambda>v m. max (nesting v) m) vs 0)"
| "nesting (JObj kvs) = Suc (foldr (\<lambda>kv m. max (nesting (snd kv)) m) kvs 0)"
| "nesting _ = 0"

definition read_json :: "string \<Rightarrow> json option" where
  "read_json s =
     (case read_value (2 * length s + 1) s of
        None \<Rightarrow> None
      | Some (v, r) \<Rightarrow> if skip_space r = [] \<and> nesting v \<le> 10000 then Some v else None)"

text \<open>The fuel is enough: a part that is read is shorter, and more fuel changes nothing.\<close>

lemma some_digits_shorter: "some_digits s = Some (d, r) \<Longrightarrow> length r < length s"
proof -
  assume "some_digits s = Some (d, r)"
  then have "takeWhile json_digit s \<noteq> []" "r = dropWhile json_digit s" by (auto simp: some_digits_def split: if_splits)
  moreover have "length (takeWhile json_digit s) + length (dropWhile json_digit s) = length s"
    by (metis length_append takeWhile_dropWhile_id)
  ultimately show ?thesis by (cases "takeWhile json_digit s") auto
qed

lemma json_number_shorter: "json_number s = Some (t, r) \<Longrightarrow> length r < length s"
proof -
  assume "json_number s = Some (t, r)"
  then obtain k i r1 f r2 e where parts: "integer_part (drop k s) = Some (i, r1)" "fraction_part r1 = Some (f, r2)"
    "exponent_part r2 = Some (e, r)"
    unfolding json_number_def Let_def by (auto simp: bind_eq_Some_conv)
  have "length r1 < length x" if "integer_part x = Some (i, r1)" for x
    using that some_digits_shorter [of x i r1] by (cases x) (auto simp: integer_part_def split: if_splits)
  from this [OF parts(1)] have "length r1 < length s" by simp
  moreover have "length r2 \<le> length r1"
    using parts(2) by (fastforce simp: fraction_part_def dest: some_digits_shorter split: list.splits if_splits)
  moreover have "length r \<le> length r2"
  proof (cases r2)
    case (Cons c cs)
    then show ?thesis
      using parts(3) by (fastforce simp: exponent_part_def Let_def dest: some_digits_shorter split: if_splits)
  qed (use parts(3) in \<open>simp add: exponent_part_def\<close>)
  ultimately show ?thesis by simp
qed

lemma skip_shorter: "skip_space s = c # cs \<Longrightarrow> length cs < length s"
  using skip_space_length [of s] by simp

lemma read_shorter:
  "(\<forall>s v r. read_value n s = Some (v, r) \<longrightarrow> length r < length s)
   \<and> (\<forall>s vs r. read_elements n s = Some (vs, r) \<longrightarrow> length r < length s)
   \<and> (\<forall>s kvs r. read_members n s = Some (kvs, r) \<longrightarrow> length r < length s)"
proof (induction n)
  case (Suc n)
  then have IH: "\<And>s v r. read_value n s = Some (v, r) \<Longrightarrow> length r < length s"
    "\<And>s vs r. read_elements n s = Some (vs, r) \<Longrightarrow> length r < length s"
    "\<And>s kvs r. read_members n s = Some (kvs, r) \<Longrightarrow> length r < length s" by blast+
  have "length r < length s" if a: "read_value (Suc n) s = Some (v, r)" for s v r
  proof -
    obtain c cs where s: "skip_space s = c # cs" using a by (cases "skip_space s") auto
    have cs: "length (drop k (skip_space cs)) \<le> length cs" for k using skip_space_length [of cs] by simp
    have "length r \<le> length cs"
      using a s cs [of 1] by (auto split: if_splits dest!: IH json_chars_consumes json_number_shorter)
    then show ?thesis using skip_shorter [OF s] by simp
  qed
  moreover have "length r < length s" if a: "read_elements (Suc n) s = Some (vs, r)" for s vs r
  proof -
    obtain v r1 where v: "read_value n s = Some (v, r1)" using a by (auto split: option.splits)
    obtain c cs where c: "skip_space r1 = c # cs" using a v by (cases "skip_space r1") auto
    show ?thesis
      using a v c IH(1) [OF v] skip_shorter [OF c] by (auto split: if_splits dest!: IH(2))
  qed
  moreover have "length r < length s" if a: "read_members (Suc n) s = Some (kvs, r)" for s kvs r
  proof -
    obtain q qs where q: "skip_space s = q # qs" using a by (cases "skip_space s") auto
    obtain k r1 where k: "json_chars qs = Some (k, r1)" using a q by (auto split: option.splits if_splits)
    obtain d ds where d: "skip_space r1 = d # ds" using a q k by (cases "skip_space r1") (auto split: if_splits)
    obtain v r2 where v: "read_value n ds = Some (v, r2)" using a q k d by (auto split: option.splits if_splits)
    obtain c cs where c: "skip_space r2 = c # cs" using a q k d v by (cases "skip_space r2") (auto split: if_splits)
    show ?thesis
      using a q k d v c skip_shorter [OF q] json_chars_consumes [OF k] skip_shorter [OF d] IH(1) [OF v] skip_shorter [OF c]
      by (auto split: if_splits dest!: IH(3))
  qed
  ultimately show ?case by blast
qed simp

lemma read_value_shorter: "read_value n s = Some (v, r) \<Longrightarrow> length r < length s"
  using read_shorter by blast

definition same_reads :: "nat \<Rightarrow> nat \<Rightarrow> bool" where
  "same_reads n k \<longleftrightarrow>
     (\<forall>s. 2 * length s < n \<and> 2 * length s < k \<longrightarrow>
        read_value n s = read_value k s \<and> read_members n s = read_members k s)
     \<and> (\<forall>s. 2 * length s + 1 < n \<and> 2 * length s + 1 < k \<longrightarrow> read_elements n s = read_elements k s)"

lemma same_readsD:
  assumes "same_reads n k"
  shows "2 * length s < n \<Longrightarrow> 2 * length s < k \<Longrightarrow> read_value n s = read_value k s"
    and "2 * length s + 1 < n \<Longrightarrow> 2 * length s + 1 < k \<Longrightarrow> read_elements n s = read_elements k s"
    and "2 * length s < n \<Longrightarrow> 2 * length s < k \<Longrightarrow> read_members n s = read_members k s"
  using assms by (auto simp: same_reads_def)

lemma same_value:
  assumes same: "same_reads n k" and a: "2 * length s < Suc n" "2 * length s < Suc k"
  shows "read_value (Suc n) s = read_value (Suc k) s"
proof (cases "skip_space s")
  case (Cons c cs)
  have "2 * length cs + 1 < n" "2 * length cs + 1 < k" using a skip_shorter [OF Cons] by simp_all
  then show ?thesis using same_readsD(2,3) [OF same, of cs] by (simp add: Cons)
qed simp

lemma same_elements:
  assumes same: "same_reads n k" and a: "2 * length s + 1 < Suc n" "2 * length s + 1 < Suc k"
  shows "read_elements (Suc n) s = read_elements (Suc k) s"
proof -
  have v: "read_value n s = read_value k s" using same_readsD(1) [OF same] a by simp
  show ?thesis
  proof (cases "read_value k s")
    case (Some p)
    obtain x r where p: "p = (x, r)" by fastforce
    show ?thesis
    proof (cases "skip_space r")
      case (Cons c cs)
      have "2 * length cs + 1 < n" "2 * length cs + 1 < k"
        using a skip_shorter [OF Cons] read_value_shorter [of k s x r] Some p by simp_all
      then show ?thesis using same_readsD(2) [OF same, of cs] by (simp add: v Some p Cons)
    qed (simp add: v Some p)
  qed (simp add: v)
qed

lemma same_members:
  assumes same: "same_reads n k" and a: "2 * length s < Suc n" "2 * length s < Suc k"
  shows "read_members (Suc n) s = read_members (Suc k) s"
proof (cases "skip_space s")
  case q: (Cons q qs)
  show ?thesis
  proof (cases "json_chars qs")
    case key: (Some key)
    obtain w r1 where w: "key = (w, r1)" by fastforce
    show ?thesis
    proof (cases "skip_space r1")
      case d: (Cons d ds)
      have ds: "length ds + 2 < length s" using skip_shorter [OF q] skip_shorter [OF d] json_chars_consumes [of qs w r1] key w by simp
      then have v: "read_value n ds = read_value k ds" using same_readsD(1) [OF same] a by simp
      show ?thesis
      proof (cases "read_value k ds")
        case (Some p)
        obtain x r where p: "p = (x, r)" by fastforce
        show ?thesis
        proof (cases "skip_space r")
          case (Cons c cs)
          have "2 * length cs < n" "2 * length cs < k"
            using a ds skip_shorter [OF Cons] read_value_shorter [of k ds x r] Some p by simp_all
          then show ?thesis using same_readsD(3) [OF same, of cs] by (simp add: q key w d v Some p Cons)
        qed (simp add: q key w d v Some p)
      qed (simp add: q key w d v)
    qed (simp add: q key w)
  qed (simp add: q)
qed simp

lemma fuel_enough: "same_reads n m"
proof (induction n arbitrary: m)
  case (Suc n)
  show ?case
    by (cases m) (use Suc.IH same_value same_elements same_members in \<open>auto simp: same_reads_def [of "Suc n"] simp del: read_value.simps read_elements.simps read_members.simps\<close>)
qed (simp add: same_reads_def)

lemma read_json_fuel:
  "2 * length s < n \<Longrightarrow> read_json s =
     (case read_value n s of None \<Rightarrow> None
      | Some (v, r) \<Rightarrow> if skip_space r = [] \<and> nesting v \<le> 10000 then Some v else None)"
  using same_readsD(1) [OF fuel_enough [of "2 * length s + 1" n], of s] by (simp add: read_json_def)

subsection \<open>Writing\<close>

definition json_rune :: "nat \<Rightarrow> string \<Rightarrow> string" where
  "json_rune r raw =
     (if r = rune_error \<and> length raw = 1 then CHR 0x5C # ''ufffd''
      else if r = 34 \<or> r = 92 then [CHR 0x5C, char_of r]
      else if r = 8 then [CHR 0x5C, CHR ''b'']
      else if r = 12 then [CHR 0x5C, CHR ''f'']
      else if r = 10 then [CHR 0x5C, CHR ''n'']
      else if r = 13 then [CHR 0x5C, CHR ''r'']
      else if r = 9 then [CHR 0x5C, CHR ''t'']
      else if r < 32 \<or> r = 60 \<or> r = 62 \<or> r = 38 \<or> r = 0x2028 \<or> r = 0x2029 then CHR 0x5C # CHR ''u'' # hex_fixed 4 r
      else raw)"

definition json_quote :: "string \<Rightarrow> string" where
  "json_quote s = [CHR 34] @ flat_runes json_rune s @ [CHR 34]"

definition json_line :: "nat \<Rightarrow> string" where
  "json_line d = CHR 10 # replicate (2 * d) (CHR '' '')"

fun show_json :: "nat \<Rightarrow> json \<Rightarrow> string" where
  "show_json d JNull = ''null''"
| "show_json d (JBool b) = (if b then ''true'' else ''false'')"
| "show_json d (JNum t) = t"
| "show_json d (JStr s) = json_quote s"
| "show_json d (JArr vs) =
     (if vs = [] then ''[]''
      else ''['' @ join_str '','' (map (\<lambda>v. json_line (d + 1) @ show_json (d + 1) v) vs) @ json_line d @ '']'')"
| "show_json d (JObj kvs) =
     (if kvs = [] then ''{}''
      else ''{'' @ join_str '','' (map (\<lambda>(k, v). json_line (d + 1) @ json_quote k @ '': '' @ show_json (d + 1) v) kvs)
        @ json_line d @ ''}'')"

text \<open>\<^verbatim>\<open>json.MarshalIndent(v, "", "  ")\<close>\<close>

definition MarshalIndent :: "json \<Rightarrow> string" where
  "MarshalIndent j = show_json 0 j"

subsection \<open>Strings read back\<close>

text \<open>A string as it arrives: every byte that is not part of a rune is replaced by U+FFFD.\<close>

definition clean_utf8 :: "string \<Rightarrow> string" where
  "clean_utf8 s = flat_runes (\<lambda>r raw. encode_rune r) s"

lemma decode_rune_append:
  assumes "decode_rune s = (r, w)" "1 < w"
  shows "decode_rune (take w s @ rest) = (r, w)"
  using assms
  by (cases s; cases "tl s"; cases "tl (tl s)"; cases "tl (tl (tl s))")
    (auto simp: decode_rune_def Let_def split: if_splits)

lemma decode_rune_large:
  assumes "decode_rune s = (r, w)" "1 < w"
  shows "0x80 \<le> r"
  using assms
  by (auto simp: decode_rune_def Let_def in_range_def second_lo_def second_hi_def split: list.splits if_splits)

lemma hex_nibble_digit: "d < 16 \<Longrightarrow> hex_nibble (hex_digit d) = Some d"
  by (auto simp: hex_nibble_def hex_digit_def Let_def)

lemma length_hex_fixed [simp]: "length (hex_fixed k n) = k"
  by (induction k n rule: hex_fixed.induct) auto

lemma hex_fixed_4:
  "hex_fixed 4 n = [hex_digit (n div 16 div 16 div 16 mod 16), hex_digit (n div 16 div 16 mod 16),
     hex_digit (n div 16 mod 16), hex_digit (n mod 16)]"
proof -
  have "hex_fixed (Suc (Suc (Suc (Suc 0)))) n = [hex_digit (n div 16 div 16 div 16 mod 16),
      hex_digit (n div 16 div 16 mod 16), hex_digit (n div 16 mod 16), hex_digit (n mod 16)]"
    by simp
  then show ?thesis by (simp only: eval_nat_numeral BitM.simps)
qed

lemma hex4_fixed: "hex4 (hex_fixed 4 n @ rest) = Some (n mod 65536)"
proof -
  have step: "m mod (16 * k) = m div 16 mod k * 16 + m mod 16" for m k :: nat
    using mod_mult2_eq [of m 16 k] by simp
  have "n mod 65536 = ((n div 16 div 16 div 16 mod 16 * 16 + n div 16 div 16 mod 16) * 16 + n div 16 mod 16) * 16 + n mod 16"
    using step [of n 4096] step [of "n div 16" 256] step [of "n div 16 div 16" 16] by simp
  then show ?thesis
    by (simp add: hex4_def hex_fixed_4 hex_nibble_digit)
qed

text \<open>One rune, written and read.\<close>

lemma char_of_controls:
  "char_of (34 :: nat) = CHR 34" "char_of (92 :: nat) = CHR 0x5C" "char_of (8 :: nat) = CHR 8"
  "char_of (12 :: nat) = CHR 12" "char_of (10 :: nat) = CHR 10" "char_of (13 :: nat) = CHR 13"
  "char_of (9 :: nat) = CHR 9"
  by (simp_all add: char_of_def bit_Suc_0_iff)

lemma json_chars_escape:
  "json_escape (e # es) = Some (out, n) \<Longrightarrow>
     json_chars (CHR 0x5C # e # es) = emit out (json_chars (drop n (e # es)))"
  by (simp add: json_chars.simps(2))

lemma json_chars_rune:
  assumes "s \<noteq> []" "decode_rune s = (r, w)"
  shows "json_chars (json_rune r (take w s) @ rest) = emit (encode_rune r) (json_chars rest)"
proof (cases "1 < w")
  case True
  have r: "0x80 \<le> r" using decode_rune_large [OF assms(2) True] .
  show ?thesis
  proof (cases "r = 0x2028 \<or> r = 0x2029")
    case sep: True
    have "json_escape (CHR ''u'' # hex_fixed 4 r @ rest) = Some (encode_rune r, 5)"
      using sep by (auto simp: json_escape_def hex4_fixed)
    moreover have "json_rune r (take w s) = CHR 0x5C # CHR ''u'' # hex_fixed 4 r"
      using sep by (auto simp: json_rune_def)
    ultimately show ?thesis by (simp add: json_chars_escape)
  next
    case False
    have "w \<le> length s" using decode_rune_width(2) [OF assms(1)] assms(2) by simp
    then have "json_rune r (take w s) = take w s" using r False True by (auto simp: json_rune_def)
    moreover obtain c cs where t: "take w s = c # cs" using True assms(1) by (cases s; cases w) auto
    moreover have "0x80 \<le> byte_of c" using decode_rune_multi [OF assms(2) True] t by simp
    moreover have "decode_rune (c # cs @ rest) = (r, w)"
      using decode_rune_append [OF assms(2) True, of rest] t by simp
    moreover have "drop w (c # cs @ rest) = rest"
      using t \<open>w \<le> length s\<close> by (metis append_Cons append_eq_conv_conj length_take min.absorb2)
    ultimately show ?thesis by (simp add: json_chars.simps(2))
  qed
next
  case False
  then have w: "w = 1" using decode_rune_width(1) [OF assms(1)] assms(2) by simp
  show ?thesis
  proof (cases "r = rune_error")
    case True
    have "json_escape (''ufffd'' @ rest) = Some (encode_rune rune_error, 5)"
      by (simp add: json_escape_def hex4_def hex_nibble_def)
    then show ?thesis
      using assms(1) by (cases s) (simp_all add: True w json_rune_def json_chars_escape)
  next
    case False
    have r: "r < 128" and raw: "take w s = [char_of r]"
      using decode_rune_ascii [OF assms(1)] assms(2) w False by auto
    show ?thesis
    proof (cases "r = 34 \<or> r = 92 \<or> r = 8 \<or> r = 12 \<or> r = 10 \<or> r = 13 \<or> r = 9")
      case True
      then show ?thesis
        by (elim disjE) (auto simp: char_of_controls json_rune_def json_chars_escape json_escape_def encode_rune_def valid_rune_def)
    next
      case plain: False
      show ?thesis
      proof (cases "r < 32 \<or> r = 60 \<or> r = 62 \<or> r = 38")
        case True
        then have "json_rune r (take w s) = CHR 0x5C # CHR ''u'' # hex_fixed 4 r"
          using plain raw by (auto simp: json_rune_def)
        moreover have "json_escape (CHR ''u'' # hex_fixed 4 r @ rest) = Some (encode_rune r, 5)"
          using r by (simp add: json_escape_def hex4_fixed)
        ultimately show ?thesis by (simp add: json_chars_escape)
      next
        case False
        then have "json_rune r (take w s) = [char_of r]"
          using plain raw r by (auto simp: json_rune_def)
        moreover have "byte_of (char_of r) = r" using r by simp
        ultimately show ?thesis
          using plain False r by (simp add: json_chars.simps(2) decode_rune_def encode_rune_def valid_rune_def)
      qed
    qed
  qed
qed


lemma json_chars_quoted:
  "json_chars (flat_runes json_rune s @ CHR 34 # rest) = Some (clean_utf8 s, rest)"
proof (induction s rule: flat_runes_induct)
  case Nil
  show ?case by (simp add: clean_utf8_def json_chars.simps(2))
next
  case (Step s r w)
  have "clean_utf8 s = encode_rune r @ clean_utf8 (drop w s)"
    unfolding clean_utf8_def by (rule flat_runes_step [OF Step(1,2)])
  then show ?case
    using json_chars_rune [OF Step(1,2), of "flat_runes json_rune (drop w s) @ CHR 34 # rest"] Step(5)
    by (simp add: flat_runes_step [OF Step(1,2)] emit_def)
qed

text \<open>Text without bytes above 127 arrives as it is.\<close>

lemma clean_ascii: "list_all is_ascii s \<Longrightarrow> clean_utf8 s = s"
proof -
  assume a: "list_all is_ascii s"
  then have "map (\<lambda>c. encode_rune (byte_of c)) s = map (\<lambda>c. [c]) s"
    by (auto simp: list_all_iff is_ascii_def encode_rune_def valid_rune_def)
  then have "concat (map (\<lambda>c. encode_rune (byte_of c)) s) = concat (map (\<lambda>c. [c]) s)" by (rule arg_cong)
  then show "clean_utf8 s = s"
    unfolding clean_utf8_def flat_runes_ascii [OF a] by simp
qed

subsection \<open>Documents read back\<close>

text \<open>What may follow a number without becoming part of it.\<close>

definition stops_number :: "string \<Rightarrow> bool" where
  "stops_number s \<longleftrightarrow> (s = [] \<or> hd s \<in> {CHR '','', CHR '']'', CHR ''}'', CHR 10, CHR '' ''})"

definition number_text :: "string \<Rightarrow> bool" where
  "number_text t \<longleftrightarrow> json_number t = Some (t, [])"

lemma some_digits_append:
  "some_digits s = Some (d, r) \<Longrightarrow> stops_number rest \<Longrightarrow> some_digits (s @ rest) = Some (d, r @ rest)"
proof -
  assume a: "some_digits s = Some (d, r)" "stops_number rest"
  have rest: "takeWhile json_digit rest = []" "dropWhile json_digit rest = rest"
    using a(2) by (cases rest; auto simp: stops_number_def json_digit_def)+
  have d: "d = takeWhile json_digit s" "r = dropWhile json_digit s" "d \<noteq> []"
    using a(1) by (auto simp: some_digits_def split: if_splits)
  show ?thesis
  proof (cases "\<exists>x \<in> set s. \<not> json_digit x")
    case True
    then show ?thesis using d by (auto simp: some_digits_def takeWhile_append dropWhile_append)
  next
    case False
    then have all: "takeWhile json_digit s = s" "dropWhile json_digit s = []"
      by auto
    have "takeWhile json_digit (s @ rest) = s" "dropWhile json_digit (s @ rest) = rest"
      using False rest by (simp_all add: takeWhile_append dropWhile_append)
    then show ?thesis using d(3) by (simp add: some_digits_def d(1,2) all)
  qed
qed

lemma integer_part_append:
  "integer_part s = Some (d, r) \<Longrightarrow> stops_number rest \<Longrightarrow> integer_part (s @ rest) = Some (d, r @ rest)"
  using some_digits_append [of s d r rest]
  by (cases s) (auto simp: integer_part_def some_digits_def split: if_splits)

lemma fraction_part_append:
  "fraction_part s = Some (d, r) \<Longrightarrow> stops_number rest \<Longrightarrow> fraction_part (s @ rest) = Some (d, r @ rest)"
proof (cases s)
  case Nil
  assume "fraction_part s = Some (d, r)" "stops_number rest"
  with Nil show ?thesis by (cases rest) (auto simp: fraction_part_def stops_number_def)
next
  case (Cons c cs)
  assume "fraction_part s = Some (d, r)" "stops_number rest"
  with Cons show ?thesis by (auto simp: fraction_part_def split: if_splits dest: some_digits_append)
qed

lemma exponent_part_append:
  "exponent_part s = Some (d, r) \<Longrightarrow> stops_number rest \<Longrightarrow> exponent_part (s @ rest) = Some (d, r @ rest)"
proof (cases s)
  case Nil
  assume "exponent_part s = Some (d, r)" "stops_number rest"
  with Nil show ?thesis by (cases rest) (auto simp: exponent_part_def stops_number_def)
next
  case (Cons c cs)
  assume a: "exponent_part s = Some (d, r)" "stops_number rest"
  show ?thesis
  proof (cases cs)
    case Nil
    with a Cons show ?thesis by (auto simp: exponent_part_def some_digits_def Let_def split: if_splits)
  next
    case (Cons c' cs')
    with a \<open>s = c # cs\<close> show ?thesis
      by (auto simp: exponent_part_def Let_def split: if_splits dest: some_digits_append)
  qed
qed

lemma json_number_append:
  assumes "number_text t" "stops_number rest"
  shows "json_number (t @ rest) = Some (t, rest)"
proof -
  let ?sign = "if take 1 t = ''-'' then ''-'' else []"
  have t: "t \<noteq> []"
    using assms(1) by (auto simp: number_text_def json_number_def integer_part_def some_digits_def)
  obtain i r1 f r2 e where parts: "integer_part (drop (length ?sign) t) = Some (i, r1)"
      "fraction_part r1 = Some (f, r2)" "exponent_part r2 = Some (e, [])" "t = ?sign @ i @ f @ e"
    using assms(1) unfolding number_text_def json_number_def Let_def
    by (auto simp: bind_eq_Some_conv)
  have sign: "(if take 1 (t @ rest) = ''-'' then ''-'' else []) = ?sign" "drop (length ?sign) (t @ rest) = drop (length ?sign) t @ rest"
    using t by (cases t; simp)+
  show ?thesis
    unfolding json_number_def Let_def sign
    using integer_part_append [OF parts(1) assms(2)] fraction_part_append [OF parts(2) assms(2)]
      exponent_part_append [OF parts(3) assms(2)] parts(4) by simp
qed

lemma json_number_head:
  assumes "number_text t"
  obtains c cs where "t = c # cs" "json_digit c \<or> c = CHR ''-''"
proof (cases t)
  case Nil
  with assms show thesis by (auto simp: number_text_def json_number_def integer_part_def some_digits_def)
next
  case (Cons c cs)
  have "json_digit c \<or> c = CHR ''-''"
  proof (rule ccontr)
    assume "\<not> (json_digit c \<or> c = CHR ''-'')"
    moreover have "json_digit (CHR ''0'')" by (simp add: json_digit_def)
    ultimately have "json_number t = None"
      by (auto simp: Cons json_number_def integer_part_def some_digits_def)
    with assms show False by (simp add: number_text_def)
  qed
  with Cons that show thesis by blast
qed

text \<open>A document as it arrives, and what is needed of the numbers in it.\<close>

fun clean_json :: "json \<Rightarrow> json" where
  "clean_json (JStr s) = JStr (clean_utf8 s)"
| "clean_json (JArr vs) = JArr (map clean_json vs)"
| "clean_json (JObj kvs) = JObj (map (\<lambda>(k, v). (clean_utf8 k, clean_json v)) kvs)"
| "clean_json j = j"

fun numbers_ok :: "json \<Rightarrow> bool" where
  "numbers_ok (JNum t) \<longleftrightarrow> number_text t"
| "numbers_ok (JArr vs) \<longleftrightarrow> list_all numbers_ok vs"
| "numbers_ok (JObj kvs) \<longleftrightarrow> list_all (\<lambda>(k, v). numbers_ok v) kvs"
| "numbers_ok _ \<longleftrightarrow> True"

lemma skip_line [simp]: "skip_space (json_line d @ s) = skip_space s"
proof -
  have "dropWhile json_space (replicate n (CHR '' '') @ s) = dropWhile json_space s" for n
    by (induction n) (auto simp: json_space_def)
  then show ?thesis by (simp add: skip_space_def json_line_def) (simp add: json_space_def)
qed

lemma read_value_skip [simp]: "read_value n (json_line d @ s) = read_value n s"
  by (cases n) auto

lemma show_json_head:
  assumes "numbers_ok j"
  obtains c cs where "show_json d j = c # cs" "\<not> json_space c" "c \<noteq> CHR '']''" "c \<noteq> CHR ''}''"
proof (cases j)
  case (JNum t)
  with assms json_number_head [of t] obtain c cs where "t = c # cs" "json_digit c \<or> c = CHR ''-''" by auto
  with JNum that show thesis by (fastforce simp: json_digit_def json_space_def)
next
  case (JBool b)
  with that show thesis by (cases b) (fastforce simp: json_space_def)+
qed (use that in \<open>fastforce simp: json_space_def json_quote_def split: if_splits\<close>)+

lemma stops_line: "stops_number (json_line d @ s)" "stops_number (CHR '','' # s)"
  by (simp_all add: stops_number_def json_line_def)

text \<open>What it takes for one value, from which arrays and objects follow.\<close>

definition reads_back :: "nat \<Rightarrow> json \<Rightarrow> bool" where
  "reads_back d v \<longleftrightarrow>
     (\<forall>n rest. 2 * length (show_json d v) < n \<and> stops_number rest \<longrightarrow>
        read_value n (show_json d v @ rest) = Some (clean_json v, rest))"

lemma join_str_Cons: "join_str sep (x # xs) = x @ (if xs = [] then [] else sep @ join_str sep xs)"
  by (cases xs) auto

lemma reads_backD:
  "reads_back d v \<Longrightarrow> 2 * length (show_json d v) < n \<Longrightarrow> stops_number rest \<Longrightarrow>
     read_value n (show_json d v @ rest) = Some (clean_json v, rest)"
  by (simp add: reads_back_def)

lemma skip_ends:
  "skip_space ('']'' @ s) = '']'' @ s" "skip_space (''}'' @ s) = ''}'' @ s" "skip_space ('','' @ s) = '','' @ s"
  by (simp_all add: skip_space_def json_space_def)

lemma length_json_line: "length (json_line d) = Suc (2 * d)"
  by (simp add: json_line_def)

lemma read_elements_back:
  assumes "vs \<noteq> []" "\<forall>v \<in> set vs. reads_back d v"
    and "2 * length (join_str '','' (map (\<lambda>v. json_line d @ show_json d v) vs)) \<le> n"
  shows "read_elements n (join_str '','' (map (\<lambda>v. json_line d @ show_json d v) vs) @ json_line d' @ '']'' @ rest) =
    Some (map clean_json vs, rest)"
  using assms
proof (induction vs arbitrary: n)
  case (Cons v vs)
  obtain m where n: "n = Suc m" and m: "2 * length (show_json d v) < m"
    using Cons.prems(3) by (cases n) (auto simp: join_str_Cons length_json_line)
  have v: "reads_back d v" using Cons.prems(2) by simp
  show ?case
  proof (cases "vs = []")
    case True
    have "read_value m (show_json d v @ json_line d' @ '']'' @ rest) = Some (clean_json v, json_line d' @ '']'' @ rest)"
      using reads_backD [OF v m] stops_line by blast
    then show ?thesis using skip_ends(1) [of rest] by (simp add: True n)
  next
    case False
    let ?tail = "join_str '','' (map (\<lambda>v. json_line d @ show_json d v) vs) @ json_line d' @ '']'' @ rest"
    have "read_value m (show_json d v @ '','' @ ?tail) = Some (clean_json v, '','' @ ?tail)"
      using reads_backD [OF v m] stops_line by simp
    moreover have "read_elements m ?tail = Some (map clean_json vs, rest)"
      by (rule Cons.IH [OF False]) (use Cons.prems False n in \<open>auto simp: join_str_Cons\<close>)
    ultimately show ?thesis
      using False skip_ends(3) [of ?tail] by (simp add: n join_str_Cons)
  qed
qed simp

lemma read_members_back:
  assumes "kvs \<noteq> []" "\<forall>(k, v) \<in> set kvs. reads_back d v"
    and "2 * length (join_str '','' (map (\<lambda>(k, v). json_line d @ json_quote k @ '': '' @ show_json d v) kvs)) \<le> n"
  shows "read_members n (join_str '','' (map (\<lambda>(k, v). json_line d @ json_quote k @ '': '' @ show_json d v) kvs)
      @ json_line d' @ ''}'' @ rest) =
    Some (map (\<lambda>(k, v). (clean_utf8 k, clean_json v)) kvs, rest)"
  using assms
proof (induction kvs arbitrary: n)
  case (Cons kv kvs)
  obtain k v where kv: "kv = (k, v)" by fastforce
  obtain m where n: "n = Suc m" and m: "2 * length (show_json d v) < m"
    using Cons.prems(3) by (cases n) (auto simp: kv join_str_Cons length_json_line)
  have v: "reads_back d v" using Cons.prems(2) kv by simp
  have key: "skip_space (json_quote k @ zs) = CHR 34 # flat_runes json_rune k @ CHR 34 # zs" for zs
    by (simp add: json_quote_def skip_space_def json_space_def)
  have colon: "skip_space ('': '' @ zs) = '': '' @ zs" for zs
    by (simp add: skip_space_def json_space_def)
  have blank: "read_value m ('' '' @ zs) = read_value m zs" for zs
    by (cases m) (simp_all add: skip_space_def json_space_def)
  show ?case
  proof (cases "kvs = []")
    case True
    have "read_value m (show_json d v @ json_line d' @ ''}'' @ rest) = Some (clean_json v, json_line d' @ ''}'' @ rest)"
      using reads_backD [OF v m] stops_line by blast
    then show ?thesis
      using skip_ends(2) [of rest] colon blank by (simp add: True n kv key json_chars_quoted)
  next
    case False
    let ?tail = "join_str '','' (map (\<lambda>(k, v). json_line d @ json_quote k @ '': '' @ show_json d v) kvs)
      @ json_line d' @ ''}'' @ rest"
    have "read_value m (show_json d v @ '','' @ ?tail) = Some (clean_json v, '','' @ ?tail)"
      using reads_backD [OF v m] stops_line by simp
    moreover have "read_members m ?tail = Some (map (\<lambda>(k, v). (clean_utf8 k, clean_json v)) kvs, rest)"
      by (rule Cons.IH [OF False]) (use Cons.prems False n in \<open>auto simp: join_str_Cons kv\<close>)
    ultimately show ?thesis
      using False skip_ends(3) [of ?tail] colon blank by (simp add: n kv join_str_Cons key json_chars_quoted)
  qed
qed simp

lemma skip_value:
  assumes "numbers_ok j"
  shows "skip_space (show_json d j @ s) = show_json d j @ s"
    and "take 1 (skip_space (json_line d' @ show_json d j @ s)) \<noteq> '']''"
proof -
  obtain c cs where "show_json d j = c # cs" "\<not> json_space c" "c \<noteq> CHR '']''"
    using show_json_head [OF assms] by metis
  then show "skip_space (show_json d j @ s) = show_json d j @ s"
    "take 1 (skip_space (json_line d' @ show_json d j @ s)) \<noteq> '']''"
    by (simp_all add: skip_space_def [of "_ # _"])
qed

lemma read_value_number:
  assumes "number_text t" "stops_number rest"
  shows "read_value (Suc n) (t @ rest) = Some (JNum t, rest)"
proof -
  obtain c cs where t: "t = c # cs" "json_digit c \<or> c = CHR ''-''"
    using json_number_head [OF assms(1)] by blast
  then have "skip_space (t @ rest) = t @ rest"
    by (auto simp: skip_space_def json_space_def json_digit_def)
  moreover have "byte_of c \<noteq> 34" "c \<noteq> CHR ''[''" "c \<noteq> CHR ''{''" "c \<noteq> CHR ''n''" "c \<noteq> CHR ''t''" "c \<noteq> CHR ''f''"
    using t(2) by (auto simp: json_digit_def)
  ultimately show ?thesis
    using json_number_append [OF assms] by (simp add: t(1))
qed

lemma reads_back_all: "numbers_ok j \<Longrightarrow> reads_back d j"
proof (induction j arbitrary: d)
  case JNull
  have "read_value n (''null'' @ rest) = Some (JNull, rest)" if "0 < n" for n rest
    using that by (cases n) (simp_all add: skip_space_def json_space_def)
  then show ?case by (simp add: reads_back_def)
next
  case (JBool b)
  have "read_value n (''true'' @ rest) = Some (JBool True, rest)" "read_value n (''false'' @ rest) = Some (JBool False, rest)"
    if "0 < n" for n rest
    using that by (cases n; simp add: skip_space_def json_space_def)+
  then show ?case by (simp add: reads_back_def)
next
  case (JNum t)
  then have "read_value n (t @ rest) = Some (JNum t, rest)" if "0 < n" "stops_number rest" for n rest
    using that read_value_number by (cases n) auto
  then show ?case by (auto simp: reads_back_def)
next
  case (JStr s)
  have "read_value n (json_quote s @ rest) = Some (JStr (clean_utf8 s), rest)" if "0 < n" for n rest
    using that json_chars_quoted [of s rest]
    by (cases n) (simp_all add: json_quote_def skip_space_def json_space_def)
  then show ?case by (simp add: reads_back_def)
next
  case (JArr vs)
  show ?case
  proof (cases "vs = []")
    case True
    have "read_value n (''[]'' @ rest) = Some (JArr [], rest)" if "0 < n" for n rest
      using that by (cases n) (simp_all add: skip_space_def json_space_def)
    then show ?thesis by (simp add: reads_back_def True)
  next
    case False
    let ?t = "join_str '','' (map (\<lambda>v. json_line (d + 1) @ show_json (d + 1) v) vs)"
    have reads: "read_elements n (?t @ json_line d @ '']'' @ rest) = Some (map clean_json vs, rest)" if "2 * length ?t \<le> n" for n rest
      by (rule read_elements_back [OF False _ that]) (use JArr in \<open>auto simp: list_all_iff\<close>)
    obtain v vs' where vs: "vs = v # vs'" using False by (cases vs) auto
    have head: "take 1 (skip_space (?t @ zs)) \<noteq> '']''" for zs
      using skip_value(2) [of v "d + 1" "d + 1"] JArr.prems by (auto simp: vs join_str_Cons)
    have "read_value n (show_json d (JArr vs) @ rest) = Some (clean_json (JArr vs), rest)"
      if len: "2 * length (show_json d (JArr vs)) < n" for n rest
    proof -
      obtain m where n: "n = Suc m" "2 * length ?t \<le> m" using len False by (cases n) auto
      have "skip_space (''['' @ zs) = ''['' @ zs" for zs by (simp add: skip_space_def json_space_def)
      then show ?thesis using False n(1) reads [OF n(2), of rest] head [of "json_line d @ '']'' @ rest"] by simp
    qed
    then show ?thesis by (simp add: reads_back_def)
  qed
next
  case (JObj kvs)
  show ?case
  proof (cases "kvs = []")
    case True
    have "read_value n (''{}'' @ rest) = Some (JObj [], rest)" if "0 < n" for n rest
      using that by (cases n) (simp_all add: skip_space_def json_space_def)
    then show ?thesis by (simp add: reads_back_def True)
  next
    case False
    let ?t = "join_str '','' (map (\<lambda>(k, v). json_line (d + 1) @ json_quote k @ '': '' @ show_json (d + 1) v) kvs)"
    have "\<forall>(k, v) \<in> set kvs. reads_back (d + 1) v"
      using JObj by (fastforce simp: list_all_iff)
    then have reads: "read_members n (?t @ json_line d @ ''}'' @ rest) =
        Some (map (\<lambda>(k, v). (clean_utf8 k, clean_json v)) kvs, rest)" if "2 * length ?t \<le> n" for n rest
      by (rule read_members_back [OF False _ that])
    obtain k v kvs' where kvs: "kvs = (k, v) # kvs'" using False by (cases kvs) auto
    have head: "take 1 (skip_space (?t @ zs)) \<noteq> ''}''" for zs
      by (simp add: kvs join_str_Cons json_quote_def) (simp add: skip_space_def json_space_def)
    have "read_value n (show_json d (JObj kvs) @ rest) = Some (clean_json (JObj kvs), rest)"
      if len: "2 * length (show_json d (JObj kvs)) < n" for n rest
    proof -
      obtain m where n: "n = Suc m" "2 * length ?t \<le> m" using len False by (cases n) auto
      have "skip_space (''{'' @ zs) = ''{'' @ zs" for zs by (simp add: skip_space_def json_space_def)
      then show ?thesis using False n(1) reads [OF n(2), of rest] head [of "json_line d @ ''}'' @ rest"] by simp
    qed
    then show ?thesis by (simp add: reads_back_def)
  qed
qed

lemma foldr_max_cong: "(\<And>x. x \<in> set xs \<Longrightarrow> f x = g x) \<Longrightarrow> foldr (\<lambda>x m. max (f x) m) xs (0 :: nat) = foldr (\<lambda>x m. max (g x) m) xs 0"
  by (induction xs) auto

lemma nesting_clean [simp]: "nesting (clean_json j) = nesting j"
proof (induction j)
  case (JArr vs)
  then show ?case using foldr_max_cong [of vs "\<lambda>v. nesting (clean_json v)" nesting] by (simp add: foldr_map comp_def)
next
  case (JObj kvs)
  have "nesting (snd (case kv of (k, v) \<Rightarrow> (clean_utf8 k, clean_json v))) = nesting (snd kv)" if "kv \<in> set kvs" for kv
  proof -
    obtain k v where "kv = (k, v)" by fastforce
    with that JObj [of kv v] show ?thesis by simp
  qed
  then show ?case
    using foldr_max_cong [of kvs "\<lambda>kv. nesting (snd (case kv of (k, v) \<Rightarrow> (clean_utf8 k, clean_json v)))" "\<lambda>kv. nesting (snd kv)"]
    by (simp add: foldr_map comp_def)
qed simp_all

text \<open>What is written reads back, up to the bytes that are not text.\<close>

lemma read_MarshalIndent:
  assumes "numbers_ok j" "nesting j \<le> 10000"
  shows "read_json (MarshalIndent j) = Some (clean_json j)"
proof -
  have "read_value (2 * length (show_json 0 j) + 1) (show_json 0 j @ []) = Some (clean_json j, [])"
    by (rule reads_backD [OF reads_back_all [OF assms(1)]]) (simp_all add: stops_number_def)
  then show ?thesis
    using assms(2) by (simp add: read_json_def MarshalIndent_def skip_space_def)
qed

lemma show_nat_digits: "list_all json_digit (show_nat n) \<and> show_nat n \<noteq> [] \<and> (0 < n \<longrightarrow> hd (show_nat n) \<noteq> CHR ''0'')"
proof (induction n rule: show_nat.induct)
  case (1 n)
  have digit: "json_digit (digit_char k)" "k \<noteq> 0 \<Longrightarrow> digit_char k \<noteq> CHR ''0''" if "k < 10" for k
    using that by (simp_all add: json_digit_def digit_char_def char_of_eq_iff take_bit_nat_eq_self)
  show ?case
  proof (cases "n < 10")
    case True
    then show ?thesis using digit by (simp add: show_nat.simps [of n])
  next
    case False
    with 1 digit [of "n mod 10"] show ?thesis by (simp add: show_nat.simps [of n])
  qed
qed

lemma number_text_int: "number_text (show_int i)"
proof -
  have nat: "integer_part (show_nat n) = Some (show_nat n, [])" for n
  proof (cases "n = 0")
    case True
    then show ?thesis by (simp add: integer_part_def show_nat.simps [of 0] digit_char_def char_of_def bit_Suc_0_iff)
  next
    case False
    then show ?thesis
      using show_nat_digits [of n] by (cases "show_nat n") (auto simp: integer_part_def some_digits_def list_all_iff)
  qed
  have "take 1 (show_nat n) \<noteq> ''-''" for n
    using show_nat_digits [of n] by (cases "show_nat n") (auto simp: json_digit_def)
  then show ?thesis
    using nat by (simp add: number_text_def json_number_def show_int_def fraction_part_def exponent_part_def)
qed

end
