(* ===== verification/Lifecycle_Text.thy ===== *)
theory Lifecycle_Text
  imports Lifecycle_Json Go_Json
begin

text \<open>
  The last step of \<^verbatim>\<open>TranslateS3ToGCS\<close>: the JSON text of the translated rules, with the field
  names and the \<^verbatim>\<open>omitempty\<close> options of the struct tags in \<^verbatim>\<open>gcs_lifecycle.go\<close>.
\<close>

subsection \<open>The document\<close>

text \<open>Optional fields: a nil pointer, and an empty string or slice.\<close>

definition pointer_field :: "string \<Rightarrow> ('a \<Rightarrow> json) \<Rightarrow> 'a option \<Rightarrow> (string \<times> json) list" where
  "pointer_field k f v = (case v of None \<Rightarrow> [] | Some a \<Rightarrow> [(k, f a)])"

definition strings_field :: "string \<Rightarrow> string list \<Rightarrow> (string \<times> json) list" where
  "strings_field k vs = (if vs = [] then [] else [(k, JArr (map JStr vs))])"

definition int_json :: "int64 \<Rightarrow> json" where
  "int_json w = JNum (show_int (sint w))"

definition action_json :: "GCSLifecycleAction \<Rightarrow> json" where
  "action_json a =
     JObj ((''type'', JStr (Ja_Type a)) #
       (if Ja_StorageClass a = [] then [] else [(''storageClass'', JStr (Ja_StorageClass a))]))"

definition condition_json :: "GCSLifecycleCondition \<Rightarrow> json" where
  "condition_json c =
     JObj (pointer_field ''age'' int_json (Jc_Age c)
       @ pointer_field ''createdBefore'' JStr (Jc_CreatedBefore c)
       @ pointer_field ''isLive'' JBool (Jc_IsLive c)
       @ strings_field ''matchesStorageClass'' (Jc_MatchesStorageClass c)
       @ strings_field ''matchesPrefix'' (Jc_MatchesPrefix c)
       @ strings_field ''matchesSuffix'' (Jc_MatchesSuffix c)
       @ pointer_field ''numNewerVersions'' int_json (Jc_NumNewerVersions c))"

definition rule_json :: "GCSLifecycleRule \<Rightarrow> json" where
  "rule_json r = JObj [(''action'', action_json (Jr_Action r)), (''condition'', condition_json (Jr_Condition r))]"

text \<open>The slice of rules is nil when no rule was appended.\<close>

definition lifecycle_json :: "GCSLifecycle \<Rightarrow> json" where
  "lifecycle_json g = JObj [(''rule'', if Jl_Rules g = [] then JNull else JArr (map rule_json (Jl_Rules g)))]"

definition lifecycle_text :: "LifecycleConfiguration \<Rightarrow> lifecycle_error + string" where
  "lifecycle_text cfg = res_bind (TranslateS3ToGCS cfg) (\<lambda>g. Inr (MarshalIndent (lifecycle_json g)))"

subsection \<open>It reads back\<close>

lemma numbers_fields:
  "numbers_ok (int_json w)" "numbers_ok (JStr s)" "numbers_ok (JBool b)"
  "(\<And>a. numbers_ok (f a)) \<Longrightarrow> list_all (\<lambda>(k, v). numbers_ok v) (pointer_field k f x)"
  "list_all (\<lambda>(k, v). numbers_ok v) (strings_field k vs)"
  by (auto simp: int_json_def number_text_int pointer_field_def strings_field_def list_all_iff split: option.splits)

lemma numbers_lifecycle: "numbers_ok (lifecycle_json g)"
  by (simp add: lifecycle_json_def rule_json_def action_json_def condition_json_def numbers_fields list_all_iff [of _ "map rule_json _"])

text \<open>Nesting: the strings of a condition are five levels deep.\<close>

lemma foldr_max_le: "\<forall>x \<in> set xs. f x \<le> n \<Longrightarrow> foldr (\<lambda>x m. max (f x) m) xs (0 :: nat) \<le> n"
  by (induction xs) auto

lemma nesting_le:
  "\<forall>v \<in> set vs. nesting v \<le> n \<Longrightarrow> nesting (JArr vs) \<le> Suc n"
  "\<forall>kv \<in> set kvs. nesting (snd kv) \<le> n \<Longrightarrow> nesting (JObj kvs) \<le> Suc n"
  using foldr_max_le [of vs nesting n] foldr_max_le [of kvs "\<lambda>kv. nesting (snd kv)" n] by simp_all

lemma nesting_fields:
  "kv \<in> set (pointer_field k f x) \<Longrightarrow> (\<And>a. nesting (f a) = 0) \<Longrightarrow> nesting (snd kv) \<le> 1"
  "kv \<in> set (strings_field k vs) \<Longrightarrow> nesting (snd kv) \<le> 1"
  using nesting_le(1) [of "map JStr vs" 0]
  by (auto simp: pointer_field_def strings_field_def split: option.splits if_splits)

lemma nesting_condition: "nesting (condition_json c) \<le> Suc 1"
  unfolding condition_json_def
  by (rule nesting_le(2)) (auto simp: int_json_def dest: nesting_fields)

lemma nesting_lifecycle: "nesting (lifecycle_json g) \<le> 10000"
proof -
  have "nesting (rule_json r) \<le> 3" for r
    using nesting_condition [of "Jr_Condition r"] by (simp add: rule_json_def action_json_def)
  then have "nesting (JArr (map rule_json rs)) \<le> Suc 3" for rs
    by (intro nesting_le(1)) auto
  then have "nesting (lifecycle_json g) \<le> Suc (Suc 3)"
    unfolding lifecycle_json_def by (intro nesting_le(2)) auto
  then show ?thesis by linarith
qed

end
