(* ===== verification/Translation_Properties.thy ===== *)
theory Translation_Properties
  imports Examples Lifecycle_Text
begin

text \<open>
  The properties of the translations and of the XML the proxy reads and writes.
\<close>

subsection \<open>Lifecycle\<close>

text \<open>
  C34. The lifecycle translation fails exactly for a document with an enabled rule that
  filters by size or tag, at the top or inside And, or has an expiration or transition
  date whose first ten bytes are not a day of the calendar written YYYY-MM-DD; rules that
  are not enabled never make it fail.
\<close>
theorem lifecycle_refused_exactly:
  "(\<exists>e. TranslateS3ToGCSLifecycle cfg = Inl e) \<longleftrightarrow> list_ex unsupported_rule (Lc_Rules cfg)"
  by (rule translation_fails_iff)

lemma abort_rule_only:
  assumes "translate_rule r = Inr gs" "g \<in> set gs" "La_Type (Lr_Action g) = AbortIncompleteMPUAction"
  shows "\<exists>d. g = abort_rule d"
proof -
  have "list_all (\<lambda>g. La_Type (Lr_Action g) = AbortIncompleteMPUAction \<longrightarrow> (\<exists>d. g = abort_rule d)) gs"
    by (rule translate_rule_all [OF assms(1)])
      (auto simp: expiration_rule_def transition_rule_def noncurrent_rule_def delete_action_def
        res_bind_Inr_iff Let_def)
  with assms(2,3) show ?thesis by (auto simp: list_all_iff)
qed

text \<open>
  C35. Every translated rule comes from an enabled rule of the document and is limited to
  the prefixes of its filter, except a rule that aborts incomplete uploads: that one always
  applies to the whole bucket.
\<close>
theorem translated_rules_keep_their_scope:
  assumes "TranslateS3ToGCSLifecycle cfg = Inr gs" "g \<in> set gs"
  shows "\<exists>r \<in> set (Lc_Rules cfg). enabled r \<and> Cond_MatchesPrefix (Lr_Condition g) =
    (if La_Type (Lr_Action g) = AbortIncompleteMPUAction then [] else filter_prefixes (R_Filter r))"
proof -
  from assms obtain r zs where r: "r \<in> set (Lc_Rules cfg)" "translate_rule r = Inr zs" "g \<in> set zs"
    unfolding TranslateS3ToGCSLifecycle_def by (blast dest: collect_Inr_all)
  then have "enabled r"
    by (auto simp: translate_rule_def enabled_def split: if_splits)
  moreover have "La_Type (Lr_Action g) = AbortIncompleteMPUAction \<or> scoped_to (R_Filter r) g"
    using translate_rule_scoped [OF r(2)] r(3) by (auto simp: list_all_iff)
  moreover have "Cond_MatchesPrefix (Lr_Condition g) = []" if "La_Type (Lr_Action g) = AbortIncompleteMPUAction"
    using abort_rule_only [OF r(2,3) that] by (auto simp: abort_rule_def zero_Condition_def)
  ultimately show ?thesis
    using r(1) by (intro bexI [of _ r]) (auto simp: scoped_to_def)
qed

definition ex_upload_rule :: Rule where
  "ex_upload_rule = zero_Rule\<lparr>R_Status := ''Enabled'', R_Filter := Some (zero_Filter\<lparr>F_Prefix := Some ''tmp''\<rparr>),
     R_Expiration := Some (zero_Expiration\<lparr>Exp_Days := Some 7\<rparr>),
     R_AbortIncompleteMultipartUpload := Some \<lparr>Abort_DaysAfterInitiation = Some 1\<rparr>\<rparr>"

definition ex_expire :: LifecycleRule where
  "ex_expire = \<lparr>Lr_Action = delete_action,
     Lr_Condition = zero_Condition\<lparr>Cond_AgeInDays := 7, Cond_MatchesPrefix := [''tmp'']\<rparr>\<rparr>"

lemma ex_upload_translated:
  "TranslateS3ToGCSLifecycle \<lparr>Lc_Rules = [ex_upload_rule]\<rparr> = Inr [ex_expire, abort_rule 1]"
  by (simp add: TranslateS3ToGCSLifecycle_def ex_upload_rule_def translate_rule_def check_filter_def
      zero_defs expiration_rules_def expiration_rule_def transition_rules_def noncurrent_rules_def
      abort_rules_def applySDKFilter_def nonempty_prefix_def set_age_def set_created_before_def
      ex_expire_def zero_Condition_def Let_def)

theorem translated_rules_keep_their_scope_witness:
  "\<exists>r \<in> {ex_upload_rule}. enabled r \<and> Cond_MatchesPrefix (Lr_Condition ex_expire) =
     (if La_Type (Lr_Action ex_expire) = AbortIncompleteMPUAction then [] else filter_prefixes (R_Filter r))"
  using translated_rules_keep_their_scope [OF ex_upload_translated, of ex_expire]
  by (auto split: if_splits)

text \<open>
  C36. Whenever the lifecycle translation into SDK structs succeeds, so does the one into a
  JSON document, and rule by rule, in the same order, they have the same action, creation
  date, liveness and prefixes; the JSON document has no rule that aborts incomplete uploads.
  The JSON rules give exactly the numbers of the S3 document, a zero included; the structs
  hold 0 for a number that is not given as well. When every number the document gives is
  positive, the numbers the SDK sends are those of the JSON rules (for an age of zero it
  would send none, \<^verbatim>\<open>zero_days_differ\<close>).
\<close>
theorem json_and_sdk_translations_agree:
  assumes "TranslateS3ToGCSLifecycle cfg = Inr gs"
  shows "\<exists>j. TranslateS3ToGCS cfg = Inr j
    \<and> list_all2 json_denotes (Jl_Rules j) (filter (\<lambda>g. La_Type (Lr_Action g) \<noteq> AbortIncompleteMPUAction) gs)
    \<and> map json_numbers (Jl_Rules j) = concat (map rule_numbers (Lc_Rules cfg))
    \<and> (list_all (\<lambda>(age, newer). positive_number age \<and> positive_number newer) (concat (map rule_numbers (Lc_Rules cfg))) \<longrightarrow>
        map sdk_numbers (filter (\<lambda>g. La_Type (Lr_Action g) \<noteq> AbortIncompleteMPUAction) gs) = map json_numbers (Jl_Rules j))"
proof -
  let ?gs = "filter (\<lambda>g. La_Type (Lr_Action g) \<noteq> AbortIncompleteMPUAction) gs"
  from json_collect_denotes [OF assms [unfolded TranslateS3ToGCSLifecycle_def]] obtain js where
    js: "collect json_translate_rule (Lc_Rules cfg) = Inr js" "list_all2 json_denotes js ?gs"
    unfolding not_abort_def [abs_def] by blast
  have "map sdk_numbers xs = map json_numbers ys"
    if "list_all2 json_denotes ys xs" "list_all (\<lambda>(age, newer). positive_number age \<and> positive_number newer) (map json_numbers ys)"
    for xs ys
    using that by (induction rule: list_all2_induct) (auto simp: split_beta intro: same_numbers)
  with js json_collect_numbers [OF js(1)] show ?thesis
    by (auto simp: TranslateS3ToGCS_def)
qed

theorem json_and_sdk_translations_agree_witness:
  "\<exists>j. TranslateS3ToGCS \<lparr>Lc_Rules = [ex_upload_rule]\<rparr> = Inr j \<and> list_all2 json_denotes (Jl_Rules j) [ex_expire]
     \<and> map json_numbers (Jl_Rules j) = [(Some 7, None)] \<and> sdk_numbers ex_expire = (Some 7, None)"
proof -
  have "concat (map rule_numbers [ex_upload_rule]) = [(Some 7, None)]"
    by (simp add: rule_numbers_def ex_upload_rule_def zero_defs)
  with json_and_sdk_translations_agree [OF ex_upload_translated] show ?thesis
    by (auto simp: ex_expire_def delete_action_def abort_rule_def positive_number_def)
qed

text \<open>Where they differ: an expiration after zero days.\<close>

lemma zero_days_differ:
  fixes r defines "r \<equiv> zero_Rule\<lparr>R_Status := ''Enabled'', R_Expiration := Some (zero_Expiration\<lparr>Exp_Days := Some 0\<rparr>)\<rparr>"
  shows "\<exists>g. TranslateS3ToGCSLifecycle \<lparr>Lc_Rules = [r]\<rparr> = Inr [g] \<and> sdk_numbers g = (None, None)"
    and "\<exists>j. TranslateS3ToGCS \<lparr>Lc_Rules = [r]\<rparr> = Inr j \<and> map json_numbers (Jl_Rules j) = [(Some 0, None)]"
proof -
  have t: "TranslateS3ToGCSLifecycle \<lparr>Lc_Rules = [r]\<rparr> = Inr [\<lparr>Lr_Action = delete_action, Lr_Condition = zero_Condition\<rparr>]"
    by (simp add: TranslateS3ToGCSLifecycle_def r_def translate_rule_def check_filter_def zero_defs
        expiration_rules_def expiration_rule_def transition_rules_def noncurrent_rules_def abort_rules_def
        applySDKFilter_def set_age_def set_created_before_def zero_Condition_def)
  then show "\<exists>g. TranslateS3ToGCSLifecycle \<lparr>Lc_Rules = [r]\<rparr> = Inr [g] \<and> sdk_numbers g = (None, None)"
    by (simp add: sdk_numbers_def sent_number_def zero_Condition_def)
  from json_collect_denotes [OF t [unfolded TranslateS3ToGCSLifecycle_def]] obtain js where
    js: "collect json_translate_rule [r] = Inr js" by auto
  with json_collect_numbers [OF js] show "\<exists>j. TranslateS3ToGCS \<lparr>Lc_Rules = [r]\<rparr> = Inr j \<and> map json_numbers (Jl_Rules j) = [(Some 0, None)]"
    by (auto simp: TranslateS3ToGCS_def rule_numbers_def r_def zero_defs)
qed

text \<open>
  The JSON text of a translated configuration is a well-formed document: parsed, it is
  the document of the translated rules, one object for each, with bytes that are not
  UTF-8 replaced.
\<close>
theorem lifecycle_text_reads_back:
  assumes "lifecycle_text cfg = Inr t"
  shows "\<exists>j. TranslateS3ToGCS cfg = Inr j \<and> read_json t = Some (clean_json (lifecycle_json j))"
  using assms read_MarshalIndent numbers_lifecycle nesting_lifecycle
  by (auto simp: lifecycle_text_def res_bind_def split: sum.splits)

lemma ex_upload_json: "\<exists>j. TranslateS3ToGCS \<lparr>Lc_Rules = [ex_upload_rule]\<rparr> = Inr j"
  using json_collect_denotes [OF ex_upload_translated [unfolded TranslateS3ToGCSLifecycle_def]]
  by (auto simp: TranslateS3ToGCS_def)

theorem lifecycle_text_reads_back_witness:
  "\<exists>t j. lifecycle_text \<lparr>Lc_Rules = [ex_upload_rule]\<rparr> = Inr t \<and> TranslateS3ToGCS \<lparr>Lc_Rules = [ex_upload_rule]\<rparr> = Inr j
    \<and> read_json t = Some (clean_json (lifecycle_json j))"
proof -
  obtain j where "TranslateS3ToGCS \<lparr>Lc_Rules = [ex_upload_rule]\<rparr> = Inr j"
    using ex_upload_json by blast
  then have "lifecycle_text \<lparr>Lc_Rules = [ex_upload_rule]\<rparr> = Inr (MarshalIndent (lifecycle_json j))"
    by (simp add: lifecycle_text_def res_bind_def)
  with lifecycle_text_reads_back [OF this] show ?thesis by blast
qed

subsection \<open>CORS\<close>

text \<open>
  The request headers a CORS PUT reports as dropped are the allowed headers of all
  rules: each of them is reported up to case, none twice, in the order and the spelling of
  their first occurrence.
\<close>
theorem cors_reports_every_dropped_header:
  "distinct (map (to_lower u) (snd (TranslateS3ToGCSCors u cfg)))
   \<and> to_lower u ` set (snd (TranslateS3ToGCSCors u cfg)) =
       to_lower u ` (\<Union>r \<in> set (Cc_CORSRules cfg). set (Cr_AllowedHeaders r))
   \<and> subseq (snd (TranslateS3ToGCSCors u cfg)) (concat (map Cr_AllowedHeaders (Cc_CORSRules cfg)))"
  using dedupe_set [of u "concat (map Cr_AllowedHeaders (Cc_CORSRules cfg))"]
  by (simp add: TranslateS3ToGCSCors_def dedupe_distinct dedupe_subseq)

subsection \<open>XML\<close>

text \<open>
  C37. For all five kinds of configuration, reading the XML text the proxy writes for a
  document gives the document back, when its texts are UTF-8 of XML characters (others
  are replaced in writing). The elements in the text are named and ordered as the
  templates of \<open>wire_format\<close> spell them, for documents with every field given and for the
  empty ones.
\<close>
theorem documents_read_back:
  "(sendable (encode_lifecycle l) \<longrightarrow> Option.bind (read_xml (render (encode_lifecycle l))) decode_lifecycle = Some l)
   \<and> (sendable (encode_cors c) \<longrightarrow> Option.bind (read_xml (render (encode_cors c))) decode_cors = Some c)
   \<and> (sendable (encode_logging g) \<longrightarrow> Option.bind (read_xml (render (encode_logging g))) decode_logging = Some g)
   \<and> (sendable (encode_website s) \<longrightarrow> Option.bind (read_xml (render (encode_website s))) decode_website = Some s)
   \<and> (sendable (encode_tagging t) \<longrightarrow> Option.bind (read_xml (render (encode_tagging t))) decode_tagging = Some t)
   \<and> (txt 0 \<noteq> [] \<and> num 0 \<noteq> 0 \<longrightarrow> list_all (\<lambda>(x, text). render x = text) (wire_format txt num))"
  by (simp add: read_sent shaped_lifecycle shaped_cors shaped_logging shaped_website shaped_tagging
      lifecycle_xml.decode_encode cors_xml.decode_encode logging_xml.decode_encode
      website_xml.decode_encode tagging_xml.decode_encode wire_format_rendered)

definition ex_tag_document :: Tagging where
  "ex_tag_document = \<lparr>Tg_TagSet = [\<lparr>Tag_Key = ''a'', Tag_Value = ''b''\<rparr>]\<rparr>"

definition ex_log_document :: BucketLoggingStatus where
  "ex_log_document = \<lparr>Bls_LoggingEnabled = Some \<lparr>Le_TargetBucket = ''logs'', Le_TargetPrefix = []\<rparr>\<rparr>"

definition ex_cors_document :: CORSConfiguration where
  "ex_cors_document = \<lparr>Cc_CORSRules = [zero_CORSRule\<lparr>Cr_AllowedMethods := [''GET'']\<rparr>]\<rparr>"

definition ex_rule_document :: LifecycleConfiguration where
  "ex_rule_document = \<lparr>Lc_Rules = [zero_Rule\<lparr>R_Status := ''Disabled''\<rparr>]\<rparr>"

lemma ex_documents_sendable:
  "sendable (encode_lifecycle ex_rule_document)" "sendable (encode_cors ex_cors_document)"
  "sendable (encode_logging ex_log_document)" "sendable (encode_website ex_site)"
  "sendable (encode_tagging ex_tag_document)"
proof -
  have plain: "xml_text ''Disabled''" "xml_text ''GET''" "xml_text ''logs''" "xml_text ''index.html''"
    "xml_text ''a''" "xml_text ''b''"
    by (rule xml_text_plain, simp add: plain_byte_def)+
  note ex = ex_rule_document_def ex_cors_document_def ex_log_document_def ex_site_def ex_tag_document_def
  show "sendable (encode_lifecycle ex_rule_document)" "sendable (encode_cors ex_cors_document)"
    "sendable (encode_logging ex_log_document)" "sendable (encode_website ex_site)"
    "sendable (encode_tagging ex_tag_document)"
    by (simp_all add: sendable_def ex plain encode_lifecycle_def lifecycle_kids_def encode_rule_def rule_kids_def
        zero_Rule_def encode_cors_def cors_kids_def encode_cors_rule_def cors_rule_kids_def zero_CORSRule_def
        encode_logging_def logging_kids_def encode_website_def website_kids_def encode_tagging_def
        tagging_kids_def encode_tag_def tag_kids_def opt_elem_cases text_elem_def)
qed

theorem documents_read_back_witness:
  "Option.bind (read_xml (render (encode_lifecycle ex_rule_document))) decode_lifecycle = Some ex_rule_document
   \<and> Option.bind (read_xml (render (encode_cors ex_cors_document))) decode_cors = Some ex_cors_document
   \<and> Option.bind (read_xml (render (encode_logging ex_log_document))) decode_logging = Some ex_log_document
   \<and> Option.bind (read_xml (render (encode_website ex_site))) decode_website = Some ex_site
   \<and> Option.bind (read_xml (render (encode_tagging ex_tag_document))) decode_tagging = Some ex_tag_document
   \<and> list_all (\<lambda>(x, text). render x = text) (wire_format (\<lambda>_. ''a'') (\<lambda>_. 1))"
  using documents_read_back [of ex_rule_document ex_cors_document ex_log_document ex_site ex_tag_document
      "\<lambda>_. ''a''" "\<lambda>_. 1"] ex_documents_sendable by simp

text \<open>
  An error response is one fixed document whose code and message hold no markup,
  whatever text of the request went into them.
\<close>
theorem error_body_is_escaped:
  assumes "fresh w" "rw_body (w_rw w) = []"
  shows "rw_body (w_rw (writeS3Error status code message w)) =
      xml_header @ ''<Error><Code>'' @ xml_escape code @ ''</Code><Message>'' @ xml_escape message
        @ ''</Message></Error>'' @ [CHR 10]
    \<and> set (xml_escape code @ xml_escape message) \<inter> set ''<>'' = {}"
proof
  have "set (xml_escape s) \<inter> set ''<>'' = {}" for s
    using xml_escape_markup_free [of s] by (auto simp: list_all_iff markup_free_def)
  then show "set (xml_escape code @ xml_escape message) \<inter> set ''<>'' = {}"
    unfolding set_append Int_Un_distrib2 by simp
qed (simp add: body_error [OF assms] s3ErrorBody_def text_elem_def xml_escape_def)

theorem error_body_is_escaped_witness:
  "rw_body (w_rw (writeS3Error 400 ''InvalidStorageClass'' ''<x>'' ex_world)) =
     xml_header @ ''<Error><Code>'' @ xml_escape ''InvalidStorageClass'' @ ''</Code><Message>''
       @ xml_escape ''<x>'' @ ''</Message></Error>'' @ [CHR 10]"
  using error_body_is_escaped [of ex_world 400 "''InvalidStorageClass''" "''<x>''"] by simp

end
