(* ===== verification/Upstream_Properties.thy ===== *)
theory Upstream_Properties
  imports Examples
begin

text \<open>The properties of the requests the proxy sends on, as the Director prepares them.\<close>

text \<open>
  The query that is signed names no x-id; every other parameter is present exactly when it
  was in the client's query, with the same first value; and a query without x-id is given to
  the signer as it is.
\<close>
theorem outgoing_query_drops_only_xid:
  "values_get (url_query (req_url (director_prepare cfg up r))) ''x-id'' = []
   \<and> (\<forall>k \<in> - {''x-id''}.
        values_get (url_query (req_url (director_prepare cfg up r))) k = values_get (url_query (req_url r)) k
        \<and> values_has (url_query (req_url (director_prepare cfg up r))) k = values_has (url_query (req_url r)) k)
   \<and> (if values_get (url_query (req_url r)) ''x-id'' = []
      then url_rawquery (req_url (director_prepare cfg up r)) = url_rawquery (req_url r) else True)"
proof (intro conjI ballI)
  show "values_get (url_query (req_url (director_prepare cfg up r))) ''x-id'' = []"
    by (rule prepared_query_xid)
  show "if values_get (url_query (req_url r)) ''x-id'' = []
      then url_rawquery (req_url (director_prepare cfg up r)) = url_rawquery (req_url r) else True"
    by (simp add: director_address_def director_xid_def Let_def url_query_def)
qed (use prepared_query_other in auto)

definition ex_part :: request where
  "ex_part = ex_request ''PUT'' ''/bkt/key'' ''x-id=PutObject&partNumber=2'' signed None"

theorem outgoing_query_drops_only_xid_witness:
  "values_get (url_query (req_url (director_prepare ex_config ex_up ex_part))) ''partNumber'' = ''2''"
  using outgoing_query_drops_only_xid [of ex_config ex_up ex_part]
  by (auto simp: ex_part_def ex_queries values_get_def)

text \<open>
  C38. A request that is forwarded, and for which the Director has credentials, is given to
  the signer without User-Agent, Expect, Accept-Encoding, Amz-Sdk-Invocation-Id and
  Amz-Sdk-Request (headers an intermediary may rewrite), with an unsigned payload, and
  with one of the five classes of the translation table as its storage class, or none,
  whatever class the client asked for: a class other than STANDARD becomes the only value
  of the header. The class is the first value of the header, the only one the proxy looks
  at: behind STANDARD or an empty value, further values go out as they came.
\<close>
theorem outgoing_headers:
  assumes "handleS3Request px sr r w = Forwarded kind r' w'" "director_credentials cfg r' = Some c"
  shows "\<exists>given. director cfg up r' = snd (up_sign up c given)
    \<and> list_all (\<lambda>h. req_header given h = None)
        [''User-Agent'', ''Expect'', ''Accept-Encoding'', ''Amz-Sdk-Invocation-Id'', ''Amz-Sdk-Request'']
    \<and> req_header given ''X-Amz-Content-Sha256'' = Some [''UNSIGNED-PAYLOAD'']
    \<and> hdr_get (req_header given) ''X-Amz-Storage-Class''
        \<in> {[], ''STANDARD'', ''NEARLINE'', ''COLDLINE'', ''ARCHIVE'', ''AUTOCLASS''}
    \<and> (if hdr_get (req_header r) ''X-Amz-Storage-Class'' \<in> {[], ''STANDARD''}
       then req_header given ''X-Amz-Storage-Class'' = req_header r ''X-Amz-Storage-Class''
       else \<exists>class. req_header given ''X-Amz-Storage-Class'' = Some [class])"
proof (intro exI conjI)
  let ?given = "director_prepare cfg up r'" and ?k = "''X-Amz-Storage-Class''"
  have f: "forwardable px r" and "credential_gate sr r w = Inr (r', w')"
    using assms(1) by (simp_all add: forwarded_iff)
  then have h: "req_header r' = req_header r"
    by (cases sr r w rule: gate_cases) auto
  have sc: "hdr_get (req_header r) ?k = [] \<or> translateS3StorageClass (hdr_get (req_header r) ?k) \<noteq> None"
    using f by (simp add: forwardable_def header_value_def storage_class_key)
  have header: "req_header ?given ?k = (if hdr_get (req_header r) ?k \<in> {[], ''STANDARD''} then req_header r ?k
      else map_option (\<lambda>class. [class]) (translateS3StorageClass (hdr_get (req_header r) ?k)))"
    using sc by (auto simp: prepared_class h)
  show "director cfg up r' = snd (up_sign up c ?given)"
    using assms(2) by (simp add: director_def split_beta)
  show "list_all (\<lambda>h. req_header ?given h = None)
      [''User-Agent'', ''Expect'', ''Accept-Encoding'', ''Amz-Sdk-Invocation-Id'', ''Amz-Sdk-Request'']"
    "req_header ?given ''X-Amz-Content-Sha256'' = Some [''UNSIGNED-PAYLOAD'']"
    by (simp_all add: stripped_lookup strip_always_def)
  show "if hdr_get (req_header r) ?k \<in> {[], ''STANDARD''}
      then req_header ?given ?k = req_header r ?k else \<exists>class. req_header ?given ?k = Some [class]"
    using sc by (auto simp: header)
  show "hdr_get (req_header ?given) ?k \<in> {[], ''STANDARD'', ''NEARLINE'', ''COLDLINE'', ''ARCHIVE'', ''AUTOCLASS''}"
    using sc header
    by (auto simp: hdr_get_def storage_class_key translateS3StorageClass_def split: if_splits)
qed

theorem outgoing_headers_witness:
  "\<exists>given. director ex_config ex_up (ex_get\<lparr>req_creds := Some ex_pair\<rparr>) = snd (up_sign ex_up ex_pair given)
     \<and> req_header given ''User-Agent'' = None \<and> req_header given ''X-Amz-Content-Sha256'' = Some [''UNSIGNED-PAYLOAD'']"
proof -
  have "director_credentials ex_config (ex_get\<lparr>req_creds := Some ex_pair\<rparr>) = Some ex_pair"
    by (simp add: director_credentials_def)
  from outgoing_headers [OF ex_get_forwarded this, of ex_up] show ?thesis by auto
qed

text \<open>
  A bulk delete whose body can be read goes out with the same body, its length as the
  content length and the digest of exactly these bytes as Content-MD5; every other request
  goes out with its body untouched and without a Content-MD5.
\<close>
theorem outgoing_digest:
  assumes "case req_body r of None \<Rightarrow> True | Some b \<Rightarrow> \<not> body_fails b"
  shows "req_body (director_prepare cfg up r) = req_body r
    \<and> hdr_get (req_header (director_prepare cfg up r)) ''Content-Md5'' =
       (if bulk_delete r then (case req_body r of None \<Rightarrow> [] | Some b \<Rightarrow> up_md5 up (body_bytes b)) else [])
    \<and> (case req_body r of
         Some b \<Rightarrow> if bulk_delete r
           then req_content_length (director_prepare cfg up r) = word_of_int (int (length (body_bytes b))) else True
       | None \<Rightarrow> True)"
proof (cases "bulk_delete r \<and> req_body r \<noteq> None")
  case True
  then obtain b where b: "bulk_delete r" "req_body r = Some b" by auto
  with assms have "\<not> body_fails b" by simp
  from prepared_digest [OF b this, of cfg up] b show ?thesis by simp
next
  case False
  then have "\<not> bulk_delete r \<or> req_body r = None" by auto
  from prepared_no_digest [OF this, of cfg up] False show ?thesis
    by (auto split: option.splits)
qed

definition ex_bulk :: request where
  "ex_bulk = ex_request ''POST'' ''/bkt'' ''delete'' signed (Some ''<Delete/>'')"

theorem outgoing_digest_witness:
  "hdr_get (req_header (director_prepare ex_config ex_up ex_bulk)) ''Content-Md5'' = ''digest''"
  using outgoing_digest [of ex_bulk ex_config ex_up]
  by (simp add: ex_bulk_def bulk_delete_def ex_queries values_has_def ex_up_def)

text \<open>
  The request that is signed is addressed to the configured storage host; its path is the
  client's, with the bucket put in front exactly when the Host header, without a port, is a
  non-empty bucket name followed by the proxy's base domain.
\<close>
theorem outgoing_address:
  "req_host (director_prepare cfg up r) = url_host (up_url up)
   \<and> url_host (req_url (director_prepare cfg up r)) = url_host (up_url up)
   \<and> url_scheme (req_url (director_prepare cfg up r)) = url_scheme (up_url up)
   \<and> (if \<exists>b. b \<noteq> [] \<and> ProxyBaseDomain cfg \<noteq> [] \<and> strip_port (req_host r) = b @ ''.'' @ ProxyBaseDomain cfg
      then \<exists>b. b \<noteq> [] \<and> strip_port (req_host r) = b @ ''.'' @ ProxyBaseDomain cfg
         \<and> url_path (req_url (director_prepare cfg up r)) = ''/'' @ b @ url_path (req_url r)
      else url_path (req_url (director_prepare cfg up r)) = url_path (req_url r))"
proof (cases "virtual_bucket (ProxyBaseDomain cfg) (req_host r)")
  case None
  then have "\<not> (\<exists>b. b \<noteq> [] \<and> ProxyBaseDomain cfg \<noteq> [] \<and> strip_port (req_host r) = b @ ''.'' @ ProxyBaseDomain cfg)"
    using virtual_bucket_iff [of "ProxyBaseDomain cfg" "req_host r"] by (metis option.distinct(1))
  with None prepared_path [of cfg up r] show ?thesis
    by simp
next
  case (Some b)
  then have "ProxyBaseDomain cfg \<noteq> [] \<and> b \<noteq> [] \<and> strip_port (req_host r) = b @ ''.'' @ ProxyBaseDomain cfg"
    by (simp add: virtual_bucket_iff)
  with Some prepared_path [of cfg up r] show ?thesis
    by auto
qed

end
