(* ===== verification/Observability_Properties.thy ===== *)
theory Observability_Properties
  imports Examples
begin

text \<open>The properties of the metrics labels and the request log.\<close>

subsection \<open>Metrics\<close>

text \<open>
  Whatever method and path a client sends, the endpoint label is one of fourteen, so
  the number of time series is bounded.
\<close>
theorem endpoint_labels_are_bounded:
  "classifyEndpoint method rawPath \<in> {''lifecycle'', ''cors'', ''logging'', ''website'', ''tagging'',
     ''delete_objects'', ''restore_object'', ''put_object'', ''get_object'', ''list_objects'', ''list'',
     ''delete_object'', ''head_object'', ''other''}"
  using classifyEndpoint_range [of "method" "rawPath"]
  by (simp add: endpoint_labels_def controlPlaneQueryKeys_def)

subsection \<open>The request log\<close>

text \<open>
  A log line is split at the separator into exactly the ten fields of its record, as
  long as no field holds the separator itself.
\<close>
theorem log_line_splits_into_its_fields:
  assumes "CHR 0x01 \<notin> \<Union> (set ` set (csv_fields rec))"
  shows "split_byte (CHR 0x01) (ToCSVLine rec) = csv_fields rec \<and> length (csv_fields rec) = 10"
  using assms by (simp add: csv_roundtrip) (simp add: csv_fields_def)

definition ex_record :: Record where
  "ex_record = \<lparr>TimestampMs = 5, RequestID = ''r1'', SourceIP = ''10.0.0.1'', HTTPMethod = ''GET'',
     APIMethod = ''GetObject'', Bucket = ''bkt'', AccessKey = ''AK1'', GUploaderUploadID = [],
     StatusCode = 200, DurationMs = 7\<rparr>"

theorem log_line_splits_into_its_fields_witness:
  "length (split_byte (CHR 0x01) (ToCSVLine ex_record)) = 10"
proof -
  have "show_int 5 = ''5''" "show_int 200 = ''200''" "show_int 7 = ''7''" by code_simp+
  then have "CHR 0x01 \<notin> \<Union> (set ` set (csv_fields ex_record))"
    by (simp add: csv_fields_def ex_record_def)
  from log_line_splits_into_its_fields [OF this] show ?thesis by simp
qed

subsection \<open>One access key\<close>

lemma find_credential_skip:
  "\<not> prefix ''Credential='' (c # cs) \<Longrightarrow> find_credential (c # cs) = find_credential cs"
  by (simp only: find_credential.simps credential_at_def if_False option.case)

lemma takeWhile_key:
  assumes "list_all (\<lambda>c. \<not> P c) ak" "P x"
  shows "takeWhile (\<lambda>c. \<not> P c) (ak @ x # s) = ak" "dropWhile (\<lambda>c. \<not> P c) (ak @ x # s) = x # s"
  using assms by (induction ak) simp_all

lemma logged_sigv4_key:
  assumes "ak \<noteq> []" "list_all (\<lambda>c. \<not> (c = CHR ''/'' \<or> c = CHR '','' \<or> regex_space c)) ak"
  shows "find_credential (''AWS4-HMAC-SHA256 Credential='' @ ak @ ''/'' @ scope) = Some ak"
proof -
  have "dropWhile regex_space (ak @ ''/'' @ scope) = ak @ ''/'' @ scope"
    using assms by (intro dropWhile_eq_self) (auto simp: neq_Nil_conv)
  then have "credential_at (''Credential='' @ ak @ ''/'' @ scope) = Some ak"
    using takeWhile_key [OF assms(2), of "CHR ''/''" scope] assms(1)
    by (simp add: credential_at_def Let_def)
  then have "find_credential (''Credential='' @ ak @ ''/'' @ scope) = Some ak"
    by simp
  then show ?thesis
    by (simp add: find_credential_skip del: find_credential.simps)
qed

text \<open>
  For a well-formed SigV4 header the credential gate and both logs read the same
  access key off the request: the key whose secret signs the forwarded request is the key
  that is logged.
\<close>
theorem gate_and_logs_name_the_same_key:
  assumes "header_value r ''Authorization'' = ''AWS4-HMAC-SHA256 Credential='' @ ak @ ''/'' @ scope"
    and "ak \<noteq> []" "list_all (\<lambda>c. \<not> (c = CHR ''/'' \<or> c = CHR '','' \<or> regex_space c)) ak"
  shows "client_access_key r = Some ak \<and> log_access_key r = ak
    \<and> AccessKey (log_record start duration r ops w) = ak \<and> ob_access_key (observe r ops w) = Some ak"
proof -
  have slash: "CHR ''/'' \<notin> set ak" using assms(3) by (auto simp: list_all_iff)
  have gate: "client_access_key r = Some ak"
    using ExtractAccessKey_sigv4 [OF assms(2) slash, of scope] assms(1) by (simp add: client_access_key_def)
  have "header_key (hdr_get (req_header r) ''Authorization'') = Some ak"
    using logged_sigv4_key [OF assms(2,3), of scope] assms(1)
    by (simp add: header_key_def header_value_def del: find_credential.simps)
  then have logged: "log_access_key r = ak" by (simp add: log_access_key_def)
  with gate assms(2) show ?thesis
    by (simp add: log_record_def observe_def nonempty_def Let_def)
qed

theorem gate_and_logs_name_the_same_key_witness:
  "client_access_key ex_get = Some ''AK1'' \<and> log_access_key ex_get = ''AK1''"
proof -
  have h: "header_value ex_get ''Authorization'' =
      ''AWS4-HMAC-SHA256 Credential='' @ ''AK1'' @ ''/'' @ ''20250101/us-east-1/s3/aws4_request''"
    by (simp add: ex_get_def ex_auth_def)
  have "list_all (\<lambda>c. \<not> (c = CHR ''/'' \<or> c = CHR '','' \<or> regex_space c)) ''AK1''" by code_simp
  from gate_and_logs_name_the_same_key [OF h _ this, of 0 0 "[]" empty_response] show ?thesis by simp
qed

end
