(* ===== verification/Server_Examples.thy ===== *)
theory Server_Examples
  imports Examples Routing
begin

text \<open>
  A running server the witnesses evaluate: a network that answers every request, a router
  that looks for the method only, the middlewares of chi as they are documented.
\<close>

subsection \<open>A running server\<close>

definition ex_header :: header where
  "ex_header = [''X-Goog-Generation'' \<mapsto> [''7''], ''Etag'' \<mapsto> [''e''], ''Keep-Alive'' \<mapsto> [''5'']]"

definition ex_answer :: "bool \<Rightarrow> request \<Rightarrow> upstream_response" where
  "ex_answer breaks r =
     \<lparr>ur_status = 200, ur_header = ex_header, ur_body = \<lparr>body_bytes = ''data'', body_fails = breaks\<rparr>, ur_request = r\<rparr>"

definition ex_network :: "(int \<times> header) list \<Rightarrow> (request \<Rightarrow> upstream_response option) \<Rightarrow> memory backend" where
  "ex_network early answer =
     \<lparr>be_trip = (\<lambda>r s. (\<lparr>rt_early = early, rt_result = answer r\<rparr>, s)), be_switch = (\<lambda>_. [])\<rparr>"

definition ex_stack :: stack where
  "ex_stack = \<lparr>sk_id = (\<lambda>_. ''r1''), sk_throttle = (\<lambda>_. None),
     sk_recover = (\<lambda>_ p. case p of ErrAbortHandler \<Rightarrow> None | OtherPanic \<Rightarrow> Some [OpStatus 500])\<rparr>"

text \<open>A router that looks for the method only.\<close>

definition ex_find :: "(string \<times> string \<times> endpoint) list \<Rightarrow> request \<Rightarrow> endpoint + writer_op list" where
  "ex_find table r =
     (case find (\<lambda>(m, p, e). m = req_method r \<and> p = ''/*'') table of
        Some (_, _, e) \<Rightarrow> Inl e | None \<Rightarrow> Inr [OpStatus 405])"

definition ex_server :: "(int \<times> header) list \<Rightarrow> (request \<Rightarrow> upstream_response option) \<Rightarrow> memory site" where
  "ex_server early answer =
     \<lparr>si_px = ex_proxy ex_config ex_site_doc, si_up = ex_up, si_network = ex_network early answer,
      si_stack = ex_stack, si_find = ex_find, si_read = (\<lambda>_. 0), si_scrape = []\<rparr>"

lemma ex_server_simps [simp]:
  "si_px (ex_server early answer) = ex_proxy ex_config ex_site_doc" "si_up (ex_server early answer) = ex_up"
  "si_network (ex_server early answer) = ex_network early answer" "si_stack (ex_server early answer) = ex_stack"
  "si_find (ex_server early answer) = ex_find"
  by (simp_all add: ex_server_def)

lemma ex_recovers [simp]: "recovers ex_stack"
  by (simp add: recovers_def ex_stack_def)

lemma ex_routes [simp]: "ex_find routes ex_get = Inl S3"
  by (simp add: ex_find_def routes_def ex_get_def)

lemma ex_numbered [simp]: "numbered (ex_server early answer) ex_get = ex_get"
  by (simp add: numbered_def ex_stack_def ex_get_def ex_request_def)

lemma ex_get_routed: "root_mux ex_get = Router"
proof -
  have "concat (map path_escape_char ''/bkt/key'') = ''/bkt/key''" "clean_path ''/bkt/key'' = ''/bkt/key''"
    by code_simp+
  then show ?thesis by (simp add: root_mux_def ex_get_def ex_request_def escaped_path_def Let_def)
qed

lemma ex_get_reaches [simp]: "reaches_s3 (ex_server early answer) ex_get"
  by (simp add: reaches_s3_def ex_get_routed rejected_def ex_stack_def)

lemma ex_get_forwards:
  "handleS3Request (ex_proxy ex_config ex_site_doc) ex_reads ex_get (start_world s) =
     Forwarded ReadProxy (ex_get\<lparr>req_creds := Some ex_pair\<rparr>)
       (count_metric (HMACCredentialLookups ''hit'') (start_world s))"
  by (simp add: forwarded_iff ex_get_def route_def forwardable_def passes_control_def hasQueryParam_def
      ex_queries)

lemma ex_get_ascii:
  "ascii_print (upgrade_type (req_header (directed ex_config ex_up (ex_get\<lparr>req_creds := Some ex_pair\<rparr>))))"
proof -
  let ?r = "clone_request (ex_get\<lparr>req_creds := Some ex_pair\<rparr>)"
  have c: "canonical ''Upgrade'' = ''Upgrade''"
    by code_simp
  have h: "req_header ?r = map_of [(''Authorization'', [ex_auth])]" "req_creds ?r = Some ex_pair"
    by (simp_all add: clone_request_def ex_get_def signed_def)
  then have "hdr_get (req_header ?r) ''x-amz-storage-class'' = []" "hdr_get (req_header ?r) ''Upgrade'' = []"
    by (simp_all add: hdr_get_def c)
  then have "hdr_get (req_header (director_prepare ex_config ex_up ?r)) ''Upgrade'' = []"
    by (simp add: prepared_get headers_get identity_get director_address_def director_storage_class_def c Let_def)
  moreover have "directed ex_config ex_up (ex_get\<lparr>req_creds := Some ex_pair\<rparr>) = director_prepare ex_config ex_up ?r"
    by (simp add: directed_def director_def director_credentials_def h ex_up_def Let_def)
  ultimately show ?thesis by (simp add: upgrade_type_def ascii_print_def)
qed

lemma ex_relays:
  "relays (ex_server early (\<lambda>r. Some (ex_answer breaks r))) ex_reads ex_get ex_memory
     \<lparr>rt_early = early, rt_result = Some (ex_answer breaks
        (sent_request ex_config ex_up (ex_get\<lparr>req_creds := Some ex_pair\<rparr>)))\<rparr> ex_memory"
  "relays (ex_server early (\<lambda>_. None)) ex_reads ex_get ex_memory \<lparr>rt_early = early, rt_result = None\<rparr> ex_memory"
  by (simp_all add: relays_def ex_get_forwards ex_get_ascii ex_network_def)

lemma ex_relays_404:
  "relays (ex_server [(103, Map.empty)] (\<lambda>r. Some ((ex_answer False r)\<lparr>ur_status := 404\<rparr>))) ex_reads ex_get ex_memory
     \<lparr>rt_early = [(103, Map.empty)], rt_result = Some ((ex_answer False
        (sent_request ex_config ex_up (ex_get\<lparr>req_creds := Some ex_pair\<rparr>)))\<lparr>ur_status := 404\<rparr>)\<rparr> ex_memory"
  by (simp add: relays_def ex_get_forwards ex_get_ascii ex_network_def)

lemma ex_no_upgrade: "\<not> upgrades ex_get"
proof -
  have "canonical ''Connection'' = ''Connection''" by code_simp
  then show ?thesis by (simp add: upgrades_def ex_get_def signed_def hdr_get_def)
qed

lemma ex_get_label: "classifyEndpoint ''GET'' (req_uri ex_get) = ''get_object''"
  unfolding ex_get_def ex_request_def by code_simp

lemma ex_get_method: "req_method ex_get = ''GET''"
  by (simp add: ex_get_def)

end
