(* ===== verification/Server_Properties.thy ===== *)
theory Server_Properties
  imports Server_Examples
begin

text \<open>
  The properties of the server as a whole: what becomes of a request on its way from the
  listener through the mux, the middleware stack, the S3 handler and the reverse proxy,
  and back.
\<close>

subsection \<open>The data plane from end to end\<close>

text \<open>
  C15. When the storage host answers a forwarded request with a single final response (it
  sends no informational response before it, does not switch the protocol with 101, and
  its body does not break off), the answer reaches the client as it was given: the same
  status and body, and the same headers, except that the hop-by-hop ones are gone and the
  generation is shown as the version id; the request log and the metrics record this
  status. What an informational response does to it is \<^verbatim>\<open>early_response_hides_the_final_status\<close>.
\<close>
theorem response_is_relayed:
  assumes "relays site sr r s \<lparr>rt_early = [], rt_result = Some res\<rparr> s'"
    and "\<not> informational (ur_status res)" "ur_status res \<noteq> 101" "\<not> body_fails (ur_body res)"
  shows "\<exists>sv ms. serve site sr start duration r s = (Served sv, ms, s') \<and> sv_panic sv = None
    \<and> final_status (client_response sv) = ur_status res
    \<and> rw_body (client_response sv) = body_bytes (ur_body res)
    \<and> (\<forall>k. hdr_values (final_header (client_response sv)) k =
         (let generation = (if end_to_end (ur_header res) ''X-Goog-Generation''
                            then hdr_get (ur_header res) ''X-Goog-Generation'' else [])
          in if k = ''X-Amz-Version-Id'' \<and> generation \<noteq> [] then [generation]
             else if end_to_end (ur_header res) k then hdr_values (ur_header res) k else []))
    \<and> request_counts (sv_events sv) =
        [(req_method r, classifyEndpoint (req_method r) (req_uri r), show_int (ur_status res))]
    \<and> map_option StatusCode (sv_logged sv) = (if ReqLogEnabled (si_config site) then Some (ur_status res) else None)"
proof -
  let ?res = "modifyResponse (si_config site) (strip_response res)"
  have final: "\<not> informational (ur_status ?res)"
    using assms(2) by (simp add: strip_response_def)
  obtain sv ms where sv: "serve site sr start duration r s = (Served sv, ms, s')" "sv_panic sv = None"
    "client_response sv = run_ops (response_ops ?res) empty_response"
    "request_counts (sv_events sv) =
      [(req_method r, classifyEndpoint (req_method r) (req_uri r), show_int (final_status (client_response sv)))]"
    "map_option StatusCode (sv_logged sv) =
      (if ReqLogEnabled (si_config site) then Some (final_status (client_response sv)) else None)"
    by (rule relays_once [OF assms(1) _ response_ops_plain [OF final]])
      (simp add: relayed_copy(2) [OF assms(3)] assms(4) early_ops_def)
  note cl = response_ops_run [OF _ final, of empty_response, folded sv(3), simplified]
  have st: "final_status (client_response sv) = ur_status res"
    by (simp add: final_status_def cl strip_response_def)
  have bd: "rw_body (client_response sv) = body_bytes (ur_body res)"
    using assms(4) by (simp add: cl strip_response_def modify_body)
  have hd: "hdr_values (final_header (client_response sv)) k = hdr_values (ur_header ?res) k" for k
    by (simp add: final_header_def cl add_headers_empty)
  show ?thesis
    using sv(1,2,4,5) st bd by (simp add: hd relayed_header)
qed

theorem response_is_relayed_witness:
  "\<exists>sv ms. serve (ex_server [] (\<lambda>r. Some (ex_answer False r))) ex_reads 0 0 ex_get ex_memory = (Served sv, ms, ex_memory)
     \<and> final_status (client_response sv) = 200
     \<and> hdr_values (final_header (client_response sv)) ''X-Amz-Version-Id'' = [''7'']
     \<and> hdr_values (final_header (client_response sv)) ''Etag'' = [''e'']
     \<and> hdr_values (final_header (client_response sv)) ''Keep-Alive'' = []"
proof -
  let ?res = "ex_answer False (sent_request ex_config ex_up (ex_get\<lparr>req_creds := Some ex_pair\<rparr>))"
  have e: "ur_header ?res = ex_header" "ur_status ?res = 200" "\<not> body_fails (ur_body ?res)"
    by (simp_all add: ex_answer_def)
  have k: "end_to_end ex_header ''X-Goog-Generation''" "end_to_end ex_header ''Etag''"
    "\<not> end_to_end ex_header ''Keep-Alive''" "hdr_get ex_header ''X-Goog-Generation'' = ''7''"
    "hdr_values ex_header ''Etag'' = [''e'']"
    by code_simp+
  have st: "\<not> informational (ur_status ?res)" "ur_status ?res \<noteq> 101" by (simp_all add: e)
  obtain sv ms where sv:
    "serve (ex_server [] (\<lambda>r. Some (ex_answer False r))) ex_reads 0 0 ex_get ex_memory = (Served sv, ms, ex_memory)"
    "final_status (client_response sv) = ur_status ?res"
    "\<And>k. hdr_values (final_header (client_response sv)) k =
         (let generation = (if end_to_end (ur_header ?res) ''X-Goog-Generation''
                            then hdr_get (ur_header ?res) ''X-Goog-Generation'' else [])
          in if k = ''X-Amz-Version-Id'' \<and> generation \<noteq> [] then [generation]
             else if end_to_end (ur_header ?res) k then hdr_values (ur_header ?res) k else [])"
    using response_is_relayed [OF ex_relays(1) st e(3), of 0 0] by blast
  then show ?thesis by (simp add: e k)
qed

text \<open>
  C16. As long as the network is calm (it sends no informational response, switches no
  protocol and breaks off no body), every request that reaches the S3 handler is sent one
  status, whether it is answered by the proxy or by the storage host: the metrics count it
  once with this status, and the request log and the observability log show it.
\<close>
theorem logs_and_metrics_agree_with_the_client:
  assumes "calm (si_network site)" "reaches_s3 site r"
  shows "\<exists>sv ms s'. serve site sr start duration r s = (Served sv, ms, s') \<and> sv_panic sv = None
    \<and> request_counts (sv_events sv) =
        [(req_method r, classifyEndpoint (req_method r) (req_uri r), show_int (final_status (client_response sv)))]
    \<and> map_option StatusCode (sv_logged sv) =
        (if ReqLogEnabled (si_config site) then Some (final_status (client_response sv)) else None)
    \<and> map_option ob_status (sv_observed sv) = Some (final_status (client_response sv))"
proof -
  obtain run ms s' where run: "s3_run site sr (numbered site r) s = (run, ms, s')" by (metis prod_cases3)
  obtain sv where "serve site sr start duration r s = (Served sv, ms, s')" "sv_panic sv = None"
    "request_counts (sv_events sv) =
      [(req_method r, classifyEndpoint (req_method r) (req_uri r), show_int (final_status (client_response sv)))]"
    "map_option StatusCode (sv_logged sv) =
      (if ReqLogEnabled (si_config site) then Some (final_status (client_response sv)) else None)"
    "map_option ob_status (sv_observed sv) = Some (final_status (client_response sv))"
    using served_once [OF assms(2) run s3_run_plain [OF assms(1) run]] by metis
  then show ?thesis by blast
qed

theorem logs_and_metrics_agree_with_the_client_witness:
  "\<exists>sv ms s'. serve (ex_server [] (\<lambda>_. None)) ex_reads 0 0 ex_get ex_memory = (Served sv, ms, s')
     \<and> request_counts (sv_events sv) = [(''GET'', ''get_object'', show_int (final_status (client_response sv)))]"
proof -
  have "calm (si_network (ex_server [] (\<lambda>_. None)))"
    by (simp add: calm_def ex_network_def)
  from logs_and_metrics_agree_with_the_client [OF this ex_get_reaches, of ex_reads 0 0 ex_memory]
  show ?thesis by (auto simp: ex_get_label ex_get_method)
qed

text \<open>
  C17. When the storage host sends a final response without an informational one before it
  and without switching the protocol (101), and its body breaks off, the handler is
  aborted: the panic reaches the server, which closes the connection, so the client cannot
  take the part it was sent for the whole; the request is in neither log, but it is
  counted, with the status the client was sent.
\<close>
theorem broken_body_aborts_the_connection:
  assumes "relays site sr r s \<lparr>rt_early = [], rt_result = Some res\<rparr> s'" "recovers (si_stack site)"
    and "\<not> informational (ur_status res)" "ur_status res \<noteq> 101" "body_fails (ur_body res)"
  shows "\<exists>sv ms. serve site sr start duration r s = (Served sv, ms, s')
    \<and> sv_panic sv = Some ErrAbortHandler \<and> sv_logged sv = None \<and> sv_observed sv = None
    \<and> final_status (client_response sv) = ur_status res
    \<and> request_counts (sv_events sv) =
        [(req_method r, classifyEndpoint (req_method r) (req_uri r), show_int (ur_status res))]"
proof -
  let ?res = "modifyResponse (si_config site) (strip_response res)"
  have final: "\<not> informational (ur_status ?res)"
    using assms(3) by (simp add: strip_response_def)
  obtain ms run where run: "hr_ops run = response_ops ?res" "hr_panic run = Some ErrAbortHandler"
    "serve site sr start duration r s =
      (Served (middleware_stack (si_config site) (si_stack site) start duration (\<lambda>_. run) r), ms, s')"
    "throttled (si_config site) (si_stack site) (\<lambda>_. run) (r\<lparr>req_id := sk_id (si_stack site) r\<rparr>) = run"
    by (rule relays_served [OF assms(1)])
      (simp add: relayed_copy(2) [OF assms(4)] assms(5) early_ops_def)
  note sv = stack_aborts [OF run(4,2) _ assms(2) refl, of start duration]
  have ops: "list_all final_op (hr_ops run)" "passed False (hr_ops run) = response_ops ?res"
    by (simp_all add: run(1) response_ops_final [OF final] passed_plain response_ops_plain [OF final])
  have "rw_sent (client_response (middleware_stack (si_config site) (si_stack site) start duration (\<lambda>_. run) r)) =
    Some (ur_status res, add_headers (ur_header ?res) Map.empty)"
    using response_ops_run(1) [OF _ final, of empty_response]
    by (simp add: client_response_def sv(4) ops strip_response_def)
  with run(3) sv(1-3,5) ops(1) show ?thesis by (simp add: final_status_def)
qed

theorem broken_body_aborts_the_connection_witness:
  "\<exists>sv ms. serve (ex_server [] (\<lambda>r. Some (ex_answer True r))) ex_reads 0 0 ex_get ex_memory = (Served sv, ms, ex_memory)
     \<and> sv_panic sv = Some ErrAbortHandler \<and> final_status (client_response sv) = 200"
proof -
  have "ur_status (ex_answer True q) = 200" "body_fails (ur_body (ex_answer True q))" for q
    by (simp_all add: ex_answer_def)
  then show ?thesis
    using broken_body_aborts_the_connection [OF ex_relays(1) [of "[]" True], where start = 0 and duration = 0] by auto
qed

text \<open>
  An informational response of the storage host (103, say) hides its response from the
  client: the counting writer takes the first one for the final status and drops the one
  that follows, so that the client is sent 200 with the body and headers of whatever the
  storage host answered, an error included, and the metrics count the informational status.
\<close>
theorem early_response_hides_the_final_status:
  assumes "relays site sr r s \<lparr>rt_early = (c, h) # early, rt_result = Some res\<rparr> s'"
    and "informational c" "ur_status res \<noteq> 101" "\<not> body_fails (ur_body res)"
  shows "\<exists>sv ms. serve site sr start duration r s = (Served sv, ms, s')
    \<and> final_status (client_response sv) = 200
    \<and> rw_body (client_response sv) = body_bytes (ur_body res)
    \<and> request_counts (sv_events sv) =
        [(req_method r, classifyEndpoint (req_method r) (req_uri r), show_int c)]"
proof -
  let ?res = "modifyResponse (si_config site) (strip_response res)"
  let ?ops = "early_ops early @ response_ops ?res"
  have copied: "copy_back (si_config site) (si_network site) \<lparr>rt_early = (c, h) # early, rt_result = Some res\<rparr> =
      (OpAddHeaders h # OpStatus c # OpClearHeaders # ?ops, None)"
    by (simp add: relayed_copy(2) [OF assms(3)] assms(4) early_ops_def)
  obtain ms run where run: "hr_ops run = OpAddHeaders h # OpStatus c # OpClearHeaders # ?ops" "hr_panic run = None"
    "serve site sr start duration r s =
      (Served (middleware_stack (si_config site) (si_stack site) start duration (\<lambda>_. run) r), ms, s')"
    "throttled (si_config site) (si_stack site) (\<lambda>_. run) (r\<lparr>req_id := sk_id (si_stack site) r\<rparr>) = run"
    by (rule relays_served [OF assms(1) copied])
  define sv where "sv = middleware_stack (si_config site) (si_stack site) start duration (\<lambda>_. run) r"
  have "sv_ops sv = passed False (hr_ops run)"
    using run(4) by (simp add: sv_def run(2) middleware_stack_def Let_def WithMetrics_def recoverer_def)
  then have cl: "client_response sv =
      run_ops (filter (\<lambda>x. \<not> status_op x) ?ops) (empty_response\<lparr>rw_header := Map.empty\<rparr>)"
    using assms(2) by (simp add: client_response_def run(1) passed_true write_header_def del: informational_def)
  have "final_status (client_response sv) = 200"
    unfolding cl by (rule no_status_run) (auto simp: list_all_iff)
  moreover have "rw_body (client_response sv) = body_bytes (ur_body res)"
    using assms(4) unfolding cl run_body_early by (simp add: strip_response_def modify_body)
  moreover have "request_counts (sv_events sv) =
        [(req_method r, classifyEndpoint (req_method r) (req_uri r), show_int c)]"
    using run(4)
    by (simp add: sv_def counts_request run(1,2) observed_status_def cw_status_stays cw_defs
        del: counting.do_ops_simps(3))
  ultimately show ?thesis using run(3) by (simp add: sv_def)
qed

theorem early_response_hides_the_final_status_witness:
  "\<exists>sv ms. serve (ex_server [(103, Map.empty)] (\<lambda>r. Some ((ex_answer False r)\<lparr>ur_status := 404\<rparr>))) ex_reads 0 0
      ex_get ex_memory = (Served sv, ms, ex_memory)
     \<and> final_status (client_response sv) = 200 \<and> rw_body (client_response sv) = ''data''"
proof -
  have "ur_body (ex_answer False q) = \<lparr>body_bytes = ''data'', body_fails = False\<rparr>" for q
    by (simp add: ex_answer_def)
  with early_response_hides_the_final_status [OF ex_relays_404, where start = 0 and duration = 0] show ?thesis by fastforce
qed

text \<open>
  When the transport fails, the client is answered with 502, whatever it asked for; the
  request is counted with this status and logged with it.
\<close>
theorem unreachable_host_is_a_bad_gateway:
  assumes "relays site sr r s \<lparr>rt_early = [], rt_result = None\<rparr> s'"
  shows "\<exists>sv ms. serve site sr start duration r s = (Served sv, ms, s') \<and> sv_panic sv = None
    \<and> final_status (client_response sv) = 502 \<and> rw_body (client_response sv) = []
    \<and> request_counts (sv_events sv) = [(req_method r, classifyEndpoint (req_method r) (req_uri r), ''502'')]
    \<and> map_option StatusCode (sv_logged sv) = (if ReqLogEnabled (si_config site) then Some 502 else None)
    \<and> map_option ob_status (sv_observed sv) = Some 502"
proof -
  have "show_int 502 = ''502''" by code_simp
  moreover have "final_status (run_ops [OpStatus 502] empty_response) = 502"
    "rw_body (run_ops [OpStatus 502] empty_response) = []"
    by (simp_all add: final_status_def)
  moreover obtain sv ms where "serve site sr start duration r s = (Served sv, ms, s')" "sv_panic sv = None"
    "client_response sv = run_ops [OpStatus 502] empty_response"
    "request_counts (sv_events sv) =
      [(req_method r, classifyEndpoint (req_method r) (req_uri r), show_int (final_status (client_response sv)))]"
    "map_option StatusCode (sv_logged sv) =
      (if ReqLogEnabled (si_config site) then Some (final_status (client_response sv)) else None)"
    "map_option ob_status (sv_observed sv) = Some (final_status (client_response sv))"
    by (rule relays_once [OF assms, of "[OpStatus 502]"]) (simp_all add: relayed_copy early_ops_def)
  ultimately show ?thesis by auto
qed

theorem unreachable_host_is_a_bad_gateway_witness:
  "\<exists>sv ms. serve (ex_server [] (\<lambda>_. None)) ex_reads 0 0 ex_get ex_memory = (Served sv, ms, ex_memory)
     \<and> final_status (client_response sv) = 502
     \<and> request_counts (sv_events sv) = [(''GET'', ''get_object'', ''502'')]"
  using unreachable_host_is_a_bad_gateway [OF ex_relays(2), where start = 0 and duration = 0]
  by (auto simp: ex_get_label ex_get_method)

subsection \<open>What the root mux lets through\<close>

text \<open>
  C19. A request is redirected by the root mux exactly when it is neither CONNECT nor
  addressed to "*" and its escaped path is not clean: it does not begin with a slash or has
  an empty segment before its end or a segment "." or "..". Such a request reaches neither
  the credential gate nor a log nor a metric, and GCS is not asked; it is sent to a clean
  path with the query it had. It is the escaped path that counts: a client that escapes
  the slashes of a key ("a%2F%2Fb") is not redirected.
\<close>
theorem unclean_paths_are_redirected:
  "serve site sr start duration r s = (Moved p q, ms, s') \<longleftrightarrow>
     req_uri r \<noteq> ''*'' \<and> req_method r \<noteq> ''CONNECT'' \<and> \<not> is_clean (escaped_path (req_url r))
     \<and> p = clean_path (escaped_path (req_url r)) \<and> is_clean p \<and> q = url_rawquery (req_url r)
     \<and> ms = [] \<and> s' = s"
  by (auto simp: serve_def root_mux_def clean_path_iff clean_path_is_clean Let_def split: prod.splits)

text \<open>
  If the router calls a handler only for the methods it was registered for, then GCS
  is changed only by GET, PUT, POST, DELETE and HEAD requests (a GET through \<^verbatim>\<open>/readyz\<close> or the
  reads of the handlers) whose path is clean; any other request leaves it as it is.
\<close>
theorem gcs_changed_only_by_routed_methods:
  assumes "routes_by_method site" "serve site sr start duration r s = (answer, ms, s')" "s' \<noteq> s"
  shows "req_method r \<in> set [''GET'', ''PUT'', ''POST'', ''DELETE'', ''HEAD'']
    \<and> is_clean (escaped_path (req_url r)) \<and> (\<exists>sv. answer = Served sv)"
proof -
  let ?r = "numbered site r"
  have router: "root_mux r = Router" and state: "s' = snd (snd (router_run site sr ?r s))"
    and answer: "\<exists>sv. answer = Served sv"
    using assms(2,3) by (auto simp: serve_def numbered_def Let_def split: mux_target.splits prod.splits if_splits)
  obtain e where "si_find site routes ?r = Inl e"
    using assms(3) state by (cases "si_find site routes ?r") (auto simp: router_run_def)
  then obtain pat where "(req_method ?r, pat, e) \<in> set routes"
    using assms(1) unfolding routes_by_method_def by blast
  then have m: "req_method r \<in> set [''GET'', ''PUT'', ''POST'', ''DELETE'', ''HEAD'']"
    by (auto simp: routes_def numbered_def)
  then have "req_method r \<noteq> ''CONNECT''" by auto
  with router have "is_clean (escaped_path (req_url r))"
    by (auto simp: root_mux_def clean_path_iff Let_def split: if_splits)
  with m answer show ?thesis by simp
qed

lemma ex_by_method: "routes_by_method (ex_server early answer)"
  by (auto simp: routes_by_method_def ex_find_def find_Some_iff split: option.splits) (metis nth_mem)

lemma ex_put_served:
  "\<exists>sv ms s'. serve (ex_server [] (\<lambda>_. None)) ex_reads 0 0 ex_put_site ex_memory = (Served sv, ms, s') \<and> s' \<noteq> ex_memory"
proof -
  have p: "escaped_path \<lparr>url_scheme = [], url_host = [], url_path = ''/bkt'', url_rawpath = [], url_rawquery = ''website''\<rparr> = ''/bkt''"
    "clean_path ''/bkt'' = ''/bkt''"
    by code_simp+
  have reach: "reaches_s3 (ex_server [] (\<lambda>_. None)) ex_put_site"
    by (simp add: reaches_s3_def root_mux_def p rejected_def ex_stack_def ex_find_def routes_def
        numbered_def ex_put_site_def ex_request_def Let_def)
  have n: "numbered (ex_server [] (\<lambda>_. None)) ex_put_site = ex_put_site"
    by (simp add: numbered_def ex_stack_def ex_put_site_def ex_request_def)
  have w: "start_world ex_memory = ex_world" by (simp add: start_world_def ex_world_def)
  obtain run ms s' where r: "s3_run (ex_server [] (\<lambda>_. None)) ex_reads ex_put_site ex_memory = (run, ms, s')"
    by (metis prod_cases3)
  have "Ba_Website (mem_bucket s' ''bkt'') \<noteq> Ba_Website (mem_bucket ex_memory ''bkt'')"
    using r ex_put_site_stores by (auto simp: s3_run_def w ex_put_site_run world_run_def ex_memory_site)
  then have changed: "s' \<noteq> ex_memory" by auto
  have "s3_run (ex_server [] (\<lambda>_. None)) ex_reads (numbered (ex_server [] (\<lambda>_. None)) ex_put_site) ex_memory =
    (run, ms, s')"
    by (simp only: n r)
  from serve_s3 [OF reach this] changed show ?thesis by blast
qed

theorem gcs_changed_only_by_routed_methods_witness:
  "req_method ex_put_site \<in> set [''GET'', ''PUT'', ''POST'', ''DELETE'', ''HEAD'']
   \<and> is_clean (escaped_path (req_url ex_put_site))"
proof -
  obtain sv ms s' where
    "serve (ex_server [] (\<lambda>_. None)) ex_reads 0 0 ex_put_site ex_memory = (Served sv, ms, s')" "s' \<noteq> ex_memory"
    using ex_put_served by blast
  from gcs_changed_only_by_routed_methods [OF ex_by_method this] show ?thesis by blast
qed

subsection \<open>After the signature\<close>

text \<open>
  C20. A request for which the Director has credentials is sent as the signer left it (also
  when it failed), but for the header: the method, the address with its query, the host, the content length and the body are those of the signed
  request, and so is every header that is not hop-by-hop by its name or by the Connection
  header, with two exceptions. A User-Agent that the signed request does not have is sent
  as an empty one; and X-Forwarded-For gains the client's address, although its value was
  signed before (when the address of the client has no port, or the signed header has the
  name without a value, it stays as it is).
\<close>
theorem sent_as_signed_but_for_forwarders:
  assumes "director_credentials cfg (clone_request r) = Some creds"
    and "up_sign up creds (director_prepare cfg up (clone_request r)) = (ok, req)"
  shows "(let sent = sent_request cfg up r;
       kept = (\<lambda>k. if end_to_end (req_header req) k then req_header req k else None) in
     req_method sent = req_method req \<and> req_url sent = req_url req \<and> req_host sent = req_host req
     \<and> req_body sent = req_body req \<and> req_content_length sent = req_content_length req
     \<and> (\<forall>k. end_to_end (req_header req) k \<and> k \<notin> {''X-Forwarded-For'', ''User-Agent''} \<longrightarrow>
          req_header sent k = req_header req k)
     \<and> req_header sent ''User-Agent'' = Some (case kept ''User-Agent'' of None \<Rightarrow> [[]] | Some vs \<Rightarrow> vs)
     \<and> req_header sent ''X-Forwarded-For'' =
          (case (split_host (req_remote_addr r), kept ''X-Forwarded-For'') of
             (None, before) \<Rightarrow> before
           | (Some ip, None) \<Rightarrow> Some [ip]
           | (Some ip, Some vs) \<Rightarrow> Some (if vs = [] then [] else [join_str '', '' vs @ '', '' @ ip])))"
proof -
  have d: "directed cfg up r = req"
    using assms by (simp add: directed_def director_def)
  have "req_content_length (sent_request cfg up r) = req_content_length req"
    by (simp add: sent_request_def on_header_def d)
  then show ?thesis
    using outgoing_lookup [of "req_header req" _ r]
    by (simp add: d outgoing_agent outgoing_forwarded forwarders_def Let_def split: option.split)
qed

text \<open>A signer that also re-encodes the query, as the one of the SDK does.\<close>

definition encoding_signer :: upstream where
  "encoding_signer = ex_up\<lparr>up_sign := \<lambda>c r. (True, r\<lparr>req_url := (req_url r)\<lparr>url_rawquery := ''a=%20''\<rparr>,
     req_header := [''X-Forwarded-For'' \<mapsto> [''1.2.3.4'']]\<rparr>)\<rparr>"

theorem sent_as_signed_but_for_forwarders_witness:
  "let sent = sent_request ex_config encoding_signer (ex_get\<lparr>req_creds := Some ex_pair\<rparr>) in
     req_header sent ''X-Forwarded-For'' = Some [''1.2.3.4, 10.0.0.1''] \<and> req_header sent ''User-Agent'' = Some [[]]
     \<and> url_rawquery (req_url sent) = ''a=%20''"
proof -
  let ?r = "ex_get\<lparr>req_creds := Some ex_pair\<rparr>"
  let ?p = "director_prepare ex_config encoding_signer (clone_request ?r)"
  let ?h = "[''X-Forwarded-For'' \<mapsto> [''1.2.3.4'']]"
  have creds: "director_credentials ex_config (clone_request ?r) = Some ex_pair"
    by (simp add: director_credentials_def clone_request_def)
  have signs: "up_sign encoding_signer ex_pair ?p =
      (True, ?p\<lparr>req_url := (req_url ?p)\<lparr>url_rawquery := ''a=%20''\<rparr>, req_header := ?h\<rparr>)"
    by (simp add: encoding_signer_def)
  have e: "end_to_end ?h ''X-Forwarded-For''" by code_simp
  have "split_host ''10.0.0.1:4711'' = Some ''10.0.0.1''" by code_simp
  then have "split_host (req_remote_addr ?r) = Some ''10.0.0.1''"
    by (simp add: ex_get_def ex_request_def)
  with sent_as_signed_but_for_forwarders [OF creds signs] e show ?thesis by (simp add: Let_def)
qed

subsection \<open>Counting and recovering\<close>

text \<open>
  C18. Whatever the handler behind the middleware stack does, as long as it sends no
  informational status and does not upgrade the protocol: the request is counted exactly
  once, under its method, its endpoint label and the status the client is sent, 500 when the
  handler is aborted before it sent one; and the gauge of requests in flight is back where
  it was.
\<close>
theorem every_request_is_counted_once:
  assumes "recovers sk" "\<not> upgrades r"
    and "list_all final_op (hr_ops (throttled cfg sk h (r\<lparr>req_id := sk_id sk r\<rparr>)))"
  shows "let sv = middleware_stack cfg sk start duration h r in
    request_counts (sv_events sv) =
      [(req_method r, classifyEndpoint (req_method r) (req_uri r),
        show_int (if sv_panic sv = None then final_status (client_response sv)
                  else case rw_sent (client_response sv) of None \<Rightarrow> 500 | Some (c, _) \<Rightarrow> c))]
    \<and> (\<forall>e. in_flight e (sv_events sv) = 0)"
  using stack_counts [OF refl assms(3,1,2) refl] by (simp add: stack_in_flight)

theorem every_request_is_counted_once_witness:
  "request_counts (sv_events (middleware_stack ex_config ex_stack 0 0
     (\<lambda>_. \<lparr>hr_ops = [OpHeader ''ETag'' ''x''], hr_read = 0, hr_panic = Some OtherPanic\<rparr>) ex_get)) =
   [(''GET'', ''get_object'', ''500'')]"
proof -
  let ?h = "\<lambda>_ :: request. \<lparr>hr_ops = [OpHeader ''ETag'' ''x''], hr_read = 0, hr_panic = Some OtherPanic\<rparr>"
  have t: "throttled ex_config ex_stack ?h q = ?h q" for q
    by (simp add: throttled_def ex_stack_def)
  have "sv_panic (middleware_stack ex_config ex_stack 0 0 ?h ex_get) = None"
    "final_status (client_response (middleware_stack ex_config ex_stack 0 0 ?h ex_get)) = 500"
    using stack_recovers [OF t _ _ ex_recovers ex_no_upgrade refl, of 0 0] by (simp_all add: ex_no_upgrade)
  moreover have "show_int 500 = ''500''" by code_simp
  ultimately show ?thesis
    using every_request_is_counted_once [OF ex_recovers ex_no_upgrade, of ex_config ?h 0 0]
    by (simp add: t ex_get_label ex_get_method Let_def)
qed

text \<open>
  A handler that panics after it has sent a status is recovered too late: the client
  keeps the status it was sent and the metrics count this one, but the request log says
  500, and the observability log has no line for the request.
\<close>
theorem late_panic_is_logged_as_500:
  assumes "recovers sk" "\<not> upgrades r" "ReqLogEnabled cfg"
    and "throttled cfg sk h (r\<lparr>req_id := sk_id sk r\<rparr>) = run" "hr_panic run = Some OtherPanic"
    and "list_all final_op (hr_ops run)" "rw_sent (run_ops (passed False (hr_ops run)) empty_response) = Some (c, hdr)"
  shows "let sv = middleware_stack cfg sk start duration h r in
    sv_panic sv = None \<and> final_status (client_response sv) = c
    \<and> request_counts (sv_events sv) = [(req_method r, classifyEndpoint (req_method r) (req_uri r), show_int c)]
    \<and> map_option StatusCode (sv_logged sv) = Some 500 \<and> sv_observed sv = None"
  using stack_recovers [OF assms(4-6,1,2) refl, of start duration] assms(3,7) by (simp add: Let_def)

theorem late_panic_is_logged_as_500_witness:
  "let sv = middleware_stack (ex_config\<lparr>ReqLogEnabled := True\<rparr>) ex_stack 0 0
     (\<lambda>_. \<lparr>hr_ops = [OpStatus 206, OpWrite ''da''], hr_read = 0, hr_panic = Some OtherPanic\<rparr>) ex_get
   in final_status (client_response sv) = 206 \<and> map_option StatusCode (sv_logged sv) = Some 500"
proof -
  let ?h = "\<lambda>_ :: request. \<lparr>hr_ops = [OpStatus 206, OpWrite ''da''], hr_read = 0, hr_panic = Some OtherPanic\<rparr>"
  let ?cfg = "ex_config\<lparr>ReqLogEnabled := True\<rparr>"
  have t: "throttled ?cfg ex_stack ?h q = ?h q" for q
    by (simp add: throttled_def ex_stack_def)
  have "rw_sent (run_ops (passed False [OpStatus 206, OpWrite ''da'']) empty_response) = Some (206, Map.empty)"
    by simp
  then show ?thesis
    using late_panic_is_logged_as_500 [OF ex_recovers ex_no_upgrade _ t, of 206 Map.empty 0 0] by (simp add: Let_def)
qed

end
