(* ===== verification/Start_Up_Properties.thy ===== *)
theory Start_Up_Properties
  imports Start_Up Examples
begin

text \<open>
  The properties of a server from its start on: what is running once \<^verbatim>\<open>main\<close> listens,
  and what any sequence of requests can do to GCS.
\<close>

subsection \<open>What is running\<close>

lemma store_of_pairs:
  assumes "start_up ho s = (Inr ru, s')" "\<not> DryRun (ru_config ru)" "store_of content ru st"
  shows "(\<forall>ak sk. Lookup st ak = Some sk \<longrightarrow> \<not> blank ak \<and> \<not> blank sk)
    \<or> getEnv (ho_env ho) ''HMAC_CREDENTIALS_FILE'' [] = [] \<and> getEnv (ho_env ho) ''HMAC_CREDENTIALS'' [] = []
      \<and> Lookup st = [proxyAK (ho_env ho) \<mapsto> proxySK (ho_env ho)]"
proof -
  note run = start_up_running [OF assms(1)]
  have "st_map st = st_map (ru_store ru) \<or> sound_credentials (st_map st)"
    using assms(3) watcher_provenance LoadFile_sound by (fastforce simp: store_of_def start_watcher_def)
  with seeded_pairs [OF run(1) assms(2)] show ?thesis
    by (auto simp: run(2) Lookup_def sound_credentials_def fmpred_iff)
qed

text \<open>
  C6. A server that comes up is complete. In a dry run it has no GCS client, has not
  contacted GCS, and both proxies answer from the dry-run transport. Otherwise it has a
  client, both proxies use the network, and every store its requests can read, the seeded
  one and every one a reload makes, holds at least one pair and no empty key or secret; it
  holds no blank one (nothing but white space) either, unless it is the single pair of the
  legacy variables, which is taken as it stands when no other credentials are configured.
\<close>
theorem what_runs_is_complete:
  assumes "start_up ho s = (Inr ru, s')"
  shows "if DryRun (ru_config ru)
    then \<not> ru_client ru \<and> s' = s
      \<and> ps_transport (ru_read ru) = DryRunTransport \<and> ps_transport (ru_write ru) = DryRunTransport
    else ru_client ru
      \<and> ps_transport (ru_read ru) \<noteq> DryRunTransport \<and> ps_transport (ru_write ru) \<noteq> DryRunTransport
      \<and> (\<forall>content st. store_of content ru st \<longrightarrow>
           0 < Size st \<and> (\<forall>ak sk. Lookup st ak = Some sk \<longrightarrow> ak \<noteq> [] \<and> sk \<noteq> [])
           \<and> ((\<forall>ak sk. Lookup st ak = Some sk \<longrightarrow> \<not> blank ak \<and> \<not> blank sk)
              \<or> getEnv (ho_env ho) ''HMAC_CREDENTIALS_FILE'' [] = [] \<and> getEnv (ho_env ho) ''HMAC_CREDENTIALS'' [] = []
                \<and> Lookup st = [proxyAK (ho_env ho) \<mapsto> proxySK (ho_env ho)]))"
proof -
  note run = start_up_running [OF assms]
  have "0 < Size st \<and> (\<forall>ak sk. Lookup st ak = Some sk \<longrightarrow> ak \<noteq> [] \<and> sk \<noteq> [])"
    if "\<not> DryRun (ru_config ru)" "store_of content ru st" for content st
    using store_at_sound [OF store_of_at [OF assms that(2)] loaded_store_sound [OF run(1) that(1)]]
    by (simp add: creds.sound_def)
  moreover have "(\<forall>ak sk. Lookup st ak = Some sk \<longrightarrow> \<not> blank ak \<and> \<not> blank sk)
      \<or> getEnv (ho_env ho) ''HMAC_CREDENTIALS_FILE'' [] = [] \<and> getEnv (ho_env ho) ''HMAC_CREDENTIALS'' [] = []
        \<and> Lookup st = [proxyAK (ho_env ho) \<mapsto> proxySK (ho_env ho)]"
    if "\<not> DryRun (ru_config ru)" "store_of content ru st" for content st
    using store_of_pairs [OF assms that] .
  ultimately show ?thesis
    using started_client [OF run(4)] by (simp add: run(6,7) read_proxy_def write_proxy_def)
qed

definition ex_host :: "environ \<Rightarrow> memory host" where
  "ex_host env =
     \<lparr>ho_env = env, ho_read = ex_read, ho_watch = (\<lambda>_. False), ho_client = (\<lambda>_. True),
      ho_url = (\<lambda>_. Some (up_url ex_up)), ho_api = mem_api\<rparr>"

definition ex_running :: "Settings \<Rightarrow> running" where
  "ex_running cfg =
     \<lparr>ru_config = cfg, ru_store = seed_store cfg, ru_watched = None, ru_client = (\<not> DryRun cfg),
      ru_url = up_url ex_up,
      ru_logger = (if ReqLogEnabled cfg
        then Some (reqlog_Init (ReqLogPath cfg) (ReqLogMaxSizeMB cfg) (ReqLogMaxBackup cfg) (ReqLogChanBuf cfg))
        else None),
      ru_cleanup = (if ReqLogEnabled cfg then Some (log_dir cfg, ReqLogKeepDays cfg) else None),
      ru_read = read_proxy cfg, ru_write = write_proxy cfg\<rparr>"

lemma ex_running_simps [simp]: "ru_config (ex_running cfg) = cfg" "ru_store (ex_running cfg) = seed_store cfg"
  by (simp_all add: ex_running_def)

definition ex_site_of :: "Settings \<Rightarrow> memory site" where
  "ex_site_of cfg =
     \<lparr>si_px = (ex_proxy cfg ex_site_doc)\<lparr>px_client := \<not> DryRun cfg\<rparr>, si_up = ex_up,
      si_network = \<lparr>be_trip = (\<lambda>r s. (\<lparr>rt_early = [], rt_result = None\<rparr>, s)), be_switch = (\<lambda>_. [])\<rparr>,
      si_stack = \<lparr>sk_id = (\<lambda>_. ''r1''), sk_throttle = (\<lambda>_. None), sk_recover = (\<lambda>_ _. None)\<rparr>,
      si_find = (\<lambda>_ _. Inl S3), si_read = (\<lambda>_. 0), si_scrape = []\<rparr>"

lemma ex_start_up:
  "start_up (ex_host ex_env) ex_memory = (Inr (ex_running ex_config), ex_memory)"
  "start_up (ex_host Map.empty) ex_memory = (Inr (ex_running ex_dry_config), ex_memory)"
proof -
  have "snd (api_bucket_attrs mem_api d b s) = s" for d b s by (simp add: mem_api_def)
  then show "start_up (ex_host ex_env) ex_memory = (Inr (ex_running ex_config), ex_memory)"
    "start_up (ex_host Map.empty) ex_memory = (Inr (ex_running ex_dry_config), ex_memory)"
    by (simp_all add: start_up_def ex_host_def ex_loaded ex_dry_loaded start_client_def ex_running_def
        watched_path_def)
qed

theorem what_runs_is_complete_witness:
  "ru_client (ex_running ex_config) \<and> 0 < Size (ru_store (ex_running ex_config))"
  using what_runs_is_complete [OF ex_start_up(1)] by (auto simp: store_of_def)

subsection \<open>What requests can do\<close>

text \<open>
  C7. A server that comes up in a dry run never changes the state of GCS, from its start
  through any sequence of requests, forwarded ones included.
\<close>
theorem dry_run_server_never_changes_gcs:
  assumes "start_up ho s = (Inr ru, s')" "runs ho ru site" "DryRun (ru_config ru)"
  shows "serve_all site reqs s' = s"
proof -
  have "s' = s"
    using started_client(2) [OF start_up_running(4) [OF assms(1)] assms(3)] .
  moreover have "DryRun (si_config site)" using assms(2,3) by (simp add: runs_def)
  ultimately show ?thesis by (simp add: serve_all_keeps dry_run_serves)
qed

theorem dry_run_server_never_changes_gcs_witness:
  "serve_all (ex_site_of ex_dry_config) [(ex_reads, 0, 0, ex_put_site), (ex_reads, 0, 0, ex_get)] ex_memory = ex_memory"
  by (rule dry_run_server_never_changes_gcs [OF ex_start_up(2)])
    (simp_all add: runs_def ex_site_of_def ex_running_def ex_host_def)

text \<open>
  C5. A server that comes up outside of a dry run keeps strangers away from GCS: through
  any sequence of requests none of which names an access key of the store at its lookup,
  and none of which is routed to \<^verbatim>\<open>/readyz\<close> (which probes a bucket), the state of GCS stays
  what it was, and nothing is sent to the storage host.
\<close>
theorem strangers_cannot_change_gcs:
  assumes "start_up ho s = (Inr ru, s')" "runs ho ru site" "\<not> DryRun (ru_config ru)"
    and "list_all (\<lambda>(sr, start, duration, r). reads_of content ru sr
      \<and> Option.bind (client_access_key r) (Lookup (sr_lookup sr)) = None
      \<and> si_find site routes (numbered site r) \<noteq> Inl Readyz) reqs"
  shows "serve_all site reqs s' = s'"
proof (rule serve_all_keeps)
  fix sr start duration r t
  assume "(sr, start, duration, r) \<in> set reqs"
  with assms(4) have r: "reads_of content ru sr" "Option.bind (client_access_key r) (Lookup (sr_lookup sr)) = None"
    "si_find site routes (numbered site r) \<noteq> Inl Readyz"
    by (auto simp: list_all_iff)
  have "creds.sound (sr_gate sr)" "creds.sound (sr_size sr)"
    using store_at_sound [OF _ loaded_store_sound [OF start_up_running(1) [OF assms(1)] assms(3)]]
      reads_of_at [OF assms(1) r(1)]
    by (auto simp: reads_at_def)
  then have "0 < Size (sr_gate sr)" "0 < Size (sr_size sr)" by (auto simp: creds.sound_def)
  from stranger_serves [OF this r(2,3)] show "snd (snd (serve site sr start duration r t)) = t" .
qed

theorem strangers_cannot_change_gcs_witness:
  "serve_all (ex_site_of ex_config) [(ex_reads, 0, 0, ex_anonymous)] ex_memory = ex_memory"
proof (rule strangers_cannot_change_gcs [OF ex_start_up(1)])
  show "runs (ex_host ex_env) (ex_running ex_config) (ex_site_of ex_config)"
    by (simp add: runs_def ex_site_of_def ex_running_def ex_host_def)
  have "reads_of (\<lambda>_. ex_read) (ex_running ex_config) ex_reads"
    by (simp add: reads_of_def store_of_def ex_reads_def ex_store_def)
  then show "list_all (\<lambda>(sr, start, duration, r). reads_of (\<lambda>_. ex_read) (ex_running ex_config) sr
      \<and> Option.bind (client_access_key r) (Lookup (sr_lookup sr)) = None
      \<and> si_find (ex_site_of ex_config) routes (numbered (ex_site_of ex_config) r) \<noteq> Inl Readyz)
     [(ex_reads, 0, 0, ex_anonymous)]"
    by (simp add: ex_anonymous_key ex_site_of_def)
qed simp

subsection \<open>The clean-up of the request log\<close>

text \<open>
  The assumption on the zone: from the moment that \<^verbatim>\<open>time.Date\<close> gives for five minutes past
  the midnight of a day on, its clock shows this day or a later one. It fails where the
  clock is put forward at midnight, for which \<^verbatim>\<open>time.Date\<close> promises only one of the two
  readings.
\<close>

definition days_begin :: "zone \<Rightarrow> bool" where
  "days_begin z \<longleftrightarrow> (\<forall>d t. valid_date d \<and> valid_date (gt_date t) \<and> gt_nanos t < nat day_nanos
     \<and> \<not> time_after (zn_moment z \<lparr>gt_date = next_day d, gt_nanos = 300 * 1000000000\<rparr>) t \<longrightarrow>
     next_day d \<le> gt_date (zn_civil z t))"

text \<open>
  C39. On the calendar of the process' zone, where five past midnight lies on the day it
  begins (\<open>days_begin\<close>), the clean-up runs on a later day each time. A run whose directory can be read removes exactly the regular files that are named like a log
  file, can be removed, and whose date is not after the day, in UTC, of the moment that lies
  the configured number of days before the run on the local calendar (the date of a file is
  taken for its midnight in UTC, the days are counted back in the local zone: east of
  Greenwich a file that is exactly so many days old is kept, \<^verbatim>\<open>kept_one_day_more\<close>). When the
  directory cannot be read, nothing is removed.
\<close>
theorem cleanup_runs_daily_and_removes_the_expired:
  assumes "cleanup_loop z keepDays read_ok remove_ok (now, files) (woken, files')" "days_begin z"
    and "valid_date (gt_date (zn_civil z now))" "valid_date (gt_date woken)" "gt_nanos woken < nat day_nanos"
  shows "gt_date (zn_civil z now) < gt_date (zn_civil z woken)
    \<and> (let local = zn_civil z woken;
            back = zn_moment z \<lparr>gt_date = (prev_day ^^ keepDays) (gt_date local), gt_nanos = gt_nanos local\<rparr>
       in \<forall>e. e \<in> set files' \<longleftrightarrow> e \<in> set files \<and> \<not> (read_ok \<and> \<not> de_is_dir e \<and> remove_ok (de_name e)
         \<and> (\<exists>d. log_file_date (de_name e) = Some d \<and> d \<le> gt_date back)))"
  using assms(1)
proof cases
  case Run
  have "next_day (gt_date (zn_civil z now)) \<le> gt_date (zn_civil z woken)"
    using assms(2-5) Run(2) by (simp add: days_begin_def next_cleanup_def)
  with next_day_later [OF assms(3)] have "gt_date (zn_civil z now) < gt_date (zn_civil z woken)" by simp
  moreover have "cutoff z woken keepDays =
      zn_moment z \<lparr>gt_date = (prev_day ^^ keepDays) (gt_date (zn_civil z woken)), gt_nanos = gt_nanos (zn_civil z woken)\<rparr>"
    by (cases "zn_civil z woken") (simp add: cutoff_def days_back_def)
  ultimately show ?thesis
    by (auto simp: Run(1) cleanOldLogs_def expired_iff Let_def)
qed

text \<open>The assumption holds in the zones with a constant offset east of Greenwich.\<close>

lemma east_days_begin:
  assumes "300 * 1000000000 < ns" "ns < day_nanos"
  shows "days_begin (fixed_zone ns)"
  unfolding days_begin_def
proof (intro allI impI, elim conjE)
  fix d t
  assume d: "valid_date d" and t: "valid_date (gt_date t)" "gt_nanos t < nat day_nanos"
    and due: "\<not> time_after (zn_moment (fixed_zone ns) \<lparr>gt_date = next_day d, gt_nanos = 300 * 1000000000\<rparr>) t"
  have "zn_moment (fixed_zone ns) \<lparr>gt_date = next_day d, gt_nanos = 300 * 1000000000\<rparr> =
      \<lparr>gt_date = d, gt_nanos = nat (300 * 1000000000 - ns + day_nanos)\<rparr>"
    using assms by (simp add: fixed_zone_def shift_clock_def next_day_back [OF d])
  with due have late: "d < gt_date t \<or> d = gt_date t \<and> nat (300 * 1000000000 - ns + day_nanos) \<le> gt_nanos t"
    by (auto simp: time_after_def not_less)
  have civil: "gt_date (zn_civil (fixed_zone ns) t) =
      (if int (gt_nanos t) + ns < day_nanos then gt_date t else next_day (gt_date t))"
    using assms(1) by (simp add: fixed_zone_def shift_clock_def Let_def)
  show "next_day d \<le> gt_date (zn_civil (fixed_zone ns) t)"
    using late
  proof
    assume "d < gt_date t"
    then have "next_day d \<le> gt_date t" using next_day_least [OF d t(1)] by simp
    with next_day_later [OF t(1)] show ?thesis unfolding civil by auto
  next
    assume "d = gt_date t \<and> nat (300 * 1000000000 - ns + day_nanos) \<le> gt_nanos t"
    then show ?thesis unfolding civil using assms by auto
  qed
qed

definition ex_logs :: "dir_entry list" where
  "ex_logs = [\<lparr>de_name = ''req_20250101.csv'', de_is_dir = False\<rparr>, \<lparr>de_name = ''notes.txt'', de_is_dir = False\<rparr>]"

text \<open>In Shanghai: it is the last noon of February there, and the clean-up is due at 16:05 UTC.\<close>

definition ex_zone :: zone where
  "ex_zone = fixed_zone (8 * 3600 * 1000000000)"

definition ex_noon :: gotime where
  "ex_noon = \<lparr>gt_date = Date 2025 2 28, gt_nanos = 4 * 3600 * 1000000000\<rparr>"

theorem cleanup_runs_daily_and_removes_the_expired_witness:
  "next_cleanup ex_zone ex_noon = \<lparr>gt_date = Date 2025 2 28, gt_nanos = 57900 * 1000000000\<rparr>
   \<and> \<lparr>de_name = ''req_20250101.csv'', de_is_dir = False\<rparr>
       \<notin> set (cleanOldLogs ex_zone (next_cleanup ex_zone ex_noon) 1 True (\<lambda>_. True) ex_logs)"
proof -
  let ?log = "\<lparr>de_name = ''req_20250101.csv'', de_is_dir = False\<rparr>" and ?woken = "next_cleanup ex_zone ex_noon"
  have woken: "?woken = \<lparr>gt_date = Date 2025 2 28, gt_nanos = 57900 * 1000000000\<rparr>"
    and civil: "zn_civil ex_zone ex_noon = \<lparr>gt_date = Date 2025 2 28, gt_nanos = 12 * 3600 * 1000000000\<rparr>"
    by (simp_all add: ex_zone_def ex_noon_def fixed_zone_def next_cleanup_def shift_clock_def next_day_def prev_day_def
        days_in_def leap_year_def Let_def)
  have earlier: "zn_moment ex_zone \<lparr>gt_date = (prev_day ^^ 1) (gt_date (zn_civil ex_zone ?woken)),
      gt_nanos = gt_nanos (zn_civil ex_zone ?woken)\<rparr> = \<lparr>gt_date = Date 2025 2 27, gt_nanos = 57900 * 1000000000\<rparr>"
    unfolding woken
    by (simp add: ex_zone_def fixed_zone_def shift_clock_def next_day_def prev_day_def days_in_def leap_year_def Let_def)
  have run: "cleanup_loop ex_zone 1 True (\<lambda>_. True) (ex_noon, ex_logs)
      (?woken, cleanOldLogs ex_zone ?woken 1 True (\<lambda>_. True) ex_logs)"
    by (rule cleanup_loop.Run) (simp add: time_after_def)
  have zone: "days_begin ex_zone"
    unfolding ex_zone_def by (rule east_days_begin) simp_all
  have valid: "valid_date (gt_date (zn_civil ex_zone ex_noon))" "valid_date (gt_date ?woken)"
    "gt_nanos ?woken < nat day_nanos"
    by (simp_all add: civil woken valid_date_def days_in_def leap_year_def)
  have date: "log_file_date ''req_20250101.csv'' = Some (Date 2025 1 1)" by code_simp
  have "Date 2025 1 1 \<le> Date 2025 2 27" by (simp add: less_eq_date_def)
  with cleanup_runs_daily_and_removes_the_expired [OF run zone valid] have
    "?log \<notin> set (cleanOldLogs ex_zone ?woken 1 True (\<lambda>_. True) ex_logs)"
    unfolding Let_def earlier by (auto simp: date)
  with woken show ?thesis by blast
qed

end
