(* ===== verification/Credstore_Shared.thy ===== *)
theory Credstore_Shared
  imports Credstore
begin

text \<open>
  The store of \<^verbatim>\<open>pkg/credstore/credstore.go\<close> as it lies in memory. A Go map is a reference,
  so the maps are kept in a list and named by their address in it; \<^verbatim>\<open>Store.v\<close>, the atomic
  value, holds an address. The methods run in any number of goroutines, one step at a time:
  \<^verbatim>\<open>Replace\<close> makes a map, copies the entries one by one, stores the address of the copy and
  sets the gauge; the readers load the address and then read the map behind it, unprotected.
  A caller may go on changing its own map after \<^verbatim>\<open>Replace\<close> has returned, but not while it
  runs. The theory \<open>Credstore\<close> takes each method for one step on the current map; that is
  shown to be what these steps amount to.
\<close>

subsection \<open>States and steps\<close>

datatype reader = Reader_Lookup string | Reader_Size | Reader_Snapshot

datatype answer = Found "string option" | Counted nat | Listed "string fset"

text \<open>What a method returns of the map it has loaded, and of the store.\<close>

fun read_map :: "reader \<Rightarrow> credmap \<Rightarrow> answer" where
  "read_map (Reader_Lookup ak) m = Found (fmlookup m ak)"
| "read_map Reader_Size m = Counted (fcard (fmdom m))"
| "read_map Reader_Snapshot m = Listed (fmdom m)"

fun read_store :: "reader \<Rightarrow> store \<Rightarrow> answer" where
  "read_store (Reader_Lookup ak) s = Found (Lookup s ak)"
| "read_store Reader_Size s = Counted (Size s)"
| "read_store Reader_Snapshot s = Listed (Snapshot s)"

text \<open>
  What a goroutine is doing: \<open>Copying src cp ks\<close> copies the caller's map \<open>src\<close> to its
  own map \<open>cp\<close> and has still to visit the keys \<open>ks\<close>; \<open>Reading rd a\<close> has loaded \<open>a\<close>.
\<close>

datatype goroutine =
    Idle
  | Copying nat nat "string list"
  | Setting_gauge nat
  | Reading reader nat

record shared =
  sh_maps :: "credmap list"
  sh_v :: nat
  sh_gauge :: nat
  sh_callers :: "nat set"
  sh_run :: "nat \<Rightarrow> goroutine"

definition shared_new :: shared where
  "shared_new = \<lparr>sh_maps = [fmempty], sh_v = 0, sh_gauge = 0, sh_callers = {}, sh_run = (\<lambda>_. Idle)\<rparr>"

abbreviation goto :: "nat \<Rightarrow> goroutine \<Rightarrow> shared \<Rightarrow> shared" where
  "goto t g c \<equiv> c\<lparr>sh_run := (sh_run c)(t := g)\<rparr>"

text \<open>The steps of goroutine \<open>t\<close>. The order in which Go visits the keys is arbitrary.\<close>

inductive goroutine_step :: "nat \<Rightarrow> shared \<Rightarrow> shared \<Rightarrow> bool" for t where
  Replace_make: "sh_run c t = Idle \<Longrightarrow> src \<in> sh_callers c \<Longrightarrow> distinct keys \<Longrightarrow>
    set keys = fset (fmdom (sh_maps c ! src)) \<Longrightarrow>
    goroutine_step t c (goto t (Copying src (length (sh_maps c)) keys) (c\<lparr>sh_maps := sh_maps c @ [fmempty]\<rparr>))"
| Replace_copy: "sh_run c t = Copying src cp (k # ks) \<Longrightarrow> fmlookup (sh_maps c ! src) k = Some v \<Longrightarrow>
    goroutine_step t c (goto t (Copying src cp ks) (c\<lparr>sh_maps := (sh_maps c)[cp := fmupd k v (sh_maps c ! cp)]\<rparr>))"
| Replace_store: "sh_run c t = Copying src cp [] \<Longrightarrow>
    goroutine_step t c (goto t (Setting_gauge cp) (c\<lparr>sh_v := cp\<rparr>))"
| Replace_gauge: "sh_run c t = Setting_gauge cp \<Longrightarrow>
    goroutine_step t c (goto t Idle (c\<lparr>sh_gauge := fcard (fmdom (sh_maps c ! cp))\<rparr>))"
| Load: "sh_run c t = Idle \<Longrightarrow> goroutine_step t c (goto t (Reading rd (sh_v c)) c)"
| Read: "sh_run c t = Reading rd a \<Longrightarrow> goroutine_step t c (goto t Idle c)"

text \<open>What the step \<open>Read\<close> returns.\<close>

definition answer_of :: "shared \<Rightarrow> nat \<Rightarrow> answer option" where
  "answer_of c t = (case sh_run c t of Reading rd a \<Rightarrow> Some (read_map rd (sh_maps c ! a)) | _ \<Rightarrow> None)"

definition being_copied :: "shared \<Rightarrow> nat \<Rightarrow> bool" where
  "being_copied c src \<longleftrightarrow> (\<exists>t cp ks. sh_run c t = Copying src cp ks)"

inductive caller_step :: "shared \<Rightarrow> shared \<Rightarrow> bool" where
  Make_map: "caller_step c (c\<lparr>sh_maps := sh_maps c @ [m], sh_callers := insert (length (sh_maps c)) (sh_callers c)\<rparr>)"
| Change_map: "src \<in> sh_callers c \<Longrightarrow> \<not> being_copied c src \<Longrightarrow>
    caller_step c (c\<lparr>sh_maps := (sh_maps c)[src := m]\<rparr>)"

text \<open>Runs in which the goroutines of \<open>ts\<close> do nothing.\<close>

inductive others_run :: "nat set \<Rightarrow> shared \<Rightarrow> shared \<Rightarrow> bool" for ts where
  Stay: "others_run ts c c"
| By_goroutine: "others_run ts c c' \<Longrightarrow> t \<notin> ts \<Longrightarrow> goroutine_step t c' c'' \<Longrightarrow> others_run ts c c''"
| By_caller: "others_run ts c c' \<Longrightarrow> caller_step c' c'' \<Longrightarrow> others_run ts c c''"

abbreviation shared_reachable :: "shared \<Rightarrow> bool" where
  "shared_reachable \<equiv> others_run {} shared_new"

text \<open>The abstract store: the map the atomic value refers to.\<close>

definition the_store :: "shared \<Rightarrow> store" where
  "the_store c = Replace (sh_maps c ! sh_v c) New"

subsection \<open>No map that is read is ever written\<close>

text \<open>
  The invariant: the maps that are read, which are the current one and those a goroutine has
  loaded, are neither a caller's nor under construction; a map under construction is known
  to its goroutine only and holds the entries visited so far.
\<close>

definition under_construction :: "shared \<Rightarrow> nat \<Rightarrow> bool" where
  "under_construction c a \<longleftrightarrow> (\<exists>t src ks. sh_run c t = Copying src a ks)"

definition read_by_some :: "shared \<Rightarrow> nat \<Rightarrow> bool" where
  "read_by_some c a \<longleftrightarrow> a = sh_v c \<or> (\<exists>t. sh_run c t = Setting_gauge a \<or> (\<exists>rd. sh_run c t = Reading rd a))"

definition readable :: "shared \<Rightarrow> nat \<Rightarrow> bool" where
  "readable c a \<longleftrightarrow> a < length (sh_maps c) \<and> a \<notin> sh_callers c \<and> \<not> under_construction c a"

definition copied_so_far :: "credmap \<Rightarrow> string list \<Rightarrow> credmap \<Rightarrow> bool" where
  "copied_so_far m ks cp \<longleftrightarrow> distinct ks \<and> set ks \<subseteq> fset (fmdom m)
     \<and> (\<forall>k. fmlookup cp k = (if k \<in> set ks then None else fmlookup m k))"

definition copy_ok :: "shared \<Rightarrow> nat \<Rightarrow> nat \<Rightarrow> nat \<Rightarrow> string list \<Rightarrow> bool" where
  "copy_ok c t src cp ks \<longleftrightarrow>
     src \<in> sh_callers c \<and> cp < length (sh_maps c) \<and> cp \<notin> sh_callers c
     \<and> (\<forall>t' src' ks'. sh_run c t' = Copying src' cp ks' \<longrightarrow> t' = t)
     \<and> copied_so_far (sh_maps c ! src) ks (sh_maps c ! cp)"

definition shared_ok :: "shared \<Rightarrow> bool" where
  "shared_ok c \<longleftrightarrow> (\<forall>a \<in> sh_callers c. a < length (sh_maps c))
     \<and> (\<forall>a. read_by_some c a \<longrightarrow> readable c a)
     \<and> (\<forall>t src cp ks. sh_run c t = Copying src cp ks \<longrightarrow> copy_ok c t src cp ks)"

lemma shared_okI:
  assumes "\<And>a. a \<in> sh_callers c \<Longrightarrow> a < length (sh_maps c)"
    and "\<And>a. read_by_some c a \<Longrightarrow> readable c a"
    and "\<And>t src cp ks. sh_run c t = Copying src cp ks \<Longrightarrow> copy_ok c t src cp ks"
  shows "shared_ok c"
  using assms unfolding shared_ok_def by blast

lemma shared_ok_caller: "shared_ok c \<Longrightarrow> a \<in> sh_callers c \<Longrightarrow> a < length (sh_maps c)"
  and shared_ok_read: "shared_ok c \<Longrightarrow> read_by_some c a \<Longrightarrow> readable c a"
  and shared_ok_copy: "shared_ok c \<Longrightarrow> sh_run c t = Copying src cp ks \<Longrightarrow> copy_ok c t src cp ks"
  by (auto simp: shared_ok_def)

lemma copied_start: "distinct ks \<Longrightarrow> set ks = fset (fmdom m) \<Longrightarrow> copied_so_far m ks fmempty"
  by (auto simp: copied_so_far_def fmlookup_dom_iff)

lemma copied_more:
  "copied_so_far m (k # ks) cp \<Longrightarrow> fmlookup m k = Some v \<Longrightarrow> copied_so_far m ks (fmupd k v cp)"
  by (auto simp: copied_so_far_def)

lemma copied_all: "copied_so_far m [] cp \<Longrightarrow> cp = m"
  by (simp add: copied_so_far_def fmap_ext)

lemma shared_ok_new: "shared_ok shared_new"
  by (simp add: shared_ok_def shared_new_def read_by_some_def readable_def under_construction_def)

lemmas shared_parts = read_by_some_def readable_def under_construction_def copy_ok_def


lemma upd_other: "i \<in> S \<Longrightarrow> j \<notin> S \<Longrightarrow> xs[i := x] ! j = xs ! j"
  by (cases "i = j") auto

text \<open>A step that writes no map and starts no copy.\<close>

lemma shared_ok_quiet:
  assumes "shared_ok c" "sh_maps c' = sh_maps c" "sh_callers c' = sh_callers c"
    and copying: "\<And>u src cp ks. sh_run c' u = Copying src cp ks \<Longrightarrow> sh_run c u = Copying src cp ks"
    and reads: "\<And>a. read_by_some c' a \<Longrightarrow> read_by_some c a \<or> readable c' a"
  shows "shared_ok c'"
proof (rule shared_okI)
  show "readable c' a" if "read_by_some c' a" for a
  proof (cases "readable c' a")
    case False
    with reads [OF that] assms(1) have "readable c a" by (auto dest: shared_ok_read)
    then show ?thesis
      unfolding readable_def under_construction_def assms(2,3) using copying by blast
  qed
  show "copy_ok c' u src cp ks" if "sh_run c' u = Copying src cp ks" for u src cp ks
    using shared_ok_copy [OF assms(1) copying [OF that]] copying unfolding copy_ok_def assms(2,3) by blast
qed (use assms in \<open>simp add: shared_ok_caller\<close>)

lemma Replace_make_ok:
  assumes "shared_ok c" "sh_run c t = Idle" "src \<in> sh_callers c" "distinct keys"
    and "set keys = fset (fmdom (sh_maps c ! src))"
  shows "shared_ok (goto t (Copying src (length (sh_maps c)) keys) (c\<lparr>sh_maps := sh_maps c @ [fmempty]\<rparr>))"
    (is "shared_ok ?c'")
proof (rule shared_okI)
  show "copy_ok ?c' u s cp ks" if u: "sh_run ?c' u = Copying s cp ks" for u s cp ks
  proof (cases "u = t")
    case True
    with u assms show ?thesis
      by (auto simp: copy_ok_def nth_append copied_start dest: shared_ok_caller shared_ok_copy)
  next
    case False
    with u have "sh_run c u = Copying s cp ks" by simp
    from shared_ok_copy [OF assms(1) this] False assms show ?thesis
      by (auto simp: copy_ok_def nth_append dest: shared_ok_caller)
  qed
  show "readable ?c' a" if a: "read_by_some ?c' a" for a
  proof -
    from a have "read_by_some c a" by (auto simp: read_by_some_def split: if_splits)
    from shared_ok_read [OF assms(1) this] show ?thesis
      by (auto simp: readable_def under_construction_def split: if_splits)
  qed
qed (use assms(1) in \<open>simp add: shared_ok_caller less_Suc_eq\<close>)

lemma Replace_copy_ok:
  assumes "shared_ok c" and t: "sh_run c t = Copying src cp (k # ks)" and "fmlookup (sh_maps c ! src) k = Some v"
  shows "shared_ok (goto t (Copying src cp ks) (c\<lparr>sh_maps := (sh_maps c)[cp := fmupd k v (sh_maps c ! cp)]\<rparr>))"
    (is "shared_ok ?c'")
proof (rule shared_okI)
  note here = shared_ok_copy [OF assms(1) t, unfolded copy_ok_def]
  have same: "under_construction ?c' a = under_construction c a" "read_by_some ?c' a = read_by_some c a" for a
  proof -
    have "(\<exists>s js. sh_run ?c' u = Copying s a js) \<longleftrightarrow> (\<exists>s js. sh_run c u = Copying s a js)"
      "sh_run ?c' u = Setting_gauge a \<longleftrightarrow> sh_run c u = Setting_gauge a"
      "sh_run ?c' u = Reading rd a \<longleftrightarrow> sh_run c u = Reading rd a" for u rd
      by (cases "u = t"; simp add: t)+
    then show "under_construction ?c' a = under_construction c a" "read_by_some ?c' a = read_by_some c a"
      unfolding under_construction_def read_by_some_def by (simp_all del: fun_upd_apply)
  qed
  show "readable ?c' a" if "read_by_some ?c' a" for a
    using shared_ok_read [OF assms(1)] that same by (simp add: readable_def)
  show "copy_ok ?c' u s q js" if u: "sh_run ?c' u = Copying s q js" for u s q js
  proof (cases "u = t")
    case True
    with u here assms(3) show ?thesis
      by (auto simp: copy_ok_def nth_list_update intro: copied_more)
  next
    case False
    with u have *: "sh_run c u = Copying s q js" by simp
    from shared_ok_copy [OF assms(1) this] have there: "copy_ok c u s q js" .
    with here * False have "q \<noteq> cp" "s \<noteq> cp" by (auto simp: copy_ok_def)
    with there t show ?thesis unfolding copy_ok_def by (auto split: if_splits)
  qed
qed (use assms(1) in \<open>simp add: shared_ok_caller\<close>)

lemma goroutine_step_ok:
  assumes "goroutine_step t c c'" "shared_ok c"
  shows "shared_ok c'"
  using assms
proof (cases rule: goroutine_step.cases)
  case (Replace_store src cp)
  have "readable c' cp"
    using shared_ok_copy [OF assms(2) Replace_store(2)] Replace_store
    by (auto simp: readable_def under_construction_def copy_ok_def)
  with assms(2) Replace_store show ?thesis
    by (intro shared_ok_quiet [OF assms(2)]) (auto simp: read_by_some_def split: if_splits)
next
  case (Replace_gauge cp)
  then show ?thesis
    by (intro shared_ok_quiet [OF assms(2)]) (auto simp: read_by_some_def split: if_splits)
next
  case (Load rd)
  then show ?thesis
    by (intro shared_ok_quiet [OF assms(2)]) (auto simp: read_by_some_def split: if_splits)
next
  case (Read rd a)
  then show ?thesis
    by (intro shared_ok_quiet [OF assms(2)]) (auto simp: read_by_some_def split: if_splits)
next
  case (Replace_make src keys)
  from Replace_make_ok [OF assms(2) Replace_make(2-5)] Replace_make(1) show ?thesis by simp
next
  case (Replace_copy src cp k ks v)
  from Replace_copy_ok [OF assms(2) Replace_copy(2,3)] Replace_copy(1) show ?thesis by simp
qed

lemma caller_step_ok:
  assumes "caller_step c c'" "shared_ok c"
  shows "shared_ok c'"
  using assms(1)
proof (cases rule: caller_step.cases)
  case (Make_map m)
  show ?thesis
  proof (rule shared_okI)
    show "copy_ok c' u s cp ks" if "sh_run c' u = Copying s cp ks" for u s cp ks
    proof -
      from that Make_map have "sh_run c u = Copying s cp ks" by simp
      from shared_ok_copy [OF assms(2) this] Make_map show ?thesis
        by (auto simp: copy_ok_def nth_append dest: shared_ok_caller [OF assms(2)])
    qed
    show "readable c' a" if "read_by_some c' a" for a
    proof -
      from that Make_map have "read_by_some c a" by (simp add: read_by_some_def)
      from shared_ok_read [OF assms(2) this] Make_map show ?thesis
        by (simp add: readable_def under_construction_def)
    qed
  qed (use Make_map assms(2) in \<open>auto dest: shared_ok_caller\<close>)
next
  case (Change_map src m)
  show ?thesis
  proof (rule shared_okI)
    show "copy_ok c' u s cp ks" if "sh_run c' u = Copying s cp ks" for u s cp ks
    proof -
      from that Change_map have run: "sh_run c u = Copying s cp ks" by simp
      with Change_map have "src \<noteq> s" by (auto simp: being_copied_def)
      with shared_ok_copy [OF assms(2) run] Change_map show ?thesis
        by (auto simp: copy_ok_def upd_other)
    qed
    show "readable c' a" if "read_by_some c' a" for a
    proof -
      from that Change_map have "read_by_some c a" by (simp add: read_by_some_def)
      from shared_ok_read [OF assms(2) this] Change_map show ?thesis
        by (simp add: readable_def under_construction_def)
    qed
  qed (use Change_map assms(2) in \<open>auto dest: shared_ok_caller\<close>)
qed

lemma others_run_ok: "others_run ts c c' \<Longrightarrow> shared_ok c \<Longrightarrow> shared_ok c'"
  by (induction rule: others_run.induct) (auto intro: goroutine_step_ok caller_step_ok)

lemma shared_reachable_ok: "shared_reachable c \<Longrightarrow> shared_ok c"
  by (rule others_run_ok [OF _ shared_ok_new])

subsection \<open>What the steps amount to\<close>

text \<open>A map that is readable stays as it is.\<close>

lemma goroutine_keeps_map:
  assumes "goroutine_step t c c'" "shared_ok c" "readable c a"
  shows "sh_maps c' ! a = sh_maps c ! a"
  using assms(1)
proof (cases rule: goroutine_step.cases)
  case (Replace_copy src cp k ks v)
  with assms(3) have "cp \<noteq> a" by (auto simp: readable_def under_construction_def)
  with Replace_copy show ?thesis by simp
qed (use assms(3) in \<open>auto simp: readable_def nth_append\<close>)

lemma caller_keeps_map:
  assumes "caller_step c c'" "readable c a"
  shows "sh_maps c' ! a = sh_maps c ! a"
  using assms by (cases rule: caller_step.cases) (auto simp: readable_def nth_append upd_other)

lemma goroutine_other: "goroutine_step t c c' \<Longrightarrow> u \<noteq> t \<Longrightarrow> sh_run c' u = sh_run c u"
  by (erule goroutine_step.cases) auto

lemma caller_other: "caller_step c c' \<Longrightarrow> sh_run c' u = sh_run c u"
  by (erule caller_step.cases) auto

lemma others_keep_reader:
  assumes "others_run ts c c'" "shared_ok c" "t \<in> ts" "sh_run c t = Reading rd a"
  shows "sh_run c' t = Reading rd a \<and> sh_maps c' ! a = sh_maps c ! a"
  using assms
proof (induction rule: others_run.induct)
  case (By_goroutine c c' u c'')
  then have "shared_ok c'" "read_by_some c' a" by (auto intro: others_run_ok simp: read_by_some_def)
  with By_goroutine show ?case
    by (metis goroutine_other goroutine_keeps_map shared_ok_read)
next
  case (By_caller c c' c'')
  then have "shared_ok c'" "read_by_some c' a" by (auto intro: others_run_ok simp: read_by_some_def)
  with By_caller show ?case
    by (metis caller_other caller_keeps_map shared_ok_read)
qed simp

lemma read_map_store: "read_map rd m = read_store rd (Replace m s)"
  by (cases rd) (simp_all add: Replace_def Lookup_def Size_def Snapshot_def)

lemma Replace_Replace: "Replace m (Replace m' s) = Replace m s"
  by (simp add: Replace_def)

text \<open>The step of \<^verbatim>\<open>Replace\<close> that stores: it alone changes the store.\<close>

definition stores :: "shared \<Rightarrow> nat \<Rightarrow> nat option" where
  "stores c t = (case sh_run c t of Copying src _ [] \<Rightarrow> Some src | _ \<Rightarrow> None)"

lemma goroutine_simulates:
  assumes "goroutine_step t c c'" "shared_ok c"
  shows "the_store c' = (case stores c t of Some src \<Rightarrow> Replace (sh_maps c ! src) (the_store c) | None \<Rightarrow> the_store c)"
proof -
  have keeps: "sh_maps c' ! sh_v c = sh_maps c ! sh_v c"
    using goroutine_keeps_map [OF assms] shared_ok_read [OF assms(2), of "sh_v c"] by (simp add: read_by_some_def)
  show ?thesis
    using assms(1)
  proof (cases rule: goroutine_step.cases)
    case (Replace_store src cp)
    from shared_ok_copy [OF assms(2) Replace_store(2)] have "sh_maps c ! cp = sh_maps c ! src"
      by (auto simp: copy_ok_def dest: copied_all)
    with Replace_store show ?thesis by (simp add: the_store_def stores_def Replace_Replace)
  qed (use keeps in \<open>simp_all add: the_store_def stores_def\<close>)
qed

lemma caller_simulates: "caller_step c c' \<Longrightarrow> shared_ok c \<Longrightarrow> the_store c' = the_store c"
  using caller_keeps_map [of c c' "sh_v c"] shared_ok_read [of c "sh_v c"]
  by (auto simp: the_store_def read_by_some_def elim: caller_step.cases)

text \<open>
  While a call of \<^verbatim>\<open>Replace\<close> runs, the map it was given stays as it is. Its copy has an
  address of its own, which identifies the call.
\<close>

lemma goroutine_keeps_source:
  assumes "goroutine_step u c c'" "shared_ok c" "sh_run c t = Copying src cp ks"
  shows "sh_maps c' ! src = sh_maps c ! src"
proof -
  have src: "src \<in> sh_callers c" "src < length (sh_maps c)"
    using shared_ok_copy [OF assms(2,3)] shared_ok_caller [OF assms(2)] by (auto simp: copy_ok_def)
  from assms(1) show ?thesis
  proof (cases rule: goroutine_step.cases)
    case (Replace_copy src' cp' k ks' v)
    from shared_ok_copy [OF assms(2) Replace_copy(2)] src(1) have "cp' \<noteq> src" by (auto simp: copy_ok_def)
    with Replace_copy show ?thesis by simp
  qed (use src in \<open>simp_all add: nth_append\<close>)
qed

lemma caller_keeps_source:
  assumes "caller_step c c'" "shared_ok c" "sh_run c t = Copying src cp ks"
  shows "sh_maps c' ! src = sh_maps c ! src"
proof -
  have src: "src < length (sh_maps c)" "being_copied c src"
    using shared_ok_copy [OF assms(2,3)] shared_ok_caller [OF assms(2)] assms(3)
    by (auto simp: copy_ok_def being_copied_def)
  from assms(1) show ?thesis
  proof (cases rule: caller_step.cases)
    case (Change_map src' m)
    with src have "src' \<noteq> src" by auto
    with Change_map show ?thesis by simp
  qed (use src in \<open>simp add: nth_append\<close>)
qed

lemma goroutine_same_copy:
  assumes "goroutine_step u c c'" "sh_run c' t = Copying src cp ks" "cp < length (sh_maps c)"
  shows "cp < length (sh_maps c') \<and> (\<exists>js. sh_run c t = Copying src cp js)"
  using assms by (cases rule: goroutine_step.cases) (auto split: if_splits)

lemma goroutine_grows: "goroutine_step t c c' \<Longrightarrow> length (sh_maps c) \<le> length (sh_maps c')"
  by (erule goroutine_step.cases) auto

lemma caller_grows: "caller_step c c' \<Longrightarrow> length (sh_maps c) \<le> length (sh_maps c')"
  by (erule caller_step.cases) auto

lemma call_keeps_source:
  assumes "others_run ts c c'" "shared_ok c" "sh_run c t = Copying src cp ks"
  shows "cp < length (sh_maps c') \<and>
    (\<forall>js. sh_run c' t = Copying src cp js \<longrightarrow> sh_maps c' ! src = sh_maps c ! src)"
  using assms
proof (induction rule: others_run.induct)
  case Stay
  then show ?case using shared_ok_copy by (auto simp: copy_ok_def)
next
  case (By_goroutine c c' u c'')
  then have "shared_ok c'" by (auto intro: others_run_ok)
  with By_goroutine show ?case
    using goroutine_same_copy [OF By_goroutine.hyps(3)] goroutine_keeps_source [OF By_goroutine.hyps(3)]
      goroutine_grows [OF By_goroutine.hyps(3)] by (metis order_less_le_trans)
next
  case (By_caller c c' c'')
  then have "shared_ok c'" by (auto intro: others_run_ok)
  with By_caller show ?case
    using caller_other [OF By_caller.hyps(2)] caller_keeps_source [OF By_caller.hyps(2)]
      caller_grows [OF By_caller.hyps(2)] by (metis order_less_le_trans)
qed

text \<open>Runs compose.\<close>

lemma others_run_trans: "others_run ts c' c'' \<Longrightarrow> others_run ts c c' \<Longrightarrow> others_run ts c c''"
  by (induction rule: others_run.induct) (auto intro: others_run.intros)

lemma by_goroutine: "t \<notin> ts \<Longrightarrow> goroutine_step t c c' \<Longrightarrow> others_run ts c c'"
  by (rule others_run.By_goroutine [OF others_run.Stay])

lemma by_caller: "caller_step c c' \<Longrightarrow> others_run ts c c'"
  by (rule others_run.By_caller [OF others_run.Stay])

text \<open>Steps with their result spelled out, for concrete runs.\<close>

lemma make_map_step:
  "c' = c\<lparr>sh_maps := sh_maps c @ [m], sh_callers := insert (length (sh_maps c)) (sh_callers c)\<rparr> \<Longrightarrow> caller_step c c'"
  by (simp add: caller_step.Make_map)

lemma replace_make_step:
  "sh_run c t = Idle \<Longrightarrow> src \<in> sh_callers c \<Longrightarrow> distinct keys \<Longrightarrow>
    set keys = fset (fmdom (sh_maps c ! src)) \<Longrightarrow>
    c' = goto t (Copying src (length (sh_maps c)) keys) (c\<lparr>sh_maps := sh_maps c @ [fmempty]\<rparr>) \<Longrightarrow> goroutine_step t c c'"
  by (hypsubst, rule goroutine_step.Replace_make)

lemma replace_copy_step:
  "sh_run c t = Copying src cp (k # ks) \<Longrightarrow> fmlookup (sh_maps c ! src) k = Some v \<Longrightarrow>
    c' = goto t (Copying src cp ks) (c\<lparr>sh_maps := (sh_maps c)[cp := fmupd k v (sh_maps c ! cp)]\<rparr>) \<Longrightarrow>
    goroutine_step t c c'"
  by (hypsubst, rule goroutine_step.Replace_copy)

lemma replace_store_step:
  "sh_run c t = Copying src cp [] \<Longrightarrow> c' = goto t (Setting_gauge cp) (c\<lparr>sh_v := cp\<rparr>) \<Longrightarrow> goroutine_step t c c'"
  by (hypsubst, rule goroutine_step.Replace_store)

text \<open>
  A run: goroutine 2 replaces the empty store by a map of one entry; goroutine 1 is about to
  read the map it has loaded before, if \<open>g\<close> says so.
\<close>

definition one_entry :: credmap where
  "one_entry = fmupd ''a'' ''s'' fmempty"

definition replacing :: "goroutine \<Rightarrow> credmap \<Rightarrow> goroutine \<Rightarrow> nat \<Rightarrow> shared" where
  "replacing g m g2 v = \<lparr>sh_maps = [fmempty, one_entry, m], sh_v = v, sh_gauge = 0, sh_callers = {1},
     sh_run = (\<lambda>t. if t = 1 then g else if t = 2 then g2 else Idle)\<rparr>"

lemma replacing_runs:
  assumes "ts \<subseteq> {1}"
  shows "others_run ts (goto 1 g shared_new) (replacing g fmempty (Copying 1 2 [''a'']) 0)" (is ?make)
    and "others_run ts (replacing g fmempty (Copying 1 2 [''a'']) 0) (replacing g one_entry (Copying 1 2 []) 0)" (is ?copy)
    and "goroutine_step 2 (replacing g one_entry (Copying 1 2 []) 0) (replacing g one_entry (Setting_gauge 2) 2)" (is ?store)
proof -
  let ?c = "\<lparr>sh_maps = [fmempty, one_entry], sh_v = 0, sh_gauge = 0, sh_callers = {1}, sh_run = (\<lambda>t. if t = 1 then g else Idle)\<rparr>"
  have "caller_step (goto 1 g shared_new) ?c"
    by (rule make_map_step [where m = one_entry]) (auto simp: shared_new_def)
  moreover have "2 \<notin> ts" using assms by auto
  moreover have "goroutine_step 2 ?c (replacing g fmempty (Copying 1 2 [''a'']) 0)"
    by (rule replace_make_step [where src = 1 and keys = "[''a'']"]) (auto simp: replacing_def one_entry_def)
  ultimately show ?make by (rule others_run.By_goroutine [OF by_caller])
  have "goroutine_step 2 (replacing g fmempty (Copying 1 2 [''a'']) 0) (replacing g one_entry (Copying 1 2 []) 0)"
    by (rule replace_copy_step [where k = "''a''" and v = "''s''"]) (auto simp: replacing_def one_entry_def)
  with \<open>2 \<notin> ts\<close> show ?copy by (rule by_goroutine)
  show ?store
    by (rule replace_store_step [where src = 1]) (auto simp: replacing_def)
qed

end
