(* ===== verification/Server_Life.thy ===== *)
theory Server_Life
  imports Routing "HOL-Library.Multiset"
begin

text \<open>
  The end of \<^verbatim>\<open>main\<close> in \<^verbatim>\<open>main.go\<close>: the two HTTP servers with their timeouts, and the
  life of the process from listening to its exit, as a step relation. The connections are
  those of \<^verbatim>\<open>net/http\<close> with the states its documentation gives them; what the listener,
  the clients, the clock and the signals do are steps. Times are in milliseconds.
\<close>

subsection \<open>The servers\<close>

text \<open>A timeout of 0 is none, as in \<^verbatim>\<open>http.Server\<close>.\<close>

record http_server =
  hs_addr :: string
  hs_read_header_timeout :: nat
  hs_read_timeout :: nat
  hs_write_timeout :: nat
  hs_idle_timeout :: nat

definition main_server :: "Settings \<Rightarrow> http_server" where
  "main_server cfg = \<lparr>hs_addr = CHR '':'' # Port cfg, hs_read_header_timeout = 10 * 1000,
     hs_read_timeout = 0, hs_write_timeout = 0, hs_idle_timeout = 90 * 1000\<rparr>"

definition pprof_server :: "Settings \<Rightarrow> http_server option" where
  "pprof_server cfg =
     (if PPROFAddr cfg \<noteq> [] then
        Some \<lparr>hs_addr = PPROFAddr cfg, hs_read_header_timeout = 10 * 1000,
          hs_read_timeout = 0, hs_write_timeout = 0, hs_idle_timeout = 0\<rparr>
      else None)"

definition shutdown_timeout :: nat where
  "shutdown_timeout = 10 * 1000"

subsection \<open>Connections and phases\<close>

text \<open>
  A connection that was accepted at a time, one whose request head is being read since a
  time, one whose request is being served, and an idle one.
\<close>

datatype conn = New_conn nat | Head_conn nat | Active_conn request | Idle_conn nat

text \<open>When the server gives up on a connection; the whole body has a timeout of its own.\<close>

definition conn_deadline :: "http_server \<Rightarrow> conn \<Rightarrow> nat option" where
  "conn_deadline hs c =
     (case c of
        New_conn t \<Rightarrow> Some (t + hs_read_header_timeout hs)
      | Head_conn t \<Rightarrow> Some (t + hs_read_header_timeout hs)
      | Active_conn r \<Rightarrow> None
      | Idle_conn t \<Rightarrow> Some (t + hs_idle_timeout hs))"

datatype exit = Listen_failed | Graceful | Forced

datatype phase = Listening | Draining nat | Exited exit

text \<open>
  The process: its phase, the clock, the open connections of the main server, the calls on
  the collectors of the metrics middleware so far, and whether the pprof server runs.
\<close>

record life =
  lf_phase :: phase
  lf_now :: nat
  lf_conns :: "conn multiset"
  lf_events :: "metric_event list"
  lf_pprof :: bool

definition life_start :: "Settings \<Rightarrow> nat \<Rightarrow> life" where
  "life_start cfg t = \<lparr>lf_phase = Listening, lf_now = t, lf_conns = {#}, lf_events = [],
     lf_pprof = (pprof_server cfg \<noteq> None)\<rparr>"

text \<open>What the metrics middleware records when a request enters it, and when it leaves.\<close>

definition entering :: "request \<Rightarrow> metric_event list" where
  "entering r =
     (if root_mux r = Router then [InFlightInc (classifyEndpoint (req_method r) (req_uri r))] else [])"

definition leaving :: "answer \<Rightarrow> metric_event list" where
  "leaving a = (case a of Served sv \<Rightarrow> tl (sv_events sv) | _ \<Rightarrow> [])"

definition aborted :: "answer \<Rightarrow> bool" where
  "aborted a \<longleftrightarrow> (case a of Served sv \<Rightarrow> sv_panic sv \<noteq> None | _ \<Rightarrow> False)"

abbreviation swap_conn :: "conn \<Rightarrow> conn multiset \<Rightarrow> life \<Rightarrow> life" where
  "swap_conn c cs l \<equiv> l\<lparr>lf_conns := lf_conns l - {#c#} + cs\<rparr>"

text \<open>The connections \<^verbatim>\<open>Shutdown\<close> takes for idle: new ones after five seconds, too.\<close>

definition idle_for_shutdown :: "nat \<Rightarrow> conn \<Rightarrow> bool" where
  "idle_for_shutdown now c \<longleftrightarrow>
     (case c of New_conn t \<Rightarrow> t div 1000 + 5 < now div 1000 | Idle_conn _ \<Rightarrow> True | _ \<Rightarrow> False)"

definition still_running :: "life \<Rightarrow> bool" where
  "still_running l \<longleftrightarrow> (\<forall>x. lf_phase l \<noteq> Exited x)"

text \<open>
  The steps. Time does not pass a deadline that has not been acted on. The signals after the
  first one stay in the channel, which nobody reads again.
\<close>

inductive life_step :: "Settings \<Rightarrow> 's site \<Rightarrow> life \<Rightarrow> life \<Rightarrow> bool" for cfg site where
  Wait: "still_running l \<Longrightarrow> lf_now l \<le> t \<Longrightarrow> (\<forall>d. lf_phase l = Draining d \<longrightarrow> t \<le> d) \<Longrightarrow>
    (\<forall>c \<in># lf_conns l. \<forall>d. conn_deadline (main_server cfg) c = Some d \<longrightarrow> t \<le> d) \<Longrightarrow>
    life_step cfg site l (l\<lparr>lf_now := t\<rparr>)"
| Accept: "lf_phase l = Listening \<Longrightarrow>
    life_step cfg site l (l\<lparr>lf_conns := lf_conns l + {#New_conn (lf_now l)#}\<rparr>)"
| First_byte: "still_running l \<Longrightarrow> New_conn t \<in># lf_conns l \<Longrightarrow>
    life_step cfg site l (swap_conn (New_conn t) {#Head_conn t#} l)"
| Next_byte: "still_running l \<Longrightarrow> Idle_conn t \<in># lf_conns l \<Longrightarrow>
    life_step cfg site l (swap_conn (Idle_conn t) {#Head_conn (lf_now l)#} l)"
| Request: "still_running l \<Longrightarrow> Head_conn t \<in># lf_conns l \<Longrightarrow>
    life_step cfg site l (swap_conn (Head_conn t) {#Active_conn r#} (l\<lparr>lf_events := lf_events l @ entering r\<rparr>))"
| Finish: "still_running l \<Longrightarrow> Active_conn r \<in># lf_conns l \<Longrightarrow>
    a = fst (serve site sr start duration r s) \<Longrightarrow> (keep \<longrightarrow> lf_phase l = Listening \<and> \<not> aborted a) \<Longrightarrow>
    life_step cfg site l
      (swap_conn (Active_conn r) (if keep then {#Idle_conn (lf_now l)#} else {#})
         (l\<lparr>lf_events := lf_events l @ leaving a\<rparr>))"
| Client_close: "still_running l \<Longrightarrow> c \<in># lf_conns l \<Longrightarrow> (\<forall>r. c \<noteq> Active_conn r) \<Longrightarrow>
    life_step cfg site l (swap_conn c {#} l)"
| Timeout: "still_running l \<Longrightarrow> c \<in># lf_conns l \<Longrightarrow> conn_deadline (main_server cfg) c = Some d \<Longrightarrow> d \<le> lf_now l \<Longrightarrow>
    life_step cfg site l (swap_conn c {#} l)"
| Listen_error: "lf_phase l = Listening \<Longrightarrow> life_step cfg site l (l\<lparr>lf_phase := Exited Listen_failed\<rparr>)"
| Signal: "lf_phase l = Listening \<Longrightarrow>
    life_step cfg site l (l\<lparr>lf_phase := Draining (lf_now l + shutdown_timeout)\<rparr>)"
| Signal_again: "lf_phase l = Draining d \<Longrightarrow> life_step cfg site l l"
| Close_idle: "lf_phase l = Draining d \<Longrightarrow> c \<in># lf_conns l \<Longrightarrow> idle_for_shutdown (lf_now l) c \<Longrightarrow>
    life_step cfg site l (swap_conn c {#} l)"
| Drained: "lf_phase l = Draining d \<Longrightarrow> lf_conns l = {#} \<Longrightarrow>
    life_step cfg site l (l\<lparr>lf_phase := Exited Graceful\<rparr>)"
| Expired: "lf_phase l = Draining d \<Longrightarrow> d \<le> lf_now l \<Longrightarrow>
    life_step cfg site l (l\<lparr>lf_phase := Exited Forced\<rparr>)"
| Pprof_error: "still_running l \<Longrightarrow> lf_pprof l \<Longrightarrow> life_step cfg site l (l\<lparr>lf_pprof := False\<rparr>)"

inductive life_run :: "Settings \<Rightarrow> 's site \<Rightarrow> life \<Rightarrow> life \<Rightarrow> bool" for cfg site l0 where
  Begin: "life_run cfg site l0 l0"
| Step: "life_run cfg site l0 l \<Longrightarrow> life_step cfg site l l' \<Longrightarrow> life_run cfg site l0 l'"

lemma running_phases [simp]:
  "lf_phase l = Listening \<Longrightarrow> still_running l" "lf_phase l = Draining d \<Longrightarrow> still_running l"
  "lf_phase l = Exited x \<Longrightarrow> \<not> still_running l"
  by (simp_all add: still_running_def)

lemma exited_stops: "life_step cfg site l l' \<Longrightarrow> still_running l"
  by (erule life_step.cases) auto

subsection \<open>The gauge of requests in flight\<close>

definition conn_endpoint :: "conn \<Rightarrow> string option" where
  "conn_endpoint c =
     (case c of Active_conn r \<Rightarrow> (if root_mux r = Router then Some (classifyEndpoint (req_method r) (req_uri r)) else None)
      | _ \<Rightarrow> None)"

definition served_at :: "string \<Rightarrow> conn multiset \<Rightarrow> nat" where
  "served_at e cs = size (filter_mset (\<lambda>c. conn_endpoint c = Some e) cs)"

lemma served_at_add [simp]:
  "served_at e {#} = 0" "served_at e (add_mset c cs) = served_at e cs + (if conn_endpoint c = Some e then 1 else 0)"
  by (simp_all add: served_at_def)

lemma served_at_remove:
  "c \<in># cs \<Longrightarrow> int (served_at e (cs - {#c#})) = int (served_at e cs) - (if conn_endpoint c = Some e then 1 else 0)"
  by (auto dest!: multi_member_split)

lemma in_flight_append: "in_flight e (xs @ ys) = in_flight e xs + in_flight e ys"
  by (simp add: in_flight_def)

lemma in_flight_entering: "in_flight e (entering r) = (if conn_endpoint (Active_conn r) = Some e then 1 else 0)"
  by (simp add: entering_def conn_endpoint_def in_flight_def)

lemma stack_events:
  "sv_events (middleware_stack cfg sk start duration h r) =
     InFlightInc (classifyEndpoint (req_method r) (req_uri r)) # tl (sv_events (middleware_stack cfg sk start duration h r))"
  by (simp add: middleware_stack_def WithMetrics_def Let_def case_prod_beta)

lemma in_flight_leaving:
  "in_flight e (leaving (fst (serve site sr start duration r s))) =
     - (if conn_endpoint (Active_conn r) = Some e then 1 else 0)"
proof (cases "root_mux r")
  case Router
  let ?sv = "middleware_stack (si_config site) (si_stack site) start duration (\<lambda>r. fst (router_run site sr r s)) r"
  have "in_flight e (sv_events ?sv) = 0" by (rule stack_in_flight)
  then have "in_flight e [InFlightInc (classifyEndpoint (req_method r) (req_uri r))] + in_flight e (tl (sv_events ?sv)) = 0"
    by (subst (asm) stack_events) (metis append_Cons append_Nil in_flight_append)
  moreover have "leaving (fst (serve site sr start duration r s)) = tl (sv_events ?sv)"
    using Router by (simp add: serve_def leaving_def Let_def case_prod_beta)
  ultimately show ?thesis
    using Router by (simp add: conn_endpoint_def in_flight_def split: if_splits)
qed (simp_all add: serve_def leaving_def conn_endpoint_def in_flight_def Let_def case_prod_beta)

lemma gauge_step:
  assumes "life_step cfg site l l'" "in_flight e (lf_events l) = int (served_at e (lf_conns l))"
  shows "in_flight e (lf_events l') = int (served_at e (lf_conns l'))"
  using assms
proof (cases rule: life_step.cases)
  case (Finish r a sr start duration s keep)
  then show ?thesis using assms(2)
    by (cases keep) (simp_all add: served_at_remove in_flight_append in_flight_leaving, simp_all add: conn_endpoint_def)
next
  case (Client_close c)
  then have "conn_endpoint c = None" by (simp add: conn_endpoint_def split: conn.splits)
  with Client_close assms(2) show ?thesis by (simp add: served_at_remove)
next
  case (Timeout c d)
  then have "conn_endpoint c = None" by (simp add: conn_endpoint_def conn_deadline_def split: conn.splits)
  with Timeout assms(2) show ?thesis by (simp add: served_at_remove)
next
  case (Close_idle d c)
  then have "conn_endpoint c = None" by (simp add: conn_endpoint_def idle_for_shutdown_def split: conn.splits)
  with Close_idle assms(2) show ?thesis by (simp add: served_at_remove)
next
  case (Request t r)
  then show ?thesis using assms(2)
    by (simp add: served_at_remove in_flight_append in_flight_entering) (simp add: conn_endpoint_def)
qed (simp_all add: served_at_remove conn_endpoint_def)

lemma gauge_run:
  "life_run cfg site l0 l \<Longrightarrow> in_flight e (lf_events l0) = int (served_at e (lf_conns l0)) \<Longrightarrow>
   in_flight e (lf_events l) = int (served_at e (lf_conns l))"
  by (induction rule: life_run.induct) (auto intro: gauge_step)

subsection \<open>Shutting down\<close>

text \<open>How much is left to do while draining: each open connection can be closed, served or begun.\<close>

fun conn_work :: "conn \<Rightarrow> nat" where
  "conn_work (New_conn _) = 3"
| "conn_work (Idle_conn _) = 3"
| "conn_work (Head_conn _) = 2"
| "conn_work (Active_conn _) = 1"

definition work_left :: "life \<Rightarrow> nat" where
  "work_left l =
     (case lf_phase l of Draining d \<Rightarrow> Suc (d - lf_now l) | _ \<Rightarrow> 0)
     + sum_mset (image_mset conn_work (lf_conns l)) + (if lf_pprof l then 1 else 0)"

lemma conn_work_pos: "0 < conn_work c"
  by (cases c) simp_all

lemma draining_works:
  assumes "life_step cfg site l l'" "lf_phase l = Draining d" "lf_now l \<le> d"
  shows "l' = l \<or> work_left l' < work_left l"
  using assms
proof (cases rule: life_step.cases)
  case (Wait t)
  then show ?thesis using assms(2) by (cases "t = lf_now l") (auto simp: work_left_def)
next
  case (Client_close c)
  then show ?thesis using assms(2,3) conn_work_pos [of c] by (auto simp: work_left_def dest!: multi_member_split)
next
  case (Timeout c da)
  then show ?thesis using assms(2,3) conn_work_pos [of c] by (auto simp: work_left_def dest!: multi_member_split)
next
  case (Close_idle da c)
  then show ?thesis using assms(2,3) conn_work_pos [of c] by (auto simp: work_left_def dest!: multi_member_split)
qed (auto simp: work_left_def dest!: multi_member_split)

lemma draining_step:
  assumes "life_step cfg site l l'" "lf_phase l = Draining d" "lf_now l \<le> d"
  shows "lf_now l \<le> lf_now l' \<and> lf_now l' \<le> d"
    and "lf_phase l' = Draining d \<or> lf_phase l' = Exited Graceful \<and> lf_conns l' = {#}
      \<or> lf_phase l' = Exited Forced \<and> lf_now l' = d"
  using assms(1) by (cases rule: life_step.cases; use assms(2,3) in auto)+

text \<open>A server that drains is never stuck, and time is never stuck before the deadline.\<close>

lemma draining_moves:
  assumes "lf_phase l = Draining d" "lf_now l \<le> d"
  shows "\<exists>l'. life_step cfg site l l' \<and> l' \<noteq> l"
proof (cases "\<exists>c \<in># lf_conns l. \<exists>t. conn_deadline (main_server cfg) c = Some t \<and> t \<le> lf_now l")
  case True
  then obtain c t where c: "c \<in># lf_conns l" "conn_deadline (main_server cfg) c = Some t" "t \<le> lf_now l" by blast
  then have "life_step cfg site l (swap_conn c {#} l)" using assms by (intro Timeout) auto
  moreover have "lf_conns (swap_conn c {#} l) \<noteq> lf_conns l" using c(1) by (auto dest!: multi_member_split)
  ultimately show ?thesis by metis
next
  case False
  show ?thesis
  proof (cases "lf_now l < d")
    case True
    have "life_step cfg site l (l\<lparr>lf_now := Suc (lf_now l)\<rparr>)"
      using assms True False by (intro Wait) (auto simp: Suc_le_eq not_le)
    moreover have "lf_now (l\<lparr>lf_now := Suc (lf_now l)\<rparr>) \<noteq> lf_now l" by simp
    ultimately show ?thesis by metis
  next
    case False
    then have "life_step cfg site l (l\<lparr>lf_phase := Exited Forced\<rparr>)" using assms by (intro Expired) auto
    moreover have "lf_phase (l\<lparr>lf_phase := Exited Forced\<rparr>) \<noteq> lf_phase l" using assms by simp
    ultimately show ?thesis by metis
  qed
qed

lemma drained_run:
  assumes "life_run cfg site l0 l" "lf_phase l0 = Draining d" "lf_now l0 \<le> d"
  shows "(lf_phase l = Draining d \<and> lf_now l \<le> d)
    \<or> (lf_phase l = Exited Graceful \<and> lf_conns l = {#} \<and> lf_now l \<le> d)
    \<or> (lf_phase l = Exited Forced \<and> lf_now l = d)"
  using assms
proof (induction rule: life_run.induct)
  case (Step l l')
  from Step.IH [OF Step.prems] show ?case
    using draining_step [OF Step.hyps(2)] exited_stops [OF Step.hyps(2)] by fastforce
qed simp

subsection \<open>Timeouts\<close>

text \<open>No connection outlives its deadline; a request that is being served has none.\<close>

lemma deadlines_step:
  assumes "life_step cfg site l l'"
    and "\<forall>c \<in># lf_conns l. \<forall>d. conn_deadline (main_server cfg) c = Some d \<longrightarrow> lf_now l \<le> d"
  shows "\<forall>c \<in># lf_conns l'. \<forall>d. conn_deadline (main_server cfg) c = Some d \<longrightarrow> lf_now l' \<le> d"
  using assms
  by (cases rule: life_step.cases)
    (auto simp: conn_deadline_def main_server_def dest: in_diffD split: if_splits conn.splits)


lemma deadlines_run:
  assumes "life_run cfg site (life_start cfg t0) l" "c \<in># lf_conns l" "conn_deadline (main_server cfg) c = Some d"
  shows "lf_now l \<le> d"
proof -
  have "\<forall>c \<in># lf_conns l. \<forall>d. conn_deadline (main_server cfg) c = Some d \<longrightarrow> lf_now l \<le> d"
    using assms(1) by (induction rule: life_run.induct) (simp add: life_start_def, rule deadlines_step)
  with assms(2,3) show ?thesis by blast
qed

subsection \<open>Composing runs\<close>

lemma life_run_trans: "life_run cfg site l1 l2 \<Longrightarrow> life_run cfg site l0 l1 \<Longrightarrow> life_run cfg site l0 l2"
  by (induction rule: life_run.induct) (auto intro: life_run.Step)

text \<open>A server drains for the time left of its ten seconds, also one found draining in a run.\<close>

lemma phase_start: "lf_phase (life_start cfg t) = Listening"
  by (simp add: life_start_def)

lemma draining_in_time:
  assumes "life_run cfg site l0 l" "lf_phase l0 = Listening" "lf_phase l = Draining d"
  shows "lf_now l \<le> d"
  using assms
proof (induction arbitrary: d rule: life_run.induct)
  case (Step l l')
  from Step.hyps(2) Step.prems(2) consider "lf_phase l = Draining d" | "lf_now l' \<le> d"
    by (cases rule: life_step.cases) auto
  then show ?case
    using Step draining_step(1) by cases blast+
qed simp

text \<open>Nobody new is let in while draining.\<close>

lemma draining_accepts_none:
  assumes "life_run cfg site l0 l" "lf_phase l0 = Draining d" "lf_now l0 \<le> d"
  shows "size (lf_conns l) \<le> size (lf_conns l0)"
  using assms
proof (induction rule: life_run.induct)
  case (Step l l')
  have "size (lf_conns l') \<le> size (lf_conns l)"
    using Step.hyps(2) drained_run [OF Step.hyps(1) Step.prems]
    by (cases rule: life_step.cases) (auto dest!: multi_member_split)
  with Step.IH [OF Step.prems] show ?case by simp
qed simp

lemma no_endless_draining:
  assumes "lf_phase (f 0) = Draining d" "lf_now (f 0) \<le> d"
    and "\<And>i. life_step cfg site (f i) (f (Suc i)) \<and> f (Suc i) \<noteq> f i"
  shows False
proof -
  have run: "life_run cfg site (f 0) (f i)" for i
    by (induction i) (use assms(3) in \<open>auto intro: life_run.intros\<close>)
  have dec: "work_left (f (Suc i)) < work_left (f i)" for i
  proof -
    have "still_running (f i)" by (rule exited_stops) (use assms(3) in blast)
    then have "lf_phase (f i) = Draining d \<and> lf_now (f i) \<le> d"
      using drained_run [OF run assms(1,2), of i] by auto
    with draining_works [of cfg site "f i" "f (Suc i)" d] assms(3) show ?thesis by auto
  qed
  have "work_left (f i) + i \<le> work_left (f 0)" for i
  proof (induction i)
    case (Suc i)
    with dec [of i] show ?case by simp
  qed simp
  from this [of "Suc (work_left (f 0))"] show False by simp
qed

text \<open>One request on one connection.\<close>

definition serving_one :: "Settings \<Rightarrow> request \<Rightarrow> life" where
  "serving_one cfg r = (life_start cfg 0)\<lparr>lf_conns := {#Active_conn r#}, lf_events := entering r\<rparr>"

lemma serving_one_run: "life_run cfg site (life_start cfg 0) (serving_one cfg r)"
proof -
  let ?l = "\<lambda>c. (life_start cfg 0)\<lparr>lf_conns := {#c#}\<rparr>"
  have "life_step cfg site (life_start cfg 0) (?l (New_conn 0))"
    using life_step.Accept [of "life_start cfg 0" cfg site] by (simp add: life_start_def)
  moreover have "life_step cfg site (?l (New_conn 0)) (?l (Head_conn 0))"
    using life_step.First_byte [of "?l (New_conn 0)" 0 cfg site] by (simp add: life_start_def)
  moreover have "life_step cfg site (?l (Head_conn 0)) (serving_one cfg r)"
    using life_step.Request [of "?l (Head_conn 0)" 0 cfg site r] by (simp add: life_start_def serving_one_def)
  ultimately show ?thesis by (meson life_run.intros)
qed

end
