(* ===== verification/Collectors.thy ===== *)
theory Collectors
  imports Routing Watcher
begin

text \<open>
  The collectors \<^verbatim>\<open>pkg/metrics/metrics.go\<close> registers when the package is imported, and the
  time series the rest of the program records on them. What Prometheus documents is taken
  for what it does: registering panics on an invalid or repeated name and on buckets that
  do not increase, recording panics on label values that are not as many as the collector
  declares or are not UTF-8, and a counter panics when it is given a negative amount. The
  help texts are left out.
\<close>

subsection \<open>Declarations\<close>

datatype buckets = DefBuckets | Buckets "rat list"

datatype collector_kind = Counter | Gauge | Histogram buckets

record collector =
  co_name :: string
  co_kind :: collector_kind
  co_labels :: "string list"

definition byteSizeBuckets :: "rat list" where
  "byteSizeBuckets = map of_int
     [push_bit 10 1, push_bit 10 10, push_bit 10 100, push_bit 20 1, push_bit 20 10, push_bit 20 100, push_bit 30 1]"

definition BytesReceived_vec :: collector where
  "BytesReceived_vec = \<lparr>co_name = ''s3proxy_bytes_received_total'', co_kind = Counter,
     co_labels = [''method'', ''endpoint'']\<rparr>"

definition BytesSent_vec :: collector where
  "BytesSent_vec = \<lparr>co_name = ''s3proxy_bytes_sent_total'', co_kind = Counter,
     co_labels = [''method'', ''endpoint'']\<rparr>"

definition RequestSize_vec :: collector where
  "RequestSize_vec = \<lparr>co_name = ''s3proxy_request_size_bytes'', co_kind = Histogram (Buckets byteSizeBuckets),
     co_labels = [''method'', ''endpoint'']\<rparr>"

definition ResponseSize_vec :: collector where
  "ResponseSize_vec = \<lparr>co_name = ''s3proxy_response_size_bytes'', co_kind = Histogram (Buckets byteSizeBuckets),
     co_labels = [''method'', ''endpoint'']\<rparr>"

definition HTTPRequests_vec :: collector where
  "HTTPRequests_vec = \<lparr>co_name = ''s3proxy_http_requests_total'', co_kind = Counter,
     co_labels = [''method'', ''endpoint'', ''status_code'']\<rparr>"

definition HTTPRequestDuration_vec :: collector where
  "HTTPRequestDuration_vec = \<lparr>co_name = ''s3proxy_http_request_duration_seconds'', co_kind = Histogram DefBuckets,
     co_labels = [''method'', ''endpoint'']\<rparr>"

definition GCSAPIDuration_vec :: collector where
  "GCSAPIDuration_vec = \<lparr>co_name = ''s3proxy_gcs_api_duration_seconds'', co_kind = Histogram DefBuckets,
     co_labels = [''operation'']\<rparr>"

definition GCSErrors_vec :: collector where
  "GCSErrors_vec = \<lparr>co_name = ''s3proxy_gcs_errors_total'', co_kind = Counter,
     co_labels = [''operation'', ''status_class'']\<rparr>"

definition InFlight_vec :: collector where
  "InFlight_vec = \<lparr>co_name = ''s3proxy_in_flight_requests'', co_kind = Gauge, co_labels = [''endpoint'']\<rparr>"

definition ResignDuration :: collector where
  "ResignDuration = \<lparr>co_name = ''s3proxy_resign_duration_seconds'',
     co_kind = Histogram (Buckets [1/100000, 5/100000, 1/10000, 5/10000, 1/1000, 5/1000, 1/100, 5/100]),
     co_labels = []\<rparr>"

definition FeatureDisabled_vec :: collector where
  "FeatureDisabled_vec = \<lparr>co_name = ''s3proxy_feature_disabled_rejections_total'', co_kind = Counter,
     co_labels = [''feature'']\<rparr>"

definition HMACLookups_vec :: collector where
  "HMACLookups_vec = \<lparr>co_name = ''s3proxy_hmac_credential_lookups_total'', co_kind = Counter,
     co_labels = [''result'']\<rparr>"

definition HMACLoaded :: collector where
  "HMACLoaded = \<lparr>co_name = ''s3proxy_hmac_credentials_loaded'', co_kind = Gauge, co_labels = []\<rparr>"

definition HMACReload_vec :: collector where
  "HMACReload_vec = \<lparr>co_name = ''s3proxy_hmac_credentials_reload_total'', co_kind = Counter,
     co_labels = [''result'']\<rparr>"

definition collectors :: "collector list" where
  "collectors = [BytesReceived_vec, BytesSent_vec, RequestSize_vec, ResponseSize_vec, HTTPRequests_vec,
     HTTPRequestDuration_vec, GCSAPIDuration_vec, GCSErrors_vec, InFlight_vec, ResignDuration,
     FeatureDisabled_vec, HMACLookups_vec, HMACLoaded, HMACReload_vec]"

lemmas collector_defs = BytesReceived_vec_def BytesSent_vec_def RequestSize_vec_def ResponseSize_vec_def
  HTTPRequests_vec_def HTTPRequestDuration_vec_def GCSAPIDuration_vec_def GCSErrors_vec_def
  InFlight_vec_def ResignDuration_def FeatureDisabled_vec_def HMACLookups_vec_def HMACLoaded_def
  HMACReload_vec_def

subsection \<open>Registering\<close>

definition name_char :: "char \<Rightarrow> bool" where
  "name_char c \<longleftrightarrow> 97 \<le> byte_of c \<and> byte_of c \<le> 122 \<or> 65 \<le> byte_of c \<and> byte_of c \<le> 90
     \<or> 48 \<le> byte_of c \<and> byte_of c \<le> 57 \<or> c = CHR ''_''"

definition valid_name :: "string \<Rightarrow> bool" where
  "valid_name s \<longleftrightarrow> s \<noteq> [] \<and> \<not> (48 \<le> byte_of (hd s) \<and> byte_of (hd s) \<le> 57) \<and> list_all name_char s"

fun kind_ok :: "collector_kind \<Rightarrow> string list \<Rightarrow> bool" where
  "kind_ok (Histogram (Buckets bs)) labels \<longleftrightarrow> sorted_wrt (<) bs \<and> ''le'' \<notin> set labels"
| "kind_ok (Histogram DefBuckets) labels \<longleftrightarrow> ''le'' \<notin> set labels"
| "kind_ok _ _ \<longleftrightarrow> True"

definition registers :: "collector list \<Rightarrow> bool" where
  "registers cs \<longleftrightarrow> distinct (map co_name cs)
     \<and> list_all (\<lambda>c. valid_name (co_name c) \<and> list_all valid_name (co_labels c) \<and> distinct (co_labels c)
          \<and> kind_ok (co_kind c) (co_labels c)) cs"

subsection \<open>Recording\<close>

text \<open>
  The collector, the label values and the amount of each call, by the place that makes it.
  The amount is what a counter is increased by (\<^verbatim>\<open>Inc\<close> is 1); what a gauge or a histogram is
  given does not matter.
\<close>

type_synonym series = "collector \<times> string list \<times> int option"

fun event_series :: "metric_event \<Rightarrow> series" where
  "event_series (InFlightInc e) = (InFlight_vec, [e], None)"
| "event_series (InFlightDec e) = (InFlight_vec, [e], None)"
| "event_series (BytesReceived m e n) = (BytesReceived_vec, [m, e], Some n)"
| "event_series (BytesSent m e n) = (BytesSent_vec, [m, e], Some n)"
| "event_series (RequestSize m e n) = (RequestSize_vec, [m, e], None)"
| "event_series (ResponseSize m e n) = (ResponseSize_vec, [m, e], None)"
| "event_series (HTTPRequests m e s) = (HTTPRequests_vec, [m, e, s], Some 1)"
| "event_series (HTTPRequestDuration m e) = (HTTPRequestDuration_vec, [m, e], None)"
| "event_series (EndpointErrors e c) = (GCSErrors_vec, [e, c], Some 1)"

fun metric_series :: "metric \<Rightarrow> series" where
  "metric_series (FeatureDisabledRejections f) = (FeatureDisabled_vec, [f], Some 1)"
| "metric_series (HMACCredentialLookups res) = (HMACLookups_vec, [res], Some 1)"
| "metric_series (GCSAPIDurationSeconds op) = (GCSAPIDuration_vec, [op], None)"
| "metric_series (GCSErrorsTotal op c) = (GCSErrors_vec, [op, c], Some 1)"

declare event_series.simps [simp del] metric_series.simps [simp del]

text \<open>A reload of the credential file, by its error, if any.\<close>

definition reload_series :: "cred_error option \<Rightarrow> series" where
  "reload_series e = (HMACReload_vec, [if e = None then ''success'' else ''error''], Some 1)"

text \<open>The size of the store, set at the start and after a reload, and the time a signature took.\<close>

definition loaded_series :: series where
  "loaded_series = (HMACLoaded, [], None)"

definition resign_series :: series where
  "resign_series = (ResignDuration, [], None)"

text \<open>\<^verbatim>\<open>WithLabelValues\<close> accepts the values. Of UTF-8 only ASCII arises.\<close>

definition ascii :: "string \<Rightarrow> bool" where
  "ascii s \<longleftrightarrow> list_all (\<lambda>c. byte_of c < 128) s"

definition accepts :: "collector \<Rightarrow> string list \<Rightarrow> bool" where
  "accepts c vs \<longleftrightarrow> length vs = length (co_labels c) \<and> list_all ascii vs"

text \<open>The values a label takes, where they are fixed: \<open>None\<close> for the method and the status.\<close>

definition gcs_operations :: "string list" where
  "gcs_operations = [''PutBucketLifecycle'', ''GetBucketLifecycle'', ''DeleteBucketLifecycle'', ''PutBucketCors'',
     ''GetBucketCors'', ''DeleteBucketCors'', ''PutBucketLogging'', ''GetBucketLogging'', ''DeleteBucketLogging'',
     ''PutBucketWebsite'', ''GetBucketWebsite'', ''DeleteBucketWebsite'', ''GetObjectAttrs_Tagging'',
     ''PutObjectTagging'', ''GetObjectAttrs_GetTagging'', ''GetObjectAttrs_DeleteTagging'',
     ''DeleteObjectTagging'', ''RestoreObject_HeadProbe'']"

definition error_classes :: "string list" where
  "error_classes = [''4xx'', ''5xx'', ''429'', ''network'', ''cancelled'', ''timeout'']"

definition feature_names :: "string list" where
  "feature_names = gate_features @ [''health_endpoint'', ''readyz_endpoint'', ''metrics_endpoint'']"

definition lookup_results :: "string list" where
  "lookup_results = [''hit'', ''miss'', ''no_auth'', ''disabled'']"

definition label_values :: "string \<Rightarrow> string list option" where
  "label_values label = map_of
     [(''endpoint'', endpoint_labels), (''operation'', endpoint_labels @ gcs_operations),
      (''status_class'', error_classes), (''feature'', feature_names),
      (''result'', lookup_results @ [''success'', ''error''])] label"

definition bounded :: "collector \<Rightarrow> string list \<Rightarrow> bool" where
  "bounded c vs \<longleftrightarrow>
     list_all (\<lambda>(label, v). case label_values label of None \<Rightarrow> True | Some xs \<Rightarrow> v \<in> set xs) (zip (co_labels c) vs)"

text \<open>\<^verbatim>\<open>Counter.Add\<close> panics on a negative amount; only counters are increased this way.\<close>

definition takes_amount :: "collector \<Rightarrow> int option \<Rightarrow> bool" where
  "takes_amount c amount \<longleftrightarrow>
     (case amount of Some n \<Rightarrow> co_kind c = Counter \<and> 0 \<le> n | None \<Rightarrow> co_kind c \<noteq> Counter)"

text \<open>A call that is recorded without a panic, with label values out of the fixed sets.\<close>

fun declared :: "series \<Rightarrow> bool" where
  "declared (c, vs, amount) \<longleftrightarrow> c \<in> set collectors \<and> accepts c vs \<and> takes_amount c amount \<and> bounded c vs"

lemmas declared_defs = collectors_def accepts_def takes_amount_def bounded_def label_values_def

text \<open>The fixed values are all ASCII.\<close>

lemma fixed_ascii:
  "list_all ascii endpoint_labels" "list_all ascii gcs_operations" "list_all ascii error_classes"
  "list_all ascii feature_names" "list_all ascii lookup_results"
  by code_simp+

lemma fixed_value_ascii:
  "e \<in> set endpoint_labels \<Longrightarrow> ascii e" "e \<in> set gcs_operations \<Longrightarrow> ascii e" "e \<in> set error_classes \<Longrightarrow> ascii e"
  "e \<in> set feature_names \<Longrightarrow> ascii e" "e \<in> set lookup_results \<Longrightarrow> ascii e"
  using fixed_ascii by (auto simp: list_all_iff)

lemma ascii_show_nat: "ascii (show_nat n)"
proof (induction n rule: show_nat.induct)
  case (1 n)
  have digit: "(of_char (digit_char m) :: nat) < 128" if "m < 10" for m
    using that by (simp add: digit_char_def)
  from 1 show ?case
    by (subst show_nat.simps) (simp add: ascii_def digit)
qed

lemma ascii_show_int: "ascii (show_int i)"
  using ascii_show_nat by (simp add: show_int_def ascii_def)

lemma classify_range: "ClassifyGCSError c \<noteq> [] \<Longrightarrow> ClassifyGCSError c \<in> set error_classes"
  by (auto simp: ClassifyGCSError_def error_classes_def)

lemma sdk_class_range: "classifyGCSSDKError e \<in> set error_classes"
  by (auto simp: classifyGCSSDKError_def Let_def ClassifyGCSError_def error_classes_def split: option.splits)


subsection \<open>What the metrics middleware records\<close>

lemma declared_event:
  assumes "ascii m" "e \<in> set endpoint_labels"
  shows "declared (event_series (InFlightInc e))" "declared (event_series (InFlightDec e))"
    "0 \<le> n \<Longrightarrow> declared (event_series (BytesReceived m e n))"
    "0 \<le> n \<Longrightarrow> declared (event_series (BytesSent m e n))"
    "declared (event_series (RequestSize m e n))" "declared (event_series (ResponseSize m e n))"
    "declared (event_series (HTTPRequestDuration m e))"
    "declared (event_series (HTTPRequests m e (show_int i)))"
    "c \<in> set error_classes \<Longrightarrow> declared (event_series (EndpointErrors e c))"
  using assms fixed_value_ascii
  by (simp_all add: declared_defs InFlight_vec_def BytesReceived_vec_def BytesSent_vec_def RequestSize_vec_def
      ResponseSize_vec_def HTTPRequestDuration_vec_def HTTPRequests_vec_def GCSErrors_vec_def ascii_show_int event_series.simps)

text \<open>The counting writer only counts up.\<close>

lemma cw_bytes_counted: "0 \<le> cw_bytes (counting.do_ops ops (cw_wrap w))"
proof -
  have "cw_bytes v \<le> cw_bytes (cw_op x v)" for x v
    by (cases x) (simp_all add: cw_defs)
  then have "cw_bytes v \<le> cw_bytes (counting.do_ops ops v)" for v
    by (induction ops arbitrary: v) (auto intro: order_trans)
  from this [of "cw_wrap w"] show ?thesis by (simp add: cw_wrap_def)
qed

lemma middleware_series:
  assumes "ascii (req_method r)"
  shows "list_all (\<lambda>ev. declared (event_series ev)) (sv_events (middleware_stack cfg sk start duration h r))"
  using declared_event [OF assms classifyEndpoint_range] classify_range cw_bytes_counted
  by (simp add: middleware_stack_def WithMetrics_def after_request_def Let_def case_prod_beta)

subsection \<open>What the handlers record\<close>

definition series_ok :: "'s world \<Rightarrow> bool" where
  "series_ok w \<longleftrightarrow> list_all (\<lambda>m. declared (metric_series m)) (w_metrics w)"

lemma declared_metric:
  "f \<in> set feature_names \<Longrightarrow> declared (metric_series (FeatureDisabledRejections f))"
  "res \<in> set lookup_results \<Longrightarrow> declared (metric_series (HMACCredentialLookups res))"
  "op \<in> set gcs_operations \<Longrightarrow> declared (metric_series (GCSAPIDurationSeconds op))"
  "op \<in> set gcs_operations \<Longrightarrow> c \<in> set error_classes \<Longrightarrow> declared (metric_series (GCSErrorsTotal op c))"
  using fixed_value_ascii
  by (simp_all add: declared_defs FeatureDisabled_vec_def HMACLookups_vec_def GCSAPIDuration_vec_def
      GCSErrors_vec_def metric_series.simps)

lemma declared_reload: "declared (reload_series e)" "declared loaded_series" "declared resign_series"
  by (simp_all add: declared_defs reload_series_def loaded_series_def resign_series_def HMACReload_vec_def
      HMACLoaded_def ResignDuration_def ascii_def)

lemma series_simps [simp]:
  "series_ok (writeS3Error c k m w) = series_ok w" "series_ok (send_status c w) = series_ok w"
  "series_ok (send_xml x w) = series_ok w" "series_ok (respond ops w) = series_ok w"
  "series_ok (count_metric m' w) \<longleftrightarrow> series_ok w \<and> declared (metric_series m')"
  "series_ok (w\<lparr>w_gcs := s\<rparr>) = series_ok w" "series_ok (start_world s)"
  by (auto simp: series_ok_def start_world_def)

lemma series_call:
  assumes "series_ok w" "op \<in> set gcs_operations"
    and "\<And>e w'. series_ok w' \<Longrightarrow> series_ok (err e w')" "\<And>a w'. series_ok w' \<Longrightarrow> series_ok (ok a w')"
  shows "series_ok (on_result (timeGCSCall px op fn w) err ok)"
proof (rule on_result_cases)
  fix e w' assume "timeGCSCall px op fn w = (Inl e, w')"
  then have "series_ok w'" using assms(1,2) declared_metric sdk_class_range
    by (auto simp: timeGCSCall_def Let_def split: prod.splits sum.splits)
  then show "series_ok (err e w')" by (rule assms(3))
next
  fix a w' assume "timeGCSCall px op fn w = (Inr a, w')"
  then have "series_ok w'" using assms(1,2) declared_metric
    by (auto simp: timeGCSCall_def Let_def split: prod.splits sum.splits)
  then show "series_ok (ok a w')" by (rule assms(4))
qed

lemmas series_rules =
  decoding_rule [where Q = series_ok] bucket_rule [where Q = series_ok] object_rule [where Q = series_ok] series_call

lemma handlers_series:
  assumes "series_ok w"
  shows "series_ok (handlePutLifecycle px r w)" "series_ok (handleGetLifecycle px r w)"
    "series_ok (handleDeleteLifecycle px r w)"
    "series_ok (handlePutCORS px r w)" "series_ok (handleGetCORS px r w)" "series_ok (handleDeleteCORS px r w)"
    "series_ok (handlePutLogging px r w)" "series_ok (handleGetLogging px r w)"
    "series_ok (handleDeleteLogging px r w)"
    "series_ok (handlePutWebsite px r w)" "series_ok (handleGetWebsite px r w)"
    "series_ok (handleDeleteWebsite px r w)"
    "series_ok (handlePutObjectTagging px r w)" "series_ok (handleGetObjectTagging px r w)"
    "series_ok (handleDeleteObjectTagging px r w)" "series_ok (handleRestoreObject px r w)"
  using assms unfolding all_handler_defs no_such_key_def
  by (auto intro!: series_rules simp: Let_def gcs_operations_def split: sum.splits prod.splits option.splits)

lemma gate_series:
  "series_ok w \<Longrightarrow> (case credential_gate sr r w of Inl w' \<Rightarrow> series_ok w' | Inr (_, w') \<Rightarrow> series_ok w')"
  using declared_metric(2) [of "''hit''"] declared_metric(2) [of "''miss''"] declared_metric(2) [of "''no_auth''"]
    declared_metric(2) [of "''disabled''"]
  by (cases rule: gate_cases [of sr r w]) (auto simp: lookup_results_def)

lemma stages_series: "list_all (stage_ok series_ok series_ok) (stages px r)"
  by (rule stages_ok) (auto intro: handlers_series declared_metric(1) simp: feature_names_def)

lemma handleS3Request_series:
  assumes "series_ok w"
  shows "case handleS3Request px sr r w of Answered w' \<Rightarrow> series_ok w' | Forwarded _ _ w' \<Rightarrow> series_ok w'"
proof (cases "credential_gate sr r w")
  case (Inl w')
  then show ?thesis using gate_series [OF assms, of sr r] by (simp add: handleS3Request_def)
next
  case (Inr p)
  obtain r' w' where p: "p = (r', w')" by fastforce
  with Inr gate_series [OF assms, of sr r] have "series_ok w'" by simp
  from run_stages_ok [OF stages_series this, of px r'] Inr p show ?thesis
    by (cases "run_stages (stages px r') w'") (simp_all add: handleS3Request_def)
qed

lemma health_series: "series_ok w \<Longrightarrow> series_ok (handleHealth px w)"
  and readyz_series: "series_ok w \<Longrightarrow> series_ok (handleReadyz px w)"
  and metrics_page_series: "list_all (\<lambda>m. declared (metric_series m)) (snd (metrics_page site s))"
proof -
  have off: "declared (metric_series (FeatureDisabledRejections f))"
    if "f \<in> {''health_endpoint'', ''readyz_endpoint'', ''metrics_endpoint''}" for f
    by (rule declared_metric) (use that in \<open>auto simp: feature_names_def\<close>)
  show "series_ok w \<Longrightarrow> series_ok (handleHealth px w)"
    by (simp add: handleHealth_def featureDisabled404_def send_text_def off)
  show "series_ok w \<Longrightarrow> series_ok (handleReadyz px w)"
    by (simp add: handleReadyz_def readyz_probe_def featureDisabled404_def send_text_def off split: prod.splits sum.splits)
  show "list_all (\<lambda>m. declared (metric_series m)) (snd (metrics_page site s))"
    by (simp add: metrics_page_def featureDisabled404_def off Let_def start_world_def)
qed

lemma router_series: "router_run site sr r s = (run, ms, s') \<Longrightarrow> list_all (\<lambda>m. declared (metric_series m)) ms"
  using handleS3Request_series [of "start_world s" "si_px site" sr r]
    health_series [of "start_world s" "si_px site"] readyz_series [of "start_world s" "si_px site"]
  by (auto simp: router_run_def s3_run_def world_run_def forward_def series_ok_def Let_def case_prod_beta
      split: sum.splits endpoint.splits outcome.splits)

text \<open>What one request records, on either path.\<close>

definition recorded :: "answer \<Rightarrow> metric list \<Rightarrow> series list" where
  "recorded a ms = (case a of Served sv \<Rightarrow> map event_series (sv_events sv) | _ \<Rightarrow> []) @ map metric_series ms"

lemma serve_series:
  assumes "serve site sr start duration r s = (a, ms, s')" "ascii (req_method r)"
  shows "list_all declared (recorded a ms)"
proof -
  have "list_all (\<lambda>m. declared (metric_series m)) ms"
    using assms(1) router_series metrics_page_series [of site s]
    by (auto simp: serve_def Let_def split: mux_target.splits prod.splits if_splits)
  moreover have "list_all (\<lambda>ev. declared (event_series ev)) (sv_events sv)" if "a = Served sv" for sv
    using assms(1) that middleware_series [OF assms(2)]
    by (auto simp: serve_def Let_def split: mux_target.splits prod.splits if_splits)
  ultimately show ?thesis
    by (auto simp: recorded_def list_all_iff split: answer.splits)
qed

end
