(* ===== verification/Body_Reader.thy ===== *)
theory Body_Reader
  imports Handler_Base
begin

text \<open>
  How a control-plane document is read: \<^verbatim>\<open>io.ReadAll\<close> through the cap of
  \<^verbatim>\<open>http.MaxBytesReader\<close>, through the counting reader of \<^verbatim>\<open>pkg/metrics/metrics.go\<close>, from a
  connection that hands out the body in pieces. The rest of the development uses
  \<open>read_capped\<close>, which looks at the whole body; both give the same.
\<close>

subsection \<open>Readers\<close>

text \<open>
  A body arrives in pieces (an empty one is a read of nothing), and ends or breaks off. An
  eager reader reports the end with the last piece.
\<close>

datatype read_end = EOF | Broken | Too_large

record source =
  so_chunks :: "bytes list"
  so_fails :: bool
  so_eager :: bool

definition source_end :: "source \<Rightarrow> read_end" where
  "source_end s = (if so_fails s then Broken else EOF)"

text \<open>A read into a buffer of \<open>n\<close> bytes.\<close>

definition source_read :: "nat \<Rightarrow> source \<Rightarrow> bytes \<times> read_end option \<times> source" where
  "source_read n s =
     (case so_chunks s of
        [] \<Rightarrow> ([], Some (source_end s), s)
      | c # cs \<Rightarrow>
          if length c \<le> n
          then (c, if so_eager s \<and> cs = [] then Some (source_end s) else None, s\<lparr>so_chunks := cs\<rparr>)
          else (take n c, None, s\<lparr>so_chunks := drop n c # cs\<rparr>))"

text \<open>The reader \<^verbatim>\<open>WithMetrics\<close> puts in the place of the request's body.\<close>

record countingReadCloser =
  cr_rc :: source
  cr_count :: int

definition counting_read :: "nat \<Rightarrow> countingReadCloser \<Rightarrow> bytes \<times> read_end option \<times> countingReadCloser" where
  "counting_read n c =
     (let (b, e, s) = source_read n (cr_rc c) in
      (b, e, c\<lparr>cr_rc := s, cr_count := (if 0 < length b then cr_count c + int (length b) else cr_count c)\<rparr>))"

record capped_reader =
  ca_rc :: countingReadCloser
  ca_left :: nat
  ca_err :: "read_end option"

definition MaxBytesReader :: "countingReadCloser \<Rightarrow> nat \<Rightarrow> capped_reader" where
  "MaxBytesReader c n = \<lparr>ca_rc = c, ca_left = n, ca_err = None\<rparr>"

definition capped_read :: "nat \<Rightarrow> capped_reader \<Rightarrow> bytes \<times> read_end option \<times> capped_reader" where
  "capped_read n c =
     (case ca_err c of
        Some e \<Rightarrow> ([], Some e, c)
      | None \<Rightarrow>
          if n = 0 then ([], None, c)
          else let m = (if ca_left c < n - 1 then ca_left c + 1 else n);
                   (b, e, i) = counting_read m (ca_rc c)
          in if length b \<le> ca_left c
             then (b, e, \<lparr>ca_rc = i, ca_left = ca_left c - length b, ca_err = e\<rparr>)
             else (take (ca_left c) b, Some Too_large, \<lparr>ca_rc = i, ca_left = 0, ca_err = Some Too_large\<rparr>))"

subsection \<open>Reading everything\<close>

text \<open>How much is left to be handed out; every read makes it less, or is the last one.\<close>

definition source_size :: "source \<Rightarrow> nat" where
  "source_size s = sum_list (map (\<lambda>c. Suc (length c)) (so_chunks s))"

lemma source_read_progress:
  "0 < n \<Longrightarrow> source_read n s = (b, None, s') \<Longrightarrow> source_size s' < source_size s"
  by (auto simp: source_read_def source_size_def split: list.splits if_splits)

lemma capped_read_progress:
  "0 < n \<Longrightarrow> capped_read n c = (b, None, c') \<Longrightarrow> source_size (cr_rc (ca_rc c')) < source_size (cr_rc (ca_rc c))"
  by (auto simp: capped_read_def counting_read_def Let_def split: option.splits if_splits prod.splits
      intro: source_read_progress)

text \<open>
  \<^verbatim>\<open>io.ReadAll\<close>: its \<open>k\<close>-th read has \<open>Suc (room k)\<close> bytes of its buffer free.
\<close>

function ReadAll :: "(nat \<Rightarrow> nat) \<Rightarrow> nat \<Rightarrow> bytes \<Rightarrow> capped_reader \<Rightarrow> bytes \<times> read_end \<times> capped_reader" where
  "ReadAll room k buf c =
     (case capped_read (Suc (room k)) c of
        (b, Some e, c') \<Rightarrow> (buf @ b, e, c')
      | (b, None, c') \<Rightarrow> ReadAll room (Suc k) (buf @ b) c')"
  by pat_completeness auto
termination
  by (relation "measure (\<lambda>(room, k, buf, c). source_size (cr_rc (ca_rc c)))")
    (simp_all, metis capped_read_progress zero_less_Suc)

declare ReadAll.simps [simp del]

definition control_body :: "(nat \<Rightarrow> nat) \<Rightarrow> countingReadCloser \<Rightarrow> body_result \<times> countingReadCloser" where
  "control_body room c =
     (case ReadAll room 0 [] (MaxBytesReader c maxControlPlaneBodySize) of
        (b, e, c') \<Rightarrow>
          (case e of EOF \<Rightarrow> BodyOk b | Too_large \<Rightarrow> BodyTooBig | Broken \<Rightarrow> BodyFailed, ca_rc c'))"

subsection \<open>However the body arrives\<close>

definition source_rest :: "source \<Rightarrow> bytes" where
  "source_rest s = concat (so_chunks s)"

lemma source_read_parts:
  assumes "source_read n s = (b, e, s')"
  shows "source_rest s = b @ source_rest s'" "so_fails s' = so_fails s" "length b \<le> n"
    "e \<noteq> None \<Longrightarrow> source_rest s' = [] \<and> e = Some (source_end s)"
  using assms
  by (auto simp: source_read_def source_rest_def source_end_def split: list.splits if_splits)

lemma ReadAll_result:
  assumes "ca_err c = None"
  defines "rest \<equiv> source_rest (cr_rc (ca_rc c))"
  shows "case ReadAll room k buf c of (b, e, c') \<Rightarrow>
    (if ca_left c < length rest
     then e = Too_large \<and> cr_count (ca_rc c') = cr_count (ca_rc c) + int (Suc (ca_left c))
     else b = buf @ rest \<and> e = source_end (cr_rc (ca_rc c))
       \<and> cr_count (ca_rc c') = cr_count (ca_rc c) + int (length rest))"
  using assms(1) unfolding rest_def
proof (induction room k buf c rule: ReadAll.induct)
  case (1 room k buf c)
  define m where "m = (if ca_left c < room k then ca_left c + 1 else Suc (room k))"
  obtain b e s' where sr: "source_read m (cr_rc (ca_rc c)) = (b, e, s')" by (metis prod_cases3)
  note parts = source_read_parts [OF sr]
  let ?i = "(ca_rc c)\<lparr>cr_rc := s', cr_count := cr_count (ca_rc c) + int (length b)\<rparr>"
  have ci: "counting_read m (ca_rc c) = (b, e, ?i)"
    by (simp add: counting_read_def sr)
  show ?case
  proof (cases "length b \<le> ca_left c")
    case small: True
    let ?c = "\<lparr>ca_rc = ?i, ca_left = ca_left c - length b, ca_err = e\<rparr>"
    have cr: "capped_read (Suc (room k)) c = (b, e, ?c)"
      using 1(2) small ci by (simp add: capped_read_def m_def [symmetric] Let_def)
    show ?thesis
    proof (cases e)
      case None
      obtain b' e' c' where ra: "ReadAll room (Suc k) (buf @ b) (?c\<lparr>ca_err := None\<rparr>) = (b', e', c')"
        by (metis prod_cases3)
      have "ReadAll room k buf c = (b', e', c')"
        using None ra by (subst ReadAll.simps) (simp add: cr)
      moreover have "if ca_left c - length b < length (source_rest s')
         then e' = Too_large \<and> cr_count (ca_rc c') = cr_count ?i + int (Suc (ca_left c - length b))
         else b' = (buf @ b) @ source_rest s' \<and> e' = source_end s'
           \<and> cr_count (ca_rc c') = cr_count ?i + int (length (source_rest s'))"
        using 1(1) [OF cr [symmetric] refl None] None ra by simp
      ultimately show ?thesis
        using small parts(1,2) by (auto simp: source_end_def split: if_splits)
    next
      case (Some x)
      with parts have "source_rest (cr_rc (ca_rc c)) = b" "x = source_end (cr_rc (ca_rc c))" by auto
      with Some small show ?thesis by (subst ReadAll.simps) (simp add: cr)
    qed
  next
    case False
    then have b: "length b = Suc (ca_left c)" using parts(3) by (auto simp: m_def split: if_splits)
    have cr: "capped_read (Suc (room k)) c =
        (take (ca_left c) b, Some Too_large, \<lparr>ca_rc = ?i, ca_left = 0, ca_err = Some Too_large\<rparr>)"
      using 1(2) False ci by (simp add: capped_read_def m_def [symmetric] Let_def)
    with b parts(1) show ?thesis by (subst ReadAll.simps) simp
  qed
qed


text \<open>So the pieces and the buffers make no difference, and the count is what was taken.\<close>

lemma control_body_reads:
  "control_body room \<lparr>cr_rc = s, cr_count = n\<rparr> =
     (read_capped (Some \<lparr>body_bytes = source_rest s, body_fails = so_fails s\<rparr>),
      snd (control_body room \<lparr>cr_rc = s, cr_count = n\<rparr>))"
  "cr_count (snd (control_body room \<lparr>cr_rc = s, cr_count = n\<rparr>)) =
     n + int (min (length (source_rest s)) (Suc maxControlPlaneBodySize))"
  using ReadAll_result [where c = "MaxBytesReader \<lparr>cr_rc = s, cr_count = n\<rparr> maxControlPlaneBodySize"
      and room = room and k = 0 and buf = "[]"]
  by (auto simp: control_body_def MaxBytesReader_def read_capped_def source_end_def Let_def
      split: prod.splits if_splits)

end
