(* ===== verification/Streaming.thy ===== *)
theory Streaming
  imports Start_Up
begin

text \<open>
  How a response body is streamed: the writers the middlewares put around the one of the
  server, with the methods \<^verbatim>\<open>Flush\<close> and \<^verbatim>\<open>Unwrap\<close> they have for it, the copy loop of the
  reverse proxy, and the pool of its buffers.
\<close>

subsection \<open>Writers\<close>

text \<open>
  The server's writer has bytes in its buffer and bytes on the wire. The three wrappers
  carry the status they recorded; \<open>Embedding\<close> is a wrapper that only embeds
  \<^verbatim>\<open>http.ResponseWriter\<close> and so has neither method.
\<close>

datatype writer =
    Server_writer bytes bytes
  | Reqlog_writer int writer
  | Counting_writer int writer
  | Observed_writer int writer
  | Embedding writer

text \<open>What the handlers get: \<^verbatim>\<open>main\<close> adds the request log first.\<close>

definition handler_writer :: "Settings \<Rightarrow> writer" where
  "handler_writer cfg =
     Observed_writer 200 (Counting_writer 200
       (if ReqLogEnabled cfg then Reqlog_writer 200 (Server_writer [] []) else Server_writer [] []))"

fun on_wire :: "writer \<Rightarrow> bytes" where
  "on_wire (Server_writer buf wire) = wire"
| "on_wire (Reqlog_writer c w) = on_wire w"
| "on_wire (Counting_writer c w) = on_wire w"
| "on_wire (Observed_writer c w) = on_wire w"
| "on_wire (Embedding w) = on_wire w"

fun buffered :: "writer \<Rightarrow> bytes" where
  "buffered (Server_writer buf wire) = buf"
| "buffered (Reqlog_writer c w) = buffered w"
| "buffered (Counting_writer c w) = buffered w"
| "buffered (Observed_writer c w) = buffered w"
| "buffered (Embedding w) = buffered w"

fun writer_write :: "bytes \<Rightarrow> writer \<Rightarrow> writer" where
  "writer_write b (Server_writer buf wire) = Server_writer (buf @ b) wire"
| "writer_write b (Reqlog_writer c w) = Reqlog_writer c (writer_write b w)"
| "writer_write b (Counting_writer c w) = Counting_writer c (writer_write b w)"
| "writer_write b (Observed_writer c w) = Observed_writer c (writer_write b w)"
| "writer_write b (Embedding w) = Embedding (writer_write b w)"

text \<open>The type assertion \<^verbatim>\<open>w.(http.Flusher)\<close>, and the three methods \<^verbatim>\<open>Flush\<close>.\<close>

fun is_flusher :: "writer \<Rightarrow> bool" where
  "is_flusher (Embedding w) = False"
| "is_flusher w = True"

fun Flush :: "writer \<Rightarrow> writer" where
  "Flush (Server_writer buf wire) = Server_writer [] (wire @ buf)"
| "Flush (Reqlog_writer c w) = Reqlog_writer c (if is_flusher w then Flush w else w)"
| "Flush (Counting_writer c w) = Counting_writer c (if is_flusher w then Flush w else w)"
| "Flush (Observed_writer c w) = Observed_writer c (if is_flusher w then Flush w else w)"
| "Flush (Embedding w) = Embedding w"

text \<open>The methods \<^verbatim>\<open>Unwrap\<close>.\<close>

fun Unwrap :: "writer \<Rightarrow> writer option" where
  "Unwrap (Reqlog_writer c w) = Some w"
| "Unwrap (Counting_writer c w) = Some w"
| "Unwrap (Observed_writer c w) = Some w"
| "Unwrap w = None"

lemma Unwrap_smaller: "Unwrap w = Some v \<Longrightarrow> size v < size w"
  by (cases w) auto

text \<open>
  \<^verbatim>\<open>http.ResponseController\<close> looks for a method along the chain of \<^verbatim>\<open>Unwrap\<close>: the writer that
  has it, if any. Only the server's writer can be hijacked.
\<close>

function controller_finds :: "(writer \<Rightarrow> bool) \<Rightarrow> writer \<Rightarrow> writer option" where
  "controller_finds has w =
     (if has w then Some w else (case Unwrap w of None \<Rightarrow> None | Some v \<Rightarrow> controller_finds has v))"
  by pat_completeness auto
termination
  by (relation "measure (\<lambda>(has, w). size w)") (auto dest: Unwrap_smaller)

declare controller_finds.simps [simp del]

fun is_hijacker :: "writer \<Rightarrow> bool" where
  "is_hijacker (Server_writer buf wire) = True"
| "is_hijacker w = False"

text \<open>\<^verbatim>\<open>StatusCode\<close>\<close>

fun StatusCode_of :: "writer \<Rightarrow> int" where
  "StatusCode_of (Counting_writer c w) = c"
| "StatusCode_of w = 0"

subsection \<open>Copying a body\<close>

text \<open>
  The reverse proxy writes what it has read, and flushes at once when the interval is
  negative; the writer that finds itself first on the chain flushes. A positive interval
  flushes later, by a timer, which is left out.
\<close>

definition controller_flush :: "writer \<Rightarrow> writer" where
  "controller_flush w = (if controller_finds is_flusher w = Some w then Flush w else w)"

fun copy_chunks :: "flush \<Rightarrow> bytes list \<Rightarrow> writer \<Rightarrow> writer" where
  "copy_chunks f [] w = w"
| "copy_chunks f (c # cs) w =
     copy_chunks f cs
       (let w1 = writer_write c w in if f = FlushImmediately then controller_flush w1 else w1)"

text \<open>A chain that flushes down to the server.\<close>

fun flushable :: "writer \<Rightarrow> bool" where
  "flushable (Server_writer buf wire) = True"
| "flushable (Reqlog_writer c w) = flushable w"
| "flushable (Counting_writer c w) = flushable w"
| "flushable (Observed_writer c w) = flushable w"
| "flushable (Embedding w) = False"

lemma flushable_flusher: "flushable w \<Longrightarrow> is_flusher w"
  by (cases w) auto

lemma Flush_all: "flushable w \<Longrightarrow> on_wire (Flush w) = on_wire w @ buffered w \<and> buffered (Flush w) = [] \<and> flushable (Flush w)"
  by (induction w) (auto simp: flushable_flusher)

lemma write_all [simp]:
  "on_wire (writer_write b w) = on_wire w" "buffered (writer_write b w) = buffered w @ b"
  "flushable (writer_write b w) = flushable w"
  by (induction w) auto

lemma controller_flush_all: "flushable w \<Longrightarrow> controller_flush w = Flush w"
  using flushable_flusher by (simp add: controller_flush_def controller_finds.simps)

lemma copy_flushed:
  "flushable w \<Longrightarrow> buffered w = [] \<Longrightarrow>
   on_wire (copy_chunks FlushImmediately cs w) = on_wire w @ concat cs
   \<and> buffered (copy_chunks FlushImmediately cs w) = []"
proof (induction cs arbitrary: w)
  case (Cons c cs)
  let ?w = "Flush (writer_write c w)"
  have "on_wire ?w = on_wire w @ c" "buffered ?w = []" "flushable ?w"
    using Flush_all [of "writer_write c w"] Cons.prems by simp_all
  then show ?case using Cons by (simp add: controller_flush_all Let_def)
qed simp

lemma copy_unflushed:
  "f \<noteq> FlushImmediately \<Longrightarrow> on_wire (copy_chunks f cs w) = on_wire w"
  by (induction cs arbitrary: w) simp_all

lemma handler_writer_flushable:
  "flushable (handler_writer cfg)" "buffered (handler_writer cfg) = []" "on_wire (handler_writer cfg) = []"
  by (simp_all add: handler_writer_def)

lemma handler_writer_hijack: "controller_finds is_hijacker (handler_writer cfg) = Some (Server_writer [] [])"
  by (simp add: handler_writer_def controller_finds.simps)

text \<open>One wrapper without the methods, and nothing is flushed.\<close>

lemma embedding_blocks_flush: "on_wire (copy_chunks f cs (Embedding w)) = on_wire w"
proof (induction cs arbitrary: w)
  case (Cons c cs)
  have "controller_finds is_flusher (Embedding v) = None" for v by (simp add: controller_finds.simps)
  with Cons show ?case by (cases "f = FlushImmediately") (simp_all add: controller_flush_def)
qed simp

subsection \<open>The pool of buffers\<close>

text \<open>
  \<^verbatim>\<open>sync.Pool\<close>: the buffers by address with their sizes, those that are free, and those that
  requests hold. The runtime may drop free ones at any time.
\<close>

record pool =
  po_sizes :: "nat list"
  po_free :: "nat set"
  po_held :: "nat \<Rightarrow> nat option"

definition newProxyBufferPool :: pool where
  "newProxyBufferPool = \<lparr>po_sizes = [], po_free = {}, po_held = Map.empty\<rparr>"

inductive pool_step :: "nat \<Rightarrow> pool \<Rightarrow> pool \<Rightarrow> bool" for sz where
  Get_free: "po_held p r = None \<Longrightarrow> a \<in> po_free p \<Longrightarrow>
    pool_step sz p (p\<lparr>po_free := po_free p - {a}, po_held := (po_held p)(r \<mapsto> a)\<rparr>)"
| Get_new: "po_held p r = None \<Longrightarrow>
    pool_step sz p (p\<lparr>po_sizes := po_sizes p @ [sz], po_held := (po_held p)(r \<mapsto> length (po_sizes p))\<rparr>)"
| Put: "po_held p r = Some a \<Longrightarrow>
    pool_step sz p (p\<lparr>po_free := insert a (po_free p), po_held := (po_held p)(r := None)\<rparr>)"
| Drop: "a \<in> po_free p \<Longrightarrow> pool_step sz p (p\<lparr>po_free := po_free p - {a}\<rparr>)"

inductive pool_reachable :: "nat \<Rightarrow> pool \<Rightarrow> bool" for sz where
  Pool_new: "pool_reachable sz newProxyBufferPool"
| Pool_step: "pool_reachable sz p \<Longrightarrow> pool_step sz p p' \<Longrightarrow> pool_reachable sz p'"

definition pool_ok :: "nat \<Rightarrow> pool \<Rightarrow> bool" where
  "pool_ok sz p \<longleftrightarrow> (\<forall>n \<in> set (po_sizes p). n = sz) \<and> (\<forall>a \<in> po_free p. a < length (po_sizes p))
     \<and> (\<forall>r a. po_held p r = Some a \<longrightarrow> a < length (po_sizes p) \<and> a \<notin> po_free p)
     \<and> (\<forall>r r' a. po_held p r = Some a \<longrightarrow> po_held p r' = Some a \<longrightarrow> r' = r)"

lemma pool_step_ok: "pool_step sz p p' \<Longrightarrow> pool_ok sz p \<Longrightarrow> pool_ok sz p'"
  by (erule pool_step.cases) (auto simp: pool_ok_def less_Suc_eq split: if_splits)

lemma pool_reachable_ok: "pool_reachable sz p \<Longrightarrow> pool_ok sz p"
proof (induction rule: pool_reachable.induct)
  case Pool_new
  show ?case by (simp add: pool_ok_def newProxyBufferPool_def)
qed (rule pool_step_ok)

end
