(* ===== verification/Log_Lines.thy ===== *)
theory Log_Lines
  imports Config Go_Http
begin

text \<open>
  Lines of the log, and those the program logs about its configuration when it starts
  (\<^verbatim>\<open>config/settings.go\<close>). The arguments of a format are attributes of the line, without a name.
\<close>

datatype log_level = LDebug | LInfo | LWarn | LError | LPlain

datatype log_value = LStr string | LInt nat | LBool bool | LStrs "string list" | LNum int | LHeader header

record log_line =
  ll_level :: log_level
  ll_msg :: string
  ll_attrs :: "(string \<times> log_value) list"

definition info :: "string \<Rightarrow> (string \<times> log_value) list \<Rightarrow> log_line" where
  "info msg attrs = \<lparr>ll_level = LInfo, ll_msg = msg, ll_attrs = attrs\<rparr>"

definition warn :: "string \<Rightarrow> (string \<times> log_value) list \<Rightarrow> log_line" where
  "warn msg attrs = \<lparr>ll_level = LWarn, ll_msg = msg, ll_attrs = attrs\<rparr>"

definition error :: "string \<Rightarrow> (string \<times> log_value) list \<Rightarrow> log_line" where
  "error msg attrs = \<lparr>ll_level = LError, ll_msg = msg, ll_attrs = attrs\<rparr>"

definition debug :: "string \<Rightarrow> (string \<times> log_value) list \<Rightarrow> log_line" where
  "debug msg attrs = \<lparr>ll_level = LDebug, ll_msg = msg, ll_attrs = attrs\<rparr>"

definition printf :: "string \<Rightarrow> log_value list \<Rightarrow> log_line" where
  "printf msg args = \<lparr>ll_level = LPlain, ll_msg = msg, ll_attrs = map (Pair []) args\<rparr>"

definition em_dash :: string where
  "em_dash = [CHR 0xE2, CHR 0x80, CHR 0x94]"

subsection \<open>Values that are not understood\<close>

text \<open>An integer setting warns of a value that is no number; the log settings do not.\<close>

definition int_warning :: "environ \<Rightarrow> string \<Rightarrow> string \<Rightarrow> log_line list" where
  "int_warning env key dflt =
     (let v = getEnv env key dflt in
      if v \<noteq> [] \<and> parse_int v = None
      then [printf (''WARNING: invalid '' @ key @ '' value %q, using default '' @ dflt) [LStr v]] else [])"

definition flush_warning :: "environ \<Rightarrow> log_line list" where
  "flush_warning env =
     (case env ''FLUSH_INTERVAL_MS'' of
        None \<Rightarrow> []
      | Some v \<Rightarrow>
          if v \<noteq> [] \<and> parse_int v = None
          then [printf ''WARNING: invalid FLUSH_INTERVAL_MS value %q, using default -1'' [LStr v]] else [])"

definition bool_warning :: "environ \<Rightarrow> string \<Rightarrow> bool \<Rightarrow> log_line list" where
  "bool_warning env key fallback =
     (case env key of
        None \<Rightarrow> []
      | Some raw \<Rightarrow>
          if raw \<in> set [''true'', ''TRUE'', ''True'', ''1'', ''false'', ''FALSE'', ''False'', ''0''] then []
          else [printf ''WARNING: invalid boolean for %s=%q, using default %v'' [LStr key, LStr raw, LBool fallback]])"

definition int_settings :: "(string \<times> string) list" where
  "int_settings = [(''MAX_IDLE_CONNS'', ''1000''), (''MAX_IDLE_CONNS_PER_HOST'', ''1000''),
     (''MAX_CONCURRENT_REQUESTS'', ''1000''), (''GCS_CALL_TIMEOUT_SEC'', ''30''), (''IDLE_CONN_TIMEOUT_SEC'', ''120''),
     (''RESPONSE_HEADER_TIMEOUT_SEC'', ''30''), (''READ_BUFFER_SIZE'', ''65536''), (''WRITE_BUFFER_SIZE'', ''65536''),
     (''PROXY_BUFFER_SIZE'', ''32768'')]"

definition feature_settings :: "string list" where
  "feature_settings = [''ENABLE_LIFECYCLE'', ''ENABLE_CORS'', ''ENABLE_LOGGING'', ''ENABLE_WEBSITE'', ''ENABLE_TAGGING'',
     ''ENABLE_RESTORE_OBJECT'', ''ENABLE_COPY_OBJECT'', ''ENABLE_MULTIPART_UPLOAD'', ''ENABLE_DELETE_OBJECTS'',
     ''ENABLE_HEALTH_ENDPOINT'', ''ENABLE_READYZ_ENDPOINT'', ''ENABLE_METRICS_ENDPOINT'']"

definition warnings :: "environ \<Rightarrow> cred_source \<Rightarrow> log_line list" where
  "warnings env source =
     concat (map (\<lambda>(key, dflt). int_warning env key dflt) int_settings) @ flush_warning env
     @ concat (map (\<lambda>key. bool_warning env key True) feature_settings)
     @ bool_warning env ''HMAC_STRICT'' (source \<noteq> FromLegacy)
     @ bool_warning env ''DISABLE_HEADER_STRIP'' True"

subsection \<open>Summaries\<close>

definition mode_lines :: "environ \<Rightarrow> log_line list" where
  "mode_lines env =
     (if load_dry_run env then []
      else (let bucket = getEnv env ''TARGET_BUCKET'' [] in
            if bucket = []
            then info (''TARGET_BUCKET not set; control-plane handlers will parse bucket from request URL ''
              @ ''(multi-tenant mode). Warmup and /readyz active probing are disabled.'') []
            else info ''TARGET_BUCKET configured as warmup / readyz probe hint'' [(''bucket'', LStr bucket)])
         # (if getEnv env ''GCP_PROJECT_ID'' [] = []
            then [printf ''WARNING: GCP_PROJECT_ID is empty, some GCS operations may fail'' []] else []))"

definition logHMACCredentialsSummary :: "cred_source \<Rightarrow> string \<Rightarrow> nat \<Rightarrow> bool \<Rightarrow> log_line" where
  "logHMACCredentialsSummary source path count strict =
     (case source of
        FromFile \<Rightarrow> info ''HMAC credentials loaded from file''
          [(''path'', LStr path), (''count'', LInt count), (''strict'', LBool strict)]
      | FromInline \<Rightarrow> info ''HMAC credentials loaded from HMAC_CREDENTIALS env var''
          [(''count'', LInt count), (''strict'', LBool strict)]
      | FromLegacy \<Rightarrow> warn (''HMAC credentials loaded from legacy PROXY_AWS_ACCESS_KEY_ID/SECRET '' @ em_dash
            @ '' single identity for all clients; migrate to HMAC_CREDENTIALS_FILE for per-client mapping'')
          [(''count'', LInt count), (''strict'', LBool strict)]
      | FromNone \<Rightarrow> warn (''HMAC credentials mapping is empty '' @ em_dash
            @ '' re-signing will be skipped; acceptable only for DRY_RUN=true tests'') [])"

definition disabled_warning :: "bool \<Rightarrow> string \<Rightarrow> string \<Rightarrow> log_line list" where
  "disabled_warning on path effect =
     (if on then [] else [warn (path @ '' endpoint DISABLED '' @ em_dash @ '' '' @ effect @ '' will fail'') []])"

definition logFeatureFlags :: "FeatureFlags \<Rightarrow> log_line list" where
  "logFeatureFlags f =
     info ''Feature flags''
       [(''lifecycle'', LBool (Lifecycle_on f)), (''cors'', LBool (CORS_on f)), (''logging'', LBool (Logging_on f)),
        (''website'', LBool (Website_on f)), (''tagging'', LBool (Tagging_on f)),
        (''restore_object'', LBool (RestoreObject_on f)), (''copy_object'', LBool (CopyObject_on f)),
        (''multipart_upload'', LBool (MultipartUpload_on f)), (''delete_objects'', LBool (DeleteObjects_on f)),
        (''health_endpoint'', LBool (HealthEndpoint_on f)), (''readyz_endpoint'', LBool (ReadyzEndpoint_on f)),
        (''metrics_endpoint'', LBool (MetricsEndpoint_on f))]
     # disabled_warning (HealthEndpoint_on f) ''/health'' ''Kubernetes liveness probes''
     @ disabled_warning (ReadyzEndpoint_on f) ''/readyz'' ''Kubernetes readiness probes''
     @ disabled_warning (MetricsEndpoint_on f) ''/metrics'' ''Prometheus scraping''"

text \<open>The first line, unless \<^verbatim>\<open>godotenv.Load\<close> found a file and merged it into the environment.\<close>

definition dotenv_line :: "bool \<Rightarrow> log_line list" where
  "dotenv_line found =
     (if found then [] else [printf ''No .env file found, reading from environment variables directly.'' []])"

text \<open>Everything \<^verbatim>\<open>LoadConfig\<close> logs when it returns; \<open>env\<close> is the environment after the merge.\<close>

definition config_log :: "bool \<Rightarrow> environ \<Rightarrow> credmap \<times> string \<times> cred_source \<Rightarrow> log_line list" where
  "config_log dotenv env = (\<lambda>(credsMap, credsFile, source).
     dotenv_line dotenv @ warnings env source @ mode_lines env
     @ [logHMACCredentialsSummary source credsFile (fcard (fmdom credsMap))
          (getEnvBool env ''HMAC_STRICT'' (source \<noteq> FromLegacy))]
     @ logFeatureFlags (load_features env))"

subsection \<open>The log knows no secret\<close>

text \<open>The variables that hold secrets; the content of a credential file is one, too.\<close>

definition secret_variables :: "string list" where
  "secret_variables = [''PROXY_AWS_SECRET_ACCESS_KEY'', ''AWS_SECRET_ACCESS_KEY'', ''PROXY_AWS_ACCESS_KEY_ID'',
     ''AWS_ACCESS_KEY_ID'', ''HMAC_CREDENTIALS'', ''JSON_KEY'']"

definition same_but_secrets :: "environ \<Rightarrow> environ \<Rightarrow> bool" where
  "same_but_secrets env env' \<longleftrightarrow> (\<forall>k. k \<notin> set secret_variables \<longrightarrow> env k = env' k)"

lemma same_variable: "same_but_secrets env env' \<Longrightarrow> k \<notin> set secret_variables \<Longrightarrow> env k = env' k"
  by (simp add: same_but_secrets_def)

lemma same_getEnv:
  "same_but_secrets env env' \<Longrightarrow> k \<notin> set secret_variables \<Longrightarrow> getEnv env k d = getEnv env' k d"
  "same_but_secrets env env' \<Longrightarrow> k \<notin> set secret_variables \<Longrightarrow> getEnvBool env k b = getEnvBool env' k b"
  "same_but_secrets env env' \<Longrightarrow> k \<notin> set secret_variables \<Longrightarrow> int_warning env k d = int_warning env' k d"
  "same_but_secrets env env' \<Longrightarrow> k \<notin> set secret_variables \<Longrightarrow> bool_warning env k b = bool_warning env' k b"
  by (simp_all add: getEnv_def getEnvBool_def int_warning_def bool_warning_def same_variable)

lemma settings_not_secret:
  "list_all (\<lambda>(k, _). k \<notin> set secret_variables) int_settings"
  "list_all (\<lambda>k. k \<notin> set secret_variables) feature_settings"
  "list_all (\<lambda>k. k \<notin> set secret_variables) [''FLUSH_INTERVAL_MS'', ''HMAC_STRICT'', ''DISABLE_HEADER_STRIP'',
     ''DRY_RUN'', ''TARGET_BUCKET'', ''GCP_PROJECT_ID'', ''HMAC_CREDENTIALS_FILE'']"
  by code_simp+

lemma same_warnings:
  assumes "same_but_secrets env env'"
  shows "warnings env source = warnings env' source"
proof -
  have ints: "map (\<lambda>(key, dflt). int_warning env key dflt) int_settings =
      map (\<lambda>(key, dflt). int_warning env' key dflt) int_settings"
    using same_getEnv(3) [OF assms] settings_not_secret(1) by (intro map_cong) (auto simp: list_all_iff)
  have bools: "map (\<lambda>key. bool_warning env key True) feature_settings =
      map (\<lambda>key. bool_warning env' key True) feature_settings"
    using same_getEnv(4) [OF assms] settings_not_secret(2) by (intro map_cong) (auto simp: list_all_iff)
  have "flush_warning env = flush_warning env'"
    using same_variable [OF assms, of "''FLUSH_INTERVAL_MS''"] settings_not_secret(3) by (simp add: flush_warning_def)
  then show ?thesis
    using same_getEnv(4) [OF assms] settings_not_secret(3) unfolding warnings_def ints bools by simp
qed

lemma same_features:
  assumes "same_but_secrets env env'"
  shows "load_features env = load_features env'"
proof -
  have "getEnvBool env k True = getEnvBool env' k True" if "k \<in> set feature_settings" for k
    using same_getEnv(2) [OF assms] settings_not_secret(2) that by (auto simp: list_all_iff)
  then show ?thesis by (simp add: load_features_def feature_settings_def)
qed

lemma same_mode: "same_but_secrets env env' \<Longrightarrow> mode_lines env = mode_lines env'"
  using settings_not_secret(3) by (simp add: mode_lines_def load_dry_run_def same_getEnv)

lemma loaded_path:
  "loadHMACCredentials read env ak sk = Inr (m, path, source) \<Longrightarrow>
     path = (if source = FromFile then getEnv env ''HMAC_CREDENTIALS_FILE'' [] else [])"
  by (auto simp: loadHMACCredentials_def Let_def split: if_splits sum.splits)

lemma same_log:
  assumes "same_but_secrets env env'"
    and "loadHMACCredentials read env (proxyAK env) (proxySK env) = Inr (m, path, source)"
    and "loadHMACCredentials read' env' (proxyAK env') (proxySK env') = Inr (m', path', source)"
    and "fcard (fmdom m) = fcard (fmdom m')"
  shows "config_log dotenv env (m, path, source) = config_log dotenv env' (m', path', source)"
proof -
  have "path = path'"
    using loaded_path [OF assms(2)] loaded_path [OF assms(3)] same_getEnv(1) [OF assms(1), of "''HMAC_CREDENTIALS_FILE''"]
      settings_not_secret(3) by simp
  then show ?thesis
    using assms(4) same_getEnv(2) [OF assms(1), of "''HMAC_STRICT''"] settings_not_secret(3)
    by (simp add: config_log_def same_warnings [OF assms(1)] same_features [OF assms(1)] same_mode [OF assms(1)])
qed

end
