(* ===== verification/Handler_Log.thy ===== *)
theory Handler_Log
  imports Log_Lines Dispatch
begin

text \<open>
  What \<^verbatim>\<open>main.go\<close> and \<^verbatim>\<open>pkg/translate\<close> log while a request goes through \<^verbatim>\<open>handleS3Request\<close>:
  the lines of the credential gate, the stages, every control-plane handler, the body reader and
  the timed GCS call, in their order. The definitions follow those of Dispatch, Handlers and
  Handler_Base, whose results decide which lines there are. Debug lines are among them, whether
  or not the level shows them.
\<close>

subsection \<open>Lines\<close>

text \<open>
  What the lines show of code outside: how long a call took, and the texts of errors.
\<close>

record log_texts =
  lt_ms :: "string \<Rightarrow> nat"
  lt_gcs :: "gcs_error \<Rightarrow> string"
  lt_read :: string
  lt_xml :: "bytes \<Rightarrow> string"

text \<open>The logger of a request adds its id; lines written with \<^verbatim>\<open>slog\<close> itself go without.\<close>

definition reqLogger :: "request \<Rightarrow> log_line \<Rightarrow> log_line" where
  "reqLogger r l =
     (if req_id r = [] then l else l\<lparr>ll_attrs := (''request_id'', LStr (req_id r)) # ll_attrs l\<rparr>)"

definition where_from :: "request \<Rightarrow> (string \<times> log_value) list" where
  "where_from r = [(''method'', LStr (req_method r)), (''uri'', LStr (req_uri r))]"

text \<open>The rest of a step that may have answered already logs nothing.\<close>

definition if_some :: "'a option \<Rightarrow> ('a \<Rightarrow> log_line list) \<Rightarrow> log_line list" where
  "if_some x k = (case x of None \<Rightarrow> [] | Some a \<Rightarrow> k a)"

lemma if_some_simps [simp]: "if_some None k = []" "if_some (Some a) k = k a"
  by (simp_all add: if_some_def)

subsection \<open>The helpers of the handlers\<close>

definition feature_lines :: "request \<Rightarrow> bool \<Rightarrow> string \<Rightarrow> log_line list" where
  "feature_lines r on feature =
     (if on then []
      else [reqLogger r (warn ''Feature disabled by configuration'' ((''feature'', LStr feature) # where_from r))])"

definition call_line :: "log_texts \<Rightarrow> request \<Rightarrow> string \<Rightarrow> gcs_error + 'a \<Rightarrow> log_line" where
  "call_line lt r operation res =
     reqLogger r (case res of
        Inl e \<Rightarrow> error ''GCS API call failed''
          [(''operation'', LStr operation), (''duration_ms'', LInt (lt_ms lt operation)),
           (''status_class'', LStr (classifyGCSSDKError e)), (''error'', LStr (lt_gcs lt e))]
      | Inr _ \<Rightarrow> info ''GCS API call succeeded''
          [(''operation'', LStr operation), (''duration_ms'', LInt (lt_ms lt operation))])"

definition decode_lines ::
  "log_texts \<Rightarrow> 's proxy \<Rightarrow> (xml \<Rightarrow> 'a option) \<Rightarrow> string \<Rightarrow> request \<Rightarrow> log_line list" where
  "decode_lines lt px decode label r =
     (case read_capped (req_body r) of
        BodyTooBig \<Rightarrow> []
      | BodyFailed \<Rightarrow> [reqLogger r (error ''Failed to read control-plane request body''
          [(''label'', LStr label), (''error'', LStr (lt_read lt))])]
      | BodyOk body \<Rightarrow>
          reqLogger r (info ''Read control-plane request body''
            [(''label'', LStr label), (''body_size'', LInt (length body))])
          # (case Option.bind (px_xml px body) decode of
               None \<Rightarrow> [reqLogger r (error ''Failed to unmarshal S3 XML''
                 [(''label'', LStr label), (''error'', LStr (lt_xml lt body))])]
             | Some _ \<Rightarrow> []))"

text \<open>The lines up to the document and the bucket of a PUT handler, and those that follow.\<close>

definition document_lines ::
  "log_texts \<Rightarrow> 's proxy \<Rightarrow> (xml \<Rightarrow> 'a option) \<Rightarrow> string \<Rightarrow> request \<Rightarrow> 's world \<Rightarrow>
     ('a \<Rightarrow> string \<Rightarrow> log_line list) \<Rightarrow> log_line list" where
  "document_lines lt px decode label r w k =
     decode_lines lt px decode label r
     @ if_some (fst (decodeControlPlaneXML px decode r w)) (\<lambda>doc.
       if_some (fst (parseBucketFromPath r w)) (k doc))"

definition failed_for :: "log_texts \<Rightarrow> string \<Rightarrow> gcs_error \<Rightarrow> (string \<times> log_value) list \<Rightarrow> log_line" where
  "failed_for lt operation e attrs =
     error (''GCS API call failed for '' @ operation) ((''error'', LStr (lt_gcs lt e)) # attrs)"

text \<open>
  An update of a bucket; \<open>own\<close> says whether the line of its failure is written by the request's
  logger.
\<close>

definition update_lines ::
  "log_texts \<Rightarrow> 's proxy \<Rightarrow> request \<Rightarrow> bool \<Rightarrow> string \<Rightarrow> string \<Rightarrow> bucket_update \<Rightarrow> string \<Rightarrow> 's world \<Rightarrow> log_line list" where
  "update_lines lt px r own operation b u done w =
     (let res = fst (update_bucket px operation b u w) in
      [call_line lt r operation res,
       case res of
         Inl e \<Rightarrow> (if own then reqLogger r else id) (failed_for lt operation e [(''bucket'', LStr b)])
       | Inr _ \<Rightarrow> reqLogger r (info done [(''bucket'', LStr b)])])"

definition get_lines :: "log_texts \<Rightarrow> 's proxy \<Rightarrow> string \<Rightarrow> request \<Rightarrow> 's world \<Rightarrow> log_line list" where
  "get_lines lt px operation r w =
     if_some (fst (parseBucketFromPath r w)) (\<lambda>b.
       if DryRun (px_config px) then []
       else (let res = fst (bucket_attributes px operation b w) in
         call_line lt r operation res
         # (case res of Inl e \<Rightarrow> [failed_for lt operation e [(''bucket'', LStr b)]] | Inr _ \<Rightarrow> [])))"

definition delete_lines ::
  "log_texts \<Rightarrow> 's proxy \<Rightarrow> bool \<Rightarrow> string \<Rightarrow> bucket_update \<Rightarrow> string \<Rightarrow> string \<Rightarrow> request \<Rightarrow> 's world \<Rightarrow> log_line list" where
  "delete_lines lt px own operation u dry done r w =
     if_some (fst (parseBucketFromPath r w)) (\<lambda>b.
       if DryRun (px_config px) then [reqLogger r (info (''[DRY_RUN] Would delete '' @ dry) [(''bucket'', LStr b)])]
       else update_lines lt px r own operation b u (''Successfully deleted GCS bucket '' @ done) w)"

subsection \<open>The handlers\<close>

definition put_lifecycle_log :: "log_texts \<Rightarrow> 's proxy \<Rightarrow> request \<Rightarrow> 's world \<Rightarrow> log_line list" where
  "put_lifecycle_log lt px r w =
     document_lines lt px decode_lifecycle ''lifecycle'' r w (\<lambda>s3Cfg b.
       case TranslateS3ToGCSLifecycle s3Cfg of
         Inl err \<Rightarrow> [reqLogger r (error ''Failed to translate lifecycle to GCS SDK''
           [(''error'', LStr (lifecycle_message px err))])]
       | Inr storageLifecycle \<Rightarrow>
           if DryRun (px_config px) then []
           else update_lines lt px r True ''PutBucketLifecycle'' b (no_update\<lparr>Bu_Lifecycle := Some storageLifecycle\<rparr>)
             ''Successfully updated GCS bucket lifecycle'' w)"

definition get_lifecycle_log :: "log_texts \<Rightarrow> 's proxy \<Rightarrow> request \<Rightarrow> 's world \<Rightarrow> log_line list" where
  "get_lifecycle_log lt px = get_lines lt px ''GetBucketLifecycle''"

definition delete_lifecycle_log :: "log_texts \<Rightarrow> 's proxy \<Rightarrow> request \<Rightarrow> 's world \<Rightarrow> log_line list" where
  "delete_lifecycle_log lt px =
     delete_lines lt px False ''DeleteBucketLifecycle'' (no_update\<lparr>Bu_Lifecycle := Some []\<rparr>)
       ''lifecycle configuration'' ''lifecycle''"

text \<open>\<^verbatim>\<open>TranslateS3ToGCSCors\<close> warns of the headers of each rule.\<close>

definition cors_lines :: "CORSConfiguration \<Rightarrow> log_line list" where
  "cors_lines cfg =
     List.map_filter (\<lambda>rule. if Cr_AllowedHeaders rule = [] then None
       else Some (warn (''S3 AllowedHeaders (Request Headers) are not natively supported by GCS CORS translation ''
         @ ''and will be ignored.'') [(''dropped_headers'', LStrs (Cr_AllowedHeaders rule))])) (Cc_CORSRules cfg)"

definition put_cors_log :: "log_texts \<Rightarrow> 's proxy \<Rightarrow> request \<Rightarrow> 's world \<Rightarrow> log_line list" where
  "put_cors_log lt px r w =
     document_lines lt px decode_cors ''cors'' r w (\<lambda>s3Cfg b.
       cors_lines s3Cfg
       @ (if DryRun (px_config px) then []
          else update_lines lt px r True ''PutBucketCors'' b
            (no_update\<lparr>Bu_CORS := fst (TranslateS3ToGCSCors (px_unicode px) s3Cfg)\<rparr>)
            ''Successfully updated GCS bucket CORS'' w))"

definition get_cors_log :: "log_texts \<Rightarrow> 's proxy \<Rightarrow> request \<Rightarrow> 's world \<Rightarrow> log_line list" where
  "get_cors_log lt px = get_lines lt px ''GetBucketCors''"

definition delete_cors_log :: "log_texts \<Rightarrow> 's proxy \<Rightarrow> request \<Rightarrow> 's world \<Rightarrow> log_line list" where
  "delete_cors_log lt px =
     delete_lines lt px False ''DeleteBucketCors'' (no_update\<lparr>Bu_CORS := Some []\<rparr>) ''CORS configuration'' ''CORS''"

definition logging_lines :: "BucketLoggingStatus \<Rightarrow> log_line list" where
  "logging_lines cfg =
     if_some (Bls_LoggingEnabled cfg) (\<lambda>l.
       [info ''Translating S3 Logging''
         [(''targetBucket'', LStr (Le_TargetBucket l)), (''targetPrefix'', LStr (Le_TargetPrefix l))]])"

definition put_logging_log :: "log_texts \<Rightarrow> 's proxy \<Rightarrow> request \<Rightarrow> 's world \<Rightarrow> log_line list" where
  "put_logging_log lt px r w =
     document_lines lt px decode_logging ''logging'' r w (\<lambda>s3Cfg b.
       logging_lines s3Cfg
       @ (if DryRun (px_config px) then []
          else update_lines lt px r True ''PutBucketLogging'' b
            (no_update\<lparr>Bu_Logging := TranslateS3ToGCSLogging s3Cfg\<rparr>) ''Successfully updated GCS bucket Logging'' w))"

definition get_logging_log :: "log_texts \<Rightarrow> 's proxy \<Rightarrow> request \<Rightarrow> 's world \<Rightarrow> log_line list" where
  "get_logging_log lt px = get_lines lt px ''GetBucketLogging''"

definition delete_logging_log :: "log_texts \<Rightarrow> 's proxy \<Rightarrow> request \<Rightarrow> 's world \<Rightarrow> log_line list" where
  "delete_logging_log lt px =
     delete_lines lt px False ''DeleteBucketLogging''
       (no_update\<lparr>Bu_Logging := Some \<lparr>Bl_LogBucket = [], Bl_LogObjectPrefix = []\<rparr>\<rparr>) ''logging configuration'' ''Logging''"

definition website_lines :: "WebsiteConfiguration \<Rightarrow> log_line list" where
  "website_lines cfg =
     info ''Translating S3 Website Configuration'' []
     # if_some (Ws_IndexDocument cfg) (\<lambda>d. [debug ''Website MainPageSuffix'' [(''suffix'', LStr (Idx_Suffix d))]])
     @ if_some (Ws_ErrorDocument cfg) (\<lambda>d. [debug ''Website NotFoundPage'' [(''page'', LStr (Err_Key d))]])"

definition put_website_log :: "log_texts \<Rightarrow> 's proxy \<Rightarrow> request \<Rightarrow> 's world \<Rightarrow> log_line list" where
  "put_website_log lt px r w =
     document_lines lt px decode_website ''website'' r w (\<lambda>s3Cfg b.
       website_lines s3Cfg
       @ (if DryRun (px_config px) then []
          else update_lines lt px r True ''PutBucketWebsite'' b
            (no_update\<lparr>Bu_Website := Some (TranslateS3ToGCSWebsite s3Cfg)\<rparr>) ''Successfully updated GCS bucket Website'' w))"

definition get_website_log :: "log_texts \<Rightarrow> 's proxy \<Rightarrow> request \<Rightarrow> 's world \<Rightarrow> log_line list" where
  "get_website_log lt px = get_lines lt px ''GetBucketWebsite''"

definition delete_website_log :: "log_texts \<Rightarrow> 's proxy \<Rightarrow> request \<Rightarrow> 's world \<Rightarrow> log_line list" where
  "delete_website_log lt px =
     delete_lines lt px True ''DeleteBucketWebsite'' (no_update\<lparr>Bu_Website := Some zero_website\<rparr>)
       ''website configuration'' ''Website''"

definition object_of :: "string \<Rightarrow> string \<Rightarrow> (string \<times> log_value) list" where
  "object_of b k = [(''bucket'', LStr b), (''object'', LStr k)]"

definition tag_lines :: "Tagging \<Rightarrow> log_line list" where
  "tag_lines cfg =
     map (\<lambda>t. debug ''Tag translated to GCS Object Context''
       [(''key'', LStr (Tag_Key t)), (''value'', LStr (Tag_Value t))]) (Tg_TagSet cfg)"

text \<open>An update of an object, with the lines that lead to it.\<close>

definition object_update_lines ::
  "log_texts \<Rightarrow> 's proxy \<Rightarrow> request \<Rightarrow> string \<Rightarrow> string \<Rightarrow> string \<Rightarrow> (object_attrs \<Rightarrow> object_update) \<Rightarrow>
     string \<Rightarrow> string \<Rightarrow> (object_attrs \<Rightarrow> log_line list) \<Rightarrow> 's world \<Rightarrow> log_line list" where
  "object_update_lines lt px r probe operation done u b k before w =
     (let (res, w1) = object_attributes px probe b k w in
      call_line lt r probe res
      # (case res of
           Inl e \<Rightarrow> [reqLogger r (failed_for lt probe e [])]
         | Inr attrs \<Rightarrow>
             before attrs
             @ (let res2 = fst (update_object px operation b k (Oa_Metageneration attrs) (u attrs) w1) in
                [call_line lt r operation res2,
                 reqLogger r (case res2 of
                    Inl e \<Rightarrow> failed_for lt operation e []
                  | Inr _ \<Rightarrow> info done (object_of b k))])))"

definition put_tagging_log :: "log_texts \<Rightarrow> 's proxy \<Rightarrow> request \<Rightarrow> 's world \<Rightarrow> log_line list" where
  "put_tagging_log lt px r w =
     decode_lines lt px decode_tagging ''tagging'' r
     @ if_some (fst (decodeControlPlaneXML px decode_tagging r w)) (\<lambda>s3Cfg.
       if_some (fst (parse_object_path object_required r w)) (\<lambda>(b, k).
         reqLogger r (info ''Applying Tagging to GCS Object'' (object_of b k))
         # (if DryRun (px_config px)
            then [reqLogger r (info ''[DRY_RUN] Would apply Tagging to GCS Object'' (object_of b k))]
            else object_update_lines lt px r ''GetObjectAttrs_Tagging'' ''PutObjectTagging''
              ''Successfully updated GCS Object Tagging''
              (\<lambda>attrs. \<lparr>Ou_Contexts = Some (TranslateS3ToGCSContexts s3Cfg (Oa_Contexts attrs))\<rparr>) b k
              (\<lambda>_. tag_lines s3Cfg) w)))"

definition get_tagging_log :: "log_texts \<Rightarrow> 's proxy \<Rightarrow> request \<Rightarrow> 's world \<Rightarrow> log_line list" where
  "get_tagging_log lt px r w =
     if_some (fst (parse_object_path object_required r w)) (\<lambda>(b, k).
       if DryRun (px_config px) then []
       else (let res = fst (object_attributes px ''GetObjectAttrs_GetTagging'' b k w) in
         call_line lt r ''GetObjectAttrs_GetTagging'' res
         # (case res of
              Inl e \<Rightarrow> [failed_for lt ''GetObjectAttrs_GetTagging'' e []]
            | Inr attrs \<Rightarrow>
                (case Oa_Contexts attrs of
                   None \<Rightarrow> []
                 | Some c \<Rightarrow>
                     map (\<lambda>_. warn ''Skipping GCS Object Context entry with empty key'' [])
                       (filter (\<lambda>key. key = []) (px_order px (Ctx_Custom c)))))))"

definition delete_tagging_log :: "log_texts \<Rightarrow> 's proxy \<Rightarrow> request \<Rightarrow> 's world \<Rightarrow> log_line list" where
  "delete_tagging_log lt px r w =
     if_some (fst (parse_object_path object_required r w)) (\<lambda>(b, k).
       if DryRun (px_config px)
       then [reqLogger r (info ''[DRY_RUN] Would delete Tagging from GCS Object'' (object_of b k))]
       else object_update_lines lt px r ''GetObjectAttrs_DeleteTagging'' ''DeleteObjectTagging''
         ''Successfully deleted GCS Object Tagging''
         (\<lambda>_. \<lparr>Ou_Contexts = Some \<lparr>Ctx_Custom = Map.empty\<rparr>\<rparr>) b k (\<lambda>_. []) w)"

definition restored_line :: "'s proxy \<Rightarrow> request \<Rightarrow> string \<Rightarrow> string \<Rightarrow> log_line" where
  "restored_line px r b k =
     reqLogger r (info ''Synthesised RestoreObject response''
       (object_of b k @ [(''skip_existence_check'', LBool (RestoreSkipExistenceCheck (px_config px))),
         (''dry_run'', LBool (DryRun (px_config px)))]))"

definition restore_log :: "log_texts \<Rightarrow> 's proxy \<Rightarrow> request \<Rightarrow> 's world \<Rightarrow> log_line list" where
  "restore_log lt px r w =
     if_some (fst (parse_object_path ''Bucket and Object name required for RestoreObject.'' r w)) (\<lambda>(b, k).
       (case read_capped (req_body r) of
          BodyTooBig \<Rightarrow> []
        | body \<Rightarrow>
            (if body = BodyFailed
             then [reqLogger r (warn ''Failed to drain RestoreObject body'' [(''error'', LStr (lt_read lt))])] else [])
            @ (if DryRun (px_config px) \<or> RestoreSkipExistenceCheck (px_config px) then [restored_line px r b k]
               else if \<not> px_client px
               then [reqLogger r (error ''RestoreObject invoked without a GCS client'' (object_of b k))]
               else (let res = fst (object_attributes px ''RestoreObject_HeadProbe'' b k w) in
                 call_line lt r ''RestoreObject_HeadProbe'' res
                 # (case res of
                      Inl e \<Rightarrow>
                        if ge_object_not_exist e then []
                        else [reqLogger r (failed_for lt ''RestoreObject_HeadProbe'' e [])]
                    | Inr _ \<Rightarrow> [restored_line px r b k])))))"

subsection \<open>The request path\<close>

definition gate_lines :: "store_reads \<Rightarrow> request \<Rightarrow> log_line list" where
  "gate_lines sr r =
     (if Size (sr_gate sr) = 0 \<or> Size (sr_size sr) = 0 then []
      else (case client_access_key r of
          None \<Rightarrow> [reqLogger r (warn ''Rejecting request without SigV4 credential'' (where_from r))]
        | Some ak \<Rightarrow>
            if Lookup (sr_lookup sr) ak = None
            then [reqLogger r (warn ''Rejecting request with unknown access key''
              ((''ak'', LStr ak) # where_from r))]
            else []))"

definition storage_class_lines :: "request \<Rightarrow> log_line list" where
  "storage_class_lines r =
     (let sc = header_value r ''x-amz-storage-class'' in
      if sc \<noteq> [] \<and> translateS3StorageClass sc = None
      then [reqLogger r (warn ''Rejecting unknown S3 storage class'' ((''storage_class'', LStr sc) # where_from r))]
      else [])"

definition chunked_lines :: "request \<Rightarrow> log_line list" where
  "chunked_lines r =
     (let ce = header_value r ''Content-Encoding'' in
      if contains_str ce ''aws-chunked''
      then [reqLogger r (warn (''Rejected aws-chunked request: GCS does not support Flexible Checksums trailers. ''
          @ ''Client must set AWS_REQUEST_CHECKSUM_CALCULATION=WHEN_REQUIRED'')
        ((''content-encoding'', LStr ce) # where_from r @ [(''user-agent'', LStr (header_value r ''User-Agent''))]))]
      else [])"

text \<open>The blocks of the control plane and of the data-plane gates.\<close>

definition control_lines ::
  "request \<Rightarrow> bool \<Rightarrow> string \<Rightarrow> log_line list \<Rightarrow> log_line list \<Rightarrow> log_line list \<Rightarrow> log_line list" where
  "control_lines r on feature put get del =
     (if \<not> on then feature_lines r on feature
      else if req_method r = ''PUT'' then put
      else if req_method r = ''GET'' then get
      else if req_method r = ''DELETE'' then del else [])"

definition lifecycle_stage_log :: "log_texts \<Rightarrow> 's proxy \<Rightarrow> request \<Rightarrow> 's world \<Rightarrow> log_line list" where
  "lifecycle_stage_log lt px r w =
     (if hasQueryParam r ''lifecycle''
      then control_lines r (Lifecycle_on (flags px)) ''lifecycle''
        (put_lifecycle_log lt px r w) (get_lifecycle_log lt px r w) (delete_lifecycle_log lt px r w)
      else [])"

definition cors_stage_log :: "log_texts \<Rightarrow> 's proxy \<Rightarrow> request \<Rightarrow> 's world \<Rightarrow> log_line list" where
  "cors_stage_log lt px r w =
     (if hasQueryParam r ''cors''
      then control_lines r (CORS_on (flags px)) ''cors''
        (put_cors_log lt px r w) (get_cors_log lt px r w) (delete_cors_log lt px r w)
      else [])"

definition logging_stage_log :: "log_texts \<Rightarrow> 's proxy \<Rightarrow> request \<Rightarrow> 's world \<Rightarrow> log_line list" where
  "logging_stage_log lt px r w =
     (if hasQueryParam r ''logging''
      then control_lines r (Logging_on (flags px)) ''logging''
        (put_logging_log lt px r w) (get_logging_log lt px r w) (delete_logging_log lt px r w)
      else [])"

definition website_stage_log :: "log_texts \<Rightarrow> 's proxy \<Rightarrow> request \<Rightarrow> 's world \<Rightarrow> log_line list" where
  "website_stage_log lt px r w =
     (if hasQueryParam r ''website''
      then control_lines r (Website_on (flags px)) ''website''
        (put_website_log lt px r w) (get_website_log lt px r w) (delete_website_log lt px r w)
      else [])"

definition tagging_stage_log :: "log_texts \<Rightarrow> 's proxy \<Rightarrow> request \<Rightarrow> 's world \<Rightarrow> log_line list" where
  "tagging_stage_log lt px r w =
     (if hasQueryParam r ''tagging''
      then control_lines r (Tagging_on (flags px)) ''tagging''
        (put_tagging_log lt px r w) (get_tagging_log lt px r w) (delete_tagging_log lt px r w)
      else [])"

definition restore_stage_log :: "log_texts \<Rightarrow> 's proxy \<Rightarrow> request \<Rightarrow> 's world \<Rightarrow> log_line list" where
  "restore_stage_log lt px r w =
     (if hasQueryParam r ''restore'' then
        feature_lines r (RestoreObject_on (flags px)) ''restore_object''
        @ (if RestoreObject_on (flags px) \<and> req_method r = ''POST'' then restore_log lt px r w else [])
      else [])"

definition copy_lines :: "'s proxy \<Rightarrow> request \<Rightarrow> log_line list" where
  "copy_lines px r =
     (if req_method r = ''PUT'' \<and> header_value r ''x-amz-copy-source'' \<noteq> []
      then feature_lines r (CopyObject_on (flags px)) ''copy_object'' else [])"

definition multipart_lines :: "'s proxy \<Rightarrow> request \<Rightarrow> log_line list" where
  "multipart_lines px r =
     (if hasQueryParam r ''uploads'' \<or> hasQueryParam r ''uploadId'' \<or> hasQueryParam r ''partNumber''
      then feature_lines r (MultipartUpload_on (flags px)) ''multipart_upload'' else [])"

definition bulk_delete_lines :: "'s proxy \<Rightarrow> request \<Rightarrow> log_line list" where
  "bulk_delete_lines px r =
     (if req_method r = ''POST'' \<and> hasQueryParam r ''delete''
      then feature_lines r (DeleteObjects_on (flags px)) ''delete_objects'' else [])"

definition stage_logs :: "log_texts \<Rightarrow> 's proxy \<Rightarrow> request \<Rightarrow> ('s world \<Rightarrow> log_line list) list" where
  "stage_logs lt px r =
     [\<lambda>_. storage_class_lines r, \<lambda>_. chunked_lines r, lifecycle_stage_log lt px r, cors_stage_log lt px r,
      logging_stage_log lt px r, website_stage_log lt px r, tagging_stage_log lt px r, restore_stage_log lt px r,
      \<lambda>_. copy_lines px r, \<lambda>_. multipart_lines px r, \<lambda>_. bulk_delete_lines px r]"

fun run_logs ::
  "('s world \<Rightarrow> 's world + 's world) list \<Rightarrow> ('s world \<Rightarrow> log_line list) list \<Rightarrow> 's world \<Rightarrow> log_line list" where
  "run_logs (f # fs) (g # gs) w = g w @ (case f w of Inl _ \<Rightarrow> [] | Inr w' \<Rightarrow> run_logs fs gs w')"
| "run_logs _ _ _ = []"

definition request_log :: "log_texts \<Rightarrow> 's proxy \<Rightarrow> store_reads \<Rightarrow> request \<Rightarrow> 's world \<Rightarrow> log_line list" where
  "request_log lt px sr r w =
     reqLogger r (info ''Received S3 Request'' (where_from r))
     # gate_lines sr r
     @ (case credential_gate sr r w of
          Inl _ \<Rightarrow> []
        | Inr (r', w') \<Rightarrow> run_logs (stages px r') (stage_logs lt px r') w')"

subsection \<open>Errors in the log and in the answer\<close>

definition has_error :: "log_line list \<Rightarrow> bool" where
  "has_error ls \<longleftrightarrow> list_ex (\<lambda>l. ll_level l = LError) ls"

lemma has_error_simps [simp]:
  "has_error [] = False" "has_error (l # ls) \<longleftrightarrow> ll_level l = LError \<or> has_error ls"
  "has_error (ls @ ls') \<longleftrightarrow> has_error ls \<or> has_error ls'"
  by (auto simp: has_error_def)

lemma levels [simp]:
  "ll_level (reqLogger r l) = ll_level l" "ll_level (info m as) = LInfo" "ll_level (warn m as) = LWarn"
  "ll_level (error m as) = LError" "ll_level (debug m as) = LDebug" "ll_level (failed_for lt op e as) = LError"
  "ll_level (restored_line px r b k) = LInfo"
  "ll_level (call_line lt r op res) = (case res of Inl _ \<Rightarrow> LError | Inr _ \<Rightarrow> LInfo)"
  by (simp_all add: reqLogger_def info_def warn_def error_def debug_def failed_for_def restored_line_def
      call_line_def split: sum.splits)

lemma no_error_lines [simp]:
  "\<not> has_error (cors_lines c)" "\<not> has_error (logging_lines l)" "\<not> has_error (website_lines ws)"
  "\<not> has_error (tag_lines t)" "\<not> has_error (feature_lines r on f)" "\<not> has_error (gate_lines sr r)"
  "\<not> has_error (storage_class_lines r)" "\<not> has_error (chunked_lines r)" "\<not> has_error (copy_lines px r)"
  "\<not> has_error (multipart_lines px r)" "\<not> has_error (bulk_delete_lines px r)"
  by (auto simp: has_error_def cors_lines_def logging_lines_def website_lines_def tag_lines_def feature_lines_def
      gate_lines_def storage_class_lines_def chunked_lines_def copy_lines_def multipart_lines_def
      bulk_delete_lines_def if_some_def list_ex_iff Let_def List.map_filter_def split: option.splits)

text \<open>
  The status and the lines of an answer fit: an internal error or a bad gateway was logged, and an
  error that was logged was answered with an error.
\<close>

definition fits :: "log_line list \<Rightarrow> 's world \<Rightarrow> bool" where
  "fits ls w \<longleftrightarrow> (\<forall>c. world_status w = Some c \<longrightarrow> c \<in> {500, 502} \<longrightarrow> has_error ls)
     \<and> (has_error ls \<longrightarrow> (\<exists>c. world_status w = Some c \<and> 400 \<le> c))"

lemma fits_prefix: "\<not> has_error ls \<Longrightarrow> fits ls' w \<Longrightarrow> fits (ls @ ls') w"
  "ll_level l \<noteq> LError \<Longrightarrow> fits ls' w \<Longrightarrow> fits (l # ls') w"
  by (simp_all add: fits_def)

lemma fits_quiet: "\<not> has_error ls \<Longrightarrow> fits ls w \<longleftrightarrow> world_status w \<notin> {Some 500, Some 502}"
  by (auto simp: fits_def)

lemma decode_fits:
  assumes "fresh w" "\<And>doc. fits (f doc) (k doc w)"
  shows "fits (decode_lines lt px d label r @ if_some (fst (decodeControlPlaneXML px d r w)) f)
    (or_return (decodeControlPlaneXML px d r w) k)"
  using assms by (cases "read_capped (req_body r)")
    (auto simp: decode_lines_def decodeControlPlaneXML_def fits_def split: option.splits)

lemma bucket_fits:
  assumes "fresh w" "\<And>b. fits (f b) (k b w)"
  shows "fits (if_some (fst (parseBucketFromPath r w)) f) (or_return (parseBucketFromPath r w) k)"
  using assms by (auto simp: parseBucketFromPath_def fits_def split: list.splits)

lemma object_fits:
  assumes "fresh w" "\<And>b k. fits (f (b, k)) (h (b, k) w)"
  shows "fits (if_some (fst (parse_object_path m r w)) f) (or_return (parse_object_path m r w) h)"
  using assms by (auto simp: parse_object_path_def fits_def split: list.splits)

lemma document_fits:
  assumes "fresh w" "\<And>doc b. fits (f doc b) (k doc b w)"
  shows "fits (document_lines lt px d label r w f)
    (or_return (decodeControlPlaneXML px d r w) (\<lambda>doc w1. or_return (parseBucketFromPath r w1) (\<lambda>b w2. k doc b w2)))"
  unfolding document_lines_def using assms
  by (intro decode_fits bucket_fits)

lemma update_fits:
  assumes "fresh w" "s \<in> {200, 204}"
  shows "fits (update_lines lt px r own op b u done w)
    (on_result (update_bucket px op b u w) (\<lambda>_. writeS3Error 502 c m) (\<lambda>_. send_status s))"
proof -
  obtain res w1 where call: "update_bucket px op b u w = (res, w1)" by fastforce
  with gcs_call_fresh(1) [OF call] assms show ?thesis
    by (cases res) (auto simp: update_lines_def fits_def)
qed

lemma update_lines_same:
  "w_gcs w' = w_gcs w \<Longrightarrow> update_lines lt px r own op b u don w = update_lines lt px r own op b u don w'"
  by (simp add: update_lines_def update_bucket_def)

lemma put_handlers_fit:
  fixes w :: "'a world"
  assumes "fresh w"
  shows "fits (put_lifecycle_log lt px r w) (handlePutLifecycle px r w)"
    "fits (put_cors_log lt px r w) (handlePutCORS px r w)"
    "fits (put_logging_log lt px r w) (handlePutLogging px r w)"
    "fits (put_website_log lt px r w) (handlePutWebsite px r w)"
proof -
  show "fits (put_lifecycle_log lt px r w) (handlePutLifecycle px r w)"
    unfolding put_lifecycle_log_def handlePutLifecycle_def using assms
    by (intro document_fits) (auto simp: fits_def [of "[l]" for l] fits_quiet update_fits split: sum.split)
  show "fits (put_logging_log lt px r w) (handlePutLogging px r w)"
    "fits (put_website_log lt px r w) (handlePutWebsite px r w)"
    unfolding put_logging_log_def handlePutLogging_def put_website_log_def handlePutWebsite_def Let_def using assms
    by (intro document_fits fits_prefix; simp add: fits_quiet update_fits)+
  have "fits (cors_lines c @ (if DryRun (px_config px) then [] else update_lines lt px r own op b u don w))
      (if DryRun (px_config px) then send_status 200 w3
       else on_result (update_bucket px op b u w3) (\<lambda>_. writeS3Error 502 k m) (\<lambda>_. send_status 200))"
    if "fresh w3" "w_gcs w3 = w_gcs w" for c own op b u don k m and w3 :: "'a world"
    using that update_fits [of w3 200] by (auto simp: fits_quiet update_lines_same [OF that(2)] intro: fits_prefix)
  note quiet = this
  show "fits (put_cors_log lt px r w) (handlePutCORS px r w)"
    unfolding put_cors_log_def handlePutCORS_def Let_def split_beta
  proof (rule document_fits [OF assms], goal_cases)
    case (1 doc b)
    show ?case by (rule quiet) (simp_all add: assms)
  qed
qed

lemma delete_fits:
  assumes "fresh w"
  shows "fits (delete_lines lt px own op u dry done r w)
    (or_return (parseBucketFromPath r w) (\<lambda>b w1.
       if DryRun (px_config px) then send_status 204 w1
       else on_result (update_bucket px op b u w1) (\<lambda>_. writeS3Error 502 c m) (\<lambda>_. send_status 204)))"
  unfolding delete_lines_def using assms
  by (intro bucket_fits) (auto simp: fits_quiet update_fits intro: fits_prefix)

lemma delete_handlers_fit:
  assumes "fresh w"
  shows "fits (delete_lifecycle_log lt px r w) (handleDeleteLifecycle px r w)"
    "fits (delete_cors_log lt px r w) (handleDeleteCORS px r w)"
    "fits (delete_logging_log lt px r w) (handleDeleteLogging px r w)"
    "fits (delete_website_log lt px r w) (handleDeleteWebsite px r w)"
  unfolding delete_lifecycle_log_def delete_cors_log_def delete_logging_log_def delete_website_log_def
    handleDeleteLifecycle_def handleDeleteCORS_def handleDeleteLogging_def handleDeleteWebsite_def
  by (rule delete_fits [OF assms])+

lemma get_fits:
  assumes "fresh w" "\<And>b. DryRun (px_config px) \<Longrightarrow> fits [] (dry w)"
    and "\<And>attrs w1. fresh w1 \<Longrightarrow> fits [] (ok attrs w1)"
  shows "fits (get_lines lt px op r w)
    (or_return (parseBucketFromPath r w) (\<lambda>b w1.
       if DryRun (px_config px) then dry w1
       else on_result (bucket_attributes px op b w1) (\<lambda>_. writeS3Error 502 c m) ok))"
  unfolding get_lines_def
proof (rule bucket_fits [OF assms(1)])
  fix b
  obtain res w1 where call: "bucket_attributes px op b w = (res, w1)" by fastforce
  with gcs_call_fresh(2) [OF call] assms
  show "fits (if DryRun (px_config px) then []
      else let res = fst (bucket_attributes px op b w) in call_line lt r op res
        # (case res of Inl e \<Rightarrow> [failed_for lt op e [(''bucket'', LStr b)]] | Inr _ \<Rightarrow> []))
    (if DryRun (px_config px) then dry w
     else on_result (bucket_attributes px op b w) (\<lambda>_. writeS3Error 502 c m) ok)"
    by (cases res) (auto simp: fits_def)
qed

lemma get_handlers_fit:
  assumes "fresh w"
  shows "fits (get_lifecycle_log lt px r w) (handleGetLifecycle px r w)"
    "fits (get_cors_log lt px r w) (handleGetCORS px r w)"
    "fits (get_logging_log lt px r w) (handleGetLogging px r w)"
    "fits (get_website_log lt px r w) (handleGetWebsite px r w)"
  unfolding get_lifecycle_log_def get_cors_log_def get_logging_log_def get_website_log_def
    handleGetLifecycle_def handleGetCORS_def handleGetLogging_def handleGetWebsite_def
  using assms by (intro get_fits; simp add: fits_quiet Let_def split: option.split)+

lemma object_update_fits:
  assumes "fresh w" "\<And>attrs. \<not> has_error (before attrs)" "s \<in> {200, 204}"
  shows "fits (object_update_lines lt px r probe op don u b k before w)
    (on_result (object_attributes px probe b k w) no_such_key
       (\<lambda>attrs w1. on_result (update_object px op b k (Oa_Metageneration attrs) (u attrs) w1)
          (\<lambda>_. writeS3Error 500 c m) (\<lambda>_. send_status s)))"
proof -
  obtain res w1 where call: "object_attributes px probe b k w = (res, w1)" by fastforce
  have fresh: "fresh w1" using gcs_call_fresh(3) [OF call] assms(1) by simp
  show ?thesis
  proof (cases res)
    case (Inl e)
    with call fresh show ?thesis by (simp add: object_update_lines_def fits_def no_such_key_def)
  next
    case (Inr attrs)
    obtain res2 w2 where call2: "update_object px op b k (Oa_Metageneration attrs) (u attrs) w1 = (res2, w2)"
      by fastforce
    with gcs_call_fresh(4) [OF call2] fresh call Inr assms(2,3) show ?thesis
      by (cases res2) (auto simp: object_update_lines_def fits_def)
  qed
qed

lemma tagging_handlers_fit:
  assumes "fresh w"
  shows "fits (put_tagging_log lt px r w) (handlePutObjectTagging px r w)"
    "fits (get_tagging_log lt px r w) (handleGetObjectTagging px r w)"
    "fits (delete_tagging_log lt px r w) (handleDeleteObjectTagging px r w)"
proof -
  show "fits (put_tagging_log lt px r w) (handlePutObjectTagging px r w)"
    unfolding put_tagging_log_def handlePutObjectTagging_def
    by (intro decode_fits object_fits assms)
      (auto simp: assms fits_quiet intro!: fits_prefix object_update_fits)
  show "fits (delete_tagging_log lt px r w) (handleDeleteObjectTagging px r w)"
    unfolding delete_tagging_log_def handleDeleteObjectTagging_def
    by (intro object_fits assms) (auto simp: assms fits_quiet intro!: object_update_fits)
  show "fits (get_tagging_log lt px r w) (handleGetObjectTagging px r w)"
    unfolding get_tagging_log_def handleGetObjectTagging_def
  proof (rule object_fits [OF assms], goal_cases)
    case (1 b k)
    obtain res w1 where call: "object_attributes px ''GetObjectAttrs_GetTagging'' b k w = (res, w1)" by fastforce
    moreover have "world_status (respond [OpHeader h v, OpStatus 200, OpWrite t] w) = Some 200" for h v t
      using assms by (simp add: world_status_def fresh_def)
    ultimately show ?case using gcs_call_fresh(3) [OF call] assms
      by (cases res) (auto simp: fits_def no_such_key_def has_error_def list_ex_iff split: option.splits)
  qed
qed

lemma restore_handler_fits:
  assumes "fresh w"
  shows "fits (restore_log lt px r w) (handleRestoreObject px r w)"
  unfolding restore_log_def handleRestoreObject_def
proof (rule object_fits [OF assms], goal_cases)
  case (1 b k)
  obtain res w1 where call: "object_attributes px ''RestoreObject_HeadProbe'' b k w = (res, w1)" by fastforce
  have "world_status (restore_success px w') = Some 200" if "fresh w'" for w'
    using that by (simp add: restore_success_def world_status_def fresh_def)
  with call gcs_call_fresh(3) [OF call] assms show ?case
    by (cases res; cases "read_capped (req_body r)") (auto simp: fits_def restore_probe_def)
qed

text \<open>A stage fits when it does so on answering, and stays quiet on going on.\<close>

definition stage_fits :: "('s world \<Rightarrow> 's world + 's world) \<Rightarrow> ('s world \<Rightarrow> log_line list) \<Rightarrow> bool" where
  "stage_fits f g \<longleftrightarrow> (\<forall>w. fresh w \<longrightarrow>
     (case f w of Inl w' \<Rightarrow> fits (g w) w' | Inr w' \<Rightarrow> fresh w' \<and> \<not> has_error (g w)))"

lemma run_logs_fit:
  "list_all2 stage_fits fs gs \<Longrightarrow> fresh w \<Longrightarrow>
     (case run_stages fs w of Inl w' \<Rightarrow> fits (run_logs fs gs w) w' | Inr w' \<Rightarrow> \<not> has_error (run_logs fs gs w))"
proof (induction fs gs arbitrary: w rule: list_all2_induct)
  case (Cons f fs g gs)
  then have step: "case f w of Inl w' \<Rightarrow> fits (g w) w' | Inr w' \<Rightarrow> fresh w' \<and> \<not> has_error (g w)"
    by (simp add: stage_fits_def)
  show ?case
  proof (cases "f w")
    case (Inr w')
    with step Cons.IH [of w'] show ?thesis by (auto simp: fits_def split: sum.splits)
  qed (use step in simp)
qed simp

lemma control_fits:
  assumes "\<And>w. fresh w \<Longrightarrow> fits (put' w) (put w)" "\<And>w. fresh w \<Longrightarrow> fits (get' w) (get w)"
    "\<And>w. fresh w \<Longrightarrow> fits (del' w) (del w)"
  shows "stage_fits (\<lambda>w. if b then gated px on f w (by_method r put get del) else Inr w)
    (\<lambda>w. if b then control_lines r on f (put' w) (get' w) (del' w) else [])"
  using assms by (auto simp: stage_fits_def gated_cases by_method_def control_lines_def fits_quiet)

lemma gate_fits:
  "stage_fits (\<lambda>w. if b then gated px on f w Inr else Inr w) (\<lambda>_. if b then feature_lines r on f else [])"
  by (auto simp: stage_fits_def gated_cases fits_quiet)

lemma stages_fit: "list_all2 stage_fits (stages px r) (stage_logs lt px r)"
proof -
  have "stage_fits (storage_class_stage px r) (\<lambda>_. storage_class_lines r)" "stage_fits (chunked_stage r) (\<lambda>_. chunked_lines r)"
    by (auto simp: stage_fits_def storage_class_stage_def chunked_stage_def Let_def fits_quiet)
  moreover have "stage_fits (lifecycle_stage px r) (lifecycle_stage_log lt px r)"
    "stage_fits (cors_stage px r) (cors_stage_log lt px r)" "stage_fits (logging_stage px r) (logging_stage_log lt px r)"
    "stage_fits (website_stage px r) (website_stage_log lt px r)" "stage_fits (tagging_stage px r) (tagging_stage_log lt px r)"
    unfolding lifecycle_stage_def [abs_def] cors_stage_def [abs_def] logging_stage_def [abs_def]
      website_stage_def [abs_def] tagging_stage_def [abs_def] lifecycle_stage_log_def [abs_def] cors_stage_log_def [abs_def]
      logging_stage_log_def [abs_def] website_stage_log_def [abs_def] tagging_stage_log_def [abs_def]
    by (intro control_fits put_handlers_fit get_handlers_fit delete_handlers_fit tagging_handlers_fit; assumption)+
  moreover have "stage_fits (restore_stage px r) (restore_stage_log lt px r)"
    by (auto simp: stage_fits_def restore_stage_def restore_stage_log_def gated_cases fits_quiet restore_handler_fits
        intro!: fits_prefix)
  moreover have "stage_fits (copy_stage px r) (\<lambda>_. copy_lines px r)" "stage_fits (multipart_stage px r) (\<lambda>_. multipart_lines px r)"
    "stage_fits (delete_stage px r) (\<lambda>_. bulk_delete_lines px r)"
    unfolding copy_stage_def [abs_def] multipart_stage_def [abs_def] delete_stage_def [abs_def] copy_lines_def
      multipart_lines_def bulk_delete_lines_def
    by (rule gate_fits)+
  ultimately show ?thesis by (simp add: stages_def stage_logs_def)
qed

lemma request_log_fits:
  assumes "fresh w"
  shows "case handleS3Request px sr r w of
    Answered w' \<Rightarrow> fits (request_log lt px sr r w) w' | Forwarded _ _ _ \<Rightarrow> \<not> has_error (request_log lt px sr r w)"
proof (cases "credential_gate sr r w")
  case (Inl w')
  have "world_status (count_metric m w) = None" for m
    using assms by (simp add: world_status_def fresh_def)
  then have "world_status w' \<notin> {Some 500, Some 502}"
    using Inl assms by (cases rule: gate_cases [of sr r w]) auto
  with Inl show ?thesis by (simp add: handleS3Request_def request_log_def fits_quiet)
next
  case (Inr p)
  then have "fresh (snd p)"
    using assms by (cases rule: gate_cases [of sr r w]) auto
  from run_logs_fit [OF stages_fit this, of px "fst p" lt] Inr show ?thesis
    by (auto simp: handleS3Request_def request_log_def fits_def split: sum.splits prod.splits)
qed
end
