(* ===== verification/Log_Facts.thy ===== *)
theory Log_Facts
  imports Handler_Log
begin

text \<open>
  What the lines of a request do not depend on, and which of them carry its id.
\<close>

subsection \<open>No secret\<close>

text \<open>
  Requests that differ in the credentials found for them and in the \<^verbatim>\<open>Authorization\<close> header only.
\<close>

definition lookalike :: "request \<Rightarrow> request \<Rightarrow> bool" where
  "lookalike r r' \<longleftrightarrow> req_method r = req_method r' \<and> req_uri r = req_uri r' \<and> req_url r = req_url r'
     \<and> req_body r = req_body r' \<and> req_id r = req_id r'
     \<and> (\<forall>k. canonical k \<noteq> ''Authorization'' \<longrightarrow> header_value r k = header_value r' k)"

lemma lookalike_projections:
  assumes "lookalike r r'"
  shows "req_method r = req_method r'" "req_uri r = req_uri r'" "req_url r = req_url r'" "req_body r = req_body r'"
    "req_id r = req_id r'" "canonical k \<noteq> ''Authorization'' \<Longrightarrow> header_value r k = header_value r' k"
  using assms by (simp_all add: lookalike_def)

lemma logged_headers:
  "canonical ''x-amz-storage-class'' \<noteq> ''Authorization''" "canonical ''Content-Encoding'' \<noteq> ''Authorization''"
  "canonical ''x-amz-copy-source'' \<noteq> ''Authorization''" "canonical ''User-Agent'' \<noteq> ''Authorization''"
  by code_simp+

lemma reqLogger_alike: "lookalike r r' \<Longrightarrow> reqLogger r = reqLogger r'"
  by (rule ext) (simp add: lookalike_def reqLogger_def)

lemma by_method_alike: "lookalike r r' \<Longrightarrow> by_method r = by_method r'"
  by (intro ext) (simp add: lookalike_def by_method_def)

lemma lookalike_parts:
  assumes "lookalike r r'"
  shows "hasQueryParam r q = hasQueryParam r' q" "parseBucketFromPath r w = parseBucketFromPath r' w"
    "parse_object_path m r w = parse_object_path m r' w"
    "decodeControlPlaneXML px d r w = decodeControlPlaneXML px d r' w"
    "reqLogger r l = reqLogger r' l" "where_from r = where_from r'" "feature_lines r on f = feature_lines r' on f"
    "call_line lt r op res = call_line lt r' op res"
  using lookalike_projections [OF assms] reqLogger_alike [OF assms]
  by (simp_all add: hasQueryParam_def parseBucketFromPath_def parse_object_path_def path_parts_def
      decodeControlPlaneXML_def where_from_def feature_lines_def call_line_def
      cong: if_cong)

lemma decode_lines_alike:
  assumes "lookalike r r'"
  shows "decode_lines lt px d label r = decode_lines lt px d label r'"
  unfolding decode_lines_def reqLogger_alike [OF assms] lookalike_projections(4) [OF assms] by (rule refl)

lemma update_parts:
  assumes "lookalike r r'"
  shows "update_lines lt px r own op b u don w = update_lines lt px r' own op b u don w"
    "object_update_lines lt px r probe op don v b k before w = object_update_lines lt px r' probe op don v b k before w"
    "restored_line px r b k = restored_line px r' b k"
    "document_lines lt px d label r w f = document_lines lt px d label r' w f"
    "get_lines lt px op r w = get_lines lt px op r' w"
  using assms
  by (simp_all add: update_lines_def object_update_lines_def restored_line_def document_lines_def get_lines_def
      lookalike_parts [OF assms] decode_lines_alike [OF assms] lookalike_projections [OF assms] reqLogger_def cong: if_cong sum.case_cong)

lemma handler_logs_alike:
  assumes "lookalike r r'"
  shows "put_lifecycle_log lt px r = put_lifecycle_log lt px r'" "get_lifecycle_log lt px r = get_lifecycle_log lt px r'"
    "delete_lifecycle_log lt px r = delete_lifecycle_log lt px r'"
    "put_cors_log lt px r = put_cors_log lt px r'" "get_cors_log lt px r = get_cors_log lt px r'"
    "delete_cors_log lt px r = delete_cors_log lt px r'"
    "put_logging_log lt px r = put_logging_log lt px r'" "get_logging_log lt px r = get_logging_log lt px r'"
    "delete_logging_log lt px r = delete_logging_log lt px r'"
    "put_website_log lt px r = put_website_log lt px r'" "get_website_log lt px r = get_website_log lt px r'"
    "delete_website_log lt px r = delete_website_log lt px r'"
    "put_tagging_log lt px r = put_tagging_log lt px r'" "get_tagging_log lt px r = get_tagging_log lt px r'"
    "delete_tagging_log lt px r = delete_tagging_log lt px r'" "restore_log lt px r = restore_log lt px r'"
  by (rule ext; simp only: put_lifecycle_log_def get_lifecycle_log_def delete_lifecycle_log_def put_cors_log_def
      get_cors_log_def delete_cors_log_def put_logging_log_def get_logging_log_def delete_logging_log_def
      put_website_log_def get_website_log_def delete_website_log_def put_tagging_log_def get_tagging_log_def
      delete_tagging_log_def restore_log_def delete_lines_def
      lookalike_parts [OF assms] decode_lines_alike [OF assms] update_parts [OF assms] lookalike_projections [OF assms])+

lemma stage_logs_alike:
  assumes "lookalike r r'"
  shows "stage_logs lt px r = stage_logs lt px r'"
proof -
  note parts = lookalike_parts [OF assms] lookalike_projections(1-5) [OF assms] handler_logs_alike [OF assms]
  have heads: "header_value r ''x-amz-storage-class'' = header_value r' ''x-amz-storage-class''"
    "header_value r ''Content-Encoding'' = header_value r' ''Content-Encoding''"
    "header_value r ''x-amz-copy-source'' = header_value r' ''x-amz-copy-source''"
    "header_value r ''User-Agent'' = header_value r' ''User-Agent''"
    using logged_headers by (auto intro: lookalike_projections(6) [OF assms])
  show ?thesis
    by (simp only: stage_logs_def storage_class_lines_def chunked_lines_def control_lines_def
        lifecycle_stage_log_def [abs_def] cors_stage_log_def [abs_def] logging_stage_log_def [abs_def]
        website_stage_log_def [abs_def] tagging_stage_log_def [abs_def] restore_stage_log_def [abs_def]
        copy_lines_def multipart_lines_def bulk_delete_lines_def parts heads)
qed

lemma handlers_alike:
  assumes "lookalike r r'"
  shows "handlePutLifecycle px r = handlePutLifecycle px r'" "handleGetLifecycle px r = handleGetLifecycle px r'"
    "handleDeleteLifecycle px r = handleDeleteLifecycle px r'" "handlePutCORS px r = handlePutCORS px r'"
    "handleGetCORS px r = handleGetCORS px r'" "handleDeleteCORS px r = handleDeleteCORS px r'"
    "handlePutLogging px r = handlePutLogging px r'" "handleGetLogging px r = handleGetLogging px r'"
    "handleDeleteLogging px r = handleDeleteLogging px r'" "handlePutWebsite px r = handlePutWebsite px r'"
    "handleGetWebsite px r = handleGetWebsite px r'" "handleDeleteWebsite px r = handleDeleteWebsite px r'"
    "handlePutObjectTagging px r = handlePutObjectTagging px r'" "handleGetObjectTagging px r = handleGetObjectTagging px r'"
    "handleDeleteObjectTagging px r = handleDeleteObjectTagging px r'" "handleRestoreObject px r = handleRestoreObject px r'"
  by (rule ext; simp only: lifecycle_handler_defs cors_handler_defs logging_handler_defs website_handler_defs
      tagging_handler_defs handleRestoreObject_def lookalike_parts [OF assms] lookalike_projections [OF assms])+

lemma stages_alike:
  assumes "lookalike r r'"
  shows "stages px r = stages px r'"
proof -
  have heads: "header_value r ''x-amz-storage-class'' = header_value r' ''x-amz-storage-class''"
    "header_value r ''Content-Encoding'' = header_value r' ''Content-Encoding''"
    "header_value r ''x-amz-copy-source'' = header_value r' ''x-amz-copy-source''"
    using logged_headers by (auto intro: lookalike_projections(6) [OF assms])
  show ?thesis
    by (simp only: by_method_alike [OF assms] stages_def storage_class_stage_def [abs_def] chunked_stage_def [abs_def] lifecycle_stage_def [abs_def]
        cors_stage_def [abs_def] logging_stage_def [abs_def] website_stage_def [abs_def] tagging_stage_def [abs_def]
        restore_stage_def [abs_def] copy_stage_def [abs_def] multipart_stage_def [abs_def] delete_stage_def [abs_def]
        handlers_alike [OF assms] lookalike_parts(1) [OF assms] lookalike_projections(1) [OF assms] heads)
qed

text \<open>Stores that hold the same access keys, with whatever secrets.\<close>

definition same_keys :: "store_reads \<Rightarrow> store_reads \<Rightarrow> bool" where
  "same_keys sr sr' \<longleftrightarrow> (Size (sr_gate sr) = 0 \<longleftrightarrow> Size (sr_gate sr') = 0)
     \<and> (Size (sr_size sr) = 0 \<longleftrightarrow> Size (sr_size sr') = 0)
     \<and> (\<forall>ak. Lookup (sr_lookup sr) ak = None \<longleftrightarrow> Lookup (sr_lookup sr') ak = None)"

lemma gates_alike:
  assumes "same_keys sr sr'" "lookalike r r'" "client_access_key r = client_access_key r'"
  shows "(\<exists>w'. credential_gate sr r w = Inl w' \<and> credential_gate sr' r' w = Inl w')
    \<or> (\<exists>r1 r2 w'. credential_gate sr r w = Inr (r1, w') \<and> credential_gate sr' r' w = Inr (r2, w') \<and> lookalike r1 r2)"
proof -
  have sizes: "Size (sr_gate sr) = 0 \<longleftrightarrow> Size (sr_gate sr') = 0" "Size (sr_size sr) = 0 \<longleftrightarrow> Size (sr_size sr') = 0"
    using assms(1) by (simp_all add: same_keys_def)
  have none: "Lookup (sr_lookup sr) ak = None \<longleftrightarrow> Lookup (sr_lookup sr') ak = None" for ak
    using assms(1) by (simp add: same_keys_def)
  have creds: "lookalike (r\<lparr>req_creds := c\<rparr>) (r'\<lparr>req_creds := c'\<rparr>)" for c c'
    using assms(2) by (simp add: lookalike_def header_value_def)
  show ?thesis
  proof (cases "client_access_key r")
    case None
    with assms show ?thesis
      by (auto simp: credential_gate_def validateClientCredential_def same_keys_def)
  next
    case (Some ak)
    moreover have "client_access_key r' = Some ak" using Some assms(3) by simp
    ultimately show ?thesis using assms(2) sizes none [of ak] creds
      by (cases "Lookup (sr_lookup sr) ak"; cases "Lookup (sr_lookup sr') ak")
        (auto simp: credential_gate_def validateClientCredential_def Let_def)
  qed
qed

lemma request_logs_alike:
  assumes "same_keys sr sr'" "lookalike r r'" "client_access_key r = client_access_key r'"
  shows "request_log lt px sr r w = request_log lt px sr' r' w"
proof -
  have "gate_lines sr r = gate_lines sr' r'"
    using assms lookalike_parts(5,6) [OF assms(2)] by (auto simp: gate_lines_def same_keys_def split: option.split)
  with gates_alike [OF assms, of w] show ?thesis
    by (auto simp: request_log_def lookalike_parts(5,6) [OF assms(2)] stages_alike stage_logs_alike)
qed

subsection \<open>The id of the request\<close>

definition with_request_id :: "request \<Rightarrow> log_line \<Rightarrow> bool" where
  "with_request_id r l \<longleftrightarrow> (\<exists>as. ll_attrs l = (''request_id'', LStr (req_id r)) # as)"

lemma reqLogger_has_id: "req_id r \<noteq> [] \<Longrightarrow> with_request_id r (reqLogger r l)"
  by (simp add: with_request_id_def reqLogger_def)

text \<open>A failed GET of the lifecycle logs two lines; only the first can be found by the id.\<close>

lemma get_failure_without_id:
  assumes "bucket_attributes px ''GetBucketLifecycle'' b w = (Inl e, w')" "fst (parseBucketFromPath r w) = Some b"
    and "\<not> DryRun (px_config px)" "req_id r \<noteq> []"
  shows "\<exists>l l'. get_lifecycle_log lt px r w = [l, l'] \<and> with_request_id r l \<and> \<not> with_request_id r l' \<and> ll_level l' = LError"
  using assms
  by (simp add: get_lifecycle_log_def get_lines_def call_line_def reqLogger_has_id failed_for_def)
    (simp add: with_request_id_def error_def)

end
