(* ===== verification/Proxy_Log.thy ===== *)
theory Proxy_Log
  imports Log_Lines Signature_Blind
begin

text \<open>
  What is logged on the data plane of \<^verbatim>\<open>main.go\<close>: the lines of the Director, of
  \<^verbatim>\<open>modifyResponse\<close> and of the transport of a dry run. All are written with \<^verbatim>\<open>slog\<close> itself, without
  the id of the request. Most are behind \<^verbatim>\<open>DEBUG_LOGGING\<close>.
\<close>

text \<open>
  What the lines show of code outside: an address as text, the order in which Go enumerates the
  headers, and the error of the signer.
\<close>

record proxy_texts =
  pt_url :: "url \<Rightarrow> string"
  pt_order :: "header \<Rightarrow> string list"
  pt_sign :: string

definition when_debug :: "Settings \<Rightarrow> bool \<Rightarrow> log_line \<Rightarrow> log_line list" where
  "when_debug cfg b l = (if DebugLogging cfg \<and> b then [l] else [])"

subsection \<open>The Director\<close>

definition virtual_host_lines :: "Settings \<Rightarrow> request \<Rightarrow> log_line list" where
  "virtual_host_lines cfg r =
     (case virtual_bucket (ProxyBaseDomain cfg) (req_host r) of
        None \<Rightarrow> []
      | Some bucket \<Rightarrow> when_debug cfg True (debug ''Virtual-hosted to path-style conversion''
          [(''bucket'', LStr bucket), (''rewrittenPath'', LStr (url_path (req_url (director_virtual_host cfg r))))]))"

definition transmitted_line :: "Settings \<Rightarrow> request \<Rightarrow> log_line list" where
  "transmitted_line cfg r =
     when_debug cfg True (debug ''Request Headers transmitted to GCS (Redacted)''
       [(''headers'', LHeader (hdr_del ''Authorization'' (req_header r)))])"

definition storage_class_line :: "Settings \<Rightarrow> request \<Rightarrow> log_line list" where
  "storage_class_line cfg r =
     (let sc = hdr_get (req_header r) ''x-amz-storage-class'' in
      when_debug cfg (sc \<noteq> [] \<and> sc \<noteq> ''STANDARD'')
        (debug ''Detected non-standard S3 Storage Class'' [(''storageClass'', LStr sc)]))"

definition xid_line :: "Settings \<Rightarrow> request \<Rightarrow> log_line list" where
  "xid_line cfg r =
     (let x = values_get (url_query (req_url r)) ''x-id'' in
      when_debug cfg (x \<noteq> [])
        (debug ''Detected x-id query parameter. Stripping and re-signing'' [(''xId'', LStr x)]))"

definition identity_line :: "Settings \<Rightarrow> request \<Rightarrow> log_line list" where
  "identity_line cfg r =
     when_debug cfg (\<not> DisableHeaderStrip cfg \<and> hdr_get (req_header r) ''Accept-Encoding'' = ''identity'')
       (debug ''Detected Accept-Encoding: identity. Stripping and re-signing'' [])"

definition address_lines :: "Settings \<Rightarrow> upstream \<Rightarrow> request \<Rightarrow> log_line list" where
  "address_lines cfg up r =
     (let r1 = director_target up (director_virtual_host cfg r);
          r2 = director_content_length r1;
          r3 = director_storage_class r2;
          r4 = director_xid r3
      in virtual_host_lines cfg r @ transmitted_line cfg r1 @ storage_class_line cfg r2 @ xid_line cfg r3
         @ identity_line cfg r4)"

definition md5_line :: "Settings \<Rightarrow> upstream \<Rightarrow> request \<Rightarrow> log_line list" where
  "md5_line cfg up r =
     (case (req_method r = ''POST'' \<and> values_has (url_query (req_url r)) ''delete'', req_body r) of
        (True, Some b) \<Rightarrow>
          when_debug cfg (\<not> body_fails b) (debug ''Computed Content-MD5 for POST ?delete''
            [(''bodyLen'', LInt (length (body_bytes b))),
             (''md5'', LStr (hdr_get (req_header (director_md5 up r)) ''Content-Md5''))])
      | _ \<Rightarrow> [])"

definition presign_lines :: "proxy_texts \<Rightarrow> Settings \<Rightarrow> header \<Rightarrow> log_line list" where
  "presign_lines pt cfg h =
     (if DebugLogging cfg
      then map (\<lambda>k. debug ''Pre-sign header'' [(''key'', LStr k), (''value'', LStrs (case h k of None \<Rightarrow> [] | Some vs \<Rightarrow> vs))])
        (pt_order pt h)
      else [])"

definition signed_line :: "proxy_texts \<Rightarrow> Settings \<Rightarrow> request \<Rightarrow> log_line list" where
  "signed_line pt cfg r =
     when_debug cfg True (debug ''Successfully re-signed request for GCS''
       [(''method'', LStr (req_method r)), (''url'', LStr (pt_url pt (req_url r))), (''host'', LStr (req_host r)),
        (''content-length'', LNum (sint (req_content_length r))),
        (''content-type'', LStr (hdr_get (req_header r) ''Content-Type'')),
        (''x-amz-sha256'', LStr (hdr_get (req_header r) ''X-Amz-Content-Sha256''))])"

definition director_log :: "proxy_texts \<Rightarrow> Settings \<Rightarrow> upstream \<Rightarrow> request \<Rightarrow> log_line list" where
  "director_log pt cfg up r =
     address_lines cfg up r
     @ (case director_credentials cfg r of
          None \<Rightarrow> [warn ''Proxy HMAC credentials not set! Re-signing skipped. Signature will fail at GCS.'' []]
        | Some creds \<Rightarrow>
            (let prepared = director_prepare cfg up r in
             md5_line cfg up (director_headers cfg (director_address cfg up r))
             @ presign_lines pt cfg (req_header prepared)
             @ (let (ok, signed) = up_sign up creds prepared in
                if ok then signed_line pt cfg signed
                else [error ''Failed to re-sign request'' [(''error'', LStr (pt_sign pt))]])))"

subsection \<open>Responses\<close>

definition response_log :: "proxy_texts \<Rightarrow> Settings \<Rightarrow> upstream_response \<Rightarrow> log_line list" where
  "response_log pt cfg resp =
     (let gen = hdr_get (ur_header resp) ''x-goog-generation'' in
      when_debug cfg True (debug ''Response Headers received from GCS'' [(''headers'', LHeader (ur_header resp))])
      @ (if 400 \<le> ur_status resp
         then [warn ''GCS returned error'' [(''status'', LNum (ur_status resp)),
           (''method'', LStr (req_method (ur_request resp))),
           (''url'', LStr (pt_url pt (req_url (ur_request resp))))]]
         else [])
      @ when_debug cfg (contains_str (url_rawquery (req_url (ur_request resp))) ''versions'' \<and> \<not> body_fails (ur_body resp))
          (debug ''XML Response Body for ListObjectVersions'' [(''xml'', LStr (body_bytes (ur_body resp)))])
      @ when_debug cfg (gen \<noteq> [])
          (debug ''Mapped x-goog-generation to x-amz-version-id'' [(''generation'', LStr gen)]))"

definition dry_run_log :: "proxy_texts \<Rightarrow> request \<Rightarrow> log_line list" where
  "dry_run_log pt r =
     [info ''[DRY_RUN] ReverseProxy intercepted''
        [(''method'', LStr (req_method r)), (''url'', LStr (pt_url pt (req_url r)))],
      debug ''[DRY_RUN] Header StorageClass'' [(''class'', LStr (hdr_get (req_header r) ''x-amz-storage-class''))]]"

subsection \<open>What is shown\<close>

lemma when_debug_off: "\<not> DebugLogging cfg \<Longrightarrow> when_debug cfg b l = []"
  by (simp add: when_debug_def)

text \<open>Without \<^verbatim>\<open>DEBUG_LOGGING\<close> the Director only logs that a request could not be signed.\<close>

lemma director_log_quiet:
  assumes "\<not> DebugLogging cfg"
  shows "director_log pt cfg up r =
    (case director_credentials cfg r of
       None \<Rightarrow> [warn ''Proxy HMAC credentials not set! Re-signing skipped. Signature will fail at GCS.'' []]
     | Some creds \<Rightarrow>
         (if fst (up_sign up creds (director_prepare cfg up r)) then []
          else [error ''Failed to re-sign request'' [(''error'', LStr (pt_sign pt))]]))"
  by (simp add: director_log_def address_lines_def virtual_host_lines_def transmitted_line_def storage_class_line_def
      xid_line_def identity_line_def md5_line_def presign_lines_def signed_line_def Let_def when_debug_off [OF assms] assms
      split: option.split bool.split prod.split)

text \<open>With it, one line is redacted, as it says; a later one shows what that one hides.\<close>

lemma prepared_authorization: "req_header (director_prepare cfg up r) ''Authorization'' = req_header r ''Authorization''"
proof -
  let ?a = "req_header r ''Authorization''"
  have "director_prepare cfg up r = director_prepare cfg up (with_authorization ?a r)"
    by (simp add: with_authorization_def)
  also have "\<dots> = with_authorization ?a (director_prepare cfg up r)"
    by (rule prepare_blind)
  finally have "req_header (director_prepare cfg up r) = (req_header (director_prepare cfg up r))(''Authorization'' := ?a)"
    by (metis with_authorization_simps(8))
  then show ?thesis by (metis fun_upd_same)
qed

lemma authorization_is_shown:
  assumes "DebugLogging cfg" "director_credentials cfg r = Some c" "req_header r ''Authorization'' = Some vs"
    and "''Authorization'' \<in> set (pt_order pt (req_header (director_prepare cfg up r)))"
  shows "\<exists>h. debug ''Request Headers transmitted to GCS (Redacted)'' [(''headers'', LHeader h)] \<in> set (director_log pt cfg up r)
      \<and> h ''Authorization'' = None"
    "debug ''Pre-sign header'' [(''key'', LStr ''Authorization''), (''value'', LStrs vs)] \<in> set (director_log pt cfg up r)"
proof -
  have "canonical ''Authorization'' = ''Authorization''" by code_simp
  then show "\<exists>h. debug ''Request Headers transmitted to GCS (Redacted)'' [(''headers'', LHeader h)] \<in> set (director_log pt cfg up r)
      \<and> h ''Authorization'' = None"
    using assms(1)
    by (auto simp: director_log_def address_lines_def transmitted_line_def when_debug_def Let_def hdr_del_def)
  show "debug ''Pre-sign header'' [(''key'', LStr ''Authorization''), (''value'', LStrs vs)] \<in> set (director_log pt cfg up r)"
    using assms by (force simp: director_log_def presign_lines_def Let_def prepared_authorization)
qed

end
