(* ===== verification/Start_Log.thy ===== *)
theory Start_Log
  imports Log_Lines Start_Up Server_Life
begin

text \<open>
  What \<^verbatim>\<open>main\<close> logs from the loaded configuration to its end: the start of the watcher, of the
  client and of the proxies, the lines of the servers' goroutines, those of the shutdown; and
  what the watcher, the clean-up and the readiness endpoint log while the server runs. \<^verbatim>\<open>LoadConfig\<close>'s lines
  are in Log_Lines. A line of a failure to send the XML of an error is left out.
\<close>

text \<open>The texts of errors, and a duration as a log line shows it.\<close>

record start_texts =
  st_watch :: string
  st_client :: string
  st_warmup :: "gcs_error \<Rightarrow> string"
  st_url :: string
  st_cred :: "cred_error \<Rightarrow> string"
  st_dir :: string
  st_remove :: "string \<Rightarrow> string"
  st_duration :: "int64 \<Rightarrow> string"

subsection \<open>The start\<close>

definition watch_lines :: "start_texts \<Rightarrow> 's host \<Rightarrow> Settings \<Rightarrow> log_line list" where
  "watch_lines tx ho cfg =
     (let path = CredentialsFile cfg in
      if path = [] then []
      else if watched_path ho cfg = None
      then [error ''Failed to start HMAC credentials watcher; continuing with initial snapshot''
        [(''path'', LStr path), (''error'', LStr (st_watch tx))]]
      else [info ''HMAC credentials hot-reload enabled'' [(''path'', LStr path)]])"

definition warmup_line :: "start_texts \<Rightarrow> 's host \<Rightarrow> Settings \<Rightarrow> 's \<Rightarrow> log_line" where
  "warmup_line tx ho cfg s =
     (if TargetBucket cfg = []
      then info ''GCS client warmup skipped (TARGET_BUCKET not set; bucket name is parsed per-request)'' []
      else (case fst (api_bucket_attrs (ho_api ho) warmup_timeout (TargetBucket cfg) s) of
          Inl e \<Rightarrow> warn ''GCS warmup call failed (non-fatal, will retry on first request)'' [(''error'', LStr (st_warmup tx e))]
        | Inr _ \<Rightarrow> info ''GCS client warmup succeeded'' [(''bucket'', LStr (TargetBucket cfg))]))"

text \<open>\<^verbatim>\<open>log.Fatalf\<close> is the last line of a start that fails.\<close>

definition client_lines :: "start_texts \<Rightarrow> 's host \<Rightarrow> Settings \<Rightarrow> 's \<Rightarrow> log_line list" where
  "client_lines tx ho cfg s =
     (if DryRun cfg then [printf ''Running in DRY_RUN mode (No real GCS hits).'' []]
      else (if JSONKey cfg = [] then [] else [info ''Using JSON key for GCS client'' [(''path'', LStr (JSONKey cfg))]])
        @ (if \<not> ho_client ho (JSONKey cfg)
           then [printf ''Failed to initialize GCS client: %v'' [LStr (st_client tx)]]
           else [printf ''Initialized real GCS client.'' [], warmup_line tx ho cfg s]))"

definition transport_line :: "start_texts \<Rightarrow> Settings \<Rightarrow> log_line" where
  "transport_line tx cfg =
     (if DryRun cfg then info ''Reverse Proxies using DryRun Transport (no real hits)'' []
      else info ''Read/Write split Transports initialized''
        [(''MaxIdleConns'', LNum (MaxIdleConns cfg)), (''MaxIdleConnsPerHost'', LNum (MaxIdleConnsPerHost cfg)),
         (''IdleConnTimeout'', LStr (st_duration tx (IdleConnTimeout cfg))),
         (''ResponseHeaderTimeout'', LStr (st_duration tx (ResponseHeaderTimeout cfg))),
         (''ReadBufferSize'', LNum (ReadBufferSize cfg)), (''WriteBufferSize'', LNum (WriteBufferSize cfg))])"

definition pool_lines :: "Settings \<Rightarrow> log_line list" where
  "pool_lines cfg =
     (case buffer_pool cfg of
        None \<Rightarrow> []
      | Some n \<Rightarrow> [info ''ReverseProxy BufferPool enabled (sync.Pool)'' [(''bufferSize'', LNum n)]])"

definition throttle_line :: "Settings \<Rightarrow> log_line" where
  "throttle_line cfg =
     (if 0 < MaxConcurrentRequests cfg
      then info ''Concurrency throttle enabled'' [(''max_concurrent_requests'', LNum (MaxConcurrentRequests cfg))]
      else warn ''Concurrency throttle DISABLED (MAX_CONCURRENT_REQUESTS=0)'' [])"

definition proxy_lines :: "start_texts \<Rightarrow> Settings \<Rightarrow> log_line list" where
  "proxy_lines tx cfg =
     [transport_line tx cfg,
      info ''Read proxy FlushInterval configured'' [(''flushIntervalMS'', LNum (FlushIntervalMS cfg))]]
     @ pool_lines cfg @ [throttle_line cfg]"

text \<open>From the loaded settings to the servers; a start that fails ends with its fatal line.\<close>

definition start_log :: "start_texts \<Rightarrow> 's host \<Rightarrow> Settings \<Rightarrow> 's \<Rightarrow> log_line list" where
  "start_log tx ho cfg s =
     watch_lines tx ho cfg @ client_lines tx ho cfg s
     @ (if \<not> DryRun cfg \<and> \<not> ho_client ho (JSONKey cfg) then []
        else if ho_url ho (StorageBaseURL cfg) = None
        then [printf ''Failed to parse GCS URL: %v'' [LStr (st_url tx)]]
        else proxy_lines tx cfg)"

text \<open>The two goroutines that serve; their lines interleave with each other.\<close>

definition pprof_lines :: "Settings \<Rightarrow> log_line list" where
  "pprof_lines cfg =
     (if PPROFAddr cfg = [] then [] else [info ''Starting pprof endpoint (DEBUG)'' [(''addr'', LStr (PPROFAddr cfg))]])"

definition serve_lines :: "Settings \<Rightarrow> log_line list" where
  "serve_lines cfg =
     info ''Starting S3 to GCS proxy''
       [(''port'', LStr (Port cfg)), (''disable_header_strip'', LBool (DisableHeaderStrip cfg))]
     # (if DisableHeaderStrip cfg then []
        else [warn (''DISABLE_HEADER_STRIP=false '' @ em_dash
          @ '' Director will strip SDK-diagnostic headers (Amz-Sdk-*, Accept-Encoding, aws-chunked) before re-signing. ''
          @ ''This is the legacy behaviour; default since v1.8 is true (clients handle their own headers).'') []])"

subsection \<open>The end, and in between\<close>

text \<open>The line of a change of phase; a signal has a name, a failure a text.\<close>

definition phase_line :: "string \<Rightarrow> string \<Rightarrow> phase \<Rightarrow> phase \<Rightarrow> log_line list" where
  "phase_line sig err p p' =
     (case (p, p') of
        (Listening, Draining _) \<Rightarrow> [info ''Shutdown signal received'' [(''signal'', LStr sig)]]
      | (Listening, Exited Listen_failed) \<Rightarrow> [error ''Server error on startup'' [(''error'', LStr err)]]
      | (Draining _, Exited Graceful) \<Rightarrow> [info ''Server gracefully stopped'' []]
      | (Draining _, Exited Forced) \<Rightarrow> [error ''Shutdown failed, forcing close'' [(''error'', LStr err)]]
      | _ \<Rightarrow> [])"

definition pprof_end_line :: "string \<Rightarrow> life \<Rightarrow> life \<Rightarrow> log_line list" where
  "pprof_end_line err l l' =
     (if lf_pprof l \<and> \<not> lf_pprof l' then [error ''pprof server exited'' [(''error'', LStr err)]] else [])"

definition reload_line :: "start_texts \<Rightarrow> (string \<Rightarrow> bytes option) \<Rightarrow> string \<Rightarrow> log_line" where
  "reload_line tx read path =
     (case LoadFile read path of
        Inl e \<Rightarrow> error ''HMAC credentials hot-reload failed; keeping previous map''
          [(''path'', LStr path), (''error'', LStr (st_cred tx e))]
      | Inr m \<Rightarrow> info ''HMAC credentials hot-reloaded'' [(''path'', LStr path), (''count'', LInt (fcard (fmdom m)))])"

definition watch_error_line :: "string \<Rightarrow> string \<Rightarrow> log_line" where
  "watch_error_line path err = warn ''fsnotify watcher error'' [(''path'', LStr path), (''error'', LStr err)]"

text \<open>The daily clean-up of the request log; a directory that cannot be read is \<open>None\<close>.\<close>

definition cleanup_log ::
  "start_texts \<Rightarrow> string \<Rightarrow> zone \<Rightarrow> gotime \<Rightarrow> nat \<Rightarrow> (string \<Rightarrow> bool) \<Rightarrow> dir_entry list option \<Rightarrow> log_line list" where
  "cleanup_log tx dir z now keepDays remove_ok files =
     (case files of
        None \<Rightarrow> [error ''reqlog cleanup: read dir failed'' [(''dir'', LStr dir), (''error'', LStr (st_dir tx))]]
      | Some fs \<Rightarrow>
          map (\<lambda>e. let fullPath = file_clean (dir @ ''/'' @ de_name e) in
            if remove_ok (de_name e) then info ''reqlog cleanup: removed'' [(''path'', LStr fullPath)]
            else error ''reqlog cleanup: remove failed'' [(''path'', LStr fullPath), (''error'', LStr (st_remove tx (de_name e)))])
            (filter (expired z now keepDays) fs))"

definition readyz_log :: "start_texts \<Rightarrow> 's proxy \<Rightarrow> 's world \<Rightarrow> log_line list" where
  "readyz_log tx px w =
     (if ReadyzEndpoint_on (Features (px_config px)) \<and> \<not> DryRun (px_config px) \<and> px_client px
         \<and> TargetBucket (px_config px) \<noteq> []
      then (case fst (api_bucket_attrs (px_api px) readyz_timeout (TargetBucket (px_config px)) (w_gcs w)) of
          Inl e \<Rightarrow> [error ''Readiness check failed'' [(''error'', LStr (st_warmup tx e))]]
        | Inr _ \<Rightarrow> [])
      else [])"

subsection \<open>What the lines tell\<close>

definition fatal_line :: "log_line \<Rightarrow> bool" where
  "fatal_line l \<longleftrightarrow>
     ll_msg l \<in> {''Failed to initialize GCS client: %v'', ''Failed to parse GCS URL: %v''}"

text \<open>A start that fails after its configuration was loaded says so in its last line, and only then.\<close>

lemma start_failure_is_logged:
  assumes "LoadConfig (ho_read ho) (ho_env ho) = Inr cfg"
  shows "(\<exists>e. fst (start_up ho s) = Inl e) \<longleftrightarrow> fatal_line (last (start_log tx ho cfg s))"
    and "start_log tx ho cfg s \<noteq> []"
  using assms
  by (auto simp: start_up_def start_client_def start_log_def client_lines_def proxy_lines_def fatal_line_def
      printf_def info_def warn_def throttle_line_def warmup_line_def split: option.splits sum.splits if_splits)

text \<open>The line of a reload says what the watcher records of it.\<close>

lemma reload_line_level:
  "ll_level (reload_line tx read path) = LInfo \<longleftrightarrow> snd (hd (wt_reloads (on_timer read path w))) = None"
  by (auto simp: reload_line_def on_timer_reloads error_def info_def split: sum.split)

text \<open>Each file the clean-up removes is logged, and nothing else as removed.\<close>

lemma removals_are_logged:
  "length (filter (\<lambda>l. ll_level l = LInfo) (cleanup_log tx dir z now keepDays remove_ok (if read_ok then Some fs else None))) =
     length fs - length (cleanOldLogs z now keepDays read_ok remove_ok fs)"
proof (cases read_ok)
  case True
  have "length (filter (\<lambda>l. ll_level l = LInfo) (cleanup_log tx dir z now keepDays remove_ok (Some fs))) =
      length (filter (\<lambda>e. expired z now keepDays e \<and> remove_ok (de_name e)) fs)"
    by (induction fs) (auto simp: cleanup_log_def info_def error_def Let_def)
  then show ?thesis
    using sum_length_filter_compl [of "\<lambda>e. expired z now keepDays e \<and> remove_ok (de_name e)" fs] True
    by (simp add: cleanOldLogs_def)
qed (simp add: cleanOldLogs_def cleanup_log_def error_def)

text \<open>The proxy that reports itself not ready because of GCS has logged why.\<close>

lemma readyz_failure_is_logged:
  assumes "fresh w" "px_client px" "ReadyzEndpoint_on (Features (px_config px))"
  shows "world_status (handleReadyz px w) = Some 200 \<longleftrightarrow> readyz_log tx px w = []"
  using assms by (auto simp: readyz_ready_iff readyz_log_def split: sum.splits)

text \<open>Every end of the process is logged, and once.\<close>

lemma exit_is_logged:
  assumes "life_step cfg site l l'" "lf_phase l' = Exited x" "still_running l"
  shows "\<exists>line. phase_line sig err (lf_phase l) (lf_phase l') = [line]
    \<and> ll_level line = (if x = Graceful then LInfo else LError)"
  using assms by (cases rule: life_step.cases) (auto simp: phase_line_def still_running_def info_def error_def)

end
