(* ===== verification/Runtime_Properties.thy ===== *)
theory Runtime_Properties
  imports Credstore_Shared Server_Life Collectors Body_Reader Streaming Log_Facts Proxy_Log Start_Log Server_Examples
begin

text \<open>
  The properties of the running process: the store under concurrent goroutines, the life of
  the server up to its exit, the collectors, the readers and writers of bodies, and the log
  of the start.
\<close>

subsection \<open>The store in memory\<close>

text \<open>
  C8. A method that reads the store returns what it would return of the store at the moment
  it loads the map, whatever other goroutines and callers do before it has read the map: the
  unlocked read is one step on the current map.
\<close>

theorem reads_are_atomic:
  assumes "shared_reachable c" "sh_run c t = Idle"
    and "others_run {t} (goto t (Reading rd (sh_v c)) c) c'"
  shows "answer_of c' t = Some (read_store rd (the_store c))"
proof -
  let ?c = "goto t (Reading rd (sh_v c)) c"
  have "goroutine_step t c ?c" using assms(2) by (rule goroutine_step.Load)
  then have "shared_ok ?c" using goroutine_step_ok shared_reachable_ok [OF assms(1)] by blast
  from others_keep_reader [OF assms(3) this, of t rd "sh_v c"] show ?thesis
    by (simp add: answer_of_def the_store_def read_map_store)
qed

lemma reads_are_atomic_witness:
  "\<exists>c'. others_run {1} (goto 1 (Reading (Reader_Lookup ''a'') 0) shared_new) c'
     \<and> Lookup (the_store c') ''a'' = Some ''s'' \<and> answer_of c' 1 = Some (Found None)"
proof (intro exI conjI)
  let ?g = "Reading (Reader_Lookup ''a'') 0" and ?c' = "replacing (Reading (Reader_Lookup ''a'') 0) one_entry (Setting_gauge 2) 2"
  show run: "others_run {1} (goto 1 ?g shared_new) ?c'"
    by (rule others_run_trans [OF others_run_trans [OF by_goroutine [OF _ replacing_runs(3)] replacing_runs(2)]
      replacing_runs(1)]) auto
  show "Lookup (the_store ?c') ''a'' = Some ''s''"
    by (simp add: the_store_def replacing_def one_entry_def Replace_def Lookup_def)
  have "answer_of ?c' 1 = Some (read_store (Reader_Lookup ''a'') (the_store shared_new))"
    by (rule reads_are_atomic) (use run in \<open>simp_all add: shared_new_def others_run.Stay\<close>)
  then show "answer_of ?c' 1 = Some (Found None)"
    by (simp add: the_store_def shared_new_def Replace_def Lookup_def)
qed

text \<open>
  C9. A call of \<^verbatim>\<open>Replace\<close> replaces the store, in one step, by the map as it was when the
  call started to copy it, whatever the other goroutines and the callers do meanwhile; no
  other step of a goroutine and no step of a caller, such as changing a map it has passed
  before, changes the store.
\<close>

theorem replace_is_atomic:
  assumes "shared_reachable c" "sh_run c t = Copying src cp keys"
    and "others_run {} c c'" "sh_run c' t = Copying src cp []" "goroutine_step t c' c''"
  shows "the_store c'' = Replace (sh_maps c ! src) (the_store c') \<and>
    (\<forall>u d. goroutine_step u c' d \<and> stores c' u = None \<or> caller_step c' d \<longrightarrow> the_store d = the_store c')"
proof -
  have ok: "shared_ok c" "shared_ok c'"
    using shared_reachable_ok [OF assms(1)] others_run_ok [OF assms(3)] by auto
  have "sh_maps c' ! src = sh_maps c ! src"
    using call_keeps_source [OF assms(3) ok(1) assms(2)] assms(4) by blast
  moreover have "the_store c'' = Replace (sh_maps c' ! src) (the_store c')"
    using goroutine_simulates [OF assms(5) ok(2)] assms(4) by (simp add: stores_def)
  ultimately show ?thesis
    using goroutine_simulates [OF _ ok(2)] caller_simulates [OF _ ok(2)] by fastforce
qed

lemma replace_is_atomic_witness:
  "\<exists>c'. shared_reachable c' \<and> Lookup (the_store c') ''a'' = Some ''s''"
proof (intro exI conjI)
  let ?r = "replacing Idle"
  have start: "goto 1 Idle shared_new = shared_new" by (auto simp: shared_new_def)
  have r: "shared_reachable (?r fmempty (Copying 1 2 [''a'']) 0)"
    using replacing_runs(1) [of "{}" Idle, unfolded start] by auto
  have "the_store (?r one_entry (Setting_gauge 2) 2) =
      Replace (sh_maps (?r fmempty (Copying 1 2 [''a'']) 0) ! 1) (the_store (?r one_entry (Copying 1 2 []) 0))"
    by (rule replace_is_atomic [OF r _ replacing_runs(2) _ replacing_runs(3) [of "{}"], THEN conjunct1])
      (simp_all add: replacing_def)
  then show "Lookup (the_store (?r one_entry (Setting_gauge 2) 2)) ''a'' = Some ''s''"
    by (simp add: replacing_def one_entry_def Replace_def Lookup_def)
  show "shared_reachable (?r one_entry (Setting_gauge 2) 2)"
    by (rule others_run.By_goroutine [OF others_run_trans [OF replacing_runs(2) r] _ replacing_runs(3)]) auto
qed

subsection \<open>The life of the server\<close>

text \<open>
  C12. However the requests on the open connections interleave, and also while the server
  shuts down, the gauge of requests in flight shows, for each endpoint, how many requests
  of that endpoint are being served behind the router.
\<close>

theorem gauge_counts_open_requests:
  assumes "life_run cfg site (life_start cfg t) l"
  shows "in_flight e (lf_events l) = int (served_at e (lf_conns l))"
  by (rule gauge_run [OF assms]) (simp add: life_start_def in_flight_def)

lemma gauge_counts_open_requests_witness:
  "in_flight ''get_object'' (lf_events (serving_one ex_config ex_get)) = 1"
proof -
  have "in_flight ''get_object'' (lf_events (serving_one ex_config ex_get)) =
      int (served_at ''get_object'' (lf_conns (serving_one ex_config ex_get)))"
    by (rule gauge_counts_open_requests [OF serving_one_run [where site = "ex_server [] (\<lambda>_. None)"]])
  also have "\<dots> = 1"
    by (simp add: serving_one_def conn_endpoint_def ex_get_routed ex_get_method ex_get_label)
  finally show ?thesis .
qed

text \<open>
  C10. After the first signal no connection is let in, and the process leaves no request
  unanswered, however many further signals it gets: it exits while a request is being
  served only when the ten seconds of the shutdown have passed, at that moment.
\<close>

theorem shutdown_waits_for_requests:
  assumes "life_run cfg site (life_start cfg t0) l0" "lf_phase l0 = Listening"
    and "life_run cfg site (l0\<lparr>lf_phase := Draining (lf_now l0 + shutdown_timeout)\<rparr>) l"
  shows "size (lf_conns l) \<le> size (lf_conns l0) \<and>
    (\<forall>x r. lf_phase l = Exited x \<and> Active_conn r \<in># lf_conns l \<longrightarrow>
       x = Forced \<and> lf_now l = lf_now l0 + 10000)"
  using draining_accepts_none [OF assms(3)] drained_run [OF assms(3)]
  by (auto simp: shutdown_timeout_def)

lemma shutdown_waits_for_requests_witness:
  "\<exists>l. life_run ex_config (ex_server [] (\<lambda>_. None)) (life_start ex_config 0) l
     \<and> lf_phase l = Exited Forced \<and> Active_conn ex_get \<in># lf_conns l \<and> lf_now l = 10000"
proof (intro exI conjI)
  let ?site = "ex_server [] (\<lambda>_. None)"
  let ?open = "serving_one ex_config ex_get"
  let ?draining = "?open\<lparr>lf_phase := Draining 10000\<rparr>"
  let ?cut = "?open\<lparr>lf_phase := Exited Forced, lf_now := 10000\<rparr>"
  have start: "life_run ex_config ?site (life_start ex_config 0) ?open" by (rule serving_one_run)
  have listening: "lf_phase ?open = Listening" "lf_now ?open = 0"
    by (simp_all add: serving_one_def life_start_def)
  have signal: "life_step ex_config ?site ?open ?draining"
    using life_step.Signal [OF listening(1), of ex_config ?site] listening(2) by (simp add: shutdown_timeout_def)
  have "life_step ex_config ?site ?draining (?draining\<lparr>lf_now := 10000\<rparr>)"
    by (rule life_step.Wait) (simp_all add: serving_one_def life_start_def conn_deadline_def)
  moreover have "life_step ex_config ?site (?draining\<lparr>lf_now := 10000\<rparr>) ?cut"
    using life_step.Expired [of "?draining\<lparr>lf_now := 10000\<rparr>" 10000 ex_config ?site]
    by (simp add: serving_one_def life_start_def)
  ultimately have drain: "life_run ex_config ?site ?draining ?cut" by (meson life_run.intros)
  show "life_run ex_config ?site (life_start ex_config 0) ?cut"
    by (rule life_run_trans [OF drain life_run.Step [OF start signal]])
  show "Active_conn ex_get \<in># lf_conns ?cut" by (simp add: serving_one_def)
  then show "lf_now ?cut = 10000"
    using shutdown_waits_for_requests [OF start listening(1), of ?cut] drain listening(2)
    by (simp add: shutdown_timeout_def)
qed simp

text \<open>
  C11. A shutdown ends: there is no endless run of steps that change something, and where a
  run can go no further the process has exited, gracefully or at the deadline, which it
  never oversteps.
\<close>

theorem shutdown_terminates:
  assumes "life_run cfg site (life_start cfg t0) l0" "lf_phase l0 = Draining d"
  shows "(\<nexists>f. f 0 = l0 \<and> (\<forall>i. life_step cfg site (f i) (f (Suc i)) \<and> f (Suc i) \<noteq> f i)) \<and>
    (\<forall>l. life_run cfg site l0 l \<and> (\<nexists>l'. life_step cfg site l l' \<and> l' \<noteq> l) \<longrightarrow>
       (lf_phase l = Exited Graceful \<and> lf_conns l = {#} \<or> lf_phase l = Exited Forced) \<and> lf_now l \<le> d)"
proof -
  have now: "lf_now l0 \<le> d" by (rule draining_in_time [OF assms(1) phase_start assms(2)])
  have ends: "(lf_phase l = Exited Graceful \<and> lf_conns l = {#} \<or> lf_phase l = Exited Forced) \<and> lf_now l \<le> d"
    if "life_run cfg site l0 l" "\<nexists>l'. life_step cfg site l l' \<and> l' \<noteq> l" for l
    using drained_run [OF that(1) assms(2) now] draining_moves [of l d cfg site] that(2) by auto
  show ?thesis
    using no_endless_draining [of _ d cfg site] assms(2) now ends by blast
qed

lemma shutdown_terminates_witness:
  "let site = ex_server [] (\<lambda>_. None); l0 = (serving_one ex_config ex_get)\<lparr>lf_phase := Draining 10000\<rparr> in
   \<nexists>f. f 0 = l0 \<and> (\<forall>i. life_step ex_config site (f i) (f (Suc i)) \<and> f (Suc i) \<noteq> f i)"
proof -
  let ?site = "ex_server [] (\<lambda>_. None)"
  let ?open = "serving_one ex_config ex_get"
  have listening: "lf_phase ?open = Listening" "lf_now ?open = 0"
    by (simp_all add: serving_one_def life_start_def)
  have "life_step ex_config ?site ?open (?open\<lparr>lf_phase := Draining 10000\<rparr>)"
    using life_step.Signal [OF listening(1), of ex_config ?site] listening(2) by (simp add: shutdown_timeout_def)
  from shutdown_terminates [OF life_run.Step [OF serving_one_run this], of 10000] show ?thesis
    by (simp add: Let_def)
qed

subsection \<open>Metrics\<close>

text \<open>
  C13. The collectors register when the program starts, and nothing that is recorded makes
  Prometheus panic: every call, of the middleware, of a handler, of the Director or of the
  watcher, is on a declared collector, with as many label values as it declares, all but
  the method and the status out of fixed lists, and no counter is given a negative amount,
  whatever clients and GCS send. The method is ASCII, which \<^verbatim>\<open>net/http\<close> sees to.
\<close>

theorem metrics_never_panic:
  assumes "serve site sr start duration r s = (a, ms, s')" "ascii (req_method r)"
  shows "registers collectors \<and> list_all declared (recorded a ms)
    \<and> list_all declared [reload_series e, loaded_series, resign_series]"
proof -
  have "registers collectors" by code_simp
  then show ?thesis using serve_series [OF assms] declared_reload by simp
qed

theorem metrics_never_panic_witness:
  "\<exists>a ms s'. serve (ex_server [] (\<lambda>_. None)) ex_reads 0 0 ex_get ex_memory = (a, ms, s')
     \<and> list_all declared (recorded a ms)"
proof -
  obtain a ms s' where s: "serve (ex_server [] (\<lambda>_. None)) ex_reads 0 0 ex_get ex_memory = (a, ms, s')"
    by (metis prod_cases3)
  have "ascii (req_method ex_get)" by (simp add: ex_get_method ascii_def)
  from metrics_never_panic [OF s this] s show ?thesis by blast
qed

subsection \<open>Bodies\<close>

text \<open>
  C27. However a request body arrives, in whatever pieces, with or without its end in the last
  read, and whatever room the reader has, the document a handler reads is the one of the
  whole body, or the same error; and the bytes the metrics count are those that were taken,
  at most one more than the cap.
\<close>

theorem body_read_however_it_arrives:
  "fst (control_body room \<lparr>cr_rc = s, cr_count = 0\<rparr>) =
     read_capped (Some \<lparr>body_bytes = source_rest s, body_fails = so_fails s\<rparr>)
   \<and> cr_count (snd (control_body room \<lparr>cr_rc = s, cr_count = 0\<rparr>)) =
     int (min (length (source_rest s)) (64 * 1024 + 1))"
  using control_body_reads [of room s 0]
  by (simp add: maxControlPlaneBodySize_def prod_eq_iff)

text \<open>
  C28. With a negative flush interval every piece of a response that was copied is on the wire
  before the next one is read, through all the writers the middlewares put in between; and
  a protocol switch finds the connection behind them.
\<close>

theorem streamed_bytes_reach_the_client:
  assumes "FlushIntervalMS cfg < 0"
  shows "on_wire (copy_chunks (ps_flush (read_proxy cfg)) pieces (handler_writer cfg)) = concat pieces
    \<and> buffered (copy_chunks (ps_flush (read_proxy cfg)) pieces (handler_writer cfg)) = []
    \<and> controller_finds is_hijacker (handler_writer cfg) = Some (Server_writer [] [])"
  using copy_flushed [of "handler_writer cfg" pieces] assms handler_writer_hijack [of cfg]
  by (simp add: handler_writer_flushable read_proxy_def read_flush_def)

theorem streamed_bytes_reach_the_client_witness:
  "on_wire (copy_chunks (ps_flush (read_proxy (ex_config\<lparr>FlushIntervalMS := -1\<rparr>))) [''ab'', ''c'']
     (handler_writer (ex_config\<lparr>FlushIntervalMS := -1\<rparr>))) = ''abc''"
  using streamed_bytes_reach_the_client [of "ex_config\<lparr>FlushIntervalMS := -1\<rparr>" "[''ab'', ''c'']"] by simp

text \<open>
  The pool of the proxies hands out buffers of the configured size, none to two requests.
\<close>

theorem buffers_are_exclusive:
  assumes "buffer_pool cfg = Some n" "pool_reachable (nat n) p" "po_held p r = Some a"
  shows "po_sizes p ! a = nat n \<and> (po_held p r' = Some a \<longrightarrow> r' = r)"
  using pool_reachable_ok [OF assms(2)] assms(3) by (auto simp: pool_ok_def)

subsection \<open>The log of the start\<close>

text \<open>
  C24. What \<^verbatim>\<open>LoadConfig\<close> logs when it returns does not depend on any secret: two starts
  that both find a \<^verbatim>\<open>.env\<close> file or both find none, whose environments (with the file merged
  into them) differ in keys and credentials only, and that find as many credentials at the
  same place, log the same lines. A start that ends in a fatal error is left out: its
  message shows the error of the parser.
\<close>

theorem start_up_log_knows_no_secret:
  assumes "same_but_secrets env env'"
    and "loadHMACCredentials read env (proxyAK env) (proxySK env) = Inr (m, path, source)"
    and "loadHMACCredentials read' env' (proxyAK env') (proxySK env') = Inr (m', path', source)"
    and "fcard (fmdom m) = fcard (fmdom m')"
  shows "config_log dotenv env (m, path, source) = config_log dotenv env' (m', path', source)"
  by (rule same_log [OF assms])

theorem start_up_log_knows_no_secret_witness:
  "config_log False [''PROXY_AWS_ACCESS_KEY_ID'' \<mapsto> ''k'', ''PROXY_AWS_SECRET_ACCESS_KEY'' \<mapsto> ''s'']
     (fmupd ''k'' ''s'' fmempty, [], FromLegacy) =
   config_log False [''PROXY_AWS_ACCESS_KEY_ID'' \<mapsto> ''j'', ''PROXY_AWS_SECRET_ACCESS_KEY'' \<mapsto> ''t'']
     (fmupd ''j'' ''t'' fmempty, [], FromLegacy)"
proof (rule start_up_log_knows_no_secret [where read = "\<lambda>_. None" and read' = "\<lambda>_. None"])
  show "same_but_secrets [''PROXY_AWS_ACCESS_KEY_ID'' \<mapsto> ''k'', ''PROXY_AWS_SECRET_ACCESS_KEY'' \<mapsto> ''s'']
    [''PROXY_AWS_ACCESS_KEY_ID'' \<mapsto> ''j'', ''PROXY_AWS_SECRET_ACCESS_KEY'' \<mapsto> ''t'']"
    by (auto simp: same_but_secrets_def secret_variables_def)
qed (simp_all add: loadHMACCredentials_def getEnv_def proxyAK_def proxySK_def fcard.rep_eq)

subsection \<open>The log of a request\<close>

text \<open>A store with another secret, and a request with an invented signature.\<close>

definition other_reads :: store_reads where
  "other_reads = (let st = Replace (fmupd ''AK1'' ''other'' fmempty) New
     in \<lparr>sr_gate = st, sr_size = st, sr_lookup = st\<rparr>)"

lemma other_reads_keys: "same_keys ex_reads other_reads" "Lookup (sr_lookup other_reads) ''AK1'' = Some ''other''"
proof -
  have st: "Size (Replace (fmupd ''AK1'' ''other'' fmempty) New) = 1"
    "Lookup (Replace (fmupd ''AK1'' ''other'' fmempty) New) ak = (if ak = ''AK1'' then Some ''other'' else None)" for ak
    by (simp_all add: Replace_def Lookup_def Size_def fcard_finsert_if)
  show "same_keys ex_reads other_reads" "Lookup (sr_lookup other_reads) ''AK1'' = Some ''other''"
    by (simp_all add: same_keys_def other_reads_def Let_def st)
qed

definition ex_texts :: log_texts where
  "ex_texts = \<lparr>lt_ms = (\<lambda>_. 0), lt_gcs = (\<lambda>_. ''failed''), lt_read = ''unexpected EOF'', lt_xml = (\<lambda>_. ''EOF'')\<rparr>"

text \<open>
  C25. The lines a request leaves in the log, from the gate to the last of its handler, depend
  neither on a secret nor on the signature in its Authorization header: requests that differ in
  the header only, with the same access key in it, log the same lines, whatever secrets the
  store holds for its keys.
\<close>
theorem request_log_knows_no_secret:
  assumes "same_keys sr sr'" "lookalike r r'" "client_access_key r = client_access_key r'"
  shows "request_log lt px sr r w = request_log lt px sr' r' w"
  by (rule request_logs_alike [OF assms])

theorem request_log_knows_no_secret_witness:
  "request_log ex_texts (ex_proxy ex_config ex_site_doc) ex_reads ex_put_site ex_world =
   request_log ex_texts (ex_proxy ex_config ex_site_doc) other_reads
     (with_authorization (Some [''AWS4-HMAC-SHA256 Credential=AK1/x'']) ex_put_site) ex_world"
proof (rule request_log_knows_no_secret [OF other_reads_keys(1)])
  let ?a = "Some [''AWS4-HMAC-SHA256 Credential=AK1/x'']"
  show "lookalike ex_put_site (with_authorization ?a ex_put_site)"
    by (simp add: lookalike_def header_value_def hdr_get_def with_authorization_def)
  have "ExtractAccessKey ''AWS4-HMAC-SHA256 Credential=AK1/x'' = Some ''AK1''" by code_simp
  then show "client_access_key ex_put_site = client_access_key (with_authorization ?a ex_put_site)"
    unfolding ex_put_site_def ex_client_key by (simp add: client_access_key_def header_value_def hdr_get_def)
qed

text \<open>
  C26. The log and the answer of a request agree on errors: a request answered with an internal
  error or a bad gateway has left an error in the log, a request that has left one was answered
  with an error, and what is forwarded to GCS has left none on its way.
\<close>
theorem errors_are_logged_and_answered:
  assumes "fresh w"
  shows "case handleS3Request px sr r w of
     Answered w' \<Rightarrow>
       (world_status w' \<in> {Some 500, Some 502} \<longrightarrow> has_error (request_log lt px sr r w))
       \<and> (has_error (request_log lt px sr r w) \<longrightarrow> (\<exists>c. world_status w' = Some c \<and> 400 \<le> c))
   | Forwarded _ _ _ \<Rightarrow> \<not> has_error (request_log lt px sr r w)"
  using request_log_fits [OF assms, where px = px and sr = sr and r = r and lt = lt] by (auto simp: fits_def split: outcome.splits)

theorem errors_are_logged_and_answered_witness:
  "\<not> has_error (request_log ex_texts (ex_proxy ex_config ex_site_doc) ex_reads ex_get ex_world)
   \<and> \<not> has_error (request_log ex_texts (ex_proxy ex_config ex_site_doc) ex_reads ex_put_site ex_world)"
proof -
  let ?px = "ex_proxy ex_config ex_site_doc"
  note claim = errors_are_logged_and_answered [OF ex_world_simps(1), where px = ?px and sr = ex_reads and lt = ex_texts]
  let ?w = "handlePutWebsite ?px (ex_put_site\<lparr>req_creds := Some ex_pair\<rparr>) (count_metric (HMACCredentialLookups ''hit'') ex_world)"
  have "world_status ?w = Some 200"
    using ex_put_site_parts [where c = "Some ex_pair"]
    by (simp add: handlePutWebsite_def decode_accepts bucket_accepts update_bucket_def timeGCSCall_def mem_api_def)
  with claim [of ex_put_site] have "\<not> has_error (request_log ex_texts ?px ex_reads ex_put_site ex_world)"
    by (auto simp: ex_put_site_run)
  with claim [of ex_get] show ?thesis by (simp add: ex_get_forwarded)
qed

end
