(* ===== verification/Go_Float.thy ===== *)
theory Go_Float
  imports Complex_Main Go_Strings
begin

text \<open>
  Go's \<^verbatim>\<open>float64\<close>, as far as the test programs compute with it: the operations are an
  argument, and what a theorem needs of IEEE 754 is a hypothesis. The order is that of the
  comparison \<open><\<close>, on the values that are not NaN.
\<close>

record 'f floats =
  fl_of_int :: "int \<Rightarrow> 'f"
  fl_parse :: "string \<Rightarrow> 'f option"
  fl_add :: "'f \<Rightarrow> 'f \<Rightarrow> 'f"
  fl_sub :: "'f \<Rightarrow> 'f \<Rightarrow> 'f"
  fl_mul :: "'f \<Rightarrow> 'f \<Rightarrow> 'f"
  fl_div :: "'f \<Rightarrow> 'f \<Rightarrow> 'f"
  fl_less :: "'f \<Rightarrow> 'f \<Rightarrow> bool"
  fl_nan :: "'f \<Rightarrow> bool"
  fl_round :: "'f \<Rightarrow> 'f"
  fl_max :: "'f \<Rightarrow> 'f \<Rightarrow> 'f"
  fl_trunc :: "'f \<Rightarrow> int"

abbreviation fl_zero :: "'f floats \<Rightarrow> 'f" where
  "fl_zero fl \<equiv> fl_of_int fl 0"

text \<open>\<open>a != b\<close>, which is also true of NaN.\<close>

definition fl_differ :: "'f floats \<Rightarrow> 'f \<Rightarrow> 'f \<Rightarrow> bool" where
  "fl_differ fl a b \<longleftrightarrow> fl_less fl a b \<or> fl_less fl b a \<or> fl_nan fl a \<or> fl_nan fl b"

text \<open>\<open><\<close> is a weak order of the values that are not NaN, and false of NaN.\<close>

definition float_order :: "'f floats \<Rightarrow> bool" where
  "float_order fl \<longleftrightarrow>
     (\<forall>a b. fl_less fl a b \<longrightarrow> \<not> fl_less fl b a \<and> \<not> fl_nan fl a \<and> \<not> fl_nan fl b)
     \<and> (\<forall>a b c. \<not> fl_nan fl b \<and> \<not> fl_less fl a b \<and> \<not> fl_less fl b c \<longrightarrow> \<not> fl_less fl a c)"

text \<open>Values as fractions: an instance that computes; its text is that of an integer.\<close>

definition rat_floats :: "rat floats" where
  "rat_floats = \<lparr>fl_of_int = of_int, fl_parse = (\<lambda>s. map_option of_int (parse_int s)),
     fl_add = (+), fl_sub = (-), fl_mul = (*), fl_div = (/), fl_less = (<), fl_nan = (\<lambda>_. False),
     fl_round = (\<lambda>x. of_int (floor (x + 1/2))), fl_max = max,
     fl_trunc = (\<lambda>x. if 0 \<le> x then floor x else - floor (- x))\<rparr>"

lemma rat_floats_order: "float_order rat_floats"
  by (auto simp: float_order_def rat_floats_def)

end
