(* ===== verification/Go_Duration.thy ===== *)
theory Go_Duration
  imports Go_Float
begin

text \<open>
  \<^verbatim>\<open>time.ParseDuration\<close> and the accessors of a \<^verbatim>\<open>time.Duration\<close>, a signed number of
  nanoseconds. A fraction is scaled in floating point, as the library does it.
\<close>

type_synonym duration = int

definition secs :: "int \<Rightarrow> duration" where
  "secs n = n * 1000000000"

text \<open>Division that truncates.\<close>

definition quot :: "int \<Rightarrow> int \<Rightarrow> int" where
  "quot a b = sgn a * (\<bar>a\<bar> div b)"

definition Microseconds :: "duration \<Rightarrow> int" where
  "Microseconds d = quot d 1000"

definition Seconds :: "'f floats \<Rightarrow> duration \<Rightarrow> 'f" where
  "Seconds fl d =
     (let sec = quot d 1000000000; nsec = d - sec * 1000000000
      in fl_add fl (fl_of_int fl sec) (fl_div fl (fl_of_int fl nsec) (fl_of_int fl 1000000000)))"

text \<open>The digits at the front: an error when they exceed \<open>2 ^ 63\<close>.\<close>

fun leading_int :: "int \<Rightarrow> string \<Rightarrow> (int \<times> string) option" where
  "leading_int x [] = Some (x, [])"
| "leading_int x (c # cs) =
     (case digit_val c of
        None \<Rightarrow> Some (x, c # cs)
      | Some d \<Rightarrow>
          if 2 ^ 63 div 10 < x \<or> 2 ^ 63 < 10 * x + int d then None else leading_int (10 * x + int d) cs)"

text \<open>The digits after the point; those that do not fit are dropped.\<close>

fun leading_fraction :: "bool \<Rightarrow> int \<Rightarrow> int \<Rightarrow> string \<Rightarrow> int \<times> int \<times> string" where
  "leading_fraction full x scale [] = (x, scale, [])"
| "leading_fraction full x scale (c # cs) =
     (case digit_val c of
        None \<Rightarrow> (x, scale, c # cs)
      | Some d \<Rightarrow>
          if full \<or> (2 ^ 63 - 1) div 10 < x \<or> 2 ^ 63 < 10 * x + int d then leading_fraction True x scale cs
          else leading_fraction False (10 * x + int d) (10 * scale) cs)"

definition unit_nanos :: "string \<Rightarrow> int option" where
  "unit_nanos u =
     (if u = ''ns'' then Some 1
      else if u = ''us'' \<or> u = [CHR 0xC2, CHR 0xB5, CHR ''s''] \<or> u = [CHR 0xCE, CHR 0xBC, CHR ''s''] then Some 1000
      else if u = ''ms'' then Some 1000000
      else if u = ''s'' then Some 1000000000
      else if u = ''m'' then Some 60000000000
      else if u = ''h'' then Some 3600000000000
      else None)"

definition unit_char :: "char \<Rightarrow> bool" where
  "unit_char c \<longleftrightarrow> c \<noteq> CHR ''.'' \<and> digit_val c = None"

text \<open>A number, a fraction of it, or both, and its unit.\<close>

definition duration_term :: "'f floats \<Rightarrow> string \<Rightarrow> (int \<times> string) option" where
  "duration_term fl s =
     (case leading_int 0 s of
        None \<Rightarrow> None
      | Some (v, r) \<Rightarrow>
          (let point = take 1 r = ''.'';
               (f, scale, r1) = (if point then leading_fraction False 0 1 (drop 1 r) else (0, 1, r));
               pre = (r \<noteq> s); post = (point \<and> r1 \<noteq> drop 1 r);
               u = takeWhile unit_char r1
           in if \<not> pre \<and> \<not> post \<or> u = [] then None
              else case unit_nanos u of
                None \<Rightarrow> None
              | Some unit \<Rightarrow>
                  if 2 ^ 63 div unit < v then None
                  else let v1 = v * unit
                             + (if 0 < f then fl_trunc fl (fl_mul fl (fl_of_int fl f)
                                  (fl_div fl (fl_of_int fl unit) (fl_of_int fl scale))) else 0)
                       in if 2 ^ 63 < v1 then None else Some (v1, dropWhile unit_char r1)))"

lemma leading_int_length: "leading_int x s = Some (v, r) \<Longrightarrow> length r \<le> length s"
  by (induction x s rule: leading_int.induct) (auto split: option.splits if_splits)

lemma leading_fraction_length: "leading_fraction b x k s = (f, k', r) \<Longrightarrow> length r \<le> length s"
  by (induction b x k s rule: leading_fraction.induct) (auto split: option.splits if_splits)

lemma duration_term_length:
  assumes "duration_term fl s = Some (v, r)"
  shows "length r < length s"
proof -
  obtain v0 r0 where i: "leading_int 0 s = Some (v0, r0)"
    using assms by (auto simp: duration_term_def split: option.splits)
  obtain f k r1 where f: "(if take 1 r0 = ''.'' then leading_fraction False 0 1 (drop 1 r0) else (0, 1, r0)) = (f, k, r1)"
    by (metis prod_cases3)
  have r: "takeWhile unit_char r1 \<noteq> []" "r = dropWhile unit_char r1"
    using assms f by (auto simp: duration_term_def i Let_def split: option.splits if_splits prod.splits)
  have "length r1 \<le> length r0"
    using f leading_fraction_length [of False 0 1 "drop 1 r0" f k r1] by (auto split: if_splits)
  moreover have "length (takeWhile unit_char r1) + length r = length r1"
    unfolding r(2) by (metis length_append takeWhile_dropWhile_id)
  ultimately show ?thesis
    using leading_int_length [OF i] r(1) by (cases "takeWhile unit_char r1") auto
qed

text \<open>The sum of the terms, an unsigned 64-bit number.\<close>

function duration_sum :: "'f floats \<Rightarrow> int \<Rightarrow> string \<Rightarrow> int option" where
  "duration_sum fl d s =
     (if s = [] then Some d
      else case duration_term fl s of
        None \<Rightarrow> None
      | Some (v, r) \<Rightarrow>
          if 2 ^ 63 < (d + v) mod 2 ^ 64 then None else duration_sum fl ((d + v) mod 2 ^ 64) r)"
  by pat_completeness auto
termination
  by (relation "measure (\<lambda>(fl, d, s). length s)") (auto dest: duration_term_length)

declare duration_sum.simps [simp del]

definition ParseDuration :: "'f floats \<Rightarrow> string \<Rightarrow> duration option" where
  "ParseDuration fl s =
     (let neg = (take 1 s = ''-''); t = (if neg \<or> take 1 s = ''+'' then drop 1 s else s)
      in if t = ''0'' then Some 0
         else if t = [] then None
         else case duration_sum fl 0 t of
           None \<Rightarrow> None
         | Some d \<Rightarrow> if neg then Some (- d) else if 2 ^ 63 - 1 < d then None else Some d)"

text \<open>A duration that is read fits 64 bits.\<close>

lemma duration_sum_bound:
  "duration_sum fl d s = Some n \<Longrightarrow> 0 \<le> d \<Longrightarrow> d \<le> 2 ^ 63 \<Longrightarrow> 0 \<le> n \<and> n \<le> 2 ^ 63"
proof (induction fl d s rule: duration_sum.induct)
  case (1 fl d s)
  show ?case
  proof (cases "s = []")
    case True
    with 1(2-4) show ?thesis by (simp add: duration_sum.simps [of fl d "[]"])
  next
    case False
    then obtain v r where t: "duration_term fl s = Some (v, r)"
      using 1(2) by (auto simp: duration_sum.simps [of fl d s] split: option.splits)
    have le: "\<not> 2 ^ 63 < (d + v) mod 2 ^ 64"
      using 1(2) False by (auto simp: duration_sum.simps [of fl d s] t split: if_splits)
    with 1(2) False have "duration_sum fl ((d + v) mod 2 ^ 64) r = Some n"
      by (simp add: duration_sum.simps [of fl d s] t)
    from 1(1) [OF False t refl le this] le show ?thesis by simp
  qed
qed

lemma ParseDuration_bounds: "ParseDuration fl s = Some d \<Longrightarrow> - (2 ^ 63) \<le> d \<and> d < 2 ^ 63"
  using duration_sum_bound [of fl 0] by (fastforce simp: ParseDuration_def Let_def split: if_splits option.splits)

end
