(* ===== verification/Load_Test.thy ===== *)
theory Load_Test
  imports Go_Duration Go_Json
begin

text \<open>
  The load generator \<^verbatim>\<open>sdk_tests/go-v2/pressure/main.go\<close>: its flags and checks, the workers,
  interleaved step by step, and the report. The S3 client of the AWS SDK is a record of
  functions on an opaque state; a call is one step. Log lines that no other line depends
  on are left out.
\<close>

subsection \<open>Flags and environment\<close>

record load_flags =
  f_op :: string
  f_duration :: string
  f_concurrency :: int
  f_endpoint :: string
  f_bucket :: string
  f_prefix :: string
  f_payload :: int
  f_output :: string
  f_sdk :: string
  f_phase :: string

definition default_flags :: load_flags where
  "default_flags = \<lparr>f_op = [], f_duration = ''2m'', f_concurrency = 2, f_endpoint = ''http://s3proxy.lb.local'',
     f_bucket = [], f_prefix = ''dns-cut/'', f_payload = 1024, f_output = ''/tmp/pressure_report.json'',
     f_sdk = ''go-v2'', f_phase = ''A''\<rparr>"

datatype stop = Bad_op | No_bucket | Bad_duration | Missing_env string | Aws_config | Payload_panic | Seed_put

datatype operation = Get | Put

record plan =
  pl_flags :: load_flags
  pl_op :: operation
  pl_prefix :: string
  pl_duration :: duration
  pl_access :: string
  pl_secret :: string

definition mustEnv :: "(string \<Rightarrow> string option) \<Rightarrow> string \<Rightarrow> stop + string" where
  "mustEnv env name =
     (case env name of None \<Rightarrow> Inl (Missing_env name) | Some v \<Rightarrow> if v = [] then Inl (Missing_env name) else Inr v)"

definition parse_op :: "string \<Rightarrow> operation option" where
  "parse_op s =
     (if map ascii_upper s = ''GET'' then Some Get else if map ascii_upper s = ''PUT'' then Some Put else None)"

definition op_name :: "operation \<Rightarrow> string" where
  "op_name op = (case op of Get \<Rightarrow> ''GET'' | Put \<Rightarrow> ''PUT'')"

text \<open>The checks, in the order of \<^verbatim>\<open>main\<close>; whether the SDK's configuration loads is an argument.\<close>

definition prepare :: "'f floats \<Rightarrow> (string \<Rightarrow> string option) \<Rightarrow> bool \<Rightarrow> load_flags \<Rightarrow> stop + plan" where
  "prepare fl env aws f =
     (case parse_op (f_op f) of
        None \<Rightarrow> Inl Bad_op
      | Some op \<Rightarrow>
          if f_bucket f = [] then Inl No_bucket
          else (case ParseDuration fl (f_duration f) of
             None \<Rightarrow> Inl Bad_duration
           | Some d \<Rightarrow>
               res_bind (mustEnv env ''GCS_HMAC_ACCESS'') (\<lambda>ak.
               res_bind (mustEnv env ''GCS_HMAC_SECRET'') (\<lambda>sk.
               if \<not> aws then Inl Aws_config
               else if f_payload f < 0 then Inl Payload_panic
               else Inr \<lparr>pl_flags = f, pl_op = op,
                 pl_prefix = (if suffix ''/'' (f_prefix f) then f_prefix f else f_prefix f @ ''/''),
                 pl_duration = d, pl_access = ak, pl_secret = sk\<rparr>))))"

subsection \<open>One operation\<close>

text \<open>A get yields an error, or the outcome of reading the body to its end.\<close>

record 's client =
  cl_put :: "string \<Rightarrow> string \<Rightarrow> bytes \<Rightarrow> 's \<Rightarrow> string option \<times> 's"
  cl_get :: "string \<Rightarrow> string \<Rightarrow> 's \<Rightarrow> (string + string option) \<times> 's"
  cl_delete :: "string \<Rightarrow> string \<Rightarrow> 's \<Rightarrow> string option \<times> 's"

definition object_key :: "plan \<Rightarrow> string \<Rightarrow> int \<Rightarrow> string" where
  "object_key pl kind nanos =
     pl_prefix pl @ kind @ f_sdk (pl_flags pl) @ ''-'' @ f_phase (pl_flags pl) @ ''-'' @ show_int nanos"

text \<open>\<^verbatim>\<open>doOnce\<close>: its error, and the key whose deletion is started in the background.\<close>

definition do_once ::
  "'s client \<Rightarrow> plan \<Rightarrow> bytes \<Rightarrow> string \<Rightarrow> int \<Rightarrow> 's \<Rightarrow> string option \<times> string list \<times> 's" where
  "do_once cl pl payload seed nanos s =
     (case pl_op pl of
        Get \<Rightarrow>
          (case cl_get cl (f_bucket (pl_flags pl)) seed s of
             (Inl e, s') \<Rightarrow> (Some e, [], s')
           | (Inr copy_error, s') \<Rightarrow> (copy_error, [], s'))
      | Put \<Rightarrow>
          (let key = object_key pl ''pressure-put-'' nanos in
           case cl_put cl (f_bucket (pl_flags pl)) key payload s of
             (Some e, s') \<Rightarrow> (Some e, [], s')
           | (None, s') \<Rightarrow> (None, [key], s')))"

subsection \<open>Workers\<close>

text \<open>
  Where a worker is, with the latencies it has kept: before the test of the loop, before
  the start is taken, in the call, after it, then on the way of a success or of a failure
  back to the test; or on its way out.
\<close>

datatype worker =
    W_test "duration list"
  | W_start "duration list"
  | W_call int "duration list"
  | W_called int "string option" "duration list"
  | W_ok int "duration list"
  | W_err string "duration list"
  | W_sample string "duration list"
  | W_first string "duration list"
  | W_end "duration list"
  | W_done

record 's run =
  ru_workers :: "worker list"
  ru_total :: int64
  ru_errs :: int64
  ru_samples :: int64
  ru_first :: string
  ru_latencies :: "duration list"
  ru_deletes :: "string list"
  ru_world :: 's
  ru_clock :: int

text \<open>One step of one worker; \<open>now\<close> is the monotonic clock, \<open>nanos\<close> the wall clock.\<close>

fun worker_step ::
  "'s client \<Rightarrow> plan \<Rightarrow> bytes \<Rightarrow> string \<Rightarrow> int \<Rightarrow> int \<Rightarrow> int \<Rightarrow> worker \<Rightarrow> 's run \<Rightarrow> worker \<times> 's run" where
  "worker_step cl pl payload seed deadline now nanos (W_test ls) r =
     ((if now < deadline then W_start ls else W_end ls), r)"
| "worker_step cl pl payload seed deadline now nanos (W_start ls) r = (W_call now ls, r)"
| "worker_step cl pl payload seed deadline now nanos (W_call t ls) r =
     (let (e, dels, s') = do_once cl pl payload seed nanos (ru_world r)
      in (W_called t e ls, r\<lparr>ru_world := s', ru_deletes := ru_deletes r @ dels\<rparr>))"
| "worker_step cl pl payload seed deadline now nanos (W_called t e ls) r =
     ((case e of None \<Rightarrow> W_ok t ls | Some m \<Rightarrow> W_err m ls), r\<lparr>ru_total := ru_total r + 1\<rparr>)"
| "worker_step cl pl payload seed deadline now nanos (W_ok t ls) r = (W_test (ls @ [now - t]), r)"
| "worker_step cl pl payload seed deadline now nanos (W_err m ls) r = (W_sample m ls, r\<lparr>ru_errs := ru_errs r + 1\<rparr>)"
| "worker_step cl pl payload seed deadline now nanos (W_sample m ls) r = (W_first m ls, r\<lparr>ru_samples := ru_samples r + 1\<rparr>)"
| "worker_step cl pl payload seed deadline now nanos (W_first m ls) r =
     (W_test ls, if ru_first r = [] then r\<lparr>ru_first := m\<rparr> else r)"
| "worker_step cl pl payload seed deadline now nanos (W_end ls) r = (W_done, r\<lparr>ru_latencies := ru_latencies r @ ls\<rparr>)"
| "worker_step cl pl payload seed deadline now nanos W_done r = (W_done, r)"

text \<open>A step of a worker that is not done, or one of the deletions in the background.\<close>

inductive load_step ::
  "'s client \<Rightarrow> plan \<Rightarrow> bytes \<Rightarrow> string \<Rightarrow> int \<Rightarrow> 's run \<Rightarrow> 's run \<Rightarrow> bool"
  for cl pl payload seed deadline where
  work: "i < length (ru_workers r) \<Longrightarrow> ru_workers r ! i \<noteq> W_done \<Longrightarrow> ru_clock r \<le> now \<Longrightarrow>
     worker_step cl pl payload seed deadline now nanos (ru_workers r ! i) (r\<lparr>ru_clock := now\<rparr>) = (w, r') \<Longrightarrow>
     load_step cl pl payload seed deadline r (r'\<lparr>ru_workers := (ru_workers r)[i := w]\<rparr>)"
| delete: "ru_deletes r = before @ key # after \<Longrightarrow>
     cl_delete cl (f_bucket (pl_flags pl)) key (ru_world r) = (e, s') \<Longrightarrow>
     load_step cl pl payload seed deadline r (r\<lparr>ru_deletes := before @ after, ru_world := s'\<rparr>)"

definition start_run :: "plan \<Rightarrow> int \<Rightarrow> 's \<Rightarrow> 's run" where
  "start_run pl now s =
     \<lparr>ru_workers = replicate (nat (f_concurrency (pl_flags pl))) (W_test []), ru_total = 0, ru_errs = 0,
      ru_samples = 0, ru_first = [], ru_latencies = [], ru_deletes = [], ru_world = s, ru_clock = now\<rparr>"

text \<open>The object that gets read, for a run of gets; a failure ends the program.\<close>

definition put_seed :: "'s client \<Rightarrow> plan \<Rightarrow> bytes \<Rightarrow> int \<Rightarrow> 's \<Rightarrow> stop + string \<times> 's" where
  "put_seed cl pl payload nanos s =
     (case pl_op pl of
        Put \<Rightarrow> Inr ([], s)
      | Get \<Rightarrow>
          (let key = object_key pl ''pressure-seed-'' nanos in
           case cl_put cl (f_bucket (pl_flags pl)) key payload s of
             (Some e, s') \<Rightarrow> Inl Seed_put
           | (None, s') \<Rightarrow> Inr (key, s')))"

text \<open>\<^verbatim>\<open>wg.Wait\<close> returns.\<close>

definition all_done :: "'s run \<Rightarrow> bool" where
  "all_done r \<longleftrightarrow> list_all (\<lambda>w. w = W_done) (ru_workers r)"

subsection \<open>The report\<close>

record 'f latencyMs =
  P50 :: 'f
  P95 :: 'f
  P99 :: 'f
  Lat_Max :: 'f
  Lat_Avg :: 'f

record 'f report =
  Rp_SDK :: string
  Rp_Op :: string
  Rp_Phase :: string
  Rp_DurationSec :: 'f
  Rp_TotalRequests :: int64
  Rp_Success :: int64
  Rp_Error :: int64
  Rp_ErrorRate :: 'f
  Rp_ThroughputRPS :: 'f
  Rp_LatencyMs :: "'f latencyMs"
  Rp_Concurrency :: int
  Rp_PayloadBytes :: int
  Rp_StartedAt :: string
  Rp_EndedAt :: string
  Rp_Endpoint :: string

definition percent :: "'f floats \<Rightarrow> int \<Rightarrow> 'f" where
  "percent fl n = fl_div fl (fl_of_int fl n) (fl_of_int fl 100)"

definition millis :: "'f floats \<Rightarrow> duration \<Rightarrow> 'f" where
  "millis fl d = fl_div fl (fl_of_int fl (Microseconds d)) (fl_of_int fl 1000)"

definition percentile_index :: "'f floats \<Rightarrow> nat \<Rightarrow> 'f \<Rightarrow> int" where
  "percentile_index fl n p =
     (let idx = fl_trunc fl (fl_mul fl (fl_of_int fl (int n)) p) in if int n \<le> idx then int n - 1 else idx)"

definition percentileMs :: "'f floats \<Rightarrow> duration list \<Rightarrow> 'f \<Rightarrow> 'f" where
  "percentileMs fl ds p =
     (if ds = [] then fl_zero fl else millis fl (ds ! nat (percentile_index fl (length ds) p)))"

text \<open>The sum of the latencies wraps around at 64 bits.\<close>

definition sum_durations :: "duration list \<Rightarrow> duration" where
  "sum_durations ds = sint (fold (\<lambda>d total. total + word_of_int d) ds (0 :: int64))"

definition latency_report :: "'f floats \<Rightarrow> duration list \<Rightarrow> 'f latencyMs" where
  "latency_report fl ds =
     \<lparr>P50 = percentileMs fl ds (percent fl 50), P95 = percentileMs fl ds (percent fl 95),
      P99 = percentileMs fl ds (percent fl 99),
      Lat_Max = (if ds = [] then fl_zero fl else millis fl (last ds)),
      Lat_Avg = (if ds = [] then fl_zero fl
                 else fl_div fl (millis fl (sum_durations ds)) (fl_of_int fl (int (length ds))))\<rparr>"

definition make_report :: "'f floats \<Rightarrow> plan \<Rightarrow> duration \<Rightarrow> string \<Rightarrow> string \<Rightarrow> 's run \<Rightarrow> 'f report" where
  "make_report fl pl wall started ended r =
     (let ds = sort (ru_latencies r); total = ru_total r; errs = ru_errs r;
          success = (word_of_nat (length ds) :: int64)
      in \<lparr>Rp_SDK = f_sdk (pl_flags pl), Rp_Op = op_name (pl_op pl), Rp_Phase = f_phase (pl_flags pl),
          Rp_DurationSec = Seconds fl wall, Rp_TotalRequests = total, Rp_Success = success, Rp_Error = errs,
          Rp_ErrorRate = (if 0 <s total then fl_div fl (fl_of_int fl (sint errs)) (fl_of_int fl (sint total)) else fl_zero fl),
          Rp_ThroughputRPS = (if fl_less fl (fl_zero fl) (Seconds fl wall)
                              then fl_div fl (fl_of_int fl (sint success)) (Seconds fl wall) else fl_zero fl),
          Rp_LatencyMs = latency_report fl ds,
          Rp_Concurrency = f_concurrency (pl_flags pl), Rp_PayloadBytes = f_payload (pl_flags pl),
          Rp_StartedAt = started, Rp_EndedAt = ended, Rp_Endpoint = f_endpoint (pl_flags pl)\<rparr>)"

text \<open>The text of a number is an argument; an infinite one or NaN has none.\<close>

definition report_json :: "('f \<Rightarrow> string) \<Rightarrow> 'f report \<Rightarrow> json" where
  "report_json show r =
     JObj [(''sdk'', JStr (Rp_SDK r)), (''op'', JStr (Rp_Op r)), (''phase'', JStr (Rp_Phase r)),
       (''duration_sec'', JNum (show (Rp_DurationSec r))),
       (''total_requests'', JNum (show_int (sint (Rp_TotalRequests r)))),
       (''success'', JNum (show_int (sint (Rp_Success r)))), (''error'', JNum (show_int (sint (Rp_Error r)))),
       (''error_rate'', JNum (show (Rp_ErrorRate r))), (''throughput_rps'', JNum (show (Rp_ThroughputRPS r))),
       (''latency_ms'', JObj [(''p50'', JNum (show (P50 (Rp_LatencyMs r)))), (''p95'', JNum (show (P95 (Rp_LatencyMs r)))),
          (''p99'', JNum (show (P99 (Rp_LatencyMs r)))), (''max'', JNum (show (Lat_Max (Rp_LatencyMs r)))),
          (''avg'', JNum (show (Lat_Avg (Rp_LatencyMs r))))]),
       (''concurrency'', JNum (show_int (Rp_Concurrency r))), (''payload_bytes'', JNum (show_int (Rp_PayloadBytes r))),
       (''started_at'', JStr (Rp_StartedAt r)), (''ended_at'', JStr (Rp_EndedAt r)), (''endpoint'', JStr (Rp_Endpoint r))]"

text \<open>The lines on the standard output, which is where the caller of the job reads the report.\<close>

definition report_lines :: "('f \<Rightarrow> string) \<Rightarrow> 'f report \<Rightarrow> string list" where
  "report_lines show r = [''PRESSURE_JSON_START'', MarshalIndent (report_json show r), ''PRESSURE_JSON_END'']"

text \<open>The deferred deletion of the seed, after the report.\<close>

definition delete_seed :: "'s client \<Rightarrow> plan \<Rightarrow> string \<Rightarrow> 's \<Rightarrow> 's" where
  "delete_seed cl pl seed s =
     (case pl_op pl of Put \<Rightarrow> s | Get \<Rightarrow> snd (cl_delete cl (f_bucket (pl_flags pl)) seed s))"

subsection \<open>Every operation is counted once\<close>

text \<open>
  The same client with two counters behind it, of the puts and gets that succeeded and of
  those that failed (a get whose body could not be read to its end has failed). It does
  what the client does; deletions are not counted.
\<close>

definition counting_client :: "'s client \<Rightarrow> ('s \<times> nat \<times> nat) client" where
  "counting_client cl =
     \<lparr>cl_put = (\<lambda>b k p (s, good, bad). case cl_put cl b k p s of
          (None, s') \<Rightarrow> (None, s', Suc good, bad)
        | (Some e, s') \<Rightarrow> (Some e, s', good, Suc bad)),
      cl_get = (\<lambda>b k (s, good, bad). case cl_get cl b k s of
          (Inr None, s') \<Rightarrow> (Inr None, s', Suc good, bad)
        | (failed, s') \<Rightarrow> (failed, s', good, Suc bad)),
      cl_delete = (\<lambda>b k (s, counts). let (e, s') = cl_delete cl b k s in (e, s', counts))\<rparr>"

abbreviation good_calls :: "('s \<times> nat \<times> nat) run \<Rightarrow> nat" where
  "good_calls r \<equiv> fst (snd (ru_world r))"

abbreviation bad_calls :: "('s \<times> nat \<times> nat) run \<Rightarrow> nat" where
  "bad_calls r \<equiv> snd (snd (ru_world r))"

lemma counting_keeps:
  "fst (cl_put (counting_client cl) b k p (s, c)) = fst (cl_put cl b k p s)"
  "fst (snd (cl_put (counting_client cl) b k p (s, c))) = snd (cl_put cl b k p s)"
  "fst (cl_get (counting_client cl) b k (s, c)) = fst (cl_get cl b k s)"
  "fst (snd (cl_get (counting_client cl) b k (s, c))) = snd (cl_get cl b k s)"
  "fst (cl_delete (counting_client cl) b k (s, c)) = fst (cl_delete cl b k s)"
  "fst (snd (cl_delete (counting_client cl) b k (s, c))) = snd (cl_delete cl b k s)"
  by (cases c; simp add: counting_client_def split: prod.splits option.splits sum.splits)+

text \<open>
  What a step of a worker takes from a quantity of the run, it puts into the weight of
  the worker, or the other way round: their sum stays what it was.
\<close>

lemma sum_list_replace:
  fixes f :: "'a \<Rightarrow> 'b :: ab_group_add"
  shows "i < length xs \<Longrightarrow> sum_list (map f (xs[i := x])) = sum_list (map f xs) - f (xs ! i) + f x"
proof (induction xs arbitrary: i)
  case (Cons y ys)
  then show ?case by (cases i) (simp_all add: algebra_simps)
qed simp

lemma worker_step_keeps:
  assumes "worker_step cl pl payload seed deadline now nanos w r = (w', r')" "w \<noteq> W_done"
  shows "ru_workers r' = ru_workers r" and "ru_clock r' = ru_clock r"
  using assms by (cases w; auto split: if_splits option.splits prod.splits simp: Let_def)+

lemma conserved:
  fixes Q :: "'s run \<Rightarrow> 'b :: ab_group_add"
  assumes "(load_step cl pl payload seed deadline)\<^sup>*\<^sup>* (start_run pl now s) r"
    and "\<And>w q w' q' t nanos. worker_step cl pl payload seed deadline t nanos w q = (w', q') \<Longrightarrow> w \<noteq> W_done \<Longrightarrow>
      Q q' + f w' = Q q + f w"
    and "\<And>q ws. Q (q\<lparr>ru_workers := ws\<rparr>) = Q q" "\<And>q t. Q (q\<lparr>ru_clock := t\<rparr>) = Q q"
    and "\<And>q b k e s' ds. cl_delete cl b k (ru_world q) = (e, s') \<Longrightarrow> Q (q\<lparr>ru_deletes := ds, ru_world := s'\<rparr>) = Q q"
    and "Q (start_run pl now s) = 0" "f (W_test []) = 0"
  shows "Q r + sum_list (map f (ru_workers r)) = 0"
  using assms(1)
proof (induction rule: rtranclp_induct)
  case base
  have "sum_list (map f (replicate n (W_test []))) = 0" for n
    by (induction n) (simp_all add: assms(7))
  then show ?case by (simp add: assms(6)) (simp add: start_run_def)
next
  case (step q q')
  from step(2) show ?case
  proof cases
    case (work i now' nanos w q1)
    have "Q q1 + f w = Q q + f (ru_workers q ! i)"
      using assms(2) [OF work(5,3)] by (simp add: assms(4))
    then have "Q q1 + (sum_list (map f (ru_workers q)) - f (ru_workers q ! i) + f w) =
        Q q + sum_list (map f (ru_workers q))"
      by (metis (no_types) add.commute add.left_commute add_diff_cancel_left' diff_add_cancel)
    with step(3) show ?thesis
      by (simp add: work(1) assms(3) sum_list_replace [OF work(2)])
  next
    case (delete before key after e s')
    with step(3) show ?thesis by (simp add: assms(5))
  qed
qed

lemma conserved_done:
  assumes "Q r + sum_list (map f (ru_workers r)) = 0" "all_done r" "f W_done = 0"
  shows "Q r = (0 :: 'b :: ab_group_add)"
proof -
  have "sum_list (map f ws) = 0" if "list_all (\<lambda>w. w = W_done) ws" for ws
    using that by (induction ws) (auto simp: assms(3))
  with assms(1,2) show ?thesis by (simp add: all_done_def)
qed

text \<open>What a worker still has to enter: latencies, errors, and requests.\<close>

fun owes_latencies :: "worker \<Rightarrow> int64" where
  "owes_latencies (W_test ls) = of_nat (length ls)"
| "owes_latencies (W_start ls) = of_nat (length ls)"
| "owes_latencies (W_call t ls) = of_nat (length ls)"
| "owes_latencies (W_called t e ls) = of_nat (length ls) + (if e = None then 1 else 0)"
| "owes_latencies (W_ok t ls) = of_nat (length ls) + 1"
| "owes_latencies (W_err m ls) = of_nat (length ls)"
| "owes_latencies (W_sample m ls) = of_nat (length ls)"
| "owes_latencies (W_first m ls) = of_nat (length ls)"
| "owes_latencies (W_end ls) = of_nat (length ls)"
| "owes_latencies W_done = 0"

fun owes_error :: "worker \<Rightarrow> int64" where
  "owes_error (W_called t e ls) = (if e = None then 0 else 1)"
| "owes_error (W_err m ls) = 1"
| "owes_error w = 0"

fun owes_request :: "worker \<Rightarrow> int64" where
  "owes_request (W_called t e ls) = 1"
| "owes_request w = 0"

lemma do_once_counts:
  assumes "do_once (counting_client cl) pl payload seed nanos s = (e, dels, s')"
  shows "fst (snd s') = fst (snd s) + (if e = None then 1 else 0)"
    and "snd (snd s') = snd (snd s) + (if e = None then 0 else 1)"
  using assms
  by (auto simp: do_once_def counting_client_def Let_def split: operation.splits prod.splits option.splits sum.splits)

lemma worker_step_books:
  fixes r r' :: "('s \<times> nat \<times> nat) run"
  assumes "worker_step (counting_client cl) pl payload seed deadline now nanos w r = (w', r')" "w \<noteq> W_done"
  shows "of_nat (good_calls r') - of_nat (length (ru_latencies r')) - owes_latencies w' =
      of_nat (good_calls r) - of_nat (length (ru_latencies r)) - owes_latencies w" (is ?thesis1)
    and "of_nat (bad_calls r') - ru_errs r' - owes_error w' = of_nat (bad_calls r) - ru_errs r - owes_error w" (is ?thesis2)
    and "of_nat (good_calls r' + bad_calls r') - ru_total r' - owes_request w' =
      of_nat (good_calls r + bad_calls r) - ru_total r - owes_request w" (is ?thesis3)
proof -
  have "?thesis1 \<and> ?thesis2 \<and> ?thesis3" if w: "w = W_call t ls" for t ls
  proof -
    obtain e dels s' where o: "do_once (counting_client cl) pl payload seed nanos (ru_world r) = (e, dels, s')"
      by (metis prod_cases3)
    with assms(1) have "w' = W_called t e ls" "r' = r\<lparr>ru_world := s', ru_deletes := ru_deletes r @ dels\<rparr>"
      by (auto simp: w)
    then show ?thesis by (simp add: w do_once_counts [OF o])
  qed
  moreover have "?thesis1 \<and> ?thesis2 \<and> ?thesis3" if "\<forall>t ls. w \<noteq> W_call t ls"
    using assms that by (cases w) (auto split: if_splits option.splits)
  ultimately show ?thesis1 ?thesis2 ?thesis3 by blast+
qed

text \<open>When all workers are done, the books are balanced.\<close>

lemma books_balanced:
  fixes r :: "('s \<times> nat \<times> nat) run"
  assumes "(load_step (counting_client cl) pl payload seed deadline)\<^sup>*\<^sup>* (start_run pl now (s, 0, 0)) r" "all_done r"
  shows "of_nat (length (ru_latencies r)) = (of_nat (good_calls r) :: int64)"
    and "ru_errs r = of_nat (bad_calls r)" and "ru_total r = of_nat (good_calls r + bad_calls r)"
proof -
  have counts: "snd s' = snd (ru_world q)"
    if "cl_delete (counting_client cl) b k (ru_world q) = (e, s')" for b k e s' and q :: "('s \<times> nat \<times> nat) run"
    using that by (auto simp: counting_client_def split: prod.splits)
  note c = conserved [OF assms(1)] and d = conserved_done [OF _ assms(2)]
  have "of_nat (good_calls r) - of_nat (length (ru_latencies r)) = (0 :: int64)"
    by (rule d [where f = "\<lambda>w. - owes_latencies w"], rule c)
      (use worker_step_books(1) counts in \<open>auto simp: start_run_def\<close>)
  then show "of_nat (length (ru_latencies r)) = (of_nat (good_calls r) :: int64)" by simp
  have "of_nat (bad_calls r) - ru_errs r = 0"
    by (rule d [where f = "\<lambda>w. - owes_error w"], rule c)
      (use worker_step_books(2) counts in \<open>auto simp: start_run_def\<close>)
  then show "ru_errs r = of_nat (bad_calls r)" by simp
  have "of_nat (good_calls r + bad_calls r) - ru_total r = 0"
    by (rule d [where f = "\<lambda>w. - owes_request w"], rule c)
      (use worker_step_books(3) counts in \<open>auto simp: start_run_def\<close>)
  then show "ru_total r = of_nat (good_calls r + bad_calls r)" by simp
qed

subsection \<open>It ends\<close>

text \<open>The steps a worker can still take once the deadline has passed.\<close>

fun worker_rank :: "worker \<Rightarrow> nat" where
  "worker_rank (W_test ls) = 2"
| "worker_rank (W_start ls) = 9"
| "worker_rank (W_call t ls) = 8"
| "worker_rank (W_called t e ls) = 6"
| "worker_rank (W_ok t ls) = 3"
| "worker_rank (W_err m ls) = 5"
| "worker_rank (W_sample m ls) = 4"
| "worker_rank (W_first m ls) = 3"
| "worker_rank (W_end ls) = 1"
| "worker_rank W_done = 0"

definition run_rank :: "'s run \<Rightarrow> nat" where
  "run_rank r = sum_list (map worker_rank (ru_workers r)) + length (ru_deletes r)"

lemma worker_step_rank:
  assumes "worker_step cl pl payload seed deadline now nanos w r = (w', r')" "w \<noteq> W_done" "deadline \<le> now"
  shows "worker_rank w' + length (ru_deletes r') < worker_rank w + length (ru_deletes r)"
  using assms
  by (cases w) (auto split: if_splits option.splits sum.splits prod.splits operation.splits simp: Let_def do_once_def)

lemma sum_list_replace_nat:
  fixes f :: "'a \<Rightarrow> nat"
  shows "i < length xs \<Longrightarrow> sum_list (map f (xs[i := x])) + f (xs ! i) = sum_list (map f xs) + f x"
proof (induction xs arbitrary: i)
  case (Cons y ys)
  then show ?case by (cases i) (simp_all add: algebra_simps)
qed simp

lemma load_step_clock:
  assumes "load_step cl pl payload seed deadline r r'"
  shows "ru_clock r \<le> ru_clock r'"
  using assms
proof cases
  case (work i now nanos w r1)
  then show ?thesis using worker_step_keeps(2) [OF work(5,3)] by simp
qed simp_all

lemma load_step_rank:
  assumes "load_step cl pl payload seed deadline r r'" "deadline \<le> ru_clock r"
  shows "run_rank r' < run_rank r"
  using assms(1)
proof cases
  case (work i now nanos w r1)
  have "worker_rank w + length (ru_deletes r1) < worker_rank (ru_workers r ! i) + length (ru_deletes r)"
    using worker_step_rank [OF work(5,3)] work(4) assms(2) by simp
  with sum_list_replace_nat [OF work(2), of worker_rank w] show ?thesis
    by (simp add: run_rank_def work(1))
qed (simp add: run_rank_def)

lemma load_steps_bound:
  "((load_step cl pl payload seed deadline) ^^ k) r r' \<Longrightarrow> deadline \<le> ru_clock r \<Longrightarrow> k + run_rank r' \<le> run_rank r"
proof (induction k arbitrary: r')
  case (Suc k)
  then obtain q where q: "((load_step cl pl payload seed deadline) ^^ k) r q" "load_step cl pl payload seed deadline q r'"
    by auto
  have "ru_clock r \<le> ru_clock q"
    using q(1) by (induction k arbitrary: q) (auto dest: load_step_clock intro: order_trans)
  with load_step_rank [OF q(2)] Suc.IH [OF q(1) Suc.prems(2)] Suc.prems(2) show ?case by simp
qed simp

lemma load_step_possible:
  assumes "\<not> all_done r"
  shows "\<exists>r'. load_step cl pl payload seed deadline r r'"
proof -
  obtain i where i: "i < length (ru_workers r)" "ru_workers r ! i \<noteq> W_done"
    using assms by (auto simp: all_done_def list_all_iff in_set_conv_nth)
  obtain w r' where "worker_step cl pl payload seed deadline (ru_clock r) 0 (ru_workers r ! i) (r\<lparr>ru_clock := ru_clock r\<rparr>) = (w, r')"
    by fastforce
  from load_step.work [OF i order.refl this] show ?thesis by blast
qed

lemma run_rank_bound: "run_rank r \<le> 9 * length (ru_workers r) + length (ru_deletes r)"
proof -
  have "worker_rank w \<le> 9" for w by (cases w) auto
  then have "sum_list (map worker_rank ws) \<le> 9 * length ws" for ws
    by (induction ws) (auto simp: add_mono algebra_simps)
  then show ?thesis by (simp add: run_rank_def)
qed

subsection \<open>The percentiles\<close>

text \<open>
  What is needed of floating point: products with a larger percentage do not become
  smaller when they are truncated, and neither do quotients by 1000.
\<close>

definition float_scale :: "'f floats \<Rightarrow> bool" where
  "float_scale fl \<longleftrightarrow>
     (\<forall>n p q. 0 \<le> n \<and> 0 \<le> p \<and> p \<le> q \<longrightarrow>
        0 \<le> fl_trunc fl (fl_mul fl (fl_of_int fl n) (percent fl p))
        \<and> fl_trunc fl (fl_mul fl (fl_of_int fl n) (percent fl p)) \<le> fl_trunc fl (fl_mul fl (fl_of_int fl n) (percent fl q)))
     \<and> (\<forall>a b. a \<le> b \<longrightarrow>
        \<not> fl_less fl (fl_div fl (fl_of_int fl b) (fl_of_int fl 1000)) (fl_div fl (fl_of_int fl a) (fl_of_int fl 1000)))"

lemma rat_floats_scale: "float_scale rat_floats"
  by (auto simp: float_scale_def rat_floats_def percent_def divide_right_mono mult_left_mono intro!: floor_mono)

lemma Microseconds_cases: "Microseconds d = (if d < 0 then - ((- d) div 1000) else d div 1000)"
  by (simp add: Microseconds_def quot_def sgn_if)

lemma Microseconds_mono:
  assumes "a \<le> b"
  shows "Microseconds a \<le> Microseconds b"
proof -
  have pos: "0 \<le> x div 1000" if "0 \<le> x" for x :: int
    by (rule pos_imp_zdiv_nonneg_iff [THEN iffD2]) (use that in simp_all)
  consider "a < 0" "b < 0" | "a < 0" "0 \<le> b" | "0 \<le> a" "0 \<le> b" using assms by linarith
  then show ?thesis
  proof cases
    case 1
    then show ?thesis using zdiv_mono1 [of "- b" "- a" 1000] assms by (simp add: Microseconds_cases)
  next
    case 2
    have "Microseconds a \<le> 0" using pos [of "- a"] 2(1) by (simp add: Microseconds_cases)
    moreover have "0 \<le> Microseconds b" using pos [of b] 2(2) by (simp add: Microseconds_cases)
    ultimately show ?thesis by linarith
  next
    case 3
    then show ?thesis using zdiv_mono1 [of a b 1000] assms by (simp add: Microseconds_cases)
  qed
qed

lemma percentile_index_range:
  assumes "float_scale fl" "0 < n" "0 \<le> p" "p \<le> q"
  shows "0 \<le> percentile_index fl n (percent fl p)" "percentile_index fl n (percent fl q) < int n"
    "percentile_index fl n (percent fl p) \<le> percentile_index fl n (percent fl q)"
proof -
  let ?i = "\<lambda>p. fl_trunc fl (fl_mul fl (fl_of_int fl (int n)) (percent fl p))"
  have "0 \<le> ?i p" "?i p \<le> ?i q"
    using conjunct1 [OF assms(1) [unfolded float_scale_def], rule_format, of "int n" p q] assms(3,4) by simp_all
  then show "0 \<le> percentile_index fl n (percent fl p)" "percentile_index fl n (percent fl q) < int n"
    "percentile_index fl n (percent fl p) \<le> percentile_index fl n (percent fl q)"
    using assms(2) by (auto simp: percentile_index_def Let_def)
qed

lemma millis_ordered: "float_scale fl \<Longrightarrow> a \<le> b \<Longrightarrow> \<not> fl_less fl (millis fl b) (millis fl a)"
  using Microseconds_mono [of a b] by (simp add: float_scale_def millis_def)

lemma percentiles_ordered:
  assumes "float_scale fl" "sorted ds" "ds \<noteq> []" "0 \<le> p" "p \<le> q"
  shows "\<not> fl_less fl (percentileMs fl ds (percent fl q)) (percentileMs fl ds (percent fl p))"
    and "\<not> fl_less fl (millis fl (last ds)) (percentileMs fl ds (percent fl q))"
proof -
  let ?i = "\<lambda>p. percentile_index fl (length ds) (percent fl p)"
  have r: "0 \<le> ?i p" "?i q < int (length ds)" "?i p \<le> ?i q"
    by (rule percentile_index_range [OF assms(1) _ assms(4,5)]; use assms(3) in simp)+
  then have "ds ! nat (?i p) \<le> ds ! nat (?i q)"
    using assms(2) by (intro sorted_nth_mono) (simp_all add: nat_mono nat_less_iff)
  moreover have "ds ! nat (?i q) \<le> last ds"
    using r assms(2,3) unfolding last_conv_nth [OF assms(3)] by (intro sorted_nth_mono) auto
  ultimately show "\<not> fl_less fl (percentileMs fl ds (percent fl q)) (percentileMs fl ds (percent fl p))"
    and "\<not> fl_less fl (millis fl (last ds)) (percentileMs fl ds (percent fl q))"
    using assms(1,3) by (simp_all add: percentileMs_def millis_ordered)
qed

subsection \<open>Latencies and left-over objects\<close>

text \<open>No latency is negative: a call that is open started before now.\<close>

fun worker_timely :: "int \<Rightarrow> worker \<Rightarrow> bool" where
  "worker_timely now (W_call t ls) \<longleftrightarrow> t \<le> now \<and> list_all ((\<le>) 0) ls"
| "worker_timely now (W_called t e ls) \<longleftrightarrow> t \<le> now \<and> list_all ((\<le>) 0) ls"
| "worker_timely now (W_ok t ls) \<longleftrightarrow> t \<le> now \<and> list_all ((\<le>) 0) ls"
| "worker_timely now (W_test ls) \<longleftrightarrow> list_all ((\<le>) 0) ls"
| "worker_timely now (W_start ls) \<longleftrightarrow> list_all ((\<le>) 0) ls"
| "worker_timely now (W_err m ls) \<longleftrightarrow> list_all ((\<le>) 0) ls"
| "worker_timely now (W_sample m ls) \<longleftrightarrow> list_all ((\<le>) 0) ls"
| "worker_timely now (W_first m ls) \<longleftrightarrow> list_all ((\<le>) 0) ls"
| "worker_timely now (W_end ls) \<longleftrightarrow> list_all ((\<le>) 0) ls"
| "worker_timely now W_done \<longleftrightarrow> True"

definition run_timely :: "'s run \<Rightarrow> bool" where
  "run_timely r \<longleftrightarrow> list_all ((\<le>) 0) (ru_latencies r) \<and> list_all (worker_timely (ru_clock r)) (ru_workers r)"

lemma worker_timely_mono: "worker_timely now w \<Longrightarrow> now \<le> later \<Longrightarrow> worker_timely later w"
  by (cases w) auto

lemma worker_step_timely:
  assumes "worker_step cl pl payload seed deadline now nanos w r = (w', r')"
    and "worker_timely now w" "list_all ((\<le>) 0) (ru_latencies r)"
  shows "worker_timely now w' \<and> list_all ((\<le>) 0) (ru_latencies r')"
  using assms by (cases w) (auto split: if_splits option.splits prod.splits simp: Let_def)

lemma run_timely_step:
  assumes "load_step cl pl payload seed deadline r r'" "run_timely r"
  shows "run_timely r'"
  using assms(1)
proof cases
  case (work i now nanos w r1)
  have ws: "list_all (worker_timely now) (ru_workers r)"
    using assms(2) work(4) by (auto simp: run_timely_def list_all_iff intro: worker_timely_mono)
  then have "worker_timely now (ru_workers r ! i)" using work(2) by (simp add: list_all_length)
  with worker_step_timely [OF work(5)] assms(2)
  have "worker_timely now w" "list_all ((\<le>) 0) (ru_latencies r1)" by (simp_all add: run_timely_def)
  moreover have "list_all (worker_timely now) ((ru_workers r)[i := w])"
    using ws \<open>worker_timely now w\<close> by (auto simp: list_all_iff dest!: set_update_subset_insert [THEN subsetD])
  ultimately show ?thesis
    using worker_step_keeps(2) [OF work(5,3)] by (simp add: run_timely_def work(1))
qed (use assms(2) in \<open>simp add: run_timely_def\<close>)

lemma run_timely_reachable:
  "(load_step cl pl payload seed deadline)\<^sup>*\<^sup>* (start_run pl now s) r \<Longrightarrow> run_timely r"
proof (induction rule: rtranclp_induct)
  case base
  show ?case by (simp add: run_timely_def start_run_def list_all_iff)
qed (rule run_timely_step)

lemma seven_steps:
  "R a b \<Longrightarrow> R b c \<Longrightarrow> R c d \<Longrightarrow> R d e \<Longrightarrow> R e f \<Longrightarrow> R f g \<Longrightarrow> R g h \<Longrightarrow> R\<^sup>*\<^sup>* a h"
  by (meson converse_rtranclp_into_rtranclp rtranclp.rtrancl_refl)

text \<open>
  \<^verbatim>\<open>main\<close> waits for the workers, not for the deletions they have started: one worker, one
  object, and the report is due with the object still in the bucket.
\<close>

lemma deletions_not_awaited:
  assumes "pl_op pl = Put" "f_concurrency (pl_flags pl) = 1" "0 < pl_duration pl"
    and "cl_put cl (f_bucket (pl_flags pl)) (object_key pl ''pressure-put-'' n) payload s = (None, s')"
  shows "\<exists>r. (load_step cl pl payload seed (now + pl_duration pl))\<^sup>*\<^sup>* (start_run pl now s) r
    \<and> all_done r \<and> ru_deletes r = [object_key pl ''pressure-put-'' n] \<and> ru_world r = s'"
proof -
  let ?late = "now + pl_duration pl"
  let ?R = "load_step cl pl payload seed ?late"
  let ?at = "\<lambda>c w total lat dels world. \<lparr>ru_workers = [w], ru_total = total, ru_errs = 0, ru_samples = 0, ru_first = [],
    ru_latencies = lat, ru_deletes = dels, ru_world = world, ru_clock = c\<rparr>"
  let ?k = "object_key pl ''pressure-put-'' n"
  have one: "worker_step cl pl payload seed ?late c' n w (?at c' w t l d x) = (w', ?at c' w t' l' d' x') \<Longrightarrow> w \<noteq> W_done \<Longrightarrow> c \<le> c' \<Longrightarrow>
      ?R (?at c w t l d x) (?at c' w' t' l' d' x')" for c c' w w' t t' l l' d d' x x'
    using load_step.work [of 0 "?at c w t l d x" c' cl pl payload seed ?late n w' "?at c' w t' l' d' x'"] by simp
  have once: "do_once cl pl payload seed n s = (None, [?k], s')"
    using assms(1,4) by (simp add: do_once_def)
  have "?R\<^sup>*\<^sup>* (?at now (W_test []) 0 [] [] s) (?at ?late W_done 1 [?late - now] [?k] s')"
  proof -
    have 1: "?R (?at now (W_test []) 0 [] [] s) (?at now (W_start []) 0 [] [] s)"
      by (rule one) (use assms(3) in simp_all)
    have 2: "?R (?at now (W_start []) 0 [] [] s) (?at now (W_call now []) 0 [] [] s)" by (rule one) simp_all
    have 3: "?R (?at now (W_call now []) 0 [] [] s) (?at now (W_called now None []) 0 [] [?k] s')"
      by (rule one) (simp_all add: once)
    have 4: "?R (?at now (W_called now None []) 0 [] [?k] s') (?at now (W_ok now []) 1 [] [?k] s')" by (rule one) simp_all
    have 5: "?R (?at now (W_ok now []) 1 [] [?k] s') (?at ?late (W_test [?late - now]) 1 [] [?k] s')"
      by (rule one) (use assms(3) in simp_all)
    have 6: "?R (?at ?late (W_test [?late - now]) 1 [] [?k] s') (?at ?late (W_end [?late - now]) 1 [] [?k] s')" by (rule one) simp_all
    have 7: "?R (?at ?late (W_end [?late - now]) 1 [] [?k] s') (?at ?late W_done 1 [?late - now] [?k] s')" by (rule one) simp_all
    show ?thesis by (rule seven_steps [of ?R, OF 1 2 3 4 5 6 7])
  qed
  moreover have "start_run pl now s = ?at now (W_test []) 0 [] [] s"
    using assms(2) by (simp add: start_run_def)
  ultimately show ?thesis
    by (intro exI [of _ "?at ?late W_done 1 [?late - now] [?k] s'"]) (simp add: all_done_def)
qed

end
