(* ===== verification/Framework.thy ===== *)
theory Framework
  imports Load_Test
begin

text \<open>
  What the end-to-end tests share, \<^verbatim>\<open>e2e_tests/framework.go\<close>: the environment, the client's
  settings, keys, cleaning up, and waiting for the proxy; and the helpers of the integration
  tests. Waiting polls a proxy that is a
  function on an opaque state with a clock; it is a loop that need not end, so its value is
  an option.
\<close>

subsection \<open>Environment and client\<close>

record Env =
  ProxyEndpoint :: string
  HMACAccess :: string
  HMACSecret :: string
  TestBucket :: string
  TestPrefix :: string

definition getenv :: "(string \<Rightarrow> string option) \<Rightarrow> string \<Rightarrow> string" where
  "getenv env k = (case env k of None \<Rightarrow> [] | Some v \<Rightarrow> v)"

definition required_env :: "string list" where
  "required_env = [''PROXY_ENDPOINT'', ''GCS_HMAC_ACCESS'', ''GCS_HMAC_SECRET'']"

definition LoadEnv :: "(string \<Rightarrow> string option) \<Rightarrow> string + Env" where
  "LoadEnv env =
     (let missing = filter (\<lambda>k. getenv env k = []) required_env; p = getenv env ''TEST_PREFIX'' in
      if missing \<noteq> [] then Inl (''missing required environment variables: '' @ join_str '', '' missing)
      else Inr \<lparr>ProxyEndpoint = getenv env ''PROXY_ENDPOINT'', HMACAccess = getenv env ''GCS_HMAC_ACCESS'',
        HMACSecret = getenv env ''GCS_HMAC_SECRET'', TestBucket = ''s3proxy-e2e-test'',
        TestPrefix = (if p \<noteq> [] \<and> \<not> suffix ''/'' p then p @ ''/'' else p)\<rparr>)"

text \<open>The options handed to the SDK; times are in seconds.\<close>

record client_options =
  co_access :: string
  co_secret :: string
  co_region :: string
  co_checksum_when_required :: bool
  co_path_style :: bool
  co_endpoint :: string
  co_timeout :: int
  co_idle_conns :: int
  co_idle_timeout :: int

text \<open>Fails when the endpoint is not a URL or the SDK's configuration does not load.\<close>

definition NewS3Client :: "(string \<Rightarrow> bool) \<Rightarrow> bool \<Rightarrow> Env \<Rightarrow> client_options option" where
  "NewS3Client parses aws e =
     (if \<not> parses (ProxyEndpoint e) \<or> \<not> aws then None
      else Some \<lparr>co_access = HMACAccess e, co_secret = HMACSecret e, co_region = ''us-east-1'',
        co_checksum_when_required = True, co_path_style = True, co_endpoint = ProxyEndpoint e,
        co_timeout = 60, co_idle_conns = 100, co_idle_timeout = 90\<rparr>)"

definition GenerateTestKey :: "Env \<Rightarrow> string \<Rightarrow> int \<Rightarrow> string" where
  "GenerateTestKey e key_suffix nanos = TestPrefix e @ key_suffix @ ''-'' @ show_int nanos"

text \<open>The keys whose deletion failed are only logged.\<close>

fun Cleanup :: "'s client \<Rightarrow> string \<Rightarrow> string list \<Rightarrow> 's \<Rightarrow> string list \<times> 's" where
  "Cleanup cl bucket [] s = ([], s)"
| "Cleanup cl bucket (k # ks) s =
     (let (e, s1) = cl_delete cl bucket k s; (failed, s2) = Cleanup cl bucket ks s1
      in ((if e = None then failed else k # failed), s2))"

subsection \<open>Helpers of the integration tests\<close>

text \<open>
  \<^verbatim>\<open>integration_tests/test_utils.go\<close>. The lines \<^verbatim>\<open>bufio.Scanner\<close> yields: without their ends, and
  none from the first on that does not fit its buffer of 64 KiB.
\<close>

definition drop_return :: "string \<Rightarrow> string" where
  "drop_return l = (if l \<noteq> [] \<and> last l = CHR 13 then butlast l else l)"

definition scan_lines :: "string \<Rightarrow> string list" where
  "scan_lines s =
     (let pieces = split_byte (CHR 10) s; ls = (if last pieces = [] then butlast pieces else pieces)
      in map drop_return (takeWhile (\<lambda>l. length l < 65536) ls))"

definition trim_quotes :: "string \<Rightarrow> string" where
  "trim_quotes s =
     (let q = (\<lambda>c. c \<in> {CHR '' '', CHR 34, CHR 39}) in rev (dropWhile q (rev (dropWhile q s))))"

text \<open>The file is \<open>None\<close> when it cannot be opened.\<close>

definition readEnvFileValue :: "string option \<Rightarrow> string \<Rightarrow> string" where
  "readEnvFileValue env_file key =
     (case env_file of
        None \<Rightarrow> []
      | Some text \<Rightarrow>
          (case find (prefix (key @ ''='')) (scan_lines text) of
             None \<Rightarrow> []
           | Some l \<Rightarrow> trim_quotes (drop 1 (dropWhile ((\<noteq>) (CHR ''='')) l))))"

definition env_or_file :: "(string \<Rightarrow> string option) \<Rightarrow> string option \<Rightarrow> string \<Rightarrow> string" where
  "env_or_file env env_file k = (if getenv env k \<noteq> [] then getenv env k else readEnvFileValue env_file k)"

definition getAWSAccessKey :: "(string \<Rightarrow> string option) \<Rightarrow> string option \<Rightarrow> string" where
  "getAWSAccessKey env env_file = env_or_file env env_file ''AWS_ACCESS_KEY_ID''"

definition getAWSSecretKey :: "(string \<Rightarrow> string option) \<Rightarrow> string option \<Rightarrow> string" where
  "getAWSSecretKey env env_file = env_or_file env env_file ''AWS_SECRET_ACCESS_KEY''"

definition getTestBucket :: string where
  "getTestBucket = ''s3proxy-integration''"

definition getTestPrefix :: "(string \<Rightarrow> string option) \<Rightarrow> string" where
  "getTestPrefix env = getenv env ''GCS_PREFIX''"

subsection \<open>Waiting for the proxy\<close>

text \<open>The status of an answer is \<open>None\<close> when the call failed. Times are in nanoseconds.\<close>

record 's probe =
  pb_clock :: "'s \<Rightarrow> int"
  pb_get :: "string \<Rightarrow> 's \<Rightarrow> int option \<times> 's"
  pb_sleep :: "duration \<Rightarrow> 's \<Rightarrow> 's"

partial_function (option) poll :: "'s probe \<Rightarrow> string \<Rightarrow> int \<Rightarrow> 's \<Rightarrow> (bool \<times> 's) option" where
  "poll pb url deadline s =
     (if pb_clock pb s < deadline then
        (case pb_get pb url s of (status, s1) \<Rightarrow>
           if status = Some 200 then Some (True, s1) else poll pb url deadline (pb_sleep pb 500000000 s1))
      else Some (False, s))"

definition health_url :: "string \<Rightarrow> string" where
  "health_url endpoint = rev (dropWhile ((=) (CHR ''/'')) (rev endpoint)) @ ''/health''"

definition WaitForProxy :: "'s probe \<Rightarrow> string \<Rightarrow> duration \<Rightarrow> 's \<Rightarrow> (bool \<times> 's) option" where
  "WaitForProxy pb endpoint timeout s = poll pb (health_url endpoint) (pb_clock pb s + timeout) s"

text \<open>The clock: a call does not turn it back, a sleep takes at least its time.\<close>

definition clock_runs :: "'s probe \<Rightarrow> bool" where
  "clock_runs pb \<longleftrightarrow>
     (\<forall>url s. pb_clock pb s \<le> pb_clock pb (snd (pb_get pb url s)))
     \<and> (\<forall>d s. pb_clock pb s + d \<le> pb_clock pb (pb_sleep pb d s))"

text \<open>The state after a number of failed polls.\<close>

definition next_poll :: "'s probe \<Rightarrow> string \<Rightarrow> 's \<Rightarrow> 's" where
  "next_poll pb url s = pb_sleep pb 500000000 (snd (pb_get pb url s))"

definition healthy_before :: "'s probe \<Rightarrow> string \<Rightarrow> int \<Rightarrow> 's \<Rightarrow> bool" where
  "healthy_before pb url deadline s \<longleftrightarrow>
     (\<exists>k. let p = (next_poll pb url ^^ k) s in pb_clock pb p < deadline \<and> fst (pb_get pb url p) = Some 200)"

lemma next_poll_clock: "clock_runs pb \<Longrightarrow> pb_clock pb s + 500000000 \<le> pb_clock pb (next_poll pb url s)"
  unfolding clock_runs_def next_poll_def by (meson add_right_mono order_trans)

lemma polls_clock: "clock_runs pb \<Longrightarrow> pb_clock pb s + 500000000 * int k \<le> pb_clock pb ((next_poll pb url ^^ k) s)"
proof (induction k)
  case (Suc k)
  then show ?case using next_poll_clock [of pb "(next_poll pb url ^^ k) s" url] by (simp add: algebra_simps)
qed simp

lemma healthy_before_step:
  assumes "clock_runs pb" "pb_clock pb s < deadline"
  shows "healthy_before pb url deadline s \<longleftrightarrow>
    fst (pb_get pb url s) = Some 200 \<or> healthy_before pb url deadline (next_poll pb url s)"
  (is "?l \<longleftrightarrow> ?r")
proof
  assume ?l
  then obtain k where k: "pb_clock pb ((next_poll pb url ^^ k) s) < deadline"
    "fst (pb_get pb url ((next_poll pb url ^^ k) s)) = Some 200"
    by (auto simp: healthy_before_def Let_def)
  then show ?r
  proof (cases k)
    case (Suc j)
    with k show ?thesis by (auto simp: healthy_before_def Let_def funpow_Suc_right simp del: funpow.simps)
  qed simp
next
  assume ?r
  then show ?l
  proof
    assume "fst (pb_get pb url s) = Some 200"
    with assms(2) show ?l unfolding healthy_before_def Let_def by (intro exI [of _ 0]) simp
  next
    assume "healthy_before pb url deadline (next_poll pb url s)"
    then obtain k where "pb_clock pb ((next_poll pb url ^^ k) (next_poll pb url s)) < deadline"
      "fst (pb_get pb url ((next_poll pb url ^^ k) (next_poll pb url s))) = Some 200"
      by (auto simp: healthy_before_def Let_def)
    then show ?l
      unfolding healthy_before_def Let_def by (intro exI [of _ "Suc k"]) (simp add: funpow_Suc_right del: funpow.simps)
  qed
qed

lemma not_healthy_after:
  assumes "clock_runs pb" "deadline \<le> pb_clock pb s"
  shows "\<not> healthy_before pb url deadline s"
proof
  assume "healthy_before pb url deadline s"
  then obtain k where "pb_clock pb ((next_poll pb url ^^ k) s) < deadline"
    by (auto simp: healthy_before_def Let_def)
  moreover have "pb_clock pb s \<le> pb_clock pb ((next_poll pb url ^^ k) s)"
    using polls_clock [OF assms(1), of s k url] by linarith
  ultimately show False using assms(2) by linarith
qed

text \<open>The loop ends, and it reports the proxy healthy exactly when a poll before the deadline found it so.\<close>

lemma poll_ends:
  assumes "clock_runs pb"
  shows "\<exists>s'. poll pb url deadline s = Some (healthy_before pb url deadline s, s')"
proof (induction "nat (deadline - pb_clock pb s)" arbitrary: s rule: less_induct)
  case less
  obtain status s1 where g: "pb_get pb url s = (status, s1)" by fastforce
  show ?case
  proof (cases "pb_clock pb s < deadline")
    case True
    show ?thesis
    proof (cases "status = Some 200")
      case ok: True
      then have "healthy_before pb url deadline s" using healthy_before_step [OF assms True, of url] g by simp
      then show ?thesis using True ok g by (subst poll.simps) simp
    next
      case False
      have next_eq: "next_poll pb url s = pb_sleep pb 500000000 s1" by (simp add: next_poll_def g)
      have "nat (deadline - pb_clock pb (next_poll pb url s)) < nat (deadline - pb_clock pb s)"
        using next_poll_clock [OF assms, of s url] True by simp
      from less [OF this] obtain s' where
        "poll pb url deadline (next_poll pb url s) = Some (healthy_before pb url deadline (next_poll pb url s), s')" by blast
      then show ?thesis
        using True False g healthy_before_step [OF assms True, of url] by (subst poll.simps) (simp add: next_eq)
    qed
  next
    case False
    then show ?thesis using not_healthy_after [OF assms, of deadline s url] by (subst poll.simps) simp
  qed
qed

subsection \<open>Environment\<close>

lemma LoadEnv_fails:
  "LoadEnv env = Inl m \<Longrightarrow> \<exists>k \<in> set required_env. getenv env k = []"
  by (auto simp: LoadEnv_def Let_def filter_empty_conv split: if_splits)

lemma LoadEnv_complete:
  assumes "LoadEnv env = Inr e"
  shows "ProxyEndpoint e \<noteq> [] \<and> HMACAccess e \<noteq> [] \<and> HMACSecret e \<noteq> []
    \<and> (TestPrefix e = [] \<or> suffix ''/'' (TestPrefix e))"
  using assms by (auto simp: LoadEnv_def Let_def required_env_def split: if_splits)

text \<open>A deletion that fails does not stop the others.\<close>

lemma Cleanup_tries_all: "snd (Cleanup cl bucket ks s) = fold (\<lambda>k s. snd (cl_delete cl bucket k s)) ks s"
  by (induction ks arbitrary: s) (simp_all add: Let_def case_prod_beta)

text \<open>A value of the file, whatever the end of the line and the quotes around it.\<close>

lemma readEnvFileValue_line:
  assumes "CHR ''='' \<notin> set key" "CHR 10 \<notin> set v" "length (key @ ''=\"'' @ v @ [CHR 34, CHR 13]) < 65536"
    "v \<noteq> []" "hd v \<notin> {CHR '' '', CHR 34, CHR 39}" "last v \<notin> {CHR '' '', CHR 34, CHR 39}" "CHR 10 \<notin> set key"
  shows "readEnvFileValue (Some (key @ ''=\"'' @ v @ [CHR 34, CHR 13, CHR 10])) key = v"
proof -
  have free: "split_byte (CHR 10) (l @ [CHR 10]) = [l, []]" if "CHR 10 \<notin> set l" for l
    using that by (induction l) (auto split: list.splits)
  let ?l = "key @ ''=\"'' @ v @ [CHR 34, CHR 13]"
  have "split_byte (CHR 10) (?l @ [CHR 10]) = [?l, []]"
    by (rule free) (use assms(2,7) in auto)
  then have ls: "scan_lines (key @ ''=\"'' @ v @ [CHR 34, CHR 13, CHR 10]) = [key @ ''=\"'' @ v @ [CHR 34]]"
    using assms(3) by (simp add: scan_lines_def drop_return_def butlast_append)
  have "dropWhile ((\<noteq>) (CHR ''='')) (key @ CHR ''='' # zs) = CHR ''='' # zs" for zs
    using assms(1) by (auto simp: dropWhile_append)
  moreover have "trim_quotes (CHR 34 # v @ [CHR 34]) = v"
  proof -
    let ?q = "\<lambda>c. c \<in> {CHR '' '', CHR 34, CHR 39}"
    obtain a as b bs where v: "v = a # as" "v = bs @ [b]"
      using assms(4) by (metis list.exhaust rev_exhaust)
    then have "\<not> ?q a" "\<not> ?q b" using assms(5,6) by (metis list.sel(1), metis last_snoc)
    then have "dropWhile ?q (v @ [CHR 34]) = v @ [CHR 34]" "dropWhile ?q (rev v) = rev v"
      by (simp add: v(1), simp add: v(2))
    then show ?thesis by (simp add: trim_quotes_def Let_def)
  qed
  ultimately show ?thesis using ls by (simp add: readEnvFileValue_def)
qed

end
