(* ===== verification/Metrics_Collector.thy ===== *)
theory Metrics_Collector
  imports Go_Float Go_Time
begin

text \<open>
  \<^verbatim>\<open>e2e_tests/metrics_collector.go\<close>, which reads the proxy's own \<^verbatim>\<open>/metrics\<close> page before and
  after a benchmark. The three regular expressions are written out as matchers (each is
  deterministic); a page is what the proxy answers, a parameter.
\<close>

subsection \<open>Reading the page\<close>

definition space_char :: "char \<Rightarrow> bool" where
  "space_char c \<longleftrightarrow> c \<in> {CHR 0x09, CHR 0x0A, CHR 0x0C, CHR 0x0D, CHR '' ''}"

definition float_char :: "char \<Rightarrow> bool" where
  "float_char c \<longleftrightarrow> c \<in> set ''0123456789.eE+-''"

text \<open>\<^verbatim>\<open>\s+([\d.eE+\-]+)\<close>: the number, and what follows it.\<close>

definition value_at :: "string \<Rightarrow> (string \<times> string) option" where
  "value_at s =
     (let rest = dropWhile space_char s; num = takeWhile float_char rest in
      if rest = s \<or> num = [] then None else Some (num, dropWhile float_char rest))"

text \<open>A metric without labels, and one with labels, \<^verbatim>\<open>name\{[^}]*\}\<close>, at the head of a line.\<close>

definition plain_at :: "string \<Rightarrow> string \<Rightarrow> (string \<times> string) option" where
  "plain_at name s = (if prefix name s then value_at (drop (length name) s) else None)"

definition labelled_at :: "string \<Rightarrow> string \<Rightarrow> (string \<times> string) option" where
  "labelled_at name s =
     (if prefix (name @ ''{'') s then
        (case dropWhile ((\<noteq>) (CHR ''}'')) (drop (length name + 1) s) of
           [] \<Rightarrow> None | _ # after \<Rightarrow> value_at after)
      else None)"

text \<open>The first match at the head of a line, from a place that is one or not.\<close>

fun find_match :: "(string \<Rightarrow> (string \<times> string) option) \<Rightarrow> bool \<Rightarrow> string \<Rightarrow> (string \<times> string) option" where
  "find_match m head [] = None"
| "find_match m head (c # cs) =
     (case (if head then m (c # cs) else None) of
        Some r \<Rightarrow> Some r | None \<Rightarrow> find_match m (c = CHR 0x0A) cs)"

definition shortens :: "(string \<Rightarrow> (string \<times> string) option) \<Rightarrow> bool" where
  "shortens m \<longleftrightarrow> (\<forall>s num rest. m s = Some (num, rest) \<longrightarrow> length rest < length s)"

lemma find_match_shorter: "shortens m \<Longrightarrow> find_match m head s = Some (num, rest) \<Longrightarrow> length rest < length s"
proof (induction m head s rule: find_match.induct)
  case (2 m head c cs)
  show ?case
  proof (cases "if head then m (c # cs) else None")
    case None
    with 2 show ?thesis by (fastforce simp: less_Suc_eq)
  next
    case (Some r)
    with 2(3) have "m (c # cs) = Some (num, rest)" by (auto split: if_splits)
    with 2(2) show ?thesis unfolding shortens_def by blast
  qed
qed simp

lemma value_at_shorter: "value_at s = Some (num, rest) \<Longrightarrow> length rest < length s"
proof -
  assume a: "value_at s = Some (num, rest)"
  then have n: "takeWhile float_char (dropWhile space_char s) \<noteq> []" "rest = dropWhile float_char (dropWhile space_char s)"
    by (auto simp: value_at_def Let_def split: if_splits)
  have "length (takeWhile float_char (dropWhile space_char s)) + length rest = length (dropWhile space_char s)"
    unfolding n(2) by (metis length_append takeWhile_dropWhile_id)
  with n(1) show "length rest < length s"
    using length_dropWhile_le [of space_char s] by (cases "takeWhile float_char (dropWhile space_char s)") auto
qed

lemma labelled_shortens: "shortens (labelled_at name)"
  unfolding shortens_def labelled_at_def
proof (intro allI impI)
  fix s num rest
  let ?d = "dropWhile ((\<noteq>) (CHR ''}'')) (drop (length name + 1) s)"
  assume "(if prefix (name @ ''{'') s then (case ?d of [] \<Rightarrow> None | _ # after \<Rightarrow> value_at after) else None) = Some (num, rest)"
  then obtain x after where d: "?d = x # after" "value_at after = Some (num, rest)"
    by (auto split: if_splits list.splits)
  have "length (x # after) \<le> length s"
    using length_dropWhile_le [of "(\<noteq>) (CHR ''}'')" "drop (length name + 1) s"] d(1) by simp
  with value_at_shorter [OF d(2)] show "length rest < length s" by simp
qed

text \<open>All matches, each search starting where the last match ended, which is not a line's head.\<close>

function find_all :: "string \<Rightarrow> bool \<Rightarrow> string \<Rightarrow> string list" where
  "find_all name head s =
     (case find_match (labelled_at name) head s of
        None \<Rightarrow> [] | Some (num, rest) \<Rightarrow> num # find_all name False rest)"
  by pat_completeness auto
termination
  by (relation "measure (\<lambda>(name, head, s). length s)") (auto dest: find_match_shorter [OF labelled_shortens])

declare find_all.simps [simp del]

definition parseMetric :: "'f floats \<Rightarrow> string \<Rightarrow> string \<Rightarrow> 'f" where
  "parseMetric fl page name =
     (case find_match (plain_at name) True page of
        None \<Rightarrow> fl_zero fl
      | Some (num, _) \<Rightarrow> (case fl_parse fl num of None \<Rightarrow> fl_zero fl | Some v \<Rightarrow> v))"

definition add_all :: "'f floats \<Rightarrow> string list \<Rightarrow> 'f" where
  "add_all fl nums = fold (\<lambda>v total. fl_add fl total v) (List.map_filter (fl_parse fl) nums) (fl_zero fl)"

definition sumCounterVec :: "'f floats \<Rightarrow> string \<Rightarrow> string \<Rightarrow> 'f" where
  "sumCounterVec fl page name = add_all fl (find_all name True page)"

definition sumHistogramCount :: "'f floats \<Rightarrow> string \<Rightarrow> string \<Rightarrow> 'f" where
  "sumHistogramCount fl page name =
     fl_add fl (sumCounterVec fl page (name @ ''_count'')) (parseMetric fl page (name @ ''_count''))"

subsection \<open>Snapshots\<close>

record 'f SystemSnapshot =
  Timestamp :: string
  CPUSecondsTotal :: 'f
  ResidentMemoryMB :: 'f
  Goroutines_now :: 'f
  HeapAllocMB :: 'f
  HeapInUseMB :: 'f
  OpenFDs :: 'f
  HTTPRequestsTotal :: 'f
  GCSAPICalls :: 'f

record 'f SystemDelta =
  DurationSec :: 'f
  CPUUsagePercent :: 'f
  MemoryDeltaMB :: 'f
  PeakResidentMB :: 'f
  GoroutineDelta :: 'f
  HeapAllocDeltaMB :: 'f
  HTTPRequestsDelta :: 'f
  GCSAPICallsDelta :: 'f
  Before :: "'f SystemSnapshot"
  After :: "'f SystemSnapshot"

text \<open>Where the page is: \<^verbatim>\<open>NewMetricsCollector\<close>.\<close>

definition metrics_url :: "string \<Rightarrow> string" where
  "metrics_url endpoint = rev (dropWhile ((=) (CHR ''/'')) (rev endpoint)) @ ''/metrics''"

text \<open>The page is \<open>None\<close> when it could not be fetched or read; its status is not looked at.\<close>

definition system_snapshot :: "'f floats \<Rightarrow> string \<Rightarrow> bytes option \<Rightarrow> 'f SystemSnapshot option" where
  "system_snapshot fl now page =
     map_option (\<lambda>text.
       \<lparr>Timestamp = now,
        CPUSecondsTotal = parseMetric fl text ''process_cpu_seconds_total'',
        ResidentMemoryMB = fl_div fl (parseMetric fl text ''process_resident_memory_bytes'') (fl_of_int fl (1024 * 1024)),
        Goroutines_now = parseMetric fl text ''go_goroutines'',
        HeapAllocMB = fl_div fl (parseMetric fl text ''go_memstats_alloc_bytes'') (fl_of_int fl (1024 * 1024)),
        HeapInUseMB = fl_div fl (parseMetric fl text ''go_memstats_heap_inuse_bytes'') (fl_of_int fl (1024 * 1024)),
        OpenFDs = parseMetric fl text ''process_open_fds'',
        HTTPRequestsTotal = sumCounterVec fl text ''s3proxy_http_requests_total'',
        GCSAPICalls = sumHistogramCount fl text ''s3proxy_gcs_api_duration_seconds''\<rparr>) page"

definition round2 :: "'f floats \<Rightarrow> 'f \<Rightarrow> 'f" where
  "round2 fl v = fl_div fl (fl_round fl (fl_mul fl v (fl_of_int fl 100))) (fl_of_int fl 100)"

text \<open>The wall clock in seconds, as \<^verbatim>\<open>Duration.Seconds\<close> gives it, is an argument.\<close>

definition ComputeDelta :: "'f floats \<Rightarrow> 'f SystemSnapshot \<Rightarrow> 'f SystemSnapshot \<Rightarrow> 'f \<Rightarrow> 'f SystemDelta" where
  "ComputeDelta fl before after durSec =
     (let cpuDelta = fl_sub fl (CPUSecondsTotal after) (CPUSecondsTotal before);
          cpuPercent = (if fl_less fl (fl_zero fl) durSec
                        then fl_mul fl (fl_div fl cpuDelta durSec) (fl_of_int fl 100) else fl_zero fl)
      in \<lparr>DurationSec = round2 fl durSec, CPUUsagePercent = round2 fl cpuPercent,
          MemoryDeltaMB = round2 fl (fl_sub fl (ResidentMemoryMB after) (ResidentMemoryMB before)),
          PeakResidentMB = fl_max fl (ResidentMemoryMB before) (ResidentMemoryMB after),
          GoroutineDelta = fl_sub fl (Goroutines_now after) (Goroutines_now before),
          HeapAllocDeltaMB = round2 fl (fl_sub fl (HeapAllocMB after) (HeapAllocMB before)),
          HTTPRequestsDelta = fl_sub fl (HTTPRequestsTotal after) (HTTPRequestsTotal before),
          GCSAPICallsDelta = fl_sub fl (GCSAPICalls after) (GCSAPICalls before),
          Before = before, After = after\<rparr>)"

subsection \<open>What is summed\<close>

text \<open>
  A page of lines: comments, and series with or without labels. Every series of the metric
  is found, and nothing else is.
\<close>

datatype page_line = Comment string | Plain_series string string | Series string string string

fun line_text :: "page_line \<Rightarrow> string" where
  "line_text (Comment s) = CHR ''#'' # s"
| "line_text (Plain_series name num) = name @ '' '' @ num"
| "line_text (Series name labels num) = name @ ''{'' @ labels @ ''} '' @ num"

definition name_text :: "string \<Rightarrow> bool" where
  "name_text s \<longleftrightarrow> s \<noteq> [] \<and> hd s \<noteq> CHR ''#'' \<and> set s \<inter> {CHR ''{'', CHR 0x0A, CHR '' ''} = {}"

fun line_ok :: "page_line \<Rightarrow> bool" where
  "line_ok (Comment s) \<longleftrightarrow> CHR 0x0A \<notin> set s"
| "line_ok (Plain_series name num) \<longleftrightarrow> name_text name \<and> num \<noteq> [] \<and> list_all float_char num"
| "line_ok (Series name labels num) \<longleftrightarrow>
     name_text name \<and> CHR ''}'' \<notin> set labels \<and> CHR 0x0A \<notin> set labels \<and> num \<noteq> [] \<and> list_all float_char num"

definition page_text :: "page_line list \<Rightarrow> string" where
  "page_text ls = concat (map (\<lambda>l. line_text l @ [CHR 0x0A]) ls)"

fun series_number :: "string \<Rightarrow> page_line \<Rightarrow> string option" where
  "series_number name (Series n labels num) = (if n = name then Some num else None)"
| "series_number name l = None"

lemma newline_no_number: "\<not> float_char (CHR 0x0A)" "\<not> float_char (CHR '' '')" "space_char (CHR '' '')"
  by (simp_all add: float_char_def space_char_def)

lemma number_no_space: "float_char c \<Longrightarrow> \<not> space_char c \<and> c \<noteq> CHR 0x0A"
  by (auto simp: float_char_def space_char_def)

lemma value_at_number:
  assumes "num \<noteq> []" "list_all float_char num"
  shows "value_at ('' '' @ num @ CHR 0x0A # rest) = Some (num, CHR 0x0A # rest)"
proof -
  obtain c cs where num: "num = c # cs" using assms(1) by (cases num) auto
  have "dropWhile space_char ('' '' @ num @ CHR 0x0A # rest) = num @ CHR 0x0A # rest"
    using assms(2) number_no_space by (auto simp: num newline_no_number)
  moreover have "takeWhile float_char (num @ CHR 0x0A # rest) = num" "dropWhile float_char (num @ CHR 0x0A # rest) = CHR 0x0A # rest"
    using assms(2) newline_no_number by (auto simp: takeWhile_append dropWhile_append list_all_iff)
  ultimately show ?thesis
    using assms(1) by (simp add: value_at_def Let_def)
qed

text \<open>Between heads of lines nothing is found.\<close>

lemma find_match_skip:
  "CHR 0x0A \<notin> set l \<Longrightarrow> find_match m False (l @ CHR 0x0A # rest) = find_match m True rest"
  by (induction l) auto

lemma find_match_line:
  assumes "CHR 0x0A \<notin> set l"
  shows "find_match m True (l @ CHR 0x0A # rest) =
    (case m (l @ CHR 0x0A # rest) of Some r \<Rightarrow> Some r | None \<Rightarrow> find_match m True rest)"
  using assms find_match_skip [of "tl l" m rest] by (cases l) (auto split: option.splits)

lemma find_all_skip: "CHR 0x0A \<notin> set l \<Longrightarrow> find_all name False (l @ CHR 0x0A # rest) = find_all name True rest"
  by (subst (1 2) find_all.simps) (simp add: find_match_skip)


lemma prefix_name:
  assumes "name_text name" "name_text n" "x \<in> {CHR ''{'', CHR '' ''}"
  shows "prefix (name @ ''{'') (n @ x # rest) \<longleftrightarrow> name = n \<and> x = CHR ''{''"
proof -
  have "takeWhile (\<lambda>c. c \<noteq> CHR ''{'' \<and> c \<noteq> CHR '' '') (n @ x # rest) = n"
    using assms(2,3) by (auto simp: name_text_def takeWhile_append)
  moreover have "takeWhile (\<lambda>c. c \<noteq> CHR ''{'' \<and> c \<noteq> CHR '' '') (name @ ''{'' @ zs) = name" for zs
    using assms(1) by (auto simp: name_text_def takeWhile_append)
  ultimately show ?thesis by (auto simp: prefix_def)
qed

lemma labelled_series:
  assumes "name_text name" "line_ok (Series n labels num)"
  shows "labelled_at name (line_text (Series n labels num) @ CHR 0x0A # rest) =
    (if n = name then Some (num, CHR 0x0A # rest) else None)"
proof -
  have "prefix (name @ ''{'') (line_text (Series n labels num) @ CHR 0x0A # rest) \<longleftrightarrow> name = n"
    using prefix_name [of name n "CHR ''{''"] assms by simp
  moreover have "dropWhile ((\<noteq>) (CHR ''}'')) (labels @ CHR ''}'' # zs) = CHR ''}'' # zs" for zs
    using assms(2) by (auto simp: dropWhile_append)
  ultimately show ?thesis
    using value_at_number [of num rest] assms(2) by (auto simp: labelled_at_def)
qed

lemma labelled_other:
  assumes "name_text name" "line_ok l" "\<forall>n labels num. l \<noteq> Series n labels num"
  shows "labelled_at name (line_text l @ CHR 0x0A # rest) = None"
proof (cases l)
  case (Comment s)
  have "\<not> prefix (name @ ''{'') (CHR ''#'' # zs)" for zs
    using assms(1) by (cases name) (auto simp: name_text_def)
  then show ?thesis by (simp add: labelled_at_def Comment)
next
  case (Plain_series n num)
  then have "\<not> prefix (name @ ''{'') (line_text l @ CHR 0x0A # rest)"
    using prefix_name [of name n "CHR '' ''"] assms(1,2) by simp
  then show ?thesis by (simp add: labelled_at_def)
qed (use assms(3) in auto)

lemma line_text_newline: "line_ok l \<Longrightarrow> CHR 0x0A \<notin> set (line_text l)"
  using number_no_space by (cases l) (auto simp: name_text_def list_all_iff)

lemma find_all_page:
  assumes "name_text name" "list_all line_ok ls"
  shows "find_all name True (page_text ls) = List.map_filter (series_number name) ls"
  using assms(2)
proof (induction ls)
  case Nil
  show ?case by (subst find_all.simps) (simp add: page_text_def)
next
  case (Cons l ls)
  let ?rest = "page_text ls"
  have split: "page_text (l # ls) = line_text l @ CHR 0x0A # ?rest" by (simp add: page_text_def)
  have nl: "CHR 0x0A \<notin> set (line_text l)" using Cons.prems line_text_newline by simp
  show ?case
  proof (cases "series_number name l")
    case (Some num)
    then obtain labels where l: "l = Series name labels num" by (cases l) (auto split: if_splits)
    have "labelled_at name (line_text l @ CHR 0x0A # ?rest) = Some (num, CHR 0x0A # ?rest)"
      using labelled_series [OF assms(1), of name labels num ?rest] Cons.prems by (simp add: l)
    then have "find_all name True (page_text (l # ls)) = num # find_all name False (CHR 0x0A # ?rest)"
      unfolding split by (subst find_all.simps) (simp add: find_match_line [OF nl])
    also have "find_all name False (CHR 0x0A # ?rest) = find_all name True ?rest"
      using find_all_skip [of "[]"] by simp
    finally show ?thesis using Cons Some by simp
  next
    case None
    then have "labelled_at name (line_text l @ CHR 0x0A # ?rest) = None"
    proof (cases "\<exists>n labels num. l = Series n labels num")
      case True
      then obtain n labels num where l: "l = Series n labels num" by blast
      with None have "n \<noteq> name" by auto
      with labelled_series [OF assms(1), of n labels num ?rest] Cons.prems show ?thesis by (simp add: l)
    next
      case False
      with labelled_other [OF assms(1), of l ?rest] Cons.prems show ?thesis by simp
    qed
    then have "find_all name True (page_text (l # ls)) = find_all name True ?rest"
      unfolding split by (subst (1 2) find_all.simps) (simp add: find_match_line [OF nl])
    then show ?thesis using Cons None by simp
  qed
qed

lemma sums_page:
  assumes "name_text name" "list_all line_ok ls"
  shows "sumCounterVec fl (page_text ls) name = add_all fl (List.map_filter (series_number name) ls)"
  by (simp add: sumCounterVec_def find_all_page [OF assms])

end
