(* ===== verification/Prometheus_Collector.thy ===== *)
theory Prometheus_Collector
  imports Go_Float Go_Json Go_Url
begin

text \<open>
  \<^verbatim>\<open>e2e_tests/prometheus_collector.go\<close>, which the benchmark asks for the load of the pods.
  Prometheus is a function on an opaque state; its answers are decoded as \<^verbatim>\<open>encoding/json\<close>
  does it for the structs of the file. Log lines are left out.
\<close>

subsection \<open>Types\<close>

record 'f Stats =
  Stat_Max :: 'f
  Stat_Min :: 'f
  Stat_Avg :: 'f

record 'f PodMetrics =
  NetRxBps :: "'f Stats"
  NetTxBps :: "'f Stats"
  CPUCores :: "'f Stats"
  MemoryMB :: "'f Stats"
  Goroutines :: "'f Stats"
  HTTPReqRate :: "'f Stats"
  StatusCodes :: "string \<Rightarrow> 'f option"
  EndpointOps :: "string \<Rightarrow> 'f option"

definition zero_Stats :: "'f floats \<Rightarrow> 'f Stats" where
  "zero_Stats fl = \<lparr>Stat_Max = fl_zero fl, Stat_Min = fl_zero fl, Stat_Avg = fl_zero fl\<rparr>"

text \<open>A call of the client: no response at all, or a status and the body, if it could be read.\<close>

datatype reply = No_reply | Reply int "bytes option"

record ('f, 's) PrometheusCollector =
  pc_baseURL :: string
  pc_do :: "string \<Rightarrow> 's \<Rightarrow> reply \<times> 's"
  pc_podSelector :: string
  pc_enabled :: bool
  pc_floats :: "'f floats"

definition trim_right_slash :: "string \<Rightarrow> string" where
  "trim_right_slash s = rev (dropWhile ((=) (CHR ''/'')) (rev s))"

definition NewPrometheusCollector ::
  "(string \<Rightarrow> string option) \<Rightarrow> (string \<Rightarrow> 's \<Rightarrow> reply \<times> 's) \<Rightarrow> 'f floats \<Rightarrow>
     ('f, 's) PrometheusCollector" where
  "NewPrometheusCollector env client fl =
     (let url = (case env ''PROMETHEUS_URL'' of None \<Rightarrow> [] | Some v \<Rightarrow> v);
          baseURL = (if url = [] then ''http://monitoring-prometheus.monitoring.svc.cluster.local:9090'' else url)
      in \<lparr>pc_baseURL = trim_right_slash baseURL, pc_do = client,
          pc_podSelector = ''namespace=\"s3proxy-e2e\",pod=~\"s3proxy-.*\"'', pc_enabled = True, pc_floats = fl\<rparr>)"

subsection \<open>Helpers\<close>

definition truncate_text :: "string \<Rightarrow> nat \<Rightarrow> string" where
  "truncate_text s n = (if n < length s then take n s @ ''...'' else s)"

definition shortExpr :: "string \<Rightarrow> string" where
  "shortExpr e =
     (let e1 = replace_all [CHR 10] '' '' e in if 60 < length e1 then take 60 e1 @ ''...'' else e1)"

definition sampleFloat :: "'f floats \<Rightarrow> json option \<Rightarrow> 'f option" where
  "sampleFloat fl v = (case v of Some (JStr s) \<Rightarrow> fl_parse fl s | _ \<Rightarrow> None)"

definition round4 :: "'f floats \<Rightarrow> 'f \<Rightarrow> 'f" where
  "round4 fl v = fl_div fl (fl_round fl (fl_mul fl v (fl_of_int fl 10000))) (fl_of_int fl 10000)"

definition stats_step :: "'f floats \<Rightarrow> 'f \<Rightarrow> 'f \<times> 'f \<times> 'f \<Rightarrow> 'f \<times> 'f \<times> 'f" where
  "stats_step fl v = (\<lambda>(mn, mx, sum).
     (if fl_less fl v mn then v else mn, if fl_less fl mx v then v else mx, fl_add fl sum v))"

definition statsOf :: "'f floats \<Rightarrow> 'f list \<Rightarrow> 'f Stats" where
  "statsOf fl xs =
     (case xs of
        [] \<Rightarrow> zero_Stats fl
      | x # _ \<Rightarrow>
          (let (mn, mx, sum) = fold (stats_step fl) xs (x, x, fl_zero fl) in
           \<lparr>Stat_Max = round4 fl mx, Stat_Min = round4 fl mn,
            Stat_Avg = round4 fl (fl_div fl sum (fl_of_int fl (int (length xs))))\<rparr>))"

text \<open>A map that has no entry gives zero.\<close>

definition at_key :: "'f floats \<Rightarrow> (string \<Rightarrow> 'f option) \<Rightarrow> string \<Rightarrow> 'f" where
  "at_key fl m k = (case m k of None \<Rightarrow> fl_zero fl | Some v \<Rightarrow> v)"

definition diffMaps ::
  "'f floats \<Rightarrow> (string \<Rightarrow> 'f option) \<Rightarrow> (string \<Rightarrow> 'f option) \<Rightarrow> string \<Rightarrow> 'f option" where
  "diffMaps fl start stop k =
     (if start k = None \<and> stop k = None then None
      else let d = fl_sub fl (at_key fl stop k) (at_key fl start k)
           in Some (if fl_less fl d (fl_zero fl) then fl_zero fl else d))"

subsection \<open>Answers\<close>

record promResponse =
  pr_status :: string
  pr_result :: "json option"
  pr_errorType :: string
  pr_error :: string

definition empty_answer :: promResponse where
  "empty_answer = \<lparr>pr_status = [], pr_result = None, pr_errorType = [], pr_error = []\<rparr>"

text \<open>
  A struct is filled field by field, in the order of the text, names up to case; a null
  changes nothing, a value of another type is an error.
\<close>

fun fill :: "(string \<times> json \<Rightarrow> 'a \<Rightarrow> 'a option) \<Rightarrow> (string \<times> json) list \<Rightarrow> 'a \<Rightarrow> 'a option" where
  "fill f [] a = Some a"
| "fill f (x # xs) a = Option.bind (f x a) (fill f xs)"

definition with_string :: "json \<Rightarrow> (string \<Rightarrow> 'a \<Rightarrow> 'a) \<Rightarrow> 'a \<Rightarrow> 'a option" where
  "with_string j put a = (case j of JStr s \<Rightarrow> Some (put s a) | JNull \<Rightarrow> Some a | _ \<Rightarrow> None)"

definition data_field :: "string \<times> json \<Rightarrow> promResponse \<Rightarrow> promResponse option" where
  "data_field = (\<lambda>(k, j) r.
     if equal_fold k ''resultType'' then with_string j (\<lambda>_ r. r) r
     else if equal_fold k ''result'' then Some (r\<lparr>pr_result := Some j\<rparr>)
     else Some r)"

definition response_field :: "string \<times> json \<Rightarrow> promResponse \<Rightarrow> promResponse option" where
  "response_field = (\<lambda>(k, j) r.
     if equal_fold k ''status'' then with_string j (\<lambda>s r. r\<lparr>pr_status := s\<rparr>) r
     else if equal_fold k ''data'' then
       (case j of JObj kvs \<Rightarrow> fill data_field kvs r | JNull \<Rightarrow> Some r | _ \<Rightarrow> None)
     else if equal_fold k ''errorType'' then with_string j (\<lambda>s r. r\<lparr>pr_errorType := s\<rparr>) r
     else if equal_fold k ''error'' then with_string j (\<lambda>s r. r\<lparr>pr_error := s\<rparr>) r
     else Some r)"

definition decode_response :: "json \<Rightarrow> promResponse option" where
  "decode_response j =
     (case j of JObj kvs \<Rightarrow> fill response_field kvs empty_answer | JNull \<Rightarrow> Some empty_answer | _ \<Rightarrow> None)"

text \<open>A series or a sample: its labels, and its samples, pairs of any two values.\<close>

record entry =
  en_metric :: "string \<Rightarrow> string option"
  en_samples :: "(json option \<times> json option) list"

definition decode_pair :: "json \<Rightarrow> (json option \<times> json option) option" where
  "decode_pair j =
     (case j of
        JArr xs \<Rightarrow> Some (if 0 < length xs then Some (xs ! 0) else None, if 1 < length xs then Some (xs ! 1) else None)
      | JNull \<Rightarrow> Some (None, None)
      | _ \<Rightarrow> None)"

definition metric_field :: "string \<times> json \<Rightarrow> entry \<Rightarrow> entry option" where
  "metric_field = (\<lambda>(k, j) e.
     case j of
       JStr s \<Rightarrow> Some (e\<lparr>en_metric := (en_metric e)(k \<mapsto> s)\<rparr>)
     | JNull \<Rightarrow> Some (e\<lparr>en_metric := (en_metric e)(k \<mapsto> [])\<rparr>)
     | _ \<Rightarrow> None)"

definition entry_metric :: "json \<Rightarrow> entry \<Rightarrow> entry option" where
  "entry_metric j e =
     (case j of JObj kvs \<Rightarrow> fill metric_field kvs e | JNull \<Rightarrow> Some (e\<lparr>en_metric := Map.empty\<rparr>) | _ \<Rightarrow> None)"

fun all_some :: "'a option list \<Rightarrow> 'a list option" where
  "all_some [] = Some []"
| "all_some (x # xs) = Option.bind x (\<lambda>a. map_option ((#) a) (all_some xs))"

definition decode_list :: "(json \<Rightarrow> 'a option) \<Rightarrow> json \<Rightarrow> 'a list option" where
  "decode_list f j = (case j of JArr xs \<Rightarrow> all_some (map f xs) | JNull \<Rightarrow> Some [] | _ \<Rightarrow> None)"

definition matrix_field :: "string \<times> json \<Rightarrow> entry \<Rightarrow> entry option" where
  "matrix_field = (\<lambda>(k, j) e.
     if equal_fold k ''metric'' then entry_metric j e
     else if equal_fold k ''values'' then map_option (\<lambda>xs. e\<lparr>en_samples := xs\<rparr>) (decode_list decode_pair j)
     else Some e)"

definition vector_field :: "string \<times> json \<Rightarrow> entry \<Rightarrow> entry option" where
  "vector_field = (\<lambda>(k, j) e.
     if equal_fold k ''metric'' then entry_metric j e
     else if equal_fold k ''value'' then map_option (\<lambda>x. e\<lparr>en_samples := [x]\<rparr>) (decode_pair j)
     else Some e)"

text \<open>The array of one pair starts out as two nils.\<close>

definition decode_entry :: "(string \<times> json \<Rightarrow> entry \<Rightarrow> entry option) \<Rightarrow> entry \<Rightarrow> json \<Rightarrow> entry option" where
  "decode_entry field zero j = (case j of JObj kvs \<Rightarrow> fill field kvs zero | JNull \<Rightarrow> Some zero | _ \<Rightarrow> None)"

definition matrixEntry :: "json \<Rightarrow> entry option" where
  "matrixEntry = decode_entry matrix_field \<lparr>en_metric = Map.empty, en_samples = []\<rparr>"

definition vectorEntry :: "json \<Rightarrow> entry option" where
  "vectorEntry = decode_entry vector_field \<lparr>en_metric = Map.empty, en_samples = [(None, None)]\<rparr>"

definition decode_result :: "(json \<Rightarrow> entry option) \<Rightarrow> json option \<Rightarrow> entry list option" where
  "decode_result f result = (case result of None \<Rightarrow> Some [] | Some j \<Rightarrow> decode_list f j)"


subsection \<open>Queries\<close>

datatype prom_error =
    Transport
  | HTTP_status int bytes
  | Bad_answer
  | API_error string string

type_synonym ('a, 's) call = "'s \<Rightarrow> (prom_error + 'a) \<times> 's"

definition call_bind :: "('a, 's) call \<Rightarrow> ('a \<Rightarrow> ('b, 's) call) \<Rightarrow> ('b, 's) call" where
  "call_bind m f s = (case m s of (Inl e, s') \<Rightarrow> (Inl e, s') | (Inr a, s') \<Rightarrow> f a s')"

definition call_return :: "prom_error + 'a \<Rightarrow> ('a, 's) call" where
  "call_return r s = (r, s)"

definition Ping :: "('f, 's) PrometheusCollector \<Rightarrow> (unit, 's) call" where
  "Ping pc s =
     (if \<not> pc_enabled pc then (Inr (), s)
      else (case pc_do pc (pc_baseURL pc @ ''/-/ready'') s of
         (No_reply, s') \<Rightarrow> (Inl Transport, s')
       | (Reply status body, s') \<Rightarrow>
           (if status \<noteq> 200 then Inl (HTTP_status status []) else Inr (), s')))"

definition get_url :: "('f, 's) PrometheusCollector \<Rightarrow> string \<Rightarrow> (bytes, 's) call" where
  "get_url pc url s =
     (case pc_do pc url s of
        (No_reply, s') \<Rightarrow> (Inl Transport, s')
      | (Reply status None, s') \<Rightarrow> (Inl Transport, s')
      | (Reply status (Some body), s') \<Rightarrow>
          (if status \<noteq> 200 then Inl (HTTP_status status (truncate_text body 200)) else Inr body, s'))"

definition parse_answer :: "(json \<Rightarrow> entry option) \<Rightarrow> bytes \<Rightarrow> prom_error + entry list" where
  "parse_answer f body =
     (case Option.bind (read_json body) decode_response of
        None \<Rightarrow> Inl Bad_answer
      | Some r \<Rightarrow>
          if pr_status r \<noteq> ''success'' then Inl (API_error (pr_errorType r) (pr_error r))
          else (case decode_result f (pr_result r) of None \<Rightarrow> Inl Bad_answer | Some es \<Rightarrow> Inr es))"

definition range_url :: "('f, 's) PrometheusCollector \<Rightarrow> string \<Rightarrow> int \<Rightarrow> int \<Rightarrow> int \<Rightarrow> string" where
  "range_url pc query start stop step =
     pc_baseURL pc @ ''/api/v1/query_range?'' @
     values_encode [(''query'', query), (''start'', show_int start), (''end'', show_int stop),
       (''step'', show_int step @ ''s'')]"

definition instant_url :: "('f, 's) PrometheusCollector \<Rightarrow> string \<Rightarrow> int \<Rightarrow> string" where
  "instant_url pc query t =
     pc_baseURL pc @ ''/api/v1/query?'' @ values_encode [(''query'', query), (''time'', show_int t)]"

definition range_samples :: "'f floats \<Rightarrow> entry list \<Rightarrow> 'f list" where
  "range_samples fl series =
     filter (\<lambda>v. \<not> fl_nan fl v)
       (concat (map (\<lambda>e. List.map_filter (\<lambda>p. sampleFloat fl (snd p)) (en_samples e)) series))"

text \<open>Times are Unix seconds, the step is in seconds.\<close>

definition QueryRange :: "('f, 's) PrometheusCollector \<Rightarrow> string \<Rightarrow> int \<Rightarrow> int \<Rightarrow> int \<Rightarrow> ('f Stats, 's) call" where
  "QueryRange pc query start stop step =
     (if \<not> pc_enabled pc then call_return (Inr (zero_Stats (pc_floats pc)))
      else call_bind (get_url pc (range_url pc query start stop step)) (\<lambda>body.
        call_return (map_sum id (\<lambda>series. statsOf (pc_floats pc) (range_samples (pc_floats pc) series))
          (parse_answer matrixEntry body))))"

definition sample_of :: "'f floats \<Rightarrow> entry \<Rightarrow> 'f option" where
  "sample_of fl e = sampleFloat fl (snd (hd (en_samples e)))"

text \<open>The sum over the samples of the answer; unreadable ones are skipped.\<close>

definition queryInstantScalar :: "('f, 's) PrometheusCollector \<Rightarrow> string \<Rightarrow> int \<Rightarrow> ('f, 's) call" where
  "queryInstantScalar pc query t =
     call_bind (get_url pc (instant_url pc query t)) (\<lambda>body.
       call_return (map_sum id (\<lambda>vec. fold (\<lambda>v total. fl_add (pc_floats pc) total v)
           (List.map_filter (sample_of (pc_floats pc)) vec) (fl_zero (pc_floats pc)))
         (parse_answer vectorEntry body)))"

definition QueryInstantDelta :: "('f, 's) PrometheusCollector \<Rightarrow> string \<Rightarrow> int \<Rightarrow> int \<Rightarrow> ('f, 's) call" where
  "QueryInstantDelta pc query start stop =
     (if \<not> pc_enabled pc then call_return (Inr (fl_zero (pc_floats pc)))
      else call_bind (queryInstantScalar pc query start) (\<lambda>startV.
        call_bind (queryInstantScalar pc query stop) (\<lambda>endV.
          call_return (Inr (fl_sub (pc_floats pc) endV startV)))))"

definition by_label :: "'f floats \<Rightarrow> string \<Rightarrow> entry list \<Rightarrow> string \<Rightarrow> 'f option" where
  "by_label fl labelName vec =
     fold (\<lambda>e out. let label = (case en_metric e labelName of None \<Rightarrow> [] | Some l \<Rightarrow> l);
                       key = (if label = [] then ''unknown'' else label)
                   in case sample_of fl e of None \<Rightarrow> out | Some v \<Rightarrow> out(key \<mapsto> v)) vec Map.empty"

definition queryInstantLabeled ::
  "('f, 's) PrometheusCollector \<Rightarrow> string \<Rightarrow> int \<Rightarrow> string \<Rightarrow> (string \<Rightarrow> 'f option, 's) call" where
  "queryInstantLabeled pc query t labelName =
     (if \<not> pc_enabled pc then call_return (Inr Map.empty)
      else call_bind (get_url pc (instant_url pc query t)) (\<lambda>body.
        call_return (map_sum id (by_label (pc_floats pc) labelName) (parse_answer vectorEntry body))))"

subsection \<open>Collecting\<close>

definition zero_metrics :: "'f floats \<Rightarrow> 'f PodMetrics" where
  "zero_metrics fl =
     \<lparr>NetRxBps = zero_Stats fl, NetTxBps = zero_Stats fl, CPUCores = zero_Stats fl, MemoryMB = zero_Stats fl,
      Goroutines = zero_Stats fl, HTTPReqRate = zero_Stats fl, StatusCodes = Map.empty, EndpointOps = Map.empty\<rparr>"

definition range_queries :: "string \<Rightarrow> (string \<times> ('f Stats \<Rightarrow> 'f PodMetrics \<Rightarrow> 'f PodMetrics)) list" where
  "range_queries sel =
     [(''sum(rate(container_network_receive_bytes_total{'' @ sel @ ''}[60s]))'', \<lambda>s m. m\<lparr>NetRxBps := s\<rparr>),
      (''sum(rate(container_network_transmit_bytes_total{'' @ sel @ ''}[60s]))'', \<lambda>s m. m\<lparr>NetTxBps := s\<rparr>),
      (''sum(rate(container_cpu_usage_seconds_total{'' @ sel @ '',container!=\"POD\",container!=\"\"}[60s]))'',
         \<lambda>s m. m\<lparr>CPUCores := s\<rparr>),
      (''sum(container_memory_working_set_bytes{'' @ sel @ '',container!=\"POD\",container!=\"\"}) / 1024 / 1024'',
         \<lambda>s m. m\<lparr>MemoryMB := s\<rparr>),
      (''sum(go_goroutines{job=~\"s3proxy\"})'', \<lambda>s m. m\<lparr>Goroutines := s\<rparr>),
      (''sum(rate(s3proxy_http_requests_total[60s]))'', \<lambda>s m. m\<lparr>HTTPReqRate := s\<rparr>)]"

text \<open>A failed query leaves its statistics at zero.\<close>

fun run_range_queries ::
  "('f, 's) PrometheusCollector \<Rightarrow> int \<Rightarrow> int \<Rightarrow> (string \<times> ('f Stats \<Rightarrow> 'f PodMetrics \<Rightarrow> 'f PodMetrics)) list \<Rightarrow>
     'f PodMetrics \<Rightarrow> 's \<Rightarrow> 'f PodMetrics \<times> 's" where
  "run_range_queries pc start stop [] m s = (m, s)"
| "run_range_queries pc start stop ((expr, target) # qs) m s =
     (case QueryRange pc expr start stop 5 s of
        (Inl e, s') \<Rightarrow> run_range_queries pc start stop qs m s'
      | (Inr st, s') \<Rightarrow> run_range_queries pc start stop qs (target st m) s')"

text \<open>A failed query counts as a map without entries.\<close>

definition labeled_or_empty ::
  "('f, 's) PrometheusCollector \<Rightarrow> string \<Rightarrow> int \<Rightarrow> string \<Rightarrow> 's \<Rightarrow> (string \<Rightarrow> 'f option) \<times> 's" where
  "labeled_or_empty pc query t label s =
     (case queryInstantLabeled pc query t label s of (Inl e, s') \<Rightarrow> (Map.empty, s') | (Inr m, s') \<Rightarrow> (m, s'))"

definition changed :: "'f floats \<Rightarrow> (string \<Rightarrow> 'f option) \<Rightarrow> string \<Rightarrow> 'f option" where
  "changed fl m k = (case m k of None \<Rightarrow> None | Some v \<Rightarrow> if fl_differ fl v (fl_zero fl) then Some v else None)"

definition counter_query :: "string \<Rightarrow> string" where
  "counter_query label = ''sum by ('' @ label @ '') (s3proxy_http_requests_total)''"

definition counter_delta ::
  "('f, 's) PrometheusCollector \<Rightarrow> int \<Rightarrow> int \<Rightarrow> string \<Rightarrow> 's \<Rightarrow> (string \<Rightarrow> 'f option) \<times> 's" where
  "counter_delta pc start stop label s =
     (let (a, s1) = labeled_or_empty pc (counter_query label) start label s;
          (b, s2) = labeled_or_empty pc (counter_query label) stop label s1
      in (changed (pc_floats pc) (diffMaps (pc_floats pc) a b), s2))"

text \<open>\<^verbatim>\<open>Collect\<close>, whose error is always nil.\<close>

definition Collect :: "('f, 's) PrometheusCollector \<Rightarrow> int \<Rightarrow> int \<Rightarrow> 's \<Rightarrow> 'f PodMetrics \<times> 's" where
  "Collect pc start stop s =
     (if \<not> pc_enabled pc then (zero_metrics (pc_floats pc), s)
      else let (m, s1) = run_range_queries pc start stop (range_queries (pc_podSelector pc)) (zero_metrics (pc_floats pc)) s;
               (codes, s2) = counter_delta pc start stop ''status_code'' s1;
               (ops, s3) = counter_delta pc start stop ''endpoint'' s2
           in (m\<lparr>StatusCodes := codes, EndpointOps := ops\<rparr>, s3))"


subsection \<open>What is collected\<close>

text \<open>The query Prometheus reads out of the address is the one that was asked.\<close>

lemma range_url_query:
  "range_url pc q a b c = pc_baseURL pc @ ''/api/v1/query_range?'' @ rest \<Longrightarrow>
     values_get (parse_query rest) ''query'' = q \<and> values_get (parse_query rest) ''start'' = show_int a
     \<and> values_get (parse_query rest) ''end'' = show_int b \<and> values_get (parse_query rest) ''step'' = show_int c @ ''s''"
  by (auto simp: range_url_def parse_query_encode values_get_def)

lemma instant_url_query:
  "instant_url pc q t = pc_baseURL pc @ ''/api/v1/query?'' @ rest \<Longrightarrow>
     values_get (parse_query rest) ''query'' = q \<and> values_get (parse_query rest) ''time'' = show_int t"
  by (auto simp: instant_url_def parse_query_encode values_get_def)

text \<open>A client that never gets an answer with the status 200.\<close>

definition prometheus_down :: "('f, 's) PrometheusCollector \<Rightarrow> bool" where
  "prometheus_down pc \<longleftrightarrow>
     (\<forall>url s. case fst (pc_do pc url s) of No_reply \<Rightarrow> True | Reply c b \<Rightarrow> c \<noteq> 200 \<or> b = None)"

lemma get_url_fails:
  assumes "prometheus_down pc"
  shows "\<exists>e s'. get_url pc url s = (Inl e, s')"
proof -
  obtain r s' where r: "pc_do pc url s = (r, s')" by fastforce
  from assms have "case fst (pc_do pc url s) of No_reply \<Rightarrow> True | Reply c b \<Rightarrow> c \<noteq> 200 \<or> b = None"
    unfolding prometheus_down_def by blast
  then show ?thesis
    by (cases r) (auto simp: r get_url_def split: option.splits)
qed

lemma range_query_fails: "prometheus_down pc \<Longrightarrow> pc_enabled pc \<Longrightarrow> \<exists>e s'. QueryRange pc q a b c s = (Inl e, s')"
  using get_url_fails [of pc "range_url pc q a b c" s] by (auto simp: QueryRange_def call_bind_def)

lemma labeled_fails: "prometheus_down pc \<Longrightarrow> pc_enabled pc \<Longrightarrow> \<exists>s'. labeled_or_empty pc q t l s = (Map.empty, s')"
  using get_url_fails [of pc "instant_url pc q t" s]
  by (auto simp: labeled_or_empty_def queryInstantLabeled_def call_bind_def)

lemma run_range_fails:
  "prometheus_down pc \<Longrightarrow> pc_enabled pc \<Longrightarrow> \<exists>s'. run_range_queries pc a b qs m s = (m, s')"
proof (induction qs arbitrary: s)
  case (Cons q qs)
  obtain expr target where q: "q = (expr, target)" by fastforce
  from range_query_fails [OF Cons.prems, of expr a b 5 s] obtain e s1 where
    "QueryRange pc expr a b 5 s = (Inl e, s1)" by blast
  with Cons show ?case by (auto simp: q)
qed simp

lemma diff_empty: "diffMaps fl Map.empty Map.empty = Map.empty"
  by (rule ext) (simp add: diffMaps_def)

lemma counter_delta_fails:
  assumes "prometheus_down pc" "pc_enabled pc"
  shows "\<exists>s'. counter_delta pc a b l s = (Map.empty, s')"
proof -
  obtain s1 where 1: "labeled_or_empty pc (counter_query l) a l s = (Map.empty, s1)"
    using labeled_fails [OF assms] by blast
  obtain s2 where 2: "labeled_or_empty pc (counter_query l) b l s1 = (Map.empty, s2)"
    using labeled_fails [OF assms] by blast
  have "changed (pc_floats pc) Map.empty = Map.empty" by (rule ext) (simp add: changed_def)
  then show ?thesis by (simp add: counter_delta_def 1 2 diff_empty)
qed

lemma Collect_down:
  assumes "prometheus_down pc"
  shows "fst (Collect pc start stop s) = zero_metrics (pc_floats pc)"
proof (cases "pc_enabled pc")
  case True
  obtain s1 where 1: "run_range_queries pc start stop (range_queries (pc_podSelector pc)) (zero_metrics (pc_floats pc)) s =
      (zero_metrics (pc_floats pc), s1)"
    using run_range_fails [OF assms True] by blast
  obtain s2 where 2: "counter_delta pc start stop ''status_code'' s1 = (Map.empty, s2)"
    using counter_delta_fails [OF assms True] by blast
  obtain s3 where 3: "counter_delta pc start stop ''endpoint'' s2 = (Map.empty, s3)"
    using counter_delta_fails [OF assms True] by blast
  show ?thesis
    using True by (simp add: Collect_def 1 2 3) (simp add: zero_metrics_def)
qed (simp add: Collect_def)

text \<open>No count that is reported is zero or negative, whatever Prometheus answers.\<close>

definition positive_count :: "'f floats \<Rightarrow> 'f \<Rightarrow> bool" where
  "positive_count fl v \<longleftrightarrow> \<not> fl_less fl v (fl_zero fl) \<and> fl_differ fl v (fl_zero fl)"

lemma counter_delta_positive:
  assumes "float_order (pc_floats pc)" "fst (counter_delta pc a b l s) k = Some v"
  shows "positive_count (pc_floats pc) v"
proof -
  have "\<not> fl_less (pc_floats pc) (fl_zero (pc_floats pc)) (fl_zero (pc_floats pc))"
    using assms(1) unfolding float_order_def by blast
  with assms(2) show ?thesis
    by (auto simp: counter_delta_def changed_def diffMaps_def positive_count_def Let_def case_prod_beta split: if_splits option.splits)
qed

lemma Collect_counts:
  assumes "float_order (pc_floats pc)"
    and "StatusCodes (fst (Collect pc start stop s)) k = Some v \<or> EndpointOps (fst (Collect pc start stop s)) k = Some v"
  shows "positive_count (pc_floats pc) v"
proof (cases "pc_enabled pc")
  case True
  obtain m s1 where 1: "run_range_queries pc start stop (range_queries (pc_podSelector pc)) (zero_metrics (pc_floats pc)) s = (m, s1)"
    by fastforce
  obtain codes s2 where 2: "counter_delta pc start stop ''status_code'' s1 = (codes, s2)" by fastforce
  obtain ops s3 where 3: "counter_delta pc start stop ''endpoint'' s2 = (ops, s3)" by fastforce
  have "codes k = Some v \<or> ops k = Some v"
    using assms(2) True by (simp add: Collect_def 1 2 3)
  then show ?thesis
    using counter_delta_positive [OF assms(1), of start stop "''status_code''" s1 k v]
      counter_delta_positive [OF assms(1), of start stop "''endpoint''" s2 k v] by (auto simp: 2 3)
next
  case False
  then show ?thesis using assms(2) by (simp add: Collect_def zero_metrics_def)
qed

text \<open>The statistics of samples are two of them and lie around all.\<close>

lemma stats_fold:
  assumes "float_order fl" "\<forall>v \<in> set xs. \<not> fl_nan fl v" "\<not> fl_nan fl mn" "\<not> fl_nan fl mx"
    and "fold (stats_step fl) xs (mn, mx, t) = (mn', mx', t')"
  shows "mn' \<in> insert mn (set xs) \<and> mx' \<in> insert mx (set xs)
    \<and> \<not> fl_less fl mn mn' \<and> \<not> fl_less fl mx' mx
    \<and> (\<forall>v \<in> set xs. \<not> fl_less fl v mn' \<and> \<not> fl_less fl mx' v)"
  using assms(2-)
proof (induction xs arbitrary: mn mx t)
  case Nil
  have "\<not> fl_less fl a a" for a
    using assms(1) unfolding float_order_def by blast
  with Nil show ?case by simp
next
  case (Cons x xs)
  let ?mn = "if fl_less fl x mn then x else mn" and ?mx = "if fl_less fl mx x then x else mx"
  have IH: "mn' \<in> insert ?mn (set xs) \<and> mx' \<in> insert ?mx (set xs)
    \<and> \<not> fl_less fl ?mn mn' \<and> \<not> fl_less fl mx' ?mx
    \<and> (\<forall>v \<in> set xs. \<not> fl_less fl v mn' \<and> \<not> fl_less fl mx' v)"
    by (rule Cons.IH [of ?mn ?mx "fl_add fl t x"]) (use Cons.prems in \<open>auto simp: stats_step_def\<close>)
  have order: "\<And>a b. fl_less fl a b \<Longrightarrow> \<not> fl_less fl b a"
      "\<And>a b c. \<not> fl_nan fl b \<Longrightarrow> \<not> fl_less fl a b \<Longrightarrow> \<not> fl_less fl b c \<Longrightarrow> \<not> fl_less fl a c"
    using assms(1) unfolding float_order_def by blast+
  have nan: "\<not> fl_nan fl ?mn" "\<not> fl_nan fl ?mx" using Cons.prems by auto
  have "\<not> fl_less fl mn ?mn" "\<not> fl_less fl x ?mn" "\<not> fl_less fl ?mx mx" "\<not> fl_less fl ?mx x"
    using order(1) by auto
  then have "\<not> fl_less fl mn mn'" "\<not> fl_less fl x mn'" "\<not> fl_less fl mx' mx" "\<not> fl_less fl mx' x"
    using IH order(2) nan by blast+
  then show ?case using IH by (auto split: if_splits)
qed

lemma statsOf_extremes:
  assumes "float_order fl" "\<forall>v \<in> set xs. \<not> fl_nan fl v" "xs \<noteq> []"
  obtains mn mx where "mn \<in> set xs" "mx \<in> set xs"
    "\<forall>v \<in> set xs. \<not> fl_less fl v mn \<and> \<not> fl_less fl mx v"
    "Stat_Min (statsOf fl xs) = round4 fl mn" "Stat_Max (statsOf fl xs) = round4 fl mx"
proof -
  obtain x ys where xs: "xs = x # ys" using assms(3) by (cases xs) auto
  obtain mn mx t where f: "fold (stats_step fl) xs (x, x, fl_zero fl) = (mn, mx, t)"
    by (metis prod_cases3)
  have "mn \<in> insert x (set xs) \<and> mx \<in> insert x (set xs) \<and> \<not> fl_less fl x mn \<and> \<not> fl_less fl mx x
    \<and> (\<forall>v \<in> set xs. \<not> fl_less fl v mn \<and> \<not> fl_less fl mx v)"
    by (rule stats_fold [OF assms(1,2) _ _ f]) (use assms(2) xs in auto)
  moreover have "Stat_Min (statsOf fl xs) = round4 fl mn" "Stat_Max (statsOf fl xs) = round4 fl mx"
    using f unfolding statsOf_def xs by simp_all
  ultimately show thesis using that xs by auto
qed

text \<open>
  A lost answer for the start of the interval: every count of the end is reported as if it
  had been made in the interval.
\<close>

lemma start_lost:
  assumes "labeled_or_empty pc (counter_query l) a l s = (Map.empty, s1)"
    "labeled_or_empty pc (counter_query l) b l s1 = (m, s2)"
    "m k = Some v" "positive_count (pc_floats pc) (fl_sub (pc_floats pc) v (fl_zero (pc_floats pc)))"
  shows "fst (counter_delta pc a b l s) k = Some (fl_sub (pc_floats pc) v (fl_zero (pc_floats pc)))"
  using assms(3,4) by (simp add: counter_delta_def assms(1,2) changed_def diffMaps_def at_key_def positive_count_def)

end
