(* ===== verification/Tooling_Properties.thy ===== *)
theory Tooling_Properties
  imports Framework Metrics_Collector Prometheus_Collector
begin

text \<open>
  Properties of the programs that test and load the proxy: what they measure is what
  happened, and they come to an end.
\<close>

subsection \<open>Load generator\<close>

text \<open>
  C40. When all workers of the load generator are done, the report counts the operations
  they made, which a counter behind the client has kept: as many requests as calls of put
  and get, as many successes as calls that succeeded, each with its latency, and as many
  errors as calls that failed, however the workers were interleaved; and no latency is
  negative.
\<close>

theorem load_report_adds_up:
  assumes "(load_step (counting_client cl) pl payload seed deadline)\<^sup>*\<^sup>* (start_run pl now (s, 0, 0)) r"
    and "all_done r" "ru_world r = (s', good, bad)"
  shows "Rp_TotalRequests (make_report fl pl wall started ended r) = word_of_nat (good + bad)
    \<and> Rp_Success (make_report fl pl wall started ended r) = word_of_nat good
    \<and> Rp_Error (make_report fl pl wall started ended r) = word_of_nat bad
    \<and> word_of_nat (length (ru_latencies r)) = (word_of_nat good :: int64)
    \<and> list_all ((\<le>) 0) (ru_latencies r)"
  using books_balanced [OF assms(1,2)] run_timely_reachable [OF assms(1)] assms(3)
  by (simp add: make_report_def Let_def run_timely_def)

definition one_put :: plan where
  "one_put = \<lparr>pl_flags = default_flags\<lparr>f_op := ''put'', f_bucket := ''b'', f_concurrency := 1\<rparr>, pl_op = Put,
     pl_prefix = ''dns-cut/'', pl_duration = secs 120, pl_access = ''a'', pl_secret = ''s''\<rparr>"

definition steady_client :: "unit client" where
  "steady_client = \<lparr>cl_put = (\<lambda>b k p s. (None, s)), cl_get = (\<lambda>b k s. (Inr None, s)), cl_delete = (\<lambda>b k s. (None, s))\<rparr>"

lemma one_put_run:
  "\<exists>r. (load_step (counting_client steady_client) one_put [] [] (0 + pl_duration one_put))\<^sup>*\<^sup>* (start_run one_put 0 ((), 0, 0)) r
    \<and> all_done r \<and> ru_deletes r = [object_key one_put ''pressure-put-'' 7] \<and> ru_world r = ((), 1, 0)"
  by (rule deletions_not_awaited) (simp_all add: one_put_def steady_client_def counting_client_def secs_def)

theorem load_report_adds_up_witness:
  "\<exists>r. (load_step (counting_client steady_client) one_put [] [] (0 + pl_duration one_put))\<^sup>*\<^sup>* (start_run one_put 0 ((), 0, 0)) r
    \<and> all_done r \<and> Rp_TotalRequests (make_report rat_floats one_put (secs 120) [] [] r) = 1
    \<and> Rp_Success (make_report rat_floats one_put (secs 120) [] [] r) = 1
    \<and> Rp_Error (make_report rat_floats one_put (secs 120) [] [] r) = 0"
proof -
  obtain r where r: "(load_step (counting_client steady_client) one_put [] [] (0 + pl_duration one_put))\<^sup>*\<^sup>* (start_run one_put 0 ((), 0, 0)) r"
    "all_done r" "ru_world r = ((), 1, 0)"
    using one_put_run by blast
  from load_report_adds_up [OF r, of rat_floats "secs 120" "[]" "[]"] r show ?thesis by auto
qed

text \<open>
  Once the clock has passed the deadline the workers and the background deletions take at
  most nine steps for each worker and one for each deletion, and as long as a worker is
  not done there is a step to take: waiting for the workers ends.
\<close>

theorem load_test_ends:
  assumes "deadline \<le> ru_clock r"
  shows "(((load_step cl pl payload seed deadline) ^^ k) r r' \<longrightarrow> k \<le> 9 * length (ru_workers r) + length (ru_deletes r))
    \<and> (\<not> all_done r \<longrightarrow> (\<exists>r'. load_step cl pl payload seed deadline r r'))"
  using load_steps_bound [OF _ assms, where k = k and r' = r'] run_rank_bound [of r] load_step_possible [of r]
  by (meson add_leD1 order_trans)

text \<open>The percentiles of a report are in order and none exceeds the maximum.\<close>

theorem load_percentiles_ordered:
  assumes "float_scale fl" "ru_latencies r \<noteq> []"
  shows "let lat = Rp_LatencyMs (make_report fl pl wall started ended r) in
    \<not> fl_less fl (P95 lat) (P50 lat) \<and> \<not> fl_less fl (P99 lat) (P95 lat) \<and> \<not> fl_less fl (Lat_Max lat) (P99 lat)"
proof -
  let ?ds = "sort (ru_latencies r)"
  have ds: "?ds \<noteq> []" using assms(2) by (metis length_0_conv length_sort)
  show ?thesis
    using percentiles_ordered(1) [OF assms(1) sorted_sort ds, of 50 95]
      percentiles_ordered(1) [OF assms(1) sorted_sort ds, of 95 99]
      percentiles_ordered(2) [OF assms(1) sorted_sort ds, of 99 99] ds
    by (simp add: make_report_def Let_def latency_report_def)
qed

text \<open>The lines between the markers are a JSON document that reads back, when every number has a text.\<close>

theorem load_report_reads_back:
  assumes "\<And>x. number_text (show x)"
  shows "read_json (report_lines show rep ! 1) = Some (clean_json (report_json show rep))"
  unfolding report_lines_def nth_Cons_Suc One_nat_def nth_Cons_0
  by (rule read_MarshalIndent) (simp_all add: report_json_def assms number_text_int)

subsection \<open>Waiting for the proxy\<close>

text \<open>
  Waiting for the proxy always returns, provided that the clock is not turned back and
  a sleep takes its time. It reports the proxy healthy exactly when one of the polls, half
  a second and the time of the calls apart, began before the deadline and was answered 200.
\<close>

theorem waiting_for_the_proxy_ends:
  assumes "clock_runs pb"
  shows "\<exists>s'. WaitForProxy pb endpoint timeout s =
    Some (healthy_before pb (health_url endpoint) (pb_clock pb s + timeout) s, s')"
  unfolding WaitForProxy_def by (rule poll_ends [OF assms])

text \<open>A proxy that answers 503 in its first second: the state is the clock.\<close>

definition slow_start :: "int probe" where
  "slow_start = \<lparr>pb_clock = id, pb_get = (\<lambda>url t. (Some (if t < secs 1 then 503 else 200), t + 1000)),
     pb_sleep = (\<lambda>d t. t + d)\<rparr>"

theorem waiting_for_the_proxy_ends_witness:
  "clock_runs slow_start \<and> (\<exists>s'. WaitForProxy slow_start ''http://proxy/'' (secs 30) 0 = Some (True, s'))"
proof -
  have c: "clock_runs slow_start" by (simp add: clock_runs_def slow_start_def)
  have "healthy_before slow_start u (0 + secs 30) 0" for u
    unfolding healthy_before_def Let_def
    by (rule exI [of _ "Suc (Suc 0)"]) (simp add: next_poll_def slow_start_def secs_def)
  with waiting_for_the_proxy_ends [OF c, of "''http://proxy/''" "secs 30" 0] c show ?thesis
    by (simp add: slow_start_def)
qed

subsection \<open>Collectors\<close>

text \<open>
  A Prometheus that never answers 200 with a body that can be read costs the benchmark
  nothing but the numbers: collecting returns metrics that are all zero, without an error.
\<close>

theorem unreachable_prometheus_gives_zero_metrics:
  assumes "prometheus_down pc"
  shows "fst (Collect pc start stop s) = zero_metrics (pc_floats pc)"
  by (rule Collect_down [OF assms])

definition broken_prometheus :: "(rat, unit) PrometheusCollector" where
  "broken_prometheus = NewPrometheusCollector (\<lambda>_. None) (\<lambda>url s. (Reply 503 (Some ''starting''), s)) rat_floats"

theorem unreachable_prometheus_gives_zero_metrics_witness:
  "pc_enabled broken_prometheus \<and> fst (Collect broken_prometheus 0 60 ()) = zero_metrics rat_floats"
proof -
  have "prometheus_down broken_prometheus"
    by (simp add: prometheus_down_def broken_prometheus_def NewPrometheusCollector_def Let_def)
  from unreachable_prometheus_gives_zero_metrics [OF this, of 0 60 "()"] show ?thesis
    by (simp add: broken_prometheus_def NewPrometheusCollector_def Let_def)
qed

text \<open>No count in the metrics is zero or negative, whatever Prometheus answers.\<close>

theorem reported_counts_are_positive:
  "float_order (pc_floats pc) \<Longrightarrow>
     StatusCodes (fst (Collect pc start stop s)) k = Some v \<or> EndpointOps (fst (Collect pc start stop s)) k = Some v \<Longrightarrow>
     positive_count (pc_floats pc) v"
  by (rule Collect_counts)

end
