(* ===== verification/Spec2Isabelle.thy ===== *)
theory Spec2Isabelle
  imports Lifecycle_Json Watch_Stop Path_Properties Store_Properties Subresource_Properties Translation_Properties
    Upstream_Properties Observability_Properties Server_Properties Start_Up_Properties
    Runtime_Properties Tooling_Properties
begin

text \<open>
  S3Proxy4GCS lets S3 clients use Google Cloud Storage. A request reaches the root mux of
  \<^verbatim>\<open>main.go\<close>; everything but \<^verbatim>\<open>/metrics\<close> goes through a stack of middlewares (request id,
  request log, recoverer, metrics, observability log, throttle) to \<^verbatim>\<open>handleS3Request\<close>. That
  handler looks up the secret of the access key the client signed with, answers the
  control-plane subresources itself (lifecycle, CORS, logging, website, tagging, restore) by
  translating the S3 document and calling the GCS client, and forwards the rest to the
  storage host through one of two reverse proxies, whose Director re-signs the request. The
  secrets are in a store that a file watcher replaces while requests are served. This
  development models that program as functions on explicit state, from the environment
  variables to the bytes of the response, and proves what each part promises.

  \<^bold>\<open>Which theory models what.\<close>
  \<^item> Prelude, Go_Strings, Go_Utf8, Go_Time, Go_Url, Go_Http, Go_Json, Go_Float, Go_Duration: the
    parts of the Go library the program uses (byte strings, UTF-8, dates and 64-bit durations,
    query strings, headers and the response writer, JSON documents, floating point as a record
    of operations, \<^verbatim>\<open>time.ParseDuration\<close>). A Go string is a \<^typ>\<open>char list\<close> of bytes.
  \<^item> S3_Types, S3_Xml (\<^verbatim>\<open>pkg/translate/s3_*.go\<close>): the S3 documents and their XML, read by
    decoders over element trees and written as \<^verbatim>\<open>encoding/xml\<close> does. Xml_Reader reads the
    written text back into a tree, to state that documents survive as bytes, and spells what
    the text looks like.
  \<^item> Gcs_Types: the structs of the GCS client, and its calls as the record \<open>gcs_api\<close> of
    functions on an opaque state. Fields the program never sets (\<^verbatim>\<open>AllObjects\<close> of a lifecycle
    condition, for one) are left out.
  \<^item> Storage_Class, Lifecycle, Lifecycle_Json, Lifecycle_Text, Cors, Bucket_Config, Tagging_Contexts
    (\<^verbatim>\<open>pkg/translate/gcs_*.go\<close>, \<^verbatim>\<open>translateS3StorageClass\<close> of \<^verbatim>\<open>main.go\<close>): the translations
    in both directions. Config_Translation is the interface the handlers use of them.
  \<^item> Credstore_Json, Credstore, Watcher (\<^verbatim>\<open>pkg/credstore/credstore.go\<close>): reading a credential
    file, the store, the access key of a request, and \<^verbatim>\<open>runWatcher\<close> as a step relation with
    its debounce timer; Watch_Stop adds the callers of its \<open>stop\<close>. Credstore_Shared is the
    store one level below: the maps by address,
    with every goroutine copying, loading and reading step by step.
  \<^item> Config (\<^verbatim>\<open>config/settings.go\<close>): the settings loaded from the environment, with every
    default and bound, and the fatal errors.
  \<^item> Metrics (\<^verbatim>\<open>pkg/metrics/metrics.go\<close>), Reqlog (\<^verbatim>\<open>pkg/reqlog/reqlog.go\<close>): labels, the
    recording response writers, the fields and the line of a log record, old log files.
    Collectors: the collectors, and the series every other part records on them. Log_Lines,
    Start_Log, Handler_Log, Log_Facts, Proxy_Log: what the program logs, from \<^verbatim>\<open>LoadConfig\<close> to
    the shutdown, for a request (\<open>request_log\<close>, line by line along Dispatch and Handlers) and
    in the Director.
  \<^item> Body_Reader, Streaming (\<^verbatim>\<open>metrics.go\<close>, \<^verbatim>\<open>main.go\<close>, \<^verbatim>\<open>reqlog.go\<close>): a body read in pieces
    through the counting reader and the cap; a response copied in pieces through the chain
    of writers with their \<^verbatim>\<open>Flush\<close> and \<^verbatim>\<open>Unwrap\<close>; the pool of buffers.
  \<^item> Handler_Base, Handlers, Subresources, Dispatch (\<^verbatim>\<open>main.go\<close>): error responses, the
    capped body reader, the timed GCS call, every control-plane handler, and
    \<^verbatim>\<open>handleS3Request\<close> as a list of stages behind \<^verbatim>\<open>validateClientCredential\<close>.
  \<^item> Director, Reverse_Proxy (\<^verbatim>\<open>main.go\<close>): the Director step by step, \<^verbatim>\<open>modifyResponse\<close>, the
    dry-run transport, and \<^verbatim>\<open>httputil.ReverseProxy\<close> around them. Signature_Blind compares Dispatch
    and Director on two requests that differ in the Authorization header.
  \<^item> Server, Server_Stack, Clean_Paths, Routing (\<^verbatim>\<open>main.go\<close>): health and readiness, the
    observability middleware, the middleware stack, the mux, the routes, and one request
    from end to end (\<open>serve\<close>).
  \<^item> Start_Up (\<^verbatim>\<open>main.go\<close>, \<^verbatim>\<open>reqlog.Init\<close>, \<^verbatim>\<open>StartCleanup\<close>): \<open>start_up\<close>, from the environment
    to a running server, and the schedule of the clean-up. Server_Life (the rest of
    \<^verbatim>\<open>main\<close>): the servers with their timeouts, and the process from listening to its exit,
    with its connections, as a step relation.
  \<^item> Load_Test (\<^verbatim>\<open>sdk_tests/go-v2/pressure/main.go\<close>): the load generator, with its workers
    interleaved step by step, and its report. Prometheus_Collector, Metrics_Collector, Framework
    (\<^verbatim>\<open>e2e_tests\<close>, \<^verbatim>\<open>integration_tests/test_utils.go\<close>): what the benchmarks ask Prometheus and
    the proxy's own page for, and what the tests share.
  \<^item> Examples and Server_Examples hold concrete configurations, a GCS in memory and signed requests; the
    theories named \<open>..._Properties\<close> hold the properties, each with an instance.

  \<^bold>\<open>State.\<close> A handler works on a \<open>world\<close>: the calls made on the response writer so far, the
  state of GCS, and the metrics. The calls are data (\<open>writer_op\<close>), so that the wrappers of
  the middlewares can be run over them; \<open>run_ops\<close> gives the response. The store is read at
  three moments of a request, between which the watcher may replace it: the three stores are
  arguments, tied to the watcher's run by \<open>reads_at\<close>. Errors are values of sums and options;
  \<^verbatim>\<open>log.Fatal\<close> is an error value; a panic is a value handed from each middleware to the next.

  \<^bold>\<open>Interfaces.\<close> \<open>credential_store\<close> (what the gate relies on: lookups after a replacement,
  soundness kept), \<open>status_writer\<close> and \<open>strict_status_writer\<close> (a writer that records the
  status and passes every call on; the request log, the observability log and the metrics
  interpret them), \<open>config_translation\<close> and \<open>total_translation\<close> (a translation that a GET
  after a PUT inverts), \<open>xml_codec\<close> (decoding what was encoded), \<open>put_handler\<close>,
  \<open>get_handler\<close> and \<open>subresource\<close> (what a handler asks of GCS, what it answers, and that a
  document read and stored again asks for the same update).

  \<^bold>\<open>What the lemmas show.\<close> Of the request path: what is forwarded and with whose key it is
  signed, that the signature of the client is not checked, who can change GCS and by which
  methods, what is answered on every branch, that a
  request is answered once. Of the store and the watcher: that it is never empty outside of
  a dry run, that it is the outcome of the latest good reload, that a relevant change is
  loaded after the delay and not before. Of the translations: exactly which documents are
  refused, that a rule keeps its scope, that the two lifecycle translations agree, what is
  dropped, that documents read back from the text that is written. Of the handlers: that a document put, read and put again
  stores the same configuration, that a refused one changes nothing. Of the data plane: the
  query, headers, body digest and address that go out, what comes back to the client, and
  what happens when the body breaks off, the host cannot be reached, or an early response
  arrives. Of the observers: when the metrics, the two logs and the client agree on the
  status, and where they do not. Of the start: what runs once the server listens. Of the
  log: that neither its start nor a request shows a secret, and that errors in the log and in
  the answers agree. Of the running process: that the store's methods are atomic
  although its readers take no lock (a refinement: each goroutine's steps are one step on the
  store of Credstore), that the gauge of requests in flight is right at every moment, that
  nothing recorded makes Prometheus panic, that reading and streaming in pieces changes
  nothing, and that a shutdown ends, waits for the open requests and cuts them off only at
  its deadline. Of the programs that test and load the proxy: that the load generator ends and
  reports every operation it made exactly once, that waiting for the proxy ends with the right
  answer, that a Prometheus that cannot be reached costs only the numbers, and that the JSON
  documents the programs write read back.

  \<^bold>\<open>Parameters.\<close> Code outside the repository is an argument: the GCS client (\<open>gcs_api\<close>), the
  XML tokenizer, the Unicode tables, the order of a map's iteration, the AWS signer (which works
  on the request in place: the whole request it leaves is its result), MD5 in
  base64, reading files, the environment and whether a \<^verbatim>\<open>.env\<close> file was found, the time zone
  of the process, \<^verbatim>\<open>fsnotify\<close>'s events, \<^verbatim>\<open>url.Parse\<close> of the storage
  address, the network behind the transports, chi's matching of routes and its middlewares,
  the page of the Prometheus handler, the AWS SDK, the answers of Prometheus, and floating
  point. What is assumed of them is a named hypothesis:
  \<open>keeps_updates\<close> and \<open>keeps_patches\<close> (GCS stores what it accepts), \<open>recovers\<close> (the
  recoverer's documentation), \<open>routes_by_method\<close> (a handler is called for its method),
  \<open>calm\<close> (a network without early responses, protocol switches and broken bodies),
  \<open>float_order\<close> and \<open>float_scale\<close> (comparison is a weak order, scaling is monotone),
  \<open>days_begin\<close> (in the zone of the process, five past midnight lies on the day it begins),
  \<open>clock_runs\<close> (a clock is not turned back, a sleep takes its time),
  \<open>signer_ignores_authorization\<close> (the AWS signer sets the Authorization header and does not read it).

  \<^bold>\<open>Bounds.\<close> Times are 64-bit words of nanoseconds and wrap; the call time-out is exact below
  9223372036 seconds. Loops are structural, or have a termination proof by the length of the
  text that is left; waiting for the proxy is a partial function, proved to return. Fuel is in
  the rounding of a duration to a float64 (64 doublings bring any value of at least a
  nanosecond to 1) and in the JSON reader (twice the length of the text, which is proved to be
  enough: more changes nothing).

  \<^bold>\<open>Not modelled.\<close> Durations and the values in the histograms;
  the timer that flushes at a positive interval; connections a protocol switch has taken over,
  which a shutdown does not wait for; \<^verbatim>\<open>OPTIONS *\<close>, which \<^verbatim>\<open>net/http\<close> answers before the mux is
  asked; the wrap-around of byte counts, which are unbounded here; the asynchronous writer of the request log (\<^verbatim>\<open>ymlog\<close>), a
  third-party package; the command line and the log lines of the load generator; and the test
  cases themselves.
\<close>

end
